(* ===== verification/Prelude.thy ===== *)
theory Prelude
  imports Main "HOL-Library.AList"
begin

text \<open>
  Shared vocabulary of the development: the Python \<open>str\<close> primitives that the
  routing code calls (\<open>strip\<close>, \<open>upper\<close>, \<open>lower\<close>, \<open>startswith\<close>,
  \<open>endswith\<close>, \<open>in\<close>, \<open>replace\<close>, \<open>split\<close>, \<open>join\<close>, \<open>zfill\<close>), each
  written as Python defines it, and the generic lemmas on them that the component
  theories use.

  A Python string is modelled as a list of \<^typ>\<open>char\<close>, each character read as the
  Unicode code point of the same number; the model therefore covers the code points
  U+0000 to U+00FF (Latin-1). On this alphabet Python's whitespace, decimal digits and
  lower-casing are reproduced exactly; upper-casing is exact except for the two
  characters whose capital lies outside Latin-1 (U+00B5 and U+00FF), which the model
  leaves unchanged.
\<close>

named_theorems py_str "equations of the modelled Python string primitives"

type_synonym pystr = string

section \<open>Character classes\<close>

text \<open>\<open>str.isspace\<close> on Latin-1: TAB, LF, VT, FF, CR, the separators 0x1C to 0x1F,
  SPACE, NEL (0x85) and NO-BREAK SPACE (0xA0).\<close>

definition py_isspace :: "char \<Rightarrow> bool" where
  "py_isspace c = (let n = (of_char c :: nat) in
     (9 \<le> n \<and> n \<le> 13) \<or> (28 \<le> n \<and> n \<le> 32) \<or> n = 133 \<or> n = 160)"

text \<open>The regular-expression class \<open>\d\<close> on \<open>str\<close> patterns: Unicode category Nd.
  In Latin-1 these are exactly the ASCII digits.\<close>

definition py_isdigit :: "char \<Rightarrow> bool" where
  "py_isdigit c = (let n = (of_char c :: nat) in 48 \<le> n \<and> n \<le> 57)"

text \<open>The regular-expression class \<open>[A-Z]\<close>.\<close>

definition ascii_upper :: "char \<Rightarrow> bool" where
  "ascii_upper c = (let n = (of_char c :: nat) in 65 \<le> n \<and> n \<le> 90)"

section \<open>Case mapping\<close>

definition py_upper_char :: "char \<Rightarrow> pystr" where
  "py_upper_char c = (let n = (of_char c :: nat) in
     if 97 \<le> n \<and> n \<le> 122 then [char_of (n - 32)]
     else if n = 223 then ''SS''
     else if 224 \<le> n \<and> n \<le> 254 \<and> n \<noteq> 247 then [char_of (n - 32)]
     else [c])"

definition py_upper :: "pystr \<Rightarrow> pystr" where
  "py_upper s = concat (map py_upper_char s)"

definition py_lower_char :: "char \<Rightarrow> char" where
  "py_lower_char c = (let n = (of_char c :: nat) in
     if (65 \<le> n \<and> n \<le> 90) \<or> (192 \<le> n \<and> n \<le> 222 \<and> n \<noteq> 215) then char_of (n + 32)
     else c)"

definition py_lower :: "pystr \<Rightarrow> pystr" where
  "py_lower s = map py_lower_char s"

text \<open>\<^verbatim>\<open>str.isalnum()\<close> on Latin-1: letters, the decimal digits, the superscript
  digits and the vulgar fractions (\<^verbatim>\<open>isalpha\<close>, \<^verbatim>\<open>isdigit\<close> or
  \<^verbatim>\<open>isnumeric\<close>); false on the empty string.\<close>

definition py_isalnum_char :: "char \<Rightarrow> bool" where
  "py_isalnum_char c =
     (let n = (of_char c :: nat) in
      (48 \<le> n \<and> n \<le> 57) \<or> (65 \<le> n \<and> n \<le> 90) \<or> (97 \<le> n \<and> n \<le> 122) \<or>
      n \<in> {170, 178, 179, 181, 185, 186, 188, 189, 190} \<or>
      (192 \<le> n \<and> n \<le> 214) \<or> (216 \<le> n \<and> n \<le> 246) \<or> (248 \<le> n \<and> n \<le> 255))"

definition py_isalnum :: "pystr \<Rightarrow> bool" where
  "py_isalnum s = (s \<noteq> [] \<and> list_all py_isalnum_char s)"

section \<open>Stripping, prefixes and substrings\<close>

definition py_strip :: "pystr \<Rightarrow> pystr" where
  "py_strip s = rev (dropWhile py_isspace (rev (dropWhile py_isspace s)))"

definition py_startswith :: "pystr \<Rightarrow> pystr \<Rightarrow> bool" where
  "py_startswith s p = (take (length p) s = p)"

definition py_endswith :: "pystr \<Rightarrow> pystr \<Rightarrow> bool" where
  "py_endswith s p = (length p \<le> length s \<and> drop (length s - length p) s = p)"

text \<open>Python's \<open>needle in s\<close> for strings.\<close>

fun py_contains :: "pystr \<Rightarrow> pystr \<Rightarrow> bool" where
  "py_contains n [] = (n = [])"
| "py_contains n (x # xs) = (take (length n) (x # xs) = n \<or> py_contains n xs)"

text \<open>\<open>s.replace(old, new)\<close> for a non-empty \<open>old\<close>: every non-overlapping occurrence,
  scanning from the left.\<close>

function py_replace :: "pystr \<Rightarrow> pystr \<Rightarrow> pystr \<Rightarrow> pystr" where
  "py_replace old new s =
     (if old = [] \<or> s = [] then s
      else if take (length old) s = old then new @ py_replace old new (drop (length old) s)
      else hd s # py_replace old new (tl s))"
  by pat_completeness auto
termination
  by (relation "measure (\<lambda>(old, new, s). length s)") auto

declare py_replace.simps [simp del]

section \<open>Splitting and joining\<close>

text \<open>\<open>s.split(c)\<close> with a one-character separator: always at least one piece.\<close>

fun py_split :: "char \<Rightarrow> pystr \<Rightarrow> pystr list" where
  "py_split c [] = [[]]"
| "py_split c (x # xs) =
     (if x = c then [] # py_split c xs
      else (case py_split c xs of [] \<Rightarrow> [[x]] | w # ws \<Rightarrow> (x # w) # ws))"

text \<open>\<open>sep.join(ws)\<close>.\<close>

fun py_join :: "pystr \<Rightarrow> pystr list \<Rightarrow> pystr" where
  "py_join sep [] = []"
| "py_join sep [w] = w"
| "py_join sep (w # ws) = w @ sep @ py_join sep ws"

text \<open>\<open>s.zfill(width)\<close>: zeros on the left up to \<open>width\<close>, after a leading sign.\<close>

text \<open>Python truthiness of an optional string: \<open>None\<close> and \<open>""\<close> are false.\<close>

definition truthy :: "pystr option \<Rightarrow> bool" where
  "truthy x = (case x of None \<Rightarrow> False | Some s \<Rightarrow> s \<noteq> [])"

definition py_zfill :: "nat \<Rightarrow> pystr \<Rightarrow> pystr" where
  "py_zfill w s =
     (if w \<le> length s then s
      else (case s of
              c # r \<Rightarrow> if c = CHR ''+'' \<or> c = CHR ''-''
                       then c # replicate (w - length s) CHR ''0'' @ r
                       else replicate (w - length s) CHR ''0'' @ s
            | [] \<Rightarrow> replicate w CHR ''0''))"

text \<open>\<open>str(n)\<close> of a non-negative \<open>int\<close>: its decimal digits.\<close>

fun nat_str :: "nat \<Rightarrow> pystr" where
  "nat_str n = (if n < 10 then [char_of (48 + n)] else nat_str (n div 10) @ [char_of (48 + n mod 10)])"

declare nat_str.simps [simp del]

text \<open>\<^verbatim>\<open>str(i)\<close> of a Python int.\<close>

definition int_str :: "int \<Rightarrow> pystr" where
  "int_str i = (if i < 0 then ''-'' @ nat_str (nat (- i)) else nat_str (nat i))"

section \<open>Lemmas on the primitives\<close>

lemma py_upper_Nil [simp, py_str]: "py_upper [] = []"
  and py_upper_Cons [simp, py_str]: "py_upper (c # s) = py_upper_char c @ py_upper s"
  and py_upper_append [simp, py_str]: "py_upper (s @ t) = py_upper s @ py_upper t"
  by (simp_all add: py_upper_def)

lemma py_lower_Nil [simp, py_str]: "py_lower [] = []"
  and py_lower_Cons [simp, py_str]: "py_lower (c # s) = py_lower_char c # py_lower s"
  and py_lower_append [simp, py_str]: "py_lower (s @ t) = py_lower s @ py_lower t"
  by (simp_all add: py_lower_def)

lemma py_upper_char_space:
  "py_isspace c \<Longrightarrow> py_upper_char c = [c]"
  by (auto simp: py_upper_char_def py_isspace_def Let_def)

lemma of_char_char_of_nat [simp]: "n < 256 \<Longrightarrow> (of_char (char_of n :: char) :: nat) = n"
  by simp

lemma py_upper_char_nonspace:
  "\<not> py_isspace c \<Longrightarrow> d \<in> set (py_upper_char c) \<Longrightarrow> \<not> py_isspace d"
  using nat_of_char_less_256 [of c]
  by (auto simp: py_upper_char_def py_isspace_def Let_def split: if_splits)

lemma py_upper_char_nonempty [simp]: "py_upper_char c \<noteq> []"
  by (simp add: py_upper_char_def Let_def)

lemma py_upper_char_rev [simp]: "rev (py_upper_char c) = py_upper_char c"
  by (simp add: py_upper_char_def Let_def)

lemma py_upper_char_idem [simp]: "py_upper (py_upper_char c) = py_upper_char c"
  using nat_of_char_less_256 [of c]
  by (auto simp: py_upper_char_def Let_def)

lemma py_upper_idem [simp]: "py_upper (py_upper s) = py_upper s"
  by (induction s) simp_all

lemma py_upper_rev: "rev (py_upper s) = py_upper (rev s)"
  by (induction s) simp_all

lemma py_upper_dropWhile_space:
  "dropWhile py_isspace (py_upper s) = py_upper (dropWhile py_isspace s)"
proof (induction s)
  case Nil
  then show ?case by simp
next
  case (Cons c s)
  show ?case
  proof (cases "py_isspace c")
    case True
    then show ?thesis by (simp add: py_upper_char_space Cons.IH)
  next
    case False
    then obtain d ds where "py_upper_char c = d # ds" and "\<not> py_isspace d"
      using py_upper_char_nonspace [OF False]
      by (cases "py_upper_char c") auto
    with False show ?thesis by simp
  qed
qed

lemma py_strip_upper: "py_strip (py_upper s) = py_upper (py_strip s)"
  by (simp add: py_strip_def py_upper_dropWhile_space py_upper_rev)

lemma dropWhile_hd_keep:
  "xs = [] \<or> \<not> P (hd xs) \<Longrightarrow> dropWhile P xs = xs"
  by (cases xs) auto

lemma py_strip_last:
  "py_strip s \<noteq> [] \<Longrightarrow> \<not> py_isspace (last (py_strip s))"
proof -
  assume ne: "py_strip s \<noteq> []"
  let ?r = "dropWhile py_isspace (rev (dropWhile py_isspace s))"
  from ne have "?r \<noteq> []" by (simp add: py_strip_def)
  then have "\<not> py_isspace (hd ?r)"
    by (metis hd_dropWhile)
  moreover have "last (py_strip s) = hd ?r"
    using \<open>?r \<noteq> []\<close> by (simp add: py_strip_def last_rev)
  ultimately show ?thesis by simp
qed

lemma py_strip_hd:
  "py_strip s \<noteq> [] \<Longrightarrow> \<not> py_isspace (hd (py_strip s))"
proof -
  assume ne: "py_strip s \<noteq> []"
  define d where "d = dropWhile py_isspace s"
  define r where "r = dropWhile py_isspace (rev d)"
  from ne have r_ne: "r \<noteq> []" by (simp add: py_strip_def d_def r_def)
  have "rev d = takeWhile py_isspace (rev d) @ r"
    by (simp add: r_def)
  then have "last r = last (rev d)"
    using r_ne by (metis last_appendR)
  moreover from r_ne have "d \<noteq> []" by (auto simp: r_def)
  ultimately have "last r = hd d"
    by (simp add: last_rev)
  moreover from \<open>d \<noteq> []\<close> have "\<not> py_isspace (hd d)"
    by (simp add: d_def hd_dropWhile)
  ultimately show ?thesis
    using r_ne by (simp add: py_strip_def d_def [symmetric] r_def [symmetric] hd_rev)
qed

lemma py_strip_idem [simp]: "py_strip (py_strip s) = py_strip s"
proof -
  let ?t = "py_strip s"
  have "dropWhile py_isspace ?t = ?t"
    using py_strip_hd [of s] by (intro dropWhile_hd_keep) auto
  moreover have "dropWhile py_isspace (rev ?t) = rev ?t"
    using py_strip_last [of s] by (intro dropWhile_hd_keep) (auto simp: hd_rev)
  ultimately show ?thesis
    by (simp add: py_strip_def [of ?t])
qed

lemma py_contains_iff: "py_contains n s \<longleftrightarrow> (\<exists>ps ss. s = ps @ n @ ss)"
proof (induction s)
  case Nil
  then show ?case by simp
next
  case (Cons x xs)
  have "take (length n) (x # xs) = n \<longleftrightarrow> (\<exists>ss. x # xs = n @ ss)"
    by (metis append_eq_conv_conj)
  moreover have "(\<exists>ps ss. x # xs = ps @ n @ ss) \<longleftrightarrow>
      (\<exists>ss. x # xs = n @ ss) \<or> (\<exists>ps ss. xs = ps @ n @ ss)"
    by (auto simp: Cons_eq_append_conv)
  ultimately show ?case using Cons.IH by simp
qed

lemma py_split_nonempty [simp]: "py_split c s \<noteq> []"
  by (induction s) (auto split: list.split)

lemma py_join_split [simp]: "py_join [c] (py_split c s) = s"
proof (induction s)
  case Nil
  then show ?case by simp
next
  case (Cons x xs)
  show ?case
  proof (cases "x = c")
    case True
    with Cons.IH show ?thesis
      by (cases "py_split c xs" rule: list.exhaust) auto
  next
    case False
    then show ?thesis
    proof (cases "py_split c xs")
      case Nil
      then show ?thesis by simp
    next
      case (Cons w ws)
      with False Cons.IH show ?thesis
        by (cases ws) auto
    qed
  qed
qed

lemma py_split_no_sep: "w \<in> set (py_split c s) \<Longrightarrow> c \<notin> set w"
proof (induction s arbitrary: w)
  case Nil
  then show ?case by simp
next
  case (Cons x xs)
  then show ?case
    by (auto split: if_splits list.splits)
qed

lemma length_py_zfill: "length (py_zfill w s) = max w (length s)"
  by (auto simp: py_zfill_def split: list.split)

lemma py_contains_append_left: "py_contains n t \<Longrightarrow> py_contains n (p @ t)"
  by (auto simp: py_contains_iff) (metis append.assoc)

lemma py_contains_prefix: "py_contains n (n @ t)"
  by (auto simp: py_contains_iff)

subsection \<open>Lists searched with find, and replace by the empty string\<close>

lemma find_None_conv: "find P xs = None \<longleftrightarrow> (\<forall>x\<in>set xs. \<not> P x)"
  by (induction xs) auto

lemma find_Some_mem: "find P xs = Some x \<Longrightarrow> x \<in> set xs \<and> P x"
  by (induction xs) (auto split: if_splits)

lemma py_replace_Nil: "py_replace old new [] = []"
  by (subst py_replace.simps) simp

lemma py_replace_char_Cons:
  "py_replace [ch] new (x # xs) = (if x = ch then new @ py_replace [ch] new xs else x # py_replace [ch] new xs)"
  by (subst py_replace.simps) simp

lemma py_replace_drop_char: "py_replace [ch] [] s = filter (\<lambda>x. x \<noteq> ch) s"
  by (induction s) (simp_all add: py_replace_Nil py_replace_char_Cons)


section \<open>Association lists\<close>

text \<open>Python dicts keyed by a value are association lists updated with
  \<open>AList.update\<close> and \<open>AList.delete\<close>; these facts are shared by the registries
  of the web backend.\<close>

lemma list_all_update:
  "P (k, v) \<Longrightarrow> list_all P al \<Longrightarrow> list_all P (AList.update k v al)"
  by (induction al) auto

lemma fst_set_update: "fst ` set (AList.update k v xs) = insert k (fst ` set xs)"
  by (induction xs) auto

lemma fst_set_delete: "fst ` set (AList.delete k xs) = fst ` set xs - {k}"
  by (induction xs) auto

lemma update_fresh: "k \<notin> fst ` set xs \<Longrightarrow> AList.update k v xs = xs @ [(k, v)]"
  by (induction xs) auto

lemma update_append_fresh:
  "k \<notin> fst ` set xs \<Longrightarrow> AList.update k v (xs @ [(k, v0)]) = xs @ [(k, v)]"
  by (induction xs) auto

end
