(* ===== verification/Catalog.thy ===== *)
theory Catalog
  imports Prelude
begin

text \<open>
  The capability catalog of \<^verbatim>\<open>src/tradingagents/dataflows/interface.py\<close>: the
  module-level tables \<^verbatim>\<open>TOOLS_CATEGORIES\<close>, \<^verbatim>\<open>VENDOR_LIST\<close> and
  \<^verbatim>\<open>VENDOR_METHODS\<close>, and the reverse lookup \<^verbatim>\<open>get_category_for_method\<close>.
  Dictionaries whose insertion order the code iterates are association lists.
  An implementation is named by the Python function it calls; a vendor entry is either
  one implementation or a list of them (the \<^verbatim>\<open>isinstance(vendor_impl, list)\<close>
  case of the router). The lambdas of the source are named after the call they make.
\<close>

datatype vendor_impl = Single pystr | Multi "pystr list"

fun impl_list :: "vendor_impl \<Rightarrow> pystr list" where
  "impl_list (Single f) = [f]"
| "impl_list (Multi fs) = fs"

text \<open>The Python exceptions the routing layer raises itself.\<close>

datatype py_exc = ValueError pystr | RuntimeError pystr

definition TOOLS_CATEGORIES :: "(pystr \<times> pystr \<times> pystr list) list" where
  "TOOLS_CATEGORIES =
     [(''core_stock_apis'', ''OHLCV stock price data'', [''get_stock_data'']),
      (''technical_indicators'', ''Technical analysis indicators'', [''get_indicators'']),
      (''fundamental_data'', ''Company fundamentals'',
         [''get_fundamentals'', ''get_balance_sheet'', ''get_cashflow'', ''get_income_statement'']),
      (''news_data'', ''News (public/insiders, original/processed)'',
         [''get_news'', ''get_global_news'', ''get_insider_sentiment'', ''get_insider_transactions'']),
      (''realtime_data'', ''Real-time market data'', [''get_realtime_data'']),
      (''dividend_data'', ''Dividend and corporate actions'', [''get_dividend_data''])]"

definition VENDOR_LIST :: "pystr list" where
  "VENDOR_LIST = [''local'', ''yfinance'', ''akshare'', ''baostock'', ''alpha_vantage'', ''openai'', ''google'']"

definition VENDOR_METHODS :: "(pystr \<times> (pystr \<times> vendor_impl) list) list" where
  "VENDOR_METHODS =
     [(''get_stock_data'',
        [(''alpha_vantage'', Single ''get_alpha_vantage_stock''),
         (''yfinance'', Single ''get_YFin_data_online''),
         (''akshare'', Single ''get_akshare_stock_data''),
         (''baostock'', Single ''get_baostock_stock_data''),
         (''local'', Single ''get_YFin_data'')]),
      (''get_indicators'',
        [(''alpha_vantage'', Single ''get_alpha_vantage_indicator''),
         (''yfinance'', Single ''get_stock_stats_indicators_window''),
         (''akshare'', Single ''get_akshare_indicators''),
         (''local'', Single ''get_stock_stats_indicators_window'')]),
      (''get_fundamentals'',
        [(''alpha_vantage'', Single ''get_alpha_vantage_fundamentals''),
         (''akshare'', Single ''get_akshare_company_info''),
         (''baostock'', Single ''get_baostock_fundamentals''),
         (''openai'', Single ''get_fundamentals_openai'')]),
      (''get_balance_sheet'',
        [(''alpha_vantage'', Single ''get_alpha_vantage_balance_sheet''),
         (''yfinance'', Single ''get_yfinance_balance_sheet''),
         (''akshare'', Single ''lambda:get_akshare_financial_data(balance_sheet)''),
         (''baostock'', Single ''lambda:get_baostock_balance_sheet''),
         (''local'', Single ''get_simfin_balance_sheet'')]),
      (''get_cashflow'',
        [(''alpha_vantage'', Single ''get_alpha_vantage_cashflow''),
         (''yfinance'', Single ''get_yfinance_cashflow''),
         (''akshare'', Single ''lambda:get_akshare_financial_data(cashflow)''),
         (''baostock'', Single ''lambda:get_baostock_cashflow''),
         (''local'', Single ''get_simfin_cashflow'')]),
      (''get_income_statement'',
        [(''alpha_vantage'', Single ''get_alpha_vantage_income_statement''),
         (''yfinance'', Single ''get_yfinance_income_statement''),
         (''akshare'', Single ''lambda:get_akshare_financial_data(income_statement)''),
         (''baostock'', Single ''lambda:get_baostock_income_statement''),
         (''local'', Single ''get_simfin_income_statements'')]),
      (''get_news'',
        [(''akshare'', Single ''get_akshare_stock_news''),
         (''alpha_vantage'', Single ''get_alpha_vantage_news''),
         (''openai'', Single ''get_stock_news_openai''),
         (''google'', Single ''get_google_news''),
         (''local'', Multi [''get_finnhub_news'', ''get_reddit_company_news'', ''get_google_news''])]),
      (''get_global_news'',
        [(''akshare'', Single ''get_akshare_global_news''),
         (''openai'', Single ''get_global_news_openai''),
         (''local'', Single ''get_reddit_global_news'')]),
      (''get_insider_sentiment'',
        [(''akshare'', Single ''get_akshare_market_sentiment''),
         (''local'', Single ''get_finnhub_company_insider_sentiment'')]),
      (''get_insider_transactions'',
        [(''alpha_vantage'', Single ''get_alpha_vantage_insider_transactions''),
         (''yfinance'', Single ''get_yfinance_insider_transactions''),
         (''local'', Single ''get_finnhub_company_insider_transactions'')]),
      (''get_realtime_data'',
        [(''akshare'', Single ''get_akshare_realtime_data'')]),
      (''get_dividend_data'',
        [(''baostock'', Single ''lambda:get_baostock_dividend_data'')])]"

text \<open>\<^verbatim>\<open>get_category_for_method\<close>: the first category, in table order, that lists
  the method; \<^verbatim>\<open>ValueError\<close> when none does.\<close>

fun find_category :: "(pystr \<times> pystr \<times> pystr list) list \<Rightarrow> pystr \<Rightarrow> py_exc + pystr" where
  "find_category [] method = Inl (ValueError (''Method '' @ CHR 0x27 # method @ CHR 0x27 # '' not found in any category''))"
| "find_category ((category, info) # rest) method =
     (if method \<in> set (snd info) then Inr category else find_category rest method)"

definition get_category_for_method :: "pystr \<Rightarrow> py_exc + pystr" where
  "get_category_for_method method = find_category TOOLS_CATEGORIES method"

text \<open>\<^verbatim>\<open>VENDOR_METHODS[method]\<close>, \<open>None\<close> when \<^verbatim>\<open>method not in VENDOR_METHODS\<close>.\<close>

definition vendor_methods_of :: "pystr \<Rightarrow> (pystr \<times> vendor_impl) list option" where
  "vendor_methods_of method = map_of VENDOR_METHODS method"

section \<open>Lemmas\<close>

lemma find_category_Inr:
  "find_category cats m = Inr c \<Longrightarrow> \<exists>info. (c, info) \<in> set cats \<and> m \<in> set (snd info)"
  by (induction cats m rule: find_category.induct) (fastforce split: if_splits)+

lemma find_category_Inl:
  "(\<exists>e. find_category cats m = Inl e) \<longleftrightarrow> (\<forall>(c, info) \<in> set cats. m \<notin> set (snd info))"
  by (induction cats m rule: find_category.induct) auto

lemma categorised_methods:
  "set (concat (map (\<lambda>(c, d, ts). ts) TOOLS_CATEGORIES)) = set (map fst VENDOR_METHODS)"
  by (simp add: TOOLS_CATEGORIES_def VENDOR_METHODS_def insert_commute)

lemma get_category_Inr_registered:
  assumes "get_category_for_method m = Inr c"
  shows "\<exists>vs. vendor_methods_of m = Some vs"
proof -
  from assms obtain info where "(c, info) \<in> set TOOLS_CATEGORIES" "m \<in> set (snd info)"
    by (auto simp: get_category_for_method_def dest: find_category_Inr)
  then have "m \<in> set (concat (map (\<lambda>(c, d, ts). ts) TOOLS_CATEGORIES))"
    by (cases info) force
  then have "m \<in> set (map fst VENDOR_METHODS)" by (simp only: categorised_methods)
  then show ?thesis by (auto simp: vendor_methods_of_def dest: weak_map_of_SomeI)
qed

lemma vendor_keys_distinct:
  "vendor_methods_of m = Some vs \<Longrightarrow> distinct (map fst vs)"
  by (auto simp: vendor_methods_of_def VENDOR_METHODS_def split: if_splits)

end
