(* ===== verification/Market_Utils.thy ===== *)
theory Market_Utils
  imports Prelude
begin

text \<open>
  The market identifier of \<^verbatim>\<open>src/tradingagents/dataflows/market_utils.py\<close>: the
  class \<^verbatim>\<open>MarketIdentifier\<close> (its three pattern lists, \<^verbatim>\<open>identify_market\<close>,
  \<^verbatim>\<open>format_symbol_for_vendor\<close>, \<^verbatim>\<open>get_supported_markets\<close>,
  \<^verbatim>\<open>is_market_supported\<close>) and the function \<^verbatim>\<open>get_market_info\<close>.
  Each regular expression of the source is one predicate on strings; \<open>re_match\<close>
  gives \<^verbatim>\<open>re.match\<close> its Python meaning for a pattern anchored by \<open>^\<close> and
  \<open>$\<close>, where \<open>$\<close> also matches before a final newline.
\<close>

datatype market = A_STOCK | HK_STOCK | US_STOCK | UNKNOWN

text \<open>The string the source uses for each market (the keys of \<^verbatim>\<open>market_vendors\<close>).\<close>

fun market_str :: "market \<Rightarrow> pystr" where
  "market_str A_STOCK = ''A_STOCK''"
| "market_str HK_STOCK = ''HK_STOCK''"
| "market_str US_STOCK = ''US_STOCK''"
| "market_str UNKNOWN = ''UNKNOWN''"

section \<open>Pattern building blocks\<close>

text \<open>\<open>^(p1|...|pk)\d{n}$\<close>.\<close>

definition prefix_digits :: "pystr list \<Rightarrow> nat \<Rightarrow> pystr \<Rightarrow> bool" where
  "prefix_digits ps n s =
     (\<exists>p \<in> set ps. length s = length p + n \<and> take (length p) s = p \<and>
                   list_all py_isdigit (drop (length p) s))"

text \<open>\<open>^\d{m,n}$\<close> and \<open>^[A-Z]{m,n}$\<close>.\<close>

definition class_range :: "(char \<Rightarrow> bool) \<Rightarrow> nat \<Rightarrow> nat \<Rightarrow> pystr \<Rightarrow> bool" where
  "class_range P m n s = (m \<le> length s \<and> length s \<le> n \<and> list_all P s)"

text \<open>\<open>^\d{4,5}\.HK$\<close>.\<close>

definition digits_dot_hk :: "pystr \<Rightarrow> bool" where
  "digits_dot_hk s =
     (3 \<le> length s \<and> drop (length s - 3) s = ''.HK'' \<and>
      class_range py_isdigit 4 5 (take (length s - 3) s))"

text \<open>\<open>^P+\.Q+$\<close> for character classes \<open>P\<close>, \<open>Q\<close> that exclude the dot: the
  dot of a match is the first dot of the string.\<close>

definition dotted :: "(char \<Rightarrow> bool) \<Rightarrow> (char \<Rightarrow> bool) \<Rightarrow> pystr \<Rightarrow> bool" where
  "dotted P Q s =
     (let a = takeWhile (\<lambda>c. c \<noteq> CHR ''.'') s; b = dropWhile (\<lambda>c. c \<noteq> CHR ''.'') s in
      a \<noteq> [] \<and> list_all P a \<and> b \<noteq> [] \<and> tl b \<noteq> [] \<and> list_all Q (tl b))"

text \<open>\<^verbatim>\<open>re.match(pattern, s)\<close> for a pattern \<open>^body$\<close>.\<close>

definition re_match :: "(pystr \<Rightarrow> bool) \<Rightarrow> pystr \<Rightarrow> bool" where
  "re_match body s = (body s \<or> (s \<noteq> [] \<and> last s = CHR 0x0A \<and> body (butlast s)))"

section \<open>The pattern lists\<close>

definition A_STOCK_PATTERNS :: "(pystr \<Rightarrow> bool) list" where
  "A_STOCK_PATTERNS =
     [prefix_digits [''000'', ''002'', ''003''] 3,
      prefix_digits [''30''] 4,
      prefix_digits [''60''] 4,
      prefix_digits [''68''] 4,
      prefix_digits [''8''] 5,
      prefix_digits [''4''] 5]"

definition HK_STOCK_PATTERNS :: "(pystr \<Rightarrow> bool) list" where
  "HK_STOCK_PATTERNS = [digits_dot_hk, class_range py_isdigit 4 5]"

definition US_STOCK_PATTERNS :: "(pystr \<Rightarrow> bool) list" where
  "US_STOCK_PATTERNS =
     [class_range ascii_upper 1 5,
      dotted ascii_upper ascii_upper,
      dotted py_isdigit ascii_upper]"

section \<open>Operations\<close>

abbreviation upper_strip :: "pystr \<Rightarrow> pystr" where
  "upper_strip s \<equiv> py_strip (py_upper s)"

definition matches_any :: "(pystr \<Rightarrow> bool) list \<Rightarrow> pystr \<Rightarrow> bool" where
  "matches_any pats s = list_ex (\<lambda>p. re_match p s) pats"

definition identify_market :: "pystr \<Rightarrow> market" where
  "identify_market symbol =
     (let s = upper_strip symbol in
      if matches_any A_STOCK_PATTERNS s then A_STOCK
      else if matches_any HK_STOCK_PATTERNS s then HK_STOCK
      else if matches_any US_STOCK_PATTERNS s then US_STOCK
      else UNKNOWN)"

definition starts_any :: "pystr \<Rightarrow> pystr list \<Rightarrow> bool" where
  "starts_any s ps = list_ex (py_startswith s) ps"

text \<open>\<^verbatim>\<open>format_symbol_for_vendor(symbol, vendor, market=None)\<close>; \<open>None\<close> for the
  market argument is the default, which classifies the symbol.\<close>

definition format_symbol_for_vendor :: "pystr \<Rightarrow> pystr \<Rightarrow> market option \<Rightarrow> pystr" where
  "format_symbol_for_vendor symbol vendor market_arg =
     (let market = (case market_arg of None \<Rightarrow> identify_market symbol | Some m \<Rightarrow> m);
          s = upper_strip symbol in
      if vendor = ''akshare'' then
        (if market = A_STOCK then
           (if starts_any s [''sz'', ''sh''] then drop 2 s else s)
         else if market = HK_STOCK then py_zfill 5 (py_replace ''.HK'' [] s)
         else s)
      else if vendor = ''baostock'' then
        (if market = A_STOCK then
           (if starts_any s [''000'', ''002'', ''003'', ''30''] then ''sz.'' @ s
            else if starts_any s [''60'', ''68''] then ''sh.'' @ s
            else s)
         else s)
      else if vendor = ''yfinance'' \<or> vendor = ''alpha_vantage'' then
        (if market = A_STOCK then
           (if starts_any s [''000'', ''002'', ''003'', ''30''] then s @ ''.SZ''
            else if starts_any s [''60'', ''68''] then s @ ''.SS''
            else s)
         else if market = HK_STOCK then
           (if \<not> py_endswith s ''.HK'' then py_zfill 4 s @ ''.HK'' else s)
         else s)
      else s)"

definition get_supported_markets :: "pystr \<Rightarrow> market list" where
  "get_supported_markets vendor =
     (if vendor = ''akshare'' then [A_STOCK, HK_STOCK, US_STOCK]
      else if vendor = ''baostock'' then [A_STOCK]
      else if vendor = ''yfinance'' then [A_STOCK, HK_STOCK, US_STOCK]
      else if vendor = ''alpha_vantage'' then [US_STOCK]
      else [])"

definition is_market_supported :: "pystr \<Rightarrow> pystr \<Rightarrow> bool" where
  "is_market_supported symbol vendor =
     (identify_market symbol \<in> set (get_supported_markets vendor))"

text \<open>\<^verbatim>\<open>get_market_info\<close>: the dictionary it returns, without the Chinese display
  name (outside the modelled Latin-1 alphabet; it only feeds log and report headers).\<close>

record market_info =
  info_symbol :: pystr
  info_market :: market
  info_timezone :: pystr
  info_currency :: pystr

fun market_timezone :: "market \<Rightarrow> pystr" where
  "market_timezone A_STOCK = ''Asia/Shanghai''"
| "market_timezone HK_STOCK = ''Asia/Hong_Kong''"
| "market_timezone US_STOCK = ''America/New_York''"
| "market_timezone UNKNOWN = ''UTC''"

fun market_currency :: "market \<Rightarrow> pystr" where
  "market_currency A_STOCK = ''CNY''"
| "market_currency HK_STOCK = ''HKD''"
| "market_currency US_STOCK = ''USD''"
| "market_currency UNKNOWN = ''USD''"

definition get_market_info :: "pystr \<Rightarrow> market_info" where
  "get_market_info symbol =
     (let m = identify_market symbol in
      \<lparr>info_symbol = symbol, info_market = m,
       info_timezone = market_timezone m, info_currency = market_currency m\<rparr>)"

section \<open>Lemmas\<close>

subsection \<open>Characters that normalisation leaves alone\<close>


definition plain_char :: "char \<Rightarrow> bool" where
  "plain_char c = (py_upper_char c = [c] \<and> \<not> py_isspace c)"

lemma py_upper_plain: "list_all plain_char s \<Longrightarrow> py_upper s = s"
  by (induction s) (simp_all add: plain_char_def)

lemma py_strip_plain: "list_all plain_char s \<Longrightarrow> py_strip s = s"
proof -
  assume a: "list_all plain_char s"
  then have "dropWhile py_isspace s = s"
    by (intro dropWhile_hd_keep) (cases s, auto simp: plain_char_def)
  moreover from a have "dropWhile py_isspace (rev s) = rev s"
    by (intro dropWhile_hd_keep) (cases s rule: rev_cases, auto simp: plain_char_def)
  ultimately show ?thesis by (simp add: py_strip_def)
qed

lemma upper_strip_plain: "list_all plain_char s \<Longrightarrow> upper_strip s = s"
  by (simp add: py_upper_plain py_strip_plain)

lemma plain_digit: "py_isdigit c \<Longrightarrow> plain_char c"
  by (auto simp: plain_char_def py_isdigit_def py_upper_char_def py_isspace_def Let_def)

lemma plain_upper: "ascii_upper c \<Longrightarrow> plain_char c"
  by (auto simp: plain_char_def ascii_upper_def py_upper_char_def py_isspace_def Let_def)

lemma plain_dot: "plain_char CHR ''.''"
  by (simp add: plain_char_def py_upper_char_def py_isspace_def)

lemma newline_space: "py_isspace CHR 0x0A"
  by (simp add: py_isspace_def)

lemma re_match_strip: "re_match P (py_strip s) = P (py_strip s)"
  using py_strip_last [of s] newline_space by (auto simp: re_match_def)

lemma identify_market_normal:
  "identify_market s =
     (let t = upper_strip s in
      if list_ex (\<lambda>p. p t) A_STOCK_PATTERNS then A_STOCK
      else if list_ex (\<lambda>p. p t) HK_STOCK_PATTERNS then HK_STOCK
      else if list_ex (\<lambda>p. p t) US_STOCK_PATTERNS then US_STOCK
      else UNKNOWN)"
  by (simp add: identify_market_def matches_any_def re_match_strip Let_def)

lemma identify_market_py_upper: "identify_market (py_upper s) = identify_market s"
  by (simp add: identify_market_def)

lemma identify_market_py_strip: "identify_market (py_strip s) = identify_market s"
proof -
  have "upper_strip (py_strip s) = upper_strip s"
    by (simp flip: py_strip_upper)
  then show ?thesis by (simp add: identify_market_def)
qed

lemma identify_upper_strip [simp]: "identify_market (upper_strip s) = identify_market s"
  by (simp add: identify_market_py_upper identify_market_py_strip)

lemma digits_no_dot: "list_all py_isdigit s \<Longrightarrow> CHR ''.'' \<notin> set s"
  by (auto simp: list_all_iff py_isdigit_def)

lemma prefix_digits_digits:
  "list_all py_isdigit s \<Longrightarrow> prefix_digits ps n s = (\<exists>p \<in> set ps. length s = length p + n \<and> take (length p) s = p)"
  by (auto simp: prefix_digits_def list_all_iff dest: in_set_dropD)

lemma dotted_no_dot: "CHR ''.'' \<notin> set s \<Longrightarrow> \<not> dotted P Q s"
  by (simp add: dotted_def dropWhile_eq_Nil_conv)

lemma digits_dot_hk_no_dot:
  assumes "CHR ''.'' \<notin> set s"
  shows "\<not> digits_dot_hk s"
proof
  assume "digits_dot_hk s"
  then have "drop (length s - 3) s = ''.HK''" by (simp add: digits_dot_hk_def)
  then have "CHR ''.'' \<in> set (drop (length s - 3) s)" by simp
  then have "CHR ''.'' \<in> set s" by (rule in_set_dropD)
  with assms show False by simp
qed

lemma digit_not_upper: "py_isdigit c \<Longrightarrow> \<not> ascii_upper c"
  by (simp add: py_isdigit_def ascii_upper_def Let_def)

lemma identify_market_digits:
  assumes "list_all py_isdigit s"
  shows "identify_market s =
    (if length s = 6 \<and> (take 3 s \<in> {''000'', ''002'', ''003''} \<or> take 2 s \<in> {''30'', ''60'', ''68''}
                        \<or> take 1 s \<in> {''8'', ''4''}) then A_STOCK
     else if length s = 4 \<or> length s = 5 then HK_STOCK
     else UNKNOWN)"
proof -
  have t: "upper_strip s = s"
    using assms by (intro upper_strip_plain) (auto simp: list_all_iff plain_digit)
  have nd: "CHR ''.'' \<notin> set s" using assms by (rule digits_no_dot)
  have nu: "\<not> class_range ascii_upper 1 5 s"
    using assms by (cases s) (auto simp: class_range_def digit_not_upper)
  show ?thesis
    using assms nd nu
    by (auto simp: identify_market_normal t A_STOCK_PATTERNS_def HK_STOCK_PATTERNS_def
        US_STOCK_PATTERNS_def prefix_digits_digits dotted_no_dot digits_dot_hk_no_dot class_range_def
        numeral_3_eq_3 numeral_2_eq_2)
qed


subsection \<open>Formatting helpers\<close>


lemma py_upper_no_ascii_lower:
  "c \<in> set (py_upper s) \<Longrightarrow> \<not> (97 \<le> (of_char c :: nat) \<and> (of_char c :: nat) \<le> 122)"
proof (induction s)
  case Nil
  then show ?case by simp
next
  case (Cons x s)
  then show ?case
    using nat_of_char_less_256 [of x]
    by (auto simp: py_upper_char_def Let_def split: if_splits)
qed

lemma set_py_strip: "set (py_strip s) \<subseteq> set s"
proof
  fix x
  assume "x \<in> set (py_strip s)"
  then have "x \<in> set (dropWhile py_isspace (rev (dropWhile py_isspace s)))"
    by (simp add: py_strip_def)
  then have "x \<in> set (dropWhile py_isspace s)" by (auto dest: set_dropWhileD)
  then show "x \<in> set s" by (rule set_dropWhileD)
qed

lemma upper_strip_no_s: "CHR ''s'' \<notin> set (upper_strip s)"
  using set_py_strip [of "py_upper s"] py_upper_no_ascii_lower [of "CHR ''s''" s] by auto

lemma not_starts_sz_sh: "\<not> starts_any (upper_strip s) [''sz'', ''sh'']"
proof
  assume "starts_any (upper_strip s) [''sz'', ''sh'']"
  then have "CHR ''s'' \<in> set (take 2 (upper_strip s))"
    by (auto simp: starts_any_def py_startswith_def numeral_2_eq_2)
  then have "CHR ''s'' \<in> set (upper_strip s)" by (rule in_set_takeD)
  with upper_strip_no_s show False by blast
qed

text \<open>For AKShare an A-share symbol is only upper-cased and stripped: the
  branch meant to remove an \<^verbatim>\<open>sz\<close>/\<^verbatim>\<open>sh\<close> prefix never applies, because it
  tests for lower-case prefixes after upper-casing.\<close>

lemma format_akshare_a_stock:
  "format_symbol_for_vendor s ''akshare'' (Some A_STOCK) = upper_strip s"
  by (simp add: format_symbol_for_vendor_def not_starts_sz_sh)

theorem format_akshare_a_stock_witness: "format_symbol_for_vendor ''sz000001'' ''akshare'' (Some A_STOCK) = ''SZ000001''"
proof -
  have e: "upper_strip ''sz000001'' = ''SZ000001''" by code_simp
  show ?thesis using format_akshare_a_stock [of "''sz000001''"] e by simp
qed

text \<open>For an unknown vendor or an unknown market the formatted symbol is the
  upper-cased, stripped input, not the input unchanged.\<close>

lemma format_unsupported:
  assumes "vendor \<notin> set [''akshare'', ''baostock'', ''yfinance'', ''alpha_vantage''] \<or> market = UNKNOWN"
  shows "format_symbol_for_vendor s vendor (Some market) = upper_strip s"
  using assms by (auto simp: format_symbol_for_vendor_def Let_def)

theorem format_unsupported_witness: "format_symbol_for_vendor '' 600000'' ''local'' (Some A_STOCK) = ''600000''"
proof -
  have h: "''local'' \<notin> set [''akshare'', ''baostock'', ''yfinance'', ''alpha_vantage''] \<or> A_STOCK = UNKNOWN"
    by simp
  have e: "upper_strip '' 600000'' = ''600000''" by code_simp
  show ?thesis using format_unsupported [OF h, of "'' 600000''"] e by simp
qed

lemma dot_split_unique:
  "CHR ''.'' \<notin> set x \<Longrightarrow> CHR ''.'' \<notin> set d \<Longrightarrow> x @ CHR ''.'' # a = d @ CHR ''.'' # b \<Longrightarrow> x = d \<and> a = b"
proof (induction x arbitrary: d)
  case Nil
  then show ?case by (cases d) auto
next
  case (Cons y x)
  then show ?case by (cases d) auto
qed

lemma takeWhile_dot: "CHR ''.'' \<notin> set d \<Longrightarrow> takeWhile (\<lambda>c. c \<noteq> CHR ''.'') (d @ CHR ''.'' # u) = d"
  by (induction d) auto

lemma dropWhile_dot: "CHR ''.'' \<notin> set d \<Longrightarrow> dropWhile (\<lambda>c. c \<noteq> CHR ''.'') (d @ CHR ''.'' # u) = CHR ''.'' # u"
  by (induction d) auto

lemma dotted_split:
  "CHR ''.'' \<notin> set d \<Longrightarrow> dotted P Q (d @ CHR ''.'' # u) = (d \<noteq> [] \<and> list_all P d \<and> u \<noteq> [] \<and> list_all Q u)"
  by (simp add: dotted_def takeWhile_dot dropWhile_dot Let_def)


subsection \<open>Classification of dotted symbols and the shapes of each market\<close>


lemma prefix_digits_all_digits:
  assumes "list_all (list_all py_isdigit) ps" and "prefix_digits ps n s"
  shows "list_all py_isdigit s"
proof -
  from assms(2) obtain p where p: "p \<in> set ps" "take (length p) s = p"
    "list_all py_isdigit (drop (length p) s)"
    by (auto simp: prefix_digits_def)
  have "s = take (length p) s @ drop (length p) s" by simp
  with p assms(1) show ?thesis
    by (metis list_all_append list.pred_set)
qed

lemma a_patterns_digits:
  assumes "p \<in> set A_STOCK_PATTERNS" and "p s"
  shows "list_all py_isdigit s"
proof -
  from assms(1) obtain ps n where "p = prefix_digits ps n" "list_all (list_all py_isdigit) ps"
    by (auto simp: A_STOCK_PATTERNS_def py_isdigit_def)
  with assms(2) show ?thesis by (auto intro: prefix_digits_all_digits)
qed

lemma no_a_pattern_dot:
  "CHR ''.'' \<in> set s \<Longrightarrow> \<not> list_ex (\<lambda>p. p s) A_STOCK_PATTERNS"
  using a_patterns_digits digits_no_dot by (fastforce simp: list_ex_iff)

lemma identify_dotted:
  assumes d: "list_all py_isdigit d" "d \<noteq> []" and u: "list_all ascii_upper u" "u \<noteq> []"
  shows "identify_market (d @ CHR ''.'' # u) =
           (if u = ''HK'' \<and> 4 \<le> length d \<and> length d \<le> 5 then HK_STOCK else US_STOCK)"
proof -
  let ?s = "d @ CHR ''.'' # u"
  have nd: "CHR ''.'' \<notin> set d" using d(1) by (rule digits_no_dot)
  have t: "upper_strip ?s = ?s"
    using d u by (intro upper_strip_plain) (auto simp: list_all_iff plain_digit plain_upper plain_dot)
  have hk: "digits_dot_hk ?s \<longleftrightarrow> u = ''HK'' \<and> 4 \<le> length d \<and> length d \<le> 5"
  proof
    assume h: "digits_dot_hk ?s"
    define s where "s = ?s"
    define x where "x = take (length s - 3) s"
    from h have x: "list_all py_isdigit x" "drop (length s - 3) s = ''.HK''"
      and lx: "4 \<le> length x \<and> length x \<le> 5"
      by (auto simp: digits_dot_hk_def class_range_def s_def [symmetric] x_def [symmetric])
    have "s = x @ drop (length s - 3) s" by (simp add: x_def)
    with x(2) have "x @ CHR ''.'' # ''HK'' = d @ CHR ''.'' # u" by (simp add: s_def)
    with digits_no_dot [OF x(1)] nd have "x = d \<and> ''HK'' = u" by (rule dot_split_unique)
    with lx show "u = ''HK'' \<and> 4 \<le> length d \<and> length d \<le> 5" by auto
  next
    assume a: "u = ''HK'' \<and> 4 \<le> length d \<and> length d \<le> 5"
    then have "u = ''HK''" by simp
    with a d show "digits_dot_hk ?s" by (simp add: digits_dot_hk_def class_range_def)
  qed
  have nr: "\<not> class_range py_isdigit 4 5 ?s" "\<not> class_range ascii_upper 1 5 ?s"
    using d(1) by (auto simp: class_range_def py_isdigit_def ascii_upper_def)
  have "dotted py_isdigit ascii_upper ?s" using d u nd by (simp add: dotted_split)
  moreover have "identify_market ?s =
      (if list_ex (\<lambda>p. p ?s) A_STOCK_PATTERNS then A_STOCK
       else if list_ex (\<lambda>p. p ?s) HK_STOCK_PATTERNS then HK_STOCK
       else if list_ex (\<lambda>p. p ?s) US_STOCK_PATTERNS then US_STOCK else UNKNOWN)"
    by (simp only: identify_market_normal t Let_def)
  ultimately show ?thesis using hk nr
    by (simp add: no_a_pattern_dot HK_STOCK_PATTERNS_def US_STOCK_PATTERNS_def)
qed

lemma py_replace_absent:
  "old \<noteq> [] \<Longrightarrow> hd old \<notin> set s \<Longrightarrow> py_replace old new s = s"
proof (induction s)
  case Nil
  then show ?case by (simp add: py_replace.simps)
next
  case (Cons x xs)
  from Cons.prems have "take (length old) (x # xs) \<noteq> old"
    by (cases old) auto
  with Cons show ?case by (simp add: py_replace.simps [of old new "x # xs"])
qed

lemma py_replace_suffix:
  "old \<noteq> [] \<Longrightarrow> hd old \<notin> set d \<Longrightarrow> py_replace old new (d @ old) = d @ new"
proof (induction d)
  case Nil
  then show ?case by (simp add: py_replace.simps [of old new old] py_replace.simps [of old new "[]"])
next
  case (Cons x xs)
  from Cons.prems have "take (length old) (x # xs @ old) \<noteq> old"
    by (cases old) auto
  with Cons show ?case by (simp add: py_replace.simps [of old new "x # xs @ old"])
qed

lemma py_zfill_digits:
  "d \<noteq> [] \<Longrightarrow> list_all py_isdigit d \<Longrightarrow> py_zfill w d = replicate (w - length d) CHR ''0'' @ d"
  by (cases d) (auto simp: py_zfill_def py_isdigit_def)

lemma zero_digit: "py_isdigit CHR ''0''"
  by (simp add: py_isdigit_def)

lemma identify_hk_shapes:
  assumes "identify_market s = HK_STOCK"
  shows "(\<exists>d. upper_strip s = d @ ''.HK'' \<and> list_all py_isdigit d \<and> 4 \<le> length d \<and> length d \<le> 5)
         \<or> (list_all py_isdigit (upper_strip s) \<and> 4 \<le> length (upper_strip s) \<and> length (upper_strip s) \<le> 5)"
proof -
  let ?t = "upper_strip s"
  from assms have "digits_dot_hk ?t \<or> class_range py_isdigit 4 5 ?t"
    by (auto simp: identify_market_normal HK_STOCK_PATTERNS_def Let_def split: if_splits)
  then show ?thesis
  proof
    assume h: "digits_dot_hk ?t"
    let ?d = "take (length ?t - 3) ?t"
    have "?t = ?d @ drop (length ?t - 3) ?t" by simp
    with h have "?t = ?d @ ''.HK''" by (simp add: digits_dot_hk_def)
    with h show ?thesis by (auto simp: digits_dot_hk_def class_range_def)
  qed (simp add: class_range_def)
qed


subsection \<open>Formatting and classification\<close>



lemma format_us:
  "identify_market s = US_STOCK \<Longrightarrow> format_symbol_for_vendor s vendor None = upper_strip s"
  by (simp add: format_symbol_for_vendor_def Let_def)

lemma five_digits_hk:
  "list_all py_isdigit x \<Longrightarrow> length x = 5 \<Longrightarrow> identify_market x = HK_STOCK"
  by (simp add: identify_market_digits)

lemma zfill5_digits:
  assumes "list_all py_isdigit d" "4 \<le> length d" "length d \<le> 5"
  shows "list_all py_isdigit (py_zfill 5 d) \<and> length (py_zfill 5 d) = 5"
proof -
  from assms have "d \<noteq> []" by auto
  with assms show ?thesis by (auto simp: py_zfill_digits zero_digit list_all_iff set_replicate_conv_if)
qed

text \<open>Formatting a Hong Kong or US symbol for any vendor (the market
  detected) keeps the market it is identified as.\<close>

theorem format_preserves_hk_us:
  assumes "identify_market s \<in> {HK_STOCK, US_STOCK}"
  shows "identify_market (format_symbol_for_vendor s vendor None) = identify_market s"
proof (cases "identify_market s = US_STOCK")
  case True
  then show ?thesis by (simp add: format_us)
next
  case False
  with assms have hk: "identify_market s = HK_STOCK" by simp
  let ?t = "upper_strip s"
  have f: "format_symbol_for_vendor s vendor None =
     (if vendor = ''akshare'' then py_zfill 5 (py_replace ''.HK'' [] ?t)
      else if vendor = ''yfinance'' \<or> vendor = ''alpha_vantage'' then
        (if \<not> py_endswith ?t ''.HK'' then py_zfill 4 ?t @ ''.HK'' else ?t)
      else ?t)"
    using hk by (simp add: format_symbol_for_vendor_def Let_def)
  from identify_hk_shapes [OF hk] show ?thesis
  proof
    assume "\<exists>d. ?t = d @ ''.HK'' \<and> list_all py_isdigit d \<and> 4 \<le> length d \<and> length d \<le> 5"
    then obtain d where d: "?t = d @ ''.HK''" "list_all py_isdigit d" "4 \<le> length d" "length d \<le> 5"
      by blast
    have r: "py_replace ''.HK'' [] ?t = d"
      using d digits_no_dot [OF d(2)] by (simp add: py_replace_suffix [of "''.HK''", simplified])
    have e: "py_endswith ?t ''.HK''" using d(1) by (simp add: py_endswith_def)
    show ?thesis
      using f r e hk zfill5_digits [OF d(2-4)] five_digits_hk by auto
  next
    assume p: "list_all py_isdigit ?t \<and> 4 \<le> length ?t \<and> length ?t \<le> 5"
    then have nd: "CHR ''.'' \<notin> set ?t" by (simp add: digits_no_dot)
    have r: "py_replace ''.HK'' [] ?t = ?t"
      using nd by (simp add: py_replace_absent)
    have ne: "\<not> py_endswith ?t ''.HK''"
    proof
      assume "py_endswith ?t ''.HK''"
      then have "CHR ''.'' \<in> set (drop (length ?t - 3) ?t)" by (simp add: py_endswith_def numeral_3_eq_3)
      with nd show False by (auto dest: in_set_dropD)
    qed
    have z: "py_zfill 4 ?t = ?t" using p by (simp add: py_zfill_def)
    have "?t \<noteq> []" using p by auto
    then have "identify_market (?t @ ''.HK'') = HK_STOCK"
      using identify_dotted [of ?t "''HK''"] p by (simp add: ascii_upper_def)
    then show ?thesis
      using f r ne z hk zfill5_digits [of ?t] p five_digits_hk by auto
  qed
qed

theorem format_preserves_hk_us_witness: "identify_market ''0700.hk'' \<in> {HK_STOCK, US_STOCK}
   \<and> identify_market (format_symbol_for_vendor ''0700.hk'' ''akshare'' None) = identify_market ''0700.hk''"
proof -
  have h: "identify_market ''0700.hk'' \<in> {HK_STOCK, US_STOCK}" by code_simp
  show ?thesis using h format_preserves_hk_us [OF h, of "''akshare''"] by simp
qed

lemma a_stock_shape:
  assumes "identify_market s = A_STOCK"
  shows "list_all py_isdigit (upper_strip s) \<and> length (upper_strip s) = 6 \<and>
    (take 3 (upper_strip s) \<in> {''000'', ''002'', ''003''} \<or> take 2 (upper_strip s) \<in> {''30'', ''60'', ''68''}
     \<or> take 1 (upper_strip s) \<in> {''8'', ''4''})"
proof -
  let ?t = "upper_strip s"
  from assms obtain p where "p \<in> set A_STOCK_PATTERNS" "p ?t"
    by (auto simp: identify_market_normal Let_def list_ex_iff split: if_splits)
  then have dg: "list_all py_isdigit ?t" by (rule a_patterns_digits)
  have a: "identify_market ?t = A_STOCK" using assms by simp
  from dg have "identify_market ?t =
    (if length ?t = 6 \<and> (take 3 ?t \<in> {''000'', ''002'', ''003''} \<or> take 2 ?t \<in> {''30'', ''60'', ''68''}
                        \<or> take 1 ?t \<in> {''8'', ''4''}) then A_STOCK
     else if length ?t = 4 \<or> length ?t = 5 then HK_STOCK
     else UNKNOWN)" by (rule identify_market_digits)
  with a dg show ?thesis by (simp del: identify_upper_strip split: if_splits)
qed

text \<open>A Shanghai or Shenzhen A-share formatted for yfinance
  (\<^verbatim>\<open>.SS\<close>/\<^verbatim>\<open>.SZ\<close>) is identified as a US symbol afterwards; Beijing and
  NEEQ codes stay A-shares because they are left unsuffixed.\<close>

theorem format_yfinance_a_stock:
  assumes "identify_market s = A_STOCK"
  shows "identify_market (format_symbol_for_vendor s ''yfinance'' None) =
           (if starts_any (upper_strip s) [''8'', ''4''] then A_STOCK else US_STOCK)"
proof -
  let ?t = "upper_strip s"
  have sh: "list_all py_isdigit ?t \<and> length ?t = 6 \<and>
    (take 3 ?t \<in> {''000'', ''002'', ''003''} \<or> take 2 ?t \<in> {''30'', ''60'', ''68''}
     \<or> take 1 ?t \<in> {''8'', ''4''})" using assms by (rule a_stock_shape)
  have ne: "?t \<noteq> []" using sh by auto
  have sz: "identify_market (?t @ ''.SZ'') = US_STOCK" and ss: "identify_market (?t @ ''.SS'') = US_STOCK"
    using identify_dotted [of ?t "''SZ''"] identify_dotted [of ?t "''SS''"] sh ne
    by (simp_all add: ascii_upper_def)
  have fmt: "format_symbol_for_vendor s ''yfinance'' None =
     (if starts_any ?t [''000'', ''002'', ''003'', ''30''] then ?t @ ''.SZ''
      else if starts_any ?t [''60'', ''68''] then ?t @ ''.SS'' else ?t)"
    using assms by (simp add: format_symbol_for_vendor_def Let_def)
  have "\<exists>c1 c2 c3 r. ?t = c1 # c2 # c3 # r"
    using sh by (auto simp: length_Suc_conv numeral_eq_Suc)
  then obtain c1 c2 c3 r where t: "?t = c1 # c2 # c3 # r" by blast
  have pre: "(c1 = CHR ''0'' \<and> c2 = CHR ''0'' \<and> c3 \<in> {CHR ''0'', CHR ''2'', CHR ''3''})
        \<or> (c2 = CHR ''0'' \<and> c1 = CHR ''3'') \<or> (c1 = CHR ''6'' \<and> c2 \<in> {CHR ''0'', CHR ''8''})
        \<or> c1 = CHR ''8'' \<or> c1 = CHR ''4''"
    using sh unfolding t by (auto simp: numeral_eq_Suc)
  have s1: "starts_any ?t [''000'', ''002'', ''003'', ''30''] \<longleftrightarrow>
      (c1 = CHR ''0'' \<and> c2 = CHR ''0'' \<and> c3 \<in> {CHR ''0'', CHR ''2'', CHR ''3''}) \<or> (c1 = CHR ''3'' \<and> c2 = CHR ''0'')"
    unfolding t by (auto simp: starts_any_def py_startswith_def)
  have s2: "starts_any ?t [''60'', ''68''] \<longleftrightarrow> c1 = CHR ''6'' \<and> c2 \<in> {CHR ''0'', CHR ''8''}"
    unfolding t by (auto simp: starts_any_def py_startswith_def)
  have s3: "starts_any ?t [''8'', ''4''] \<longleftrightarrow> c1 = CHR ''8'' \<or> c1 = CHR ''4''"
    unfolding t by (auto simp: starts_any_def py_startswith_def)
  show ?thesis
  proof (cases "starts_any ?t [''000'', ''002'', ''003'', ''30'']")
    case True
    with s1 s3 have "\<not> starts_any ?t [''8'', ''4'']" by auto
    with True fmt sz show ?thesis by simp
  next
    case F1: False
    show ?thesis
    proof (cases "starts_any ?t [''60'', ''68'']")
      case True
      with s2 s3 have "\<not> starts_any ?t [''8'', ''4'']" by auto
      with F1 True fmt ss show ?thesis by simp
    next
      case False
      with F1 s1 s2 s3 pre have "starts_any ?t [''8'', ''4'']" by auto
      with F1 False fmt assms show ?thesis by simp
    qed
  qed
qed

theorem format_yfinance_a_stock_witness: "identify_market ''600000'' = A_STOCK
   \<and> identify_market (format_symbol_for_vendor ''600000'' ''yfinance'' None) = US_STOCK"
proof -
  have h: "identify_market ''600000'' = A_STOCK" by code_simp
  have e: "\<not> starts_any (upper_strip ''600000'') [''8'', ''4'']" by code_simp
  show ?thesis using h e format_yfinance_a_stock [OF h] by simp
qed

lemma startswith_hd:
  "py_startswith t p \<Longrightarrow> p \<noteq> [] \<Longrightarrow> t \<noteq> [] \<and> hd t = hd p"
  by (cases t; cases p) (auto simp: py_startswith_def)

lemma starts_bse_neeq_exclusive:
  assumes "starts_any t [''8'', ''4'']"
  shows "\<not> starts_any t [''000'', ''002'', ''003'', ''30''] \<and> \<not> starts_any t [''60'', ''68'']"
proof -
  from assms have "t \<noteq> [] \<and> hd t \<in> {CHR ''8'', CHR ''4''}"
    by (auto simp: starts_any_def dest: startswith_hd)
  then show ?thesis
    by (auto simp: starts_any_def dest!: startswith_hd)
qed

subsection \<open>Properties of the market identifier\<close>

text \<open>The market of a symbol depends only on its upper-cased, stripped form:
  \<^verbatim>\<open>identify_market\<close> gives the same market for the symbol, its upper-cased form and
  its stripped form.\<close>

theorem identify_market_normalised:
  "identify_market (py_upper s) = identify_market s \<and> identify_market (py_strip s) = identify_market s"
  by (simp add: identify_market_py_upper identify_market_py_strip)

theorem identify_market_normalised_witness: "identify_market (py_upper '' 600000 '') = identify_market '' 600000 ''
   \<and> identify_market (py_strip '' 600000 '') = identify_market '' 600000 ''"
  by (rule identify_market_normalised)

text \<open>BaoStock formatting leaves Beijing (8xxxxx) and NEEQ (4xxxxx)
  A-share codes without an exchange prefix.\<close>

theorem format_baostock_unprefixed:
  assumes "starts_any (upper_strip s) [''8'', ''4'']"
  shows "format_symbol_for_vendor s ''baostock'' (Some A_STOCK) = upper_strip s"
  using starts_bse_neeq_exclusive [OF assms]
  by (simp add: format_symbol_for_vendor_def Let_def)

theorem format_baostock_unprefixed_witness: "starts_any (upper_strip ''830799'') [''8'', ''4'']
   \<and> format_symbol_for_vendor ''830799'' ''baostock'' (Some A_STOCK) = ''830799''"
proof -
  have h: "starts_any (upper_strip ''830799'') [''8'', ''4'']" by code_simp
  have e: "upper_strip ''830799'' = ''830799''" by code_simp
  show ?thesis using h e format_baostock_unprefixed [OF h] by simp
qed

end
