(* ===== verification/Vendor_Config.thy ===== *)
theory Vendor_Config
  imports Market_Utils
begin

text \<open>
  The configuration resolver: \<^verbatim>\<open>get_vendor\<close> of
  \<^verbatim>\<open>src/tradingagents/dataflows/interface.py\<close> and the vendor part of
  \<^verbatim>\<open>DEFAULT_CONFIG\<close> in \<^verbatim>\<open>src/tradingagents/default_config.py\<close>.
  The configuration is read-only for the router; it is the record \<open>config\<close>, whose
  three fields are the dictionaries \<^verbatim>\<open>data_vendors\<close>, \<^verbatim>\<open>tool_vendors\<close> and
  \<^verbatim>\<open>market_vendors\<close> (an absent key of the Python dictionary is an empty map).
  Python's truthiness of an optional string (\<^verbatim>\<open>if symbol:\<close>) is \<open>truthy\<close>.
\<close>

record config =
  data_vendors :: "pystr \<rightharpoonup> pystr"
  tool_vendors :: "pystr \<rightharpoonup> pystr"
  market_vendors :: "pystr \<rightharpoonup> (pystr \<rightharpoonup> pystr)"

text \<open>\<^verbatim>\<open>d.get(k, default)\<close>.\<close>

definition dict_get :: "('k \<rightharpoonup> 'v) \<Rightarrow> 'k \<Rightarrow> 'v \<Rightarrow> 'v" where
  "dict_get d k dflt = (case d k of None \<Rightarrow> dflt | Some v \<Rightarrow> v)"

text \<open>The market layer of \<^verbatim>\<open>get_vendor\<close> (its first \<^verbatim>\<open>if symbol:\<close> block):
  \<open>Some\<close> of the vendor string it returns, \<open>None\<close> when it falls through.\<close>

definition market_layer :: "config \<Rightarrow> pystr option \<Rightarrow> pystr option" where
  "market_layer cfg symbol =
     (case symbol of
        None \<Rightarrow> None
      | Some sy \<Rightarrow>
          (if sy = [] then None
           else
             (let market = market_str (info_market (get_market_info sy)) in
              case market_vendors cfg market of
                None \<Rightarrow> None
              | Some mc \<Rightarrow>
                  (let primary = dict_get mc ''primary'' [];
                       fallback = dict_get mc ''fallback'' [] in
                   if primary \<noteq> [] \<and> fallback \<noteq> [] then Some (primary @ '','' @ fallback)
                   else if primary \<noteq> [] then Some primary
                   else if fallback \<noteq> [] then Some fallback
                   else None))))"

definition get_vendor :: "config \<Rightarrow> pystr \<Rightarrow> pystr option \<Rightarrow> pystr option \<Rightarrow> pystr" where
  "get_vendor cfg category method symbol =
     (case market_layer cfg symbol of
        Some v \<Rightarrow> v
      | None \<Rightarrow>
          (case (if truthy method then tool_vendors cfg (the method) else None) of
             Some v \<Rightarrow> v
           | None \<Rightarrow> dict_get (data_vendors cfg) category ''default''))"

text \<open>The vendor settings of \<^verbatim>\<open>DEFAULT_CONFIG\<close>.\<close>

definition DEFAULT_CONFIG :: config where
  "DEFAULT_CONFIG =
     \<lparr>data_vendors = [''core_stock_apis'' \<mapsto> ''akshare'',
                      ''technical_indicators'' \<mapsto> ''akshare'',
                      ''fundamental_data'' \<mapsto> ''akshare'',
                      ''news_data'' \<mapsto> ''akshare''],
      tool_vendors = [''get_stock_data'' \<mapsto> ''akshare'',
                      ''get_indicators'' \<mapsto> ''yfinance,akshare'',
                      ''get_global_news'' \<mapsto> ''openai,akshare'',
                      ''get_news'' \<mapsto> ''akshare,openai''],
      market_vendors = [''A_STOCK'' \<mapsto> [''primary'' \<mapsto> ''akshare'', ''fallback'' \<mapsto> ''baostock,yfinance''],
                        ''HK_STOCK'' \<mapsto> [''primary'' \<mapsto> ''akshare'', ''fallback'' \<mapsto> ''yfinance''],
                        ''US_STOCK'' \<mapsto> [''primary'' \<mapsto> ''akshare'', ''fallback'' \<mapsto> ''yfinance,alpha_vantage'']]\<rparr>"

text \<open>\<^verbatim>\<open>[v.strip() for v in vendor_config.split(',')]\<close> of \<^verbatim>\<open>route_to_vendor\<close>.\<close>

definition split_vendors :: "pystr \<Rightarrow> pystr list" where
  "split_vendors vendor_config = map py_strip (py_split CHR '','' vendor_config)"

section \<open>Lemmas\<close>

lemma truthy_Some [simp]: "truthy (Some s) = (s \<noteq> [])"
  and truthy_None [simp]: "\<not> truthy None"
  by (simp_all add: truthy_def)

lemma market_layer_None_symbol [simp]: "market_layer cfg None = None"
  by (simp add: market_layer_def)

lemma market_layer_Some_dom:
  "market_layer cfg symbol = Some v \<Longrightarrow>
     truthy symbol \<and> market_str (identify_market (the symbol)) \<in> dom (market_vendors cfg)"
  by (auto simp: market_layer_def get_market_info_def Let_def split: option.splits if_splits)

lemma split_vendors_nonempty [simp]: "split_vendors s \<noteq> []"
  by (simp add: split_vendors_def)

end
