(* ===== verification/Indicator_Quality.thy ===== *)
theory Indicator_Quality
  imports Complex_Main Prelude
begin

text \<open>
  The data-quality gate \<^verbatim>\<open>_is_indicator_result_invalid\<close> of
  \<^verbatim>\<open>src/tradingagents/dataflows/interface.py\<close>, with the two library calls it
  makes inside its loop:
  \<^item> \<^verbatim>\<open>datetime.strptime(date_part, '%Y-%m-%d')\<close>, modelled as CPython's
    \<^verbatim>\<open>_strptime\<close> does it: the regular expression
    \<^verbatim>\<open>(\d\d\d\d)-(1[0-2]|0[1-9]|[1-9])-(3[01]|[12]\d|0[1-9]|[1-9]| [1-9])\<close> matched
    with backtracking from the start (the first successful combination of
    alternatives wins), \<^verbatim>\<open>ValueError\<close> when no combination matches or when
    characters remain after the match, and \<^verbatim>\<open>ValueError\<close> again when the year is 0
    or the day does not exist in the month (proleptic Gregorian calendar);
  \<^item> \<^verbatim>\<open>float(value_part)\<close>, left as a parameter \<open>float_ok\<close> (whether the
    conversion succeeds): the gate turns out not to depend on it.
  The ratio \<^verbatim>\<open>valid_data_count / date_line_count < 0.3\<close> is compared exactly, as
  rationals; the binary rounding of the quotient and of 0.3 can only differ from the
  exact comparison for counts beyond \<open>10^15\<close> lines.
  The three Chinese "no data" keywords of the source lie outside the Latin-1 alphabet of
  the model and cannot occur in a modelled string, so the keyword list holds the eight
  others.
\<close>

section \<open>strptime with format \<open>%Y-%m-%d\<close>\<close>

definition digit_val :: "char \<Rightarrow> nat" where
  "digit_val c = of_char c - 48"

definition digits_val :: "pystr \<Rightarrow> nat" where
  "digits_val s = foldl (\<lambda>n c. 10 * n + digit_val c) 0 s"

text \<open>One alternative of a group: the number of characters it consumes and its test on
  exactly those characters.\<close>

type_synonym alt = "nat \<times> (pystr \<Rightarrow> bool)"

definition in_range :: "char \<Rightarrow> char \<Rightarrow> char \<Rightarrow> bool" where
  "in_range lo hi c = ((of_char lo :: nat) \<le> of_char c \<and> (of_char c :: nat) \<le> of_char hi)"

definition MONTH_ALTS :: "alt list" where
  "MONTH_ALTS =
     [(2, \<lambda>x. x ! 0 = CHR ''1'' \<and> in_range CHR ''0'' CHR ''2'' (x ! 1)),
      (2, \<lambda>x. x ! 0 = CHR ''0'' \<and> in_range CHR ''1'' CHR ''9'' (x ! 1)),
      (1, \<lambda>x. in_range CHR ''1'' CHR ''9'' (x ! 0))]"

definition DAY_ALTS :: "alt list" where
  "DAY_ALTS =
     [(2, \<lambda>x. x ! 0 = CHR ''3'' \<and> in_range CHR ''0'' CHR ''1'' (x ! 1)),
      (2, \<lambda>x. in_range CHR ''1'' CHR ''2'' (x ! 0) \<and> py_isdigit (x ! 1)),
      (2, \<lambda>x. x ! 0 = CHR ''0'' \<and> in_range CHR ''1'' CHR ''9'' (x ! 1)),
      (1, \<lambda>x. in_range CHR ''1'' CHR ''9'' (x ! 0)),
      (2, \<lambda>x. x ! 0 = CHR '' '' \<and> in_range CHR ''1'' CHR ''9'' (x ! 1))]"

text \<open>Does the regular expression match at the start of \<open>s\<close> with the month
  alternative \<open>m\<close> and the day alternative \<open>d\<close>?\<close>

definition ymd_matches :: "pystr \<Rightarrow> alt \<Rightarrow> alt \<Rightarrow> bool" where
  "ymd_matches s m d =
     (6 + fst m + fst d \<le> length s \<and> list_all py_isdigit (take 4 s) \<and> s ! 4 = CHR ''-'' \<and>
      snd m (take (fst m) (drop 5 s)) \<and> s ! (5 + fst m) = CHR ''-'' \<and>
      snd d (take (fst d) (drop (6 + fst m) s)))"

text \<open>The combinations in backtracking order: month alternatives outermost.\<close>

definition ymd_first_match :: "pystr \<Rightarrow> (alt \<times> alt) option" where
  "ymd_first_match s =
     find (\<lambda>(m, d). ymd_matches s m d) (concat (map (\<lambda>m. map (Pair m) DAY_ALTS) MONTH_ALTS))"

definition is_leap :: "nat \<Rightarrow> bool" where
  "is_leap y = (4 dvd y \<and> (\<not> 100 dvd y \<or> 400 dvd y))"

definition days_in_month :: "nat \<Rightarrow> nat \<Rightarrow> nat" where
  "days_in_month y m =
     (if m = 2 then (if is_leap y then 29 else 28)
      else if m \<in> {4, 6, 9, 11} then 30 else 31)"

text \<open>The value of a day field: \<^verbatim>\<open>int(' 5')\<close> is 5.\<close>

definition field_val :: "pystr \<Rightarrow> nat" where
  "field_val x = digits_val (filter (\<lambda>c. c \<noteq> CHR '' '') x)"

text \<open>\<^verbatim>\<open>datetime.strptime(s, '%Y-%m-%d')\<close>: \<open>Some (year, month, day)\<close>, or
  \<open>None\<close> for the \<^verbatim>\<open>ValueError\<close> it raises.\<close>

definition strptime_ymd :: "pystr \<Rightarrow> (nat \<times> nat \<times> nat) option" where
  "strptime_ymd s =
     (case ymd_first_match s of
        None \<Rightarrow> None
      | Some (m, d) \<Rightarrow>
          (if length s \<noteq> 6 + fst m + fst d then None
           else
             (let y = digits_val (take 4 s);
                  mo = field_val (take (fst m) (drop 5 s));
                  dy = field_val (take (fst d) (drop (6 + fst m) s)) in
              if 1 \<le> y \<and> 1 \<le> dy \<and> dy \<le> days_in_month y mo then Some (y, mo, dy) else None)))"

section \<open>The gate\<close>

definition NO_DATA_KEYWORDS :: "pystr list" where
  "NO_DATA_KEYWORDS =
     [''n/a'', ''not a trading day'', ''weekend'', ''holiday'', ''invalid'', ''no data'',
      ''error'', ''failed'']"

text \<open>One iteration of the loop over the lines, on the counters
  \<open>(date_line_count, valid_data_count)\<close>.\<close>

definition gate_line :: "(pystr \<Rightarrow> bool) \<Rightarrow> nat \<times> nat \<Rightarrow> pystr \<Rightarrow> nat \<times> nat" where
  "gate_line float_ok counts raw =
     (let line = py_strip raw; (dc, vc) = counts in
      if py_contains '':'' line \<and> length (py_strip (hd (py_split CHR '':'' line))) = 10 then
        (let date_part = py_strip (hd (py_split CHR '':'' line)) in
         case strptime_ymd date_part of
           None \<Rightarrow> (dc, vc)
         | Some _ \<Rightarrow>
             (let value_part = py_strip (py_join '':'' (tl (py_split CHR '':'' line))) in
              if \<not> list_ex (\<lambda>k. py_contains k (py_lower value_part)) NO_DATA_KEYWORDS then
                (if float_ok value_part then (Suc dc, Suc vc)
                 else if value_part \<noteq> [] then (Suc dc, Suc vc)
                 else (Suc dc, vc))
              else (Suc dc, vc)))
      else (dc, vc))"

definition gate_counts :: "(pystr \<Rightarrow> bool) \<Rightarrow> pystr \<Rightarrow> nat \<times> nat" where
  "gate_counts float_ok content = foldl (gate_line float_ok) (0, 0) (py_split (CHR 0x0A) content)"

definition is_indicator_result_invalid :: "(pystr \<Rightarrow> bool) \<Rightarrow> pystr \<Rightarrow> bool" where
  "is_indicator_result_invalid float_ok result_content =
     (if result_content = [] then True
      else
        (let (date_line_count, valid_data_count) = gate_counts float_ok result_content in
         if date_line_count = 0 then True
         else (of_nat valid_data_count / of_nat date_line_count :: rat) < 3 / 10))"

section \<open>The gate's classification of lines\<close>

text \<open>What the loop decides about one line, stated line by line: the date part is the
  stripped text before the first colon and the value part the stripped rest; a line is a
  date line when it holds a colon and its date part is ten characters that
  \<^verbatim>\<open>strptime\<close> accepts; it carries a value when its value part is non-empty and
  contains none of the no-data keywords.\<close>

definition date_part_of :: "pystr \<Rightarrow> pystr" where
  "date_part_of line = py_strip (hd (py_split CHR '':'' line))"

definition value_part_of :: "pystr \<Rightarrow> pystr" where
  "value_part_of line = py_strip (py_join '':'' (tl (py_split CHR '':'' line)))"

definition is_date_line :: "pystr \<Rightarrow> bool" where
  "is_date_line raw =
     (py_contains '':'' (py_strip raw) \<and> length (date_part_of (py_strip raw)) = 10 \<and>
      strptime_ymd (date_part_of (py_strip raw)) \<noteq> None)"

definition has_value :: "pystr \<Rightarrow> bool" where
  "has_value raw =
     (value_part_of (py_strip raw) \<noteq> [] \<and>
      \<not> list_ex (\<lambda>k. py_contains k (py_lower (value_part_of (py_strip raw)))) NO_DATA_KEYWORDS)"

section \<open>Lemmas\<close>

lemma gate_line_shape:
  "gate_line f c l = c \<or> gate_line f c l = (Suc (fst c), Suc (snd c)) \<or> gate_line f c l = (Suc (fst c), snd c)"
  unfolding gate_line_def Let_def by (cases c) (simp split: option.split)

lemma float_branch:
  "\<not> f [] \<Longrightarrow> (if f v then a else if v \<noteq> [] then a else b) = (if v \<noteq> [] then a else b)"
  by auto

lemma gate_line_float_indep:
  assumes "\<not> f []"
  shows "gate_line f c l = gate_line (\<lambda>_. False) c l"
  unfolding gate_line_def Let_def float_branch [of f, OF assms] if_False by (rule refl)

lemma gate_counts_float_indep:
  "\<not> f [] \<Longrightarrow> gate_counts f s = gate_counts (\<lambda>_. False) s"
proof -
  assume "\<not> f []"
  then have "gate_line f = gate_line (\<lambda>_. False)"
    by (intro ext) (rule gate_line_float_indep)
  then show ?thesis by (simp add: gate_counts_def)
qed

lemma gate_line_le:
  "snd c \<le> fst c \<Longrightarrow> snd (gate_line f c l) \<le> fst (gate_line f c l)"
  using gate_line_shape [of f c l] by auto

lemma foldl_invariant:
  "P a \<Longrightarrow> (\<And>a x. P a \<Longrightarrow> P (g a x)) \<Longrightarrow> P (foldl g a xs)"
  by (induction xs arbitrary: a) auto

lemma gate_counts_le: "snd (gate_counts f s) \<le> fst (gate_counts f s)"
  unfolding gate_counts_def
  by (rule foldl_invariant [where P = "\<lambda>c. snd c \<le> fst c"]) (simp_all add: gate_line_le)

lemma ratio_below: "0 < d \<Longrightarrow> ((of_nat v / of_nat d :: rat) < 3 / 10) = (10 * v < 3 * d)"
proof -
  assume d: "0 < d"
  then have "(of_nat v / of_nat d :: rat) < 3 / 10 \<longleftrightarrow> 10 * of_nat v < (3 * of_nat d :: rat)"
    by (simp add: divide_less_eq field_simps)
  also have "\<dots> \<longleftrightarrow> 10 * v < 3 * d"
    by (metis of_nat_less_iff of_nat_mult of_nat_numeral)
  finally show ?thesis .
qed

text \<open>The verdict in terms of the loop's counters: \<open>10 * valid < 3 * dates\<close> is the
  exact form of \<^verbatim>\<open>valid_data_count / date_line_count < 0.3\<close>.\<close>

lemma indicator_invalid_threshold:
  "is_indicator_result_invalid f s \<longleftrightarrow>
     s = [] \<or> fst (gate_counts f s) = 0 \<or> 10 * snd (gate_counts f s) < 3 * fst (gate_counts f s)"
proof (cases "gate_counts f s")
  case (Pair d v)
  show ?thesis
  proof (cases "d = 0")
    case True
    with Pair show ?thesis by (simp add: is_indicator_result_invalid_def)
  next
    case False
    with Pair ratio_below [of d v] show ?thesis by (simp add: is_indicator_result_invalid_def)
  qed
qed

lemma gate_line_classify:
  "gate_line (\<lambda>_. False) (d, v) l =
     (if is_date_line l then (Suc d, if has_value l then Suc v else v) else (d, v))"
  by (simp add: gate_line_def is_date_line_def has_value_def date_part_of_def value_part_of_def
                Let_def split: option.split)

lemma gate_lines_count:
  "foldl (gate_line (\<lambda>_. False)) (d, v) ls =
     (d + length (filter is_date_line ls), v + length (filter has_value (filter is_date_line ls)))"
  by (induction ls arbitrary: d v) (simp_all add: gate_line_classify)

text \<open>C11: when \<^verbatim>\<open>float('')\<close> fails, as in Python, the gate rejects a result
  exactly when it is empty, has no date line, or fewer than 30 percent of its date lines
  carry a value (a non-empty value part without a no-data keyword), whatever
  \<^verbatim>\<open>float()\<close> accepts.\<close>

theorem indicator_invalid_lines:
  assumes "\<not> float_ok []"
  shows "is_indicator_result_invalid float_ok s \<longleftrightarrow>
           s = [] \<or> filter is_date_line (py_split (CHR 0x0A) s) = [] \<or>
           10 * length (filter has_value (filter is_date_line (py_split (CHR 0x0A) s)))
             < 3 * length (filter is_date_line (py_split (CHR 0x0A) s))"
proof -
  have g: "gate_counts float_ok s =
             (length (filter is_date_line (py_split (CHR 0x0A) s)),
              length (filter has_value (filter is_date_line (py_split (CHR 0x0A) s))))"
    using gate_counts_float_indep [of float_ok s, OF assms] by (simp add: gate_counts_def gate_lines_count)
  show ?thesis using indicator_invalid_threshold [of float_ok s] by (simp add: g)
qed

theorem indicator_invalid_lines_witness:
  "\<not> (\<lambda>_. False) [] \<and>
   (is_indicator_result_invalid (\<lambda>_. False) ''2024-01-02: 12.5'' \<longleftrightarrow>
      ''2024-01-02: 12.5'' = [] \<or> filter is_date_line (py_split (CHR 0x0A) ''2024-01-02: 12.5'') = [] \<or>
      10 * length (filter has_value (filter is_date_line (py_split (CHR 0x0A) ''2024-01-02: 12.5'')))
        < 3 * length (filter is_date_line (py_split (CHR 0x0A) ''2024-01-02: 12.5'')))"
proof -
  have h: "\<not> (\<lambda>_. False) []" by simp
  show ?thesis by (intro conjI h indicator_invalid_lines [OF h])
qed

text \<open>Whenever \<^verbatim>\<open>float('')\<close> fails, as it does in Python, the
  verdict of the gate does not depend on which values \<^verbatim>\<open>float()\<close> accepts: the
  \<^verbatim>\<open>try\<close> and its \<^verbatim>\<open>except\<close> branch count a value in the same way.\<close>

theorem indicator_gate_float_independent:
  "\<not> float_ok [] \<Longrightarrow> is_indicator_result_invalid float_ok s = is_indicator_result_invalid (\<lambda>_. False) s"
proof -
  assume "\<not> float_ok []"
  then have "gate_counts float_ok s = gate_counts (\<lambda>_. False) s"
    by (rule gate_counts_float_indep)
  then show ?thesis by (simp only: is_indicator_result_invalid_def)
qed

theorem indicator_gate_float_independent_witness: "\<not> (\<lambda>v. v \<noteq> []) []
   \<and> is_indicator_result_invalid (\<lambda>v. v \<noteq> []) ''2024-01-02: n/a''
     = is_indicator_result_invalid (\<lambda>_. False) ''2024-01-02: n/a''"
proof -
  have h: "\<not> (\<lambda>v. v \<noteq> []) []" by simp
  show ?thesis using h indicator_gate_float_independent [of "\<lambda>v. v \<noteq> []" "''2024-01-02: n/a''", OF h] by simp
qed

text \<open>The example of the specification: ten dated lines of which two carry a value
  (20 percent) are rejected, and the same lines with four values (40 percent) are
  accepted.\<close>

theorem indicator_gate_rejects_20_percent:
  "is_indicator_result_invalid (\<lambda>_. False)
     (py_join [CHR 0x0A]
       [''2024-01-02: 12.5'', ''2024-01-03: 12.5'', ''2024-01-04: holiday'',
        ''2024-01-05: holiday'', ''2024-01-06: holiday'', ''2024-01-07: holiday'',
        ''2024-01-08: holiday'', ''2024-01-09: holiday'', ''2024-01-10: holiday'',
        ''2024-01-11: holiday''])
   \<and> \<not> is_indicator_result_invalid (\<lambda>_. False)
     (py_join [CHR 0x0A]
       [''2024-01-02: 12.5'', ''2024-01-03: 12.5'', ''2024-01-04: 12.5'',
        ''2024-01-05: 12.5'', ''2024-01-06: holiday'', ''2024-01-07: holiday'',
        ''2024-01-08: holiday'', ''2024-01-09: holiday'', ''2024-01-10: holiday'',
        ''2024-01-11: holiday''])"
  by code_simp

theorem indicator_gate_rejects_20_percent_witness:
  "is_indicator_result_invalid (\<lambda>_. False)
     (py_join [CHR 0x0A]
       [''2024-01-02: 12.5'', ''2024-01-03: 12.5'', ''2024-01-04: holiday'',
        ''2024-01-05: holiday'', ''2024-01-06: holiday'', ''2024-01-07: holiday'',
        ''2024-01-08: holiday'', ''2024-01-09: holiday'', ''2024-01-10: holiday'',
        ''2024-01-11: holiday''])"
  using indicator_gate_rejects_20_percent by (rule conjunct1)

lemma strptime_calendar_examples:
  "strptime_ymd ''2024-02-29'' = Some (2024, 2, 29) \<and> strptime_ymd ''2023-02-29'' = None
   \<and> strptime_ymd ''2024-04-31'' = None \<and> strptime_ymd ''0000-01-01'' = None
   \<and> strptime_ymd ''2024-01- 5'' = Some (2024, 1, 5) \<and> strptime_ymd ''2024-1-011'' = None"
  by code_simp

end
