(* ===== verification/Router.thy ===== *)
theory Router
  imports Catalog Vendor_Config Indicator_Quality
begin

text \<open>
  The fallback executor \<^verbatim>\<open>route_to_vendor\<close> of
  \<^verbatim>\<open>src/tradingagents/dataflows/interface.py\<close>.

  The adapters the router calls are outside the model. What they do is the
  \<open>world\<close>: the outcome of the \<open>n\<close>-th adapter invocation of the call, given the
  name of the implementation and the call's arguments. Indexing by the invocation number
  lets an adapter answer differently each time it is called (network state, rate limits),
  so nothing is assumed about the providers. A result value has the type variable
  \<open>'v\<close> (the source returns strings or native values); \<open>str_of\<close> is Python's
  \<^verbatim>\<open>str()\<close> on it and \<open>float_ok\<close> the success of \<^verbatim>\<open>float()\<close> used by the
  quality gate.

  The loop over the vendors is \<open>exec_vendors\<close>, one iteration being
  \<open>vendor_step\<close>, which returns the new loop state and whether the loop
  \<^verbatim>\<open>break\<close>s. The state is the record \<open>rstate\<close>: the local variables
  \<^verbatim>\<open>results\<close>, \<^verbatim>\<open>vendor_attempt_count\<close> and \<^verbatim>\<open>successful_vendor\<close>, the
  number of adapter invocations so far, and the trace of what the loop did (the events
  the source prints).
\<close>

section \<open>Adapters, exceptions and the call\<close>

text \<open>The exceptions an adapter may raise, as the \<^verbatim>\<open>except\<close> clauses distinguish
  them; \<open>OtherException\<close> carries \<^verbatim>\<open>str(e)\<close>.\<close>

datatype exc =
    AlphaVantageRateLimitError pystr
  | ConnectionError pystr
  | ConnectionAbortedError pystr
  | ConnectionResetError pystr
  | TimeoutError pystr
  | OtherException pystr

datatype failure_kind = RATE_LIMIT | NETWORK_ERROR | FAILED

datatype 'v outcome = Returned 'v | Raised exc

record call =
  args :: "pystr list"
  kwargs :: "pystr \<rightharpoonup> pystr"

type_synonym 'v world = "nat \<Rightarrow> pystr \<Rightarrow> call \<Rightarrow> 'v outcome"

record 'v adapters =
  world :: "'v world"
  str_of :: "'v \<Rightarrow> pystr"
  float_ok :: "pystr \<Rightarrow> bool"

definition NETWORK_KEYWORDS :: "pystr list" where
  "NETWORK_KEYWORDS = [''connection'', ''network'', ''timeout'', ''remote'', ''aborted'']"

text \<open>Which \<^verbatim>\<open>except\<close> clause catches the exception (each of them
  \<^verbatim>\<open>continue\<close>s with the next implementation).\<close>

fun classify_exc :: "exc \<Rightarrow> failure_kind" where
  "classify_exc (AlphaVantageRateLimitError _) = RATE_LIMIT"
| "classify_exc (ConnectionError _) = NETWORK_ERROR"
| "classify_exc (ConnectionAbortedError _) = NETWORK_ERROR"
| "classify_exc (ConnectionResetError _) = NETWORK_ERROR"
| "classify_exc (TimeoutError _) = NETWORK_ERROR"
| "classify_exc (OtherException msg) =
     (if list_ex (\<lambda>k. py_contains k (py_lower msg)) NETWORK_KEYWORDS then NETWORK_ERROR else FAILED)"

datatype event =
    Skipped pystr
  | Invoked pystr pystr "failure_kind option"
  | Rejected pystr
  | Accepted pystr
  | NoResults pystr

record 'v rstate =
  results :: "'v list"
  vendor_attempt_count :: nat
  successful_vendor :: "pystr option"
  invocations :: nat
  trace :: "event list"

definition init_rstate :: "'v rstate" where
  "init_rstate = \<lparr>results = [], vendor_attempt_count = 0, successful_vendor = None,
                  invocations = 0, trace = []\<rparr>"

section \<open>The loop\<close>

text \<open>The inner loop \<^verbatim>\<open>for impl_func, vendor_name in vendor_methods\<close>: the values
  collected in \<^verbatim>\<open>vendor_results\<close>, and the loop state.\<close>

fun run_impls :: "'v adapters \<Rightarrow> call \<Rightarrow> pystr \<Rightarrow> pystr list \<Rightarrow> 'v list \<times> 'v rstate \<Rightarrow>
                  'v list \<times> 'v rstate" where
  "run_impls ad cl vendor [] acc = acc"
| "run_impls ad cl vendor (f # fs) (vr, st) =
     (let st' = st\<lparr>invocations := Suc (invocations st)\<rparr> in
      case world ad (invocations st) f cl of
        Returned v \<Rightarrow>
          run_impls ad cl vendor fs (vr @ [v], st'\<lparr>trace := trace st @ [Invoked vendor f None]\<rparr>)
      | Raised e \<Rightarrow>
          run_impls ad cl vendor fs
            (vr, st'\<lparr>trace := trace st @ [Invoked vendor f (Some (classify_exc e))]\<rparr>))"

definition SINGLE_RESULT_METHODS :: "pystr list" where
  "SINGLE_RESULT_METHODS = [''get_indicators'', ''get_stock_data'']"

definition stop_after_first_success :: "pystr \<Rightarrow> pystr list \<Rightarrow> bool" where
  "stop_after_first_success method primary_vendors =
     (length primary_vendors = 1 \<or> method \<in> set SINGLE_RESULT_METHODS)"

text \<open>One iteration of \<^verbatim>\<open>for vendor in fallback_vendors\<close>; the boolean is the
  \<^verbatim>\<open>break\<close>.\<close>

definition vendor_step ::
  "'v adapters \<Rightarrow> call \<Rightarrow> pystr \<Rightarrow> pystr list \<Rightarrow> (pystr \<times> vendor_impl) list \<Rightarrow>
   pystr \<Rightarrow> 'v rstate \<Rightarrow> 'v rstate \<times> bool" where
  "vendor_step ad cl method primary_vendors impls vendor st =
     (case map_of impls vendor of
        None \<Rightarrow> (st\<lparr>trace := trace st @ [Skipped vendor]\<rparr>, False)
      | Some vendor_impl \<Rightarrow>
          (let st1 = st\<lparr>vendor_attempt_count := Suc (vendor_attempt_count st)\<rparr>;
               (vendor_results, st2) = run_impls ad cl vendor (impl_list vendor_impl) ([], st1) in
           if vendor_results \<noteq> [] then
             (if method = ''get_indicators'' \<and> length vendor_results = 1 \<and>
                 is_indicator_result_invalid (float_ok ad) (str_of ad (hd vendor_results))
              then (st2\<lparr>trace := trace st2 @ [Rejected vendor]\<rparr>, False)
              else (st2\<lparr>results := results st2 @ vendor_results,
                        successful_vendor := Some vendor,
                        trace := trace st2 @ [Accepted vendor]\<rparr>,
                    stop_after_first_success method primary_vendors))
           else (st2\<lparr>trace := trace st2 @ [NoResults vendor]\<rparr>, False)))"

fun exec_vendors ::
  "'v adapters \<Rightarrow> call \<Rightarrow> pystr \<Rightarrow> pystr list \<Rightarrow> (pystr \<times> vendor_impl) list \<Rightarrow>
   pystr list \<Rightarrow> 'v rstate \<Rightarrow> 'v rstate \<times> bool" where
  "exec_vendors ad cl method primary_vendors impls [] st = (st, False)"
| "exec_vendors ad cl method primary_vendors impls (vendor # vs) st =
     (case vendor_step ad cl method primary_vendors impls vendor st of
        (st', True) \<Rightarrow> (st', True)
      | (st', False) \<Rightarrow> exec_vendors ad cl method primary_vendors impls vs st')"

section \<open>Building the fallback list and aggregating\<close>

text \<open>\<^verbatim>\<open>for vendor in all_available_vendors: if vendor not in fallback_vendors:
  fallback_vendors.append(vendor)\<close>.\<close>

fun add_missing :: "pystr list \<Rightarrow> pystr list \<Rightarrow> pystr list" where
  "add_missing fallback [] = fallback"
| "add_missing fallback (v # vs) =
     add_missing (if v \<in> set fallback then fallback else fallback @ [v]) vs"

text \<open>Symbol extraction: \<^verbatim>\<open>args[0]\<close>, else \<^verbatim>\<open>kwargs['symbol']\<close>, else
  \<^verbatim>\<open>kwargs['ticker']\<close>.\<close>

definition extract_symbol :: "call \<Rightarrow> pystr option" where
  "extract_symbol cl =
     (if args cl \<noteq> [] then Some (hd (args cl))
      else if kwargs cl ''symbol'' \<noteq> None then kwargs cl ''symbol''
      else kwargs cl ''ticker'')"

definition market_scoped :: "config \<Rightarrow> pystr option \<Rightarrow> bool" where
  "market_scoped cfg symbol =
     (truthy symbol \<and>
      market_str (info_market (get_market_info (the symbol))) \<in> dom (market_vendors cfg))"

definition fallback_plan :: "config \<Rightarrow> pystr option \<Rightarrow> pystr list \<Rightarrow> (pystr \<times> vendor_impl) list \<Rightarrow>
                             pystr list" where
  "fallback_plan cfg symbol primary_vendors impls =
     (if market_scoped cfg symbol then primary_vendors
      else add_missing primary_vendors (map fst impls))"

datatype 'v route_result = Native 'v | Joined pystr

definition aggregate :: "'v adapters \<Rightarrow> pystr \<Rightarrow> 'v list \<Rightarrow> py_exc + 'v route_result" where
  "aggregate ad method rs =
     (if rs = [] then
        Inl (RuntimeError (''All vendor implementations failed for method '' @ CHR 0x27 # method @ [CHR 0x27]))
      else if length rs = 1 then Inr (Native (hd rs))
      else Inr (Joined (py_join [CHR 0x0A] (map (str_of ad) rs))))"

text \<open>\<^verbatim>\<open>route_to_vendor(method, *args, **kwargs)\<close> under configuration \<open>cfg\<close>,
  split in two: \<open>route_exec\<close> runs everything up to the end of the vendor loop
  (category lookup, symbol extraction, \<^verbatim>\<open>get_vendor\<close>, the fallback list, the loop)
  and returns the loop's final state; \<open>route_to_vendor\<close> adds the final
  aggregation.\<close>

definition route_primary :: "config \<Rightarrow> pystr \<Rightarrow> pystr \<Rightarrow> call \<Rightarrow> pystr list" where
  "route_primary cfg category method cl =
     split_vendors (get_vendor cfg category (Some method) (extract_symbol cl))"

definition route_exec :: "config \<Rightarrow> 'v adapters \<Rightarrow> pystr \<Rightarrow> call \<Rightarrow> py_exc + 'v rstate" where
  "route_exec cfg ad method cl =
     (case get_category_for_method method of
        Inl e \<Rightarrow> Inl e
      | Inr category \<Rightarrow>
          (let symbol = extract_symbol cl;
               primary_vendors = route_primary cfg category method cl in
           case vendor_methods_of method of
             None \<Rightarrow> Inl (ValueError (''Method '' @ CHR 0x27 # method @ CHR 0x27 # '' not supported''))
           | Some impls \<Rightarrow>
               Inr (fst (exec_vendors ad cl method primary_vendors impls
                          (fallback_plan cfg symbol primary_vendors impls) init_rstate))))"

definition route_to_vendor :: "config \<Rightarrow> 'v adapters \<Rightarrow> pystr \<Rightarrow> call \<Rightarrow> py_exc + 'v route_result" where
  "route_to_vendor cfg ad method cl =
     (case route_exec cfg ad method cl of
        Inl e \<Rightarrow> Inl e
      | Inr st \<Rightarrow> aggregate ad method (results st))"

section \<open>Reference functions for the lemmas\<close>

text \<open>The values the adapters \<open>fs\<close> return when invoked from invocation number
  \<open>n\<close> on, and the events the inner loop records for them.\<close>

fun returned :: "'v world \<Rightarrow> call \<Rightarrow> nat \<Rightarrow> pystr list \<Rightarrow> 'v list" where
  "returned w cl n [] = []"
| "returned w cl n (f # fs) =
     (case w n f cl of Returned v \<Rightarrow> v # returned w cl (Suc n) fs | Raised _ \<Rightarrow> returned w cl (Suc n) fs)"

fun invoke_events :: "'v world \<Rightarrow> call \<Rightarrow> pystr \<Rightarrow> nat \<Rightarrow> pystr list \<Rightarrow> event list" where
  "invoke_events w cl vendor n [] = []"
| "invoke_events w cl vendor n (f # fs) =
     Invoked vendor f (case w n f cl of Returned _ \<Rightarrow> None | Raised e \<Rightarrow> Some (classify_exc e))
     # invoke_events w cl vendor (Suc n) fs"

fun is_invoked :: "event \<Rightarrow> bool" where
  "is_invoked (Invoked _ _ _) = True"
| "is_invoked _ = False"

text \<open>The adapters of the registered vendors of a fallback list, in order.\<close>

definition plan_impls :: "(pystr \<times> vendor_impl) list \<Rightarrow> pystr list \<Rightarrow> pystr list" where
  "plan_impls impls plan =
     concat (map (\<lambda>v. case map_of impls v of None \<Rightarrow> [] | Some vi \<Rightarrow> impl_list vi) plan)"

text \<open>The loop invariant: a successful vendor is recorded exactly when there are
  results, it is one of the vendors \<open>V\<close> of the loop, every adapter invocation is an
  \<open>Invoked\<close> event, and every invoked adapter is a catalog adapter of a vendor of
  \<open>V\<close>.\<close>

fun event_ok :: "pystr set \<Rightarrow> (pystr \<times> vendor_impl) list \<Rightarrow> event \<Rightarrow> bool" where
  "event_ok V impls (Invoked v f k) =
     (v \<in> V \<and> (case map_of impls v of None \<Rightarrow> False | Some vi \<Rightarrow> f \<in> set (impl_list vi)))"
| "event_ok V impls _ = True"

definition rstate_inv :: "pystr set \<Rightarrow> (pystr \<times> vendor_impl) list \<Rightarrow> 'v rstate \<Rightarrow> bool" where
  "rstate_inv V impls st =
     ((results st = []) = (successful_vendor st = None) \<and>
      set_option (successful_vendor st) \<subseteq> V \<and>
      invocations st = length (filter is_invoked (trace st)) \<and>
      vendor_attempt_count st \<le> length (trace st) \<and>
      list_all (event_ok V impls) (trace st))"

text \<open>Reading the trace back: each \<open>Invoked\<close> event is the next adapter invocation,
  whose value (if it returned) is pending until the vendor's attempt ends; an
  \<open>Accepted\<close> attempt adds the pending values to the results, any other outcome drops
  them. \<open>trace_values\<close> gives the invocation count, the accepted values and the values
  still pending.\<close>

fun trace_step :: "'v world \<Rightarrow> call \<Rightarrow> nat \<times> 'v list \<times> 'v list \<Rightarrow> event \<Rightarrow> nat \<times> 'v list \<times> 'v list" where
  "trace_step w cl (n, acc, pend) (Invoked v f k) =
     (Suc n, acc, pend @ (case w n f cl of Returned x \<Rightarrow> [x] | Raised _ \<Rightarrow> []))"
| "trace_step w cl (n, acc, pend) (Accepted v) = (n, acc @ pend, [])"
| "trace_step w cl (n, acc, pend) (Rejected v) = (n, acc, [])"
| "trace_step w cl (n, acc, pend) (NoResults v) = (n, acc, [])"
| "trace_step w cl (n, acc, pend) (Skipped v) = (n, acc, [])"

definition trace_values :: "'v world \<Rightarrow> call \<Rightarrow> event list \<Rightarrow> nat \<times> 'v list \<times> 'v list" where
  "trace_values w cl tr = foldl (trace_step w cl) (0, [], []) tr"

text \<open>The events that end the attempt of a registered vendor.\<close>

fun is_outcome :: "event \<Rightarrow> bool" where
  "is_outcome (Accepted _) = True"
| "is_outcome (Rejected _) = True"
| "is_outcome (NoResults _) = True"
| "is_outcome _ = False"

text \<open>The full loop invariant: \<open>rstate_inv\<close>, the results are exactly the values the
  adapters returned in the attempts that were accepted, in order, and
  \<^verbatim>\<open>vendor_attempt_count\<close> counts the attempts of registered vendors (one outcome
  event each; a skipped vendor is not an attempt).\<close>

definition route_inv :: "'v adapters \<Rightarrow> call \<Rightarrow> pystr set \<Rightarrow> (pystr \<times> vendor_impl) list \<Rightarrow> 'v rstate \<Rightarrow> bool" where
  "route_inv ad cl V impls st =
     (rstate_inv V impls st \<and>
      trace_values (world ad) cl (trace st) = (invocations st, results st, []) \<and>
      vendor_attempt_count st = length (filter is_outcome (trace st)))"

section \<open>Example worlds\<close>

text \<open>Concrete adapters and calls, used to run the router on the examples of the lemmas:
  every adapter call times out; the first adapter call fails with a connection reset and
  every later one returns a string naming the function; the call of a daily-price query
  for the Shanghai code \<^verbatim>\<open>600000\<close>; a state after one failed attempt.\<close>

definition adapters_raise :: "pystr adapters" where
  "adapters_raise = \<lparr>world = (\<lambda>n f cl. Raised (TimeoutError ''timed out'')), str_of = id,
                     float_ok = (\<lambda>_. False)\<rparr>"

definition adapters_flaky :: "pystr adapters" where
  "adapters_flaky = \<lparr>world = (\<lambda>n f cl. if n = 0 then Raised (ConnectionError ''connection reset'')
                                        else Returned (''data from '' @ f)),
                     str_of = id, float_ok = (\<lambda>_. False)\<rparr>"

definition call_600000 :: call where
  "call_600000 = \<lparr>args = [''600000'', ''2024-01-01'', ''2024-02-01''], kwargs = Map.empty\<rparr>"

definition st_one_attempt :: "pystr rstate" where
  "st_one_attempt = \<lparr>results = [], vendor_attempt_count = 1, successful_vendor = None,
                      invocations = 1, trace = []\<rparr>"

section \<open>Lemmas\<close>

subsection \<open>Closed forms of the loops\<close>


named_theorems route_simps "closed forms of the router's loops"

lemma run_impls_closed [route_simps]:
  "run_impls ad cl vendor fs (vr, st) =
     (vr @ returned (world ad) cl (invocations st) fs,
      st\<lparr>invocations := invocations st + length fs,
         trace := trace st @ invoke_events (world ad) cl vendor (invocations st) fs\<rparr>)"
proof (induction fs arbitrary: vr st)
  case Nil
  then show ?case by simp
next
  case (Cons f fs)
  then show ?case by (simp add: Let_def split: outcome.split)
qed

lemma length_invoke_events [simp]: "length (invoke_events w cl vendor n fs) = length fs"
  by (induction fs arbitrary: n) auto

lemma filter_invoke_events [simp]:
  "filter is_invoked (invoke_events w cl vendor n fs) = invoke_events w cl vendor n fs"
  by (induction fs arbitrary: n) auto

lemma returned_append:
  "returned w cl n (xs @ ys) = returned w cl n xs @ returned w cl (n + length xs) ys"
  by (induction xs arbitrary: n) (auto split: outcome.split)

lemma returned_all_raise:
  assumes "\<forall>n f. \<exists>e. w n f cl = Raised e"
  shows "returned w cl n fs = []"
proof (induction fs arbitrary: n)
  case Nil
  then show ?case by simp
next
  case (Cons f fs)
  from assms obtain e where "w n f cl = Raised e" by blast
  with Cons.IH show ?case by simp
qed

lemma vendor_step_closed [route_simps]:
  "vendor_step ad cl method primary_vendors impls vendor st =
     (case map_of impls vendor of
        None \<Rightarrow> (st\<lparr>trace := trace st @ [Skipped vendor]\<rparr>, False)
      | Some vi \<Rightarrow>
          (let n = invocations st; fs = impl_list vi;
               vr = returned (world ad) cl n fs;
               st2 = st\<lparr>vendor_attempt_count := Suc (vendor_attempt_count st),
                        invocations := n + length fs,
                        trace := trace st @ invoke_events (world ad) cl vendor n fs\<rparr> in
           if vr \<noteq> [] then
             (if method = ''get_indicators'' \<and> length vr = 1 \<and>
                 is_indicator_result_invalid (float_ok ad) (str_of ad (hd vr))
              then (st2\<lparr>trace := trace st2 @ [Rejected vendor]\<rparr>, False)
              else (st2\<lparr>results := results st @ vr, successful_vendor := Some vendor,
                        trace := trace st2 @ [Accepted vendor]\<rparr>,
                    stop_after_first_success method primary_vendors))
           else (st2\<lparr>trace := trace st2 @ [NoResults vendor]\<rparr>, False)))"
  by (simp add: vendor_step_def run_impls_closed Let_def split: option.split)

lemma exec_vendors_append:
  "exec_vendors ad cl method pv impls (xs @ ys) st =
     (case exec_vendors ad cl method pv impls xs st of
        (st', True) \<Rightarrow> (st', True)
      | (st', False) \<Rightarrow> exec_vendors ad cl method pv impls ys st')"
  by (induction xs arbitrary: st) (auto split: prod.split bool.split)

lemma vendor_step_results:
  "results (fst (vendor_step ad cl method pv impls vendor st)) = results st \<or>
   (results (fst (vendor_step ad cl method pv impls vendor st)) \<noteq> results st \<and>
    snd (vendor_step ad cl method pv impls vendor st) = stop_after_first_success method pv)"
  by (cases "map_of impls vendor") (auto simp: vendor_step_closed Let_def)

lemma vendor_step_break:
  "snd (vendor_step ad cl method pv impls vendor st) \<Longrightarrow>
   results (fst (vendor_step ad cl method pv impls vendor st)) \<noteq> results st"
  by (cases "map_of impls vendor") (auto simp: vendor_step_closed Let_def split: if_splits)

lemma rstate_inv_init: "rstate_inv V impls init_rstate"
  by (simp add: rstate_inv_def init_rstate_def)

lemma invoke_events_ok:
  "vendor \<in> V \<Longrightarrow> map_of impls vendor = Some vi \<Longrightarrow> set fs \<subseteq> set (impl_list vi) \<Longrightarrow>
   list_all (event_ok V impls) (invoke_events w cl vendor n fs)"
  by (induction fs arbitrary: n) auto

lemma vendor_step_inv:
  assumes "rstate_inv V impls st" and "vendor \<in> V"
  shows "rstate_inv V impls (fst (vendor_step ad cl method pv impls vendor st))"
proof (cases "map_of impls vendor")
  case None
  with assms show ?thesis by (simp add: vendor_step_closed rstate_inv_def)
next
  case (Some vi)
  have ev: "list_all (event_ok V impls)
             (invoke_events (world ad) cl vendor (invocations st) (impl_list vi))"
    using assms(2) Some by (rule invoke_events_ok) simp
  with assms Some show ?thesis
    by (auto simp: vendor_step_closed rstate_inv_def Let_def)
qed

lemma exec_vendors_inv:
  "rstate_inv V impls st \<Longrightarrow> set plan \<subseteq> V \<Longrightarrow>
   rstate_inv V impls (fst (exec_vendors ad cl method pv impls plan st))"
proof (induction plan arbitrary: st)
  case Nil
  then show ?case by simp
next
  case (Cons vendor vs)
  obtain st' b where sb: "vendor_step ad cl method pv impls vendor st = (st', b)" by fastforce
  from Cons.prems have "rstate_inv V impls st'"
    using vendor_step_inv [of V impls st vendor ad cl "method" pv] sb by simp
  with Cons.IH Cons.prems sb show ?case by (cases b) auto
qed

lemma trace_step_invoke_events:
  "foldl (trace_step w cl) (n, acc, pend) (invoke_events w cl vendor n fs) =
     (n + length fs, acc, pend @ returned w cl n fs)"
  by (induction fs arbitrary: n pend) (auto split: outcome.split)

lemma filter_outcome_invoke_events [simp]:
  "filter is_outcome (invoke_events w cl vendor n fs) = []"
  by (induction fs arbitrary: n) auto

lemma vendor_step_route_inv:
  assumes "route_inv ad cl V impls st" and "vendor \<in> V"
  shows "route_inv ad cl V impls (fst (vendor_step ad cl method pv impls vendor st))"
proof -
  have r: "rstate_inv V impls (fst (vendor_step ad cl method pv impls vendor st))"
    using assms vendor_step_inv by (auto simp: route_inv_def)
  have t: "foldl (trace_step (world ad) cl) (0, [], []) (trace st) = (invocations st, results st, [])"
    and a: "vendor_attempt_count st = length (filter is_outcome (trace st))"
    using assms(1) by (simp_all add: route_inv_def trace_values_def)
  show ?thesis
  proof (cases "map_of impls vendor")
    case None
    then show ?thesis using r t a by (simp add: route_inv_def trace_values_def vendor_step_closed)
  next
    case (Some vi)
    then show ?thesis using r t a
      by (auto simp: route_inv_def trace_values_def vendor_step_closed Let_def trace_step_invoke_events)
  qed
qed

lemma exec_vendors_route_inv:
  "route_inv ad cl V impls st \<Longrightarrow> set plan \<subseteq> V \<Longrightarrow>
   route_inv ad cl V impls (fst (exec_vendors ad cl method pv impls plan st))"
proof (induction plan arbitrary: st)
  case Nil
  then show ?case by simp
next
  case (Cons vendor vs)
  obtain st' b where sb: "vendor_step ad cl method pv impls vendor st = (st', b)" by fastforce
  from Cons.prems have "route_inv ad cl V impls st'"
    using vendor_step_route_inv [of ad cl V impls st vendor "method" pv] sb by simp
  with Cons.IH Cons.prems sb show ?case by (cases b) auto
qed

lemma route_inv_init: "route_inv ad cl V impls init_rstate"
  by (simp add: route_inv_def rstate_inv_init trace_values_def) (simp add: init_rstate_def)

lemma exec_vendors_all_raise:
  assumes "\<forall>n f. \<exists>e. world ad n f cl = Raised e"
  shows "results (fst (exec_vendors ad cl method pv impls plan st)) = results st"
proof (induction plan arbitrary: st)
  case Nil
  then show ?case by simp
next
  case (Cons vendor vs)
  obtain st' b where sb0: "vendor_step ad cl method pv impls vendor st = (st', b)"
    by fastforce
  from sb0 have "b = False \<and> results st' = results st"
    using returned_all_raise [of "world ad" cl, OF assms]
    by (cases "map_of impls vendor") (auto simp: vendor_step_closed Let_def split: if_splits)
  then have sb: "vendor_step ad cl method pv impls vendor st = (st', False)"
    and r: "results st' = results st"
    using sb0 by auto
  with Cons.IH [of st'] show ?case by simp
qed

lemma exec_vendors_aggregate:
  assumes "\<not> stop_after_first_success method pv" and "method \<noteq> ''get_indicators''"
  shows "snd (exec_vendors ad cl method pv impls plan st) = False \<and>
         results (fst (exec_vendors ad cl method pv impls plan st)) =
           results st @ returned (world ad) cl (invocations st) (plan_impls impls plan) \<and>
         invocations (fst (exec_vendors ad cl method pv impls plan st)) =
           invocations st + length (plan_impls impls plan)"
proof (induction plan arbitrary: st)
  case Nil
  then show ?case by (simp add: plan_impls_def)
next
  case (Cons vendor vs)
  let ?fs = "case map_of impls vendor of None \<Rightarrow> [] | Some vi \<Rightarrow> impl_list vi"
  obtain st' b where sb0: "vendor_step ad cl method pv impls vendor st = (st', b)"
    by fastforce
  from sb0 assms have "b = False \<and> results st' = results st @ returned (world ad) cl (invocations st) ?fs
      \<and> invocations st' = invocations st + length ?fs"
    by (cases "map_of impls vendor") (auto simp: vendor_step_closed Let_def split: if_splits)
  then have sb: "vendor_step ad cl method pv impls vendor st = (st', False)"
    and r: "results st' = results st @ returned (world ad) cl (invocations st) ?fs"
    and i: "invocations st' = invocations st + length ?fs"
    using sb0 by auto
  have pi: "plan_impls impls (vendor # vs) = ?fs @ plan_impls impls vs"
    by (simp add: plan_impls_def)
  show ?case
    using Cons.IH [of st'] sb r i
    by (simp add: pi returned_append add.assoc)
qed

subsection \<open>The route from the call to the loop\<close>


lemma route_exec_Inr:
  assumes "get_category_for_method m = Inr c" and "vendor_methods_of m = Some impls"
  shows "route_exec cfg ad m cl =
           Inr (fst (exec_vendors ad cl m (route_primary cfg c m cl) impls
                 (fallback_plan cfg (extract_symbol cl) (route_primary cfg c m cl) impls) init_rstate))"
  using assms by (simp add: route_exec_def Let_def)

lemma route_exec_cases:
  "route_exec cfg ad m cl = Inr st \<Longrightarrow>
   \<exists>c impls. get_category_for_method m = Inr c \<and> vendor_methods_of m = Some impls \<and>
     st = fst (exec_vendors ad cl m (route_primary cfg c m cl) impls
                 (fallback_plan cfg (extract_symbol cl) (route_primary cfg c m cl) impls) init_rstate)"
  by (auto simp: route_exec_def Let_def split: sum.splits option.splits)

lemma route_exec_Inl:
  "route_exec cfg ad m cl = Inl e \<Longrightarrow> get_category_for_method m = Inl e"
  using get_category_Inr_registered
  by (fastforce simp: route_exec_def Let_def split: sum.splits option.splits)

lemma aggregate_Inl:
  "aggregate ad m rs = Inl e \<longleftrightarrow>
     rs = [] \<and> e = RuntimeError (''All vendor implementations failed for method '' @ CHR 0x27 # m @ [CHR 0x27])"
  by (auto simp: aggregate_def)

lemma exec_attempts_le:
  "vendor_attempt_count (fst (exec_vendors ad cl m pv impls plan st)) \<le>
     vendor_attempt_count st + length (filter (\<lambda>v. map_of impls v \<noteq> None) plan)"
proof (induction plan arbitrary: st)
  case Nil
  then show ?case by simp
next
  case (Cons vendor vs)
  obtain st' b where sb: "vendor_step ad cl m pv impls vendor st = (st', b)" by fastforce
  then have a: "vendor_attempt_count st' =
      vendor_attempt_count st + (if map_of impls vendor = None then 0 else 1)"
    by (cases "map_of impls vendor") (auto simp: vendor_step_closed Let_def split: if_splits)
  show ?case
  proof (cases b)
    case True
    with sb a show ?thesis by auto
  next
    case False
    with sb a Cons.IH [of st'] show ?thesis by auto
  qed
qed

lemma length_returned_le: "length (returned w cl n fs) \<le> length fs"
  by (induction fs arbitrary: n) (auto split: outcome.split intro: le_SucI)

lemma vendor_step_single_growth:
  assumes "vendor_step ad cl m pv impls vendor st = (st', b)"
    and "\<forall>v vi. map_of impls v = Some vi \<longrightarrow> length (impl_list vi) = 1"
  shows "(b = False \<and> results st' = results st) \<or>
         (b = stop_after_first_success m pv \<and> length (results st') \<le> Suc (length (results st)))"
proof (cases "map_of impls vendor")
  case None
  with assms(1) show ?thesis by (auto simp: vendor_step_closed)
next
  case (Some vi)
  let ?vr = "returned (world ad) cl (invocations st) (impl_list vi)"
  have "length ?vr \<le> 1"
    using assms(2) Some length_returned_le [of "world ad" cl "invocations st" "impl_list vi"] by auto
  with assms(1) Some show ?thesis
    by (auto simp: vendor_step_closed Let_def split: if_splits)
qed

lemma exec_single_results:
  assumes "stop_after_first_success m pv"
    and "\<forall>v vi. map_of impls v = Some vi \<longrightarrow> length (impl_list vi) = 1"
  shows "length (results (fst (exec_vendors ad cl m pv impls plan st))) \<le> Suc (length (results st))"
proof (induction plan arbitrary: st)
  case Nil
  then show ?case by simp
next
  case (Cons vendor vs)
  obtain st' b where sb: "vendor_step ad cl m pv impls vendor st = (st', b)" by fastforce
  from vendor_step_single_growth [OF sb assms(2)] assms(1)
  have "(b = False \<and> results st' = results st) \<or>
      (b = True \<and> length (results st') \<le> Suc (length (results st)))" by auto
  then show ?case
  proof
    assume "b = False \<and> results st' = results st"
    with sb Cons.IH [of st'] show ?thesis by auto
  qed (use sb in auto)
qed

subsection \<open>Properties of the router\<close>


lemma init_rstate_fields [simp]:
  "results init_rstate = []" "vendor_attempt_count init_rstate = 0"
  "successful_vendor init_rstate = None" "invocations init_rstate = 0" "trace init_rstate = []"
  by (simp_all add: init_rstate_def)

lemma add_missing_eq:
  "distinct vs \<Longrightarrow> add_missing xs vs = xs @ filter (\<lambda>v. v \<notin> set xs) vs"
proof (induction vs arbitrary: xs)
  case Nil
  then show ?case by simp
next
  case (Cons v vs)
  then show ?case
    by (cases "v \<in> set xs") (auto intro: filter_cong)
qed

lemma single_methods_single:
  "m \<in> set SINGLE_RESULT_METHODS \<Longrightarrow> vendor_methods_of m = Some impls \<Longrightarrow>
   \<forall>v vi. map_of impls v = Some vi \<longrightarrow> length (impl_list vi) = 1"
  by (auto simp: SINGLE_RESULT_METHODS_def vendor_methods_of_def VENDOR_METHODS_def split: if_splits)

lemma single_methods_stop: "m \<in> set SINGLE_RESULT_METHODS \<Longrightarrow> stop_after_first_success m pv"
  by (simp add: stop_after_first_success_def)

lemma single_methods_category:
  "m \<in> set SINGLE_RESULT_METHODS \<Longrightarrow> \<exists>c. get_category_for_method m = Inr c"
  by (auto simp: SINGLE_RESULT_METHODS_def get_category_for_method_def TOOLS_CATEGORIES_def)

lemma exec_unregistered:
  "\<forall>v\<in>set plan. map_of impls v = None \<Longrightarrow>
   results (fst (exec_vendors ad cl m pv impls plan st)) = results st"
  by (induction plan arbitrary: st) (auto simp: vendor_step_closed)

text \<open>C1: an error result of the router is either the
  \<^verbatim>\<open>ValueError\<close> of \<^verbatim>\<open>get_category_for_method\<close> for a method of no category, or
  the terminal \<^verbatim>\<open>RuntimeError\<close> naming the method; no adapter exception escapes.\<close>

theorem route_only_terminal_error:
  assumes "route_to_vendor cfg ad m cl = Inl e"
  shows "get_category_for_method m = Inl e \<or>
         e = RuntimeError (''All vendor implementations failed for method '' @ CHR 0x27 # m @ [CHR 0x27])"
proof (cases "route_exec cfg ad m cl")
  case (Inl e')
  with assms have "e' = e" by (simp add: route_to_vendor_def)
  with Inl show ?thesis by (simp add: route_exec_Inl)
next
  case (Inr st)
  with assms have "aggregate ad m (results st) = Inl e" by (simp add: route_to_vendor_def)
  then show ?thesis by (simp only: aggregate_Inl) simp
qed

theorem route_only_terminal_error_witness: "route_to_vendor DEFAULT_CONFIG adapters_raise ''get_quote'' call_600000
     = Inl (ValueError (''Method '' @ CHR 0x27 # ''get_quote'' @ CHR 0x27 # '' not found in any category''))
   \<and> (get_category_for_method ''get_quote''
        = Inl (ValueError (''Method '' @ CHR 0x27 # ''get_quote'' @ CHR 0x27 # '' not found in any category''))
      \<or> ValueError (''Method '' @ CHR 0x27 # ''get_quote'' @ CHR 0x27 # '' not found in any category'')
        = RuntimeError (''All vendor implementations failed for method '' @ CHR 0x27 # ''get_quote'' @ [CHR 0x27]))"
proof -
  have h: "route_to_vendor DEFAULT_CONFIG adapters_raise ''get_quote'' call_600000
     = Inl (ValueError (''Method '' @ CHR 0x27 # ''get_quote'' @ CHR 0x27 # '' not found in any category''))"
    by code_simp
  show ?thesis using h route_only_terminal_error [OF h] by blast
qed

text \<open>C2: when the method is categorised and every adapter call raises, the
  router raises the terminal \<^verbatim>\<open>RuntimeError\<close> naming the method.\<close>

theorem route_all_raise:
  assumes "get_category_for_method m = Inr c" and "\<forall>n f. \<exists>e. world ad n f cl = Raised e"
  shows "route_to_vendor cfg ad m cl =
           Inl (RuntimeError (''All vendor implementations failed for method '' @ CHR 0x27 # m @ [CHR 0x27]))"
proof -
  obtain impls where i: "vendor_methods_of m = Some impls"
    using get_category_Inr_registered [OF assms(1)] by blast
  show ?thesis
    using exec_vendors_all_raise [OF assms(2)]
    by (simp add: route_to_vendor_def route_exec_Inr [OF assms(1) i] init_rstate_def aggregate_def)
qed

theorem route_all_raise_witness: "get_category_for_method ''get_stock_data'' = Inr ''core_stock_apis''
   \<and> (\<forall>n f. \<exists>e. world adapters_raise n f call_600000 = Raised e)
   \<and> route_to_vendor DEFAULT_CONFIG adapters_raise ''get_stock_data'' call_600000 =
     Inl (RuntimeError (''All vendor implementations failed for method '' @ CHR 0x27 # ''get_stock_data'' @ [CHR 0x27]))"
proof -
  have h1: "get_category_for_method ''get_stock_data'' = Inr ''core_stock_apis''" by code_simp
  have h2: "\<forall>n f. \<exists>e. world adapters_raise n f call_600000 = Raised e"
    by (simp add: adapters_raise_def)
  show ?thesis using h1 h2 route_all_raise [OF h1 h2, of DEFAULT_CONFIG] by simp
qed

text \<open>C3: for a method that does not stop at the first success, the router
  returns the aggregation of exactly the values the adapters of the fallback plan returned, in
  plan order, each adapter invoked once.\<close>

theorem route_aggregates_adapter_values:
  assumes "get_category_for_method m = Inr c" and "vendor_methods_of m = Some impls"
    and "\<not> stop_after_first_success m (route_primary cfg c m cl)"
  shows "route_to_vendor cfg ad m cl =
           aggregate ad m (returned (world ad) cl 0
             (plan_impls impls (fallback_plan cfg (extract_symbol cl) (route_primary cfg c m cl) impls)))"
proof -
  from assms(3) have "m \<noteq> ''get_indicators''"
    by (auto simp: stop_after_first_success_def SINGLE_RESULT_METHODS_def)
  then have "results (fst (exec_vendors ad cl m (route_primary cfg c m cl) impls
               (fallback_plan cfg (extract_symbol cl) (route_primary cfg c m cl) impls) init_rstate)) =
             returned (world ad) cl 0
               (plan_impls impls (fallback_plan cfg (extract_symbol cl) (route_primary cfg c m cl) impls))"
    using exec_vendors_aggregate [OF assms(3), where ad = ad and cl = cl and impls = impls
        and plan = "fallback_plan cfg (extract_symbol cl) (route_primary cfg c m cl) impls"
        and st = init_rstate]
    by (simp add: init_rstate_def)
  then show ?thesis
    by (simp add: route_to_vendor_def route_exec_Inr [OF assms(1,2)])
qed

theorem route_aggregates_adapter_values_witness: "get_category_for_method ''get_news'' = Inr ''news_data''
   \<and> vendor_methods_of ''get_news'' = Some (the (vendor_methods_of ''get_news''))
   \<and> \<not> stop_after_first_success ''get_news'' (route_primary DEFAULT_CONFIG ''news_data'' ''get_news'' call_600000)
   \<and> route_to_vendor DEFAULT_CONFIG adapters_flaky ''get_news'' call_600000 =
       aggregate adapters_flaky ''get_news'' (returned (world adapters_flaky) call_600000 0
         (plan_impls (the (vendor_methods_of ''get_news''))
            (fallback_plan DEFAULT_CONFIG (extract_symbol call_600000)
               (route_primary DEFAULT_CONFIG ''news_data'' ''get_news'' call_600000)
               (the (vendor_methods_of ''get_news'')))))"
proof -
  have h1: "get_category_for_method ''get_news'' = Inr ''news_data''" by code_simp
  have h2: "vendor_methods_of ''get_news'' = Some (the (vendor_methods_of ''get_news''))" by code_simp
  have h3: "\<not> stop_after_first_success ''get_news'' (route_primary DEFAULT_CONFIG ''news_data'' ''get_news'' call_600000)"
    by code_simp
  show ?thesis using h1 h2 h3 route_aggregates_adapter_values [OF h1 h2 h3, of adapters_flaky] by simp
qed

text \<open>C4: for a stop-at-first-success call, the first vendor whose attempt adds
  a result ends the loop: no later vendor is tried.\<close>

theorem exec_stops_at_first_acceptance:
  assumes "stop_after_first_success m pv"
    and "vendor_step ad cl m pv impls b st = (st', brk)" and "results st' \<noteq> results st"
  shows "exec_vendors ad cl m pv impls (b # ys) st = (st', True)"
proof -
  from vendor_step_results [of ad cl m pv impls b st] assms have "brk = True" by auto
  with assms(2) show ?thesis by simp
qed

theorem exec_stops_at_first_acceptance_witness: "stop_after_first_success ''get_stock_data'' [''akshare'']
   \<and> vendor_step adapters_flaky call_600000 ''get_stock_data'' [''akshare''] (the (vendor_methods_of ''get_stock_data''))
       ''baostock'' st_one_attempt
     = (fst (vendor_step adapters_flaky call_600000 ''get_stock_data'' [''akshare''] (the (vendor_methods_of ''get_stock_data''))
              ''baostock'' st_one_attempt),
        snd (vendor_step adapters_flaky call_600000 ''get_stock_data'' [''akshare''] (the (vendor_methods_of ''get_stock_data''))
              ''baostock'' st_one_attempt))
   \<and> results (fst (vendor_step adapters_flaky call_600000 ''get_stock_data'' [''akshare'']
                     (the (vendor_methods_of ''get_stock_data'')) ''baostock'' st_one_attempt))
     \<noteq> results st_one_attempt
   \<and> exec_vendors adapters_flaky call_600000 ''get_stock_data'' [''akshare''] (the (vendor_methods_of ''get_stock_data''))
       [''baostock'', ''yfinance''] st_one_attempt
     = (fst (vendor_step adapters_flaky call_600000 ''get_stock_data'' [''akshare''] (the (vendor_methods_of ''get_stock_data''))
              ''baostock'' st_one_attempt), True)"
proof -
  have h1: "stop_after_first_success ''get_stock_data'' [''akshare'']" by code_simp
  have h2: "vendor_step adapters_flaky call_600000 ''get_stock_data'' [''akshare''] (the (vendor_methods_of ''get_stock_data''))
       ''baostock'' st_one_attempt
     = (fst (vendor_step adapters_flaky call_600000 ''get_stock_data'' [''akshare''] (the (vendor_methods_of ''get_stock_data''))
              ''baostock'' st_one_attempt),
        snd (vendor_step adapters_flaky call_600000 ''get_stock_data'' [''akshare''] (the (vendor_methods_of ''get_stock_data''))
              ''baostock'' st_one_attempt))"
    by simp
  have h3: "results (fst (vendor_step adapters_flaky call_600000 ''get_stock_data'' [''akshare'']
                     (the (vendor_methods_of ''get_stock_data'')) ''baostock'' st_one_attempt))
     \<noteq> results st_one_attempt"
    by code_simp
  show ?thesis using h1 h2 h3 exec_stops_at_first_acceptance [OF h1 h2 h3, of "[''yfinance'']"] by simp
qed

text \<open>A single-result method (\<^verbatim>\<open>get_stock_data\<close>,
  \<^verbatim>\<open>get_indicators\<close>) never returns a newline-joined string of several results.\<close>

theorem single_result_not_joined:
  assumes "m \<in> set SINGLE_RESULT_METHODS"
  shows "route_to_vendor cfg ad m cl \<noteq> Inr (Joined s)"
proof -
  obtain c where c: "get_category_for_method m = Inr c"
    using single_methods_category [OF assms] by blast
  obtain impls where i: "vendor_methods_of m = Some impls"
    using get_category_Inr_registered [OF c] by blast
  let ?pv = "route_primary cfg c m cl"
  let ?plan = "fallback_plan cfg (extract_symbol cl) ?pv impls"
  have "length (results (fst (exec_vendors ad cl m ?pv impls ?plan init_rstate))) \<le> 1"
    using exec_single_results [OF single_methods_stop [OF assms] single_methods_single [OF assms i],
        where ad = ad and cl = cl and plan = ?plan and st = init_rstate]
    by simp
  then show ?thesis
    by (auto simp: route_to_vendor_def route_exec_Inr [OF c i] aggregate_def le_Suc_eq)
qed

theorem single_result_not_joined_witness: "''get_indicators'' \<in> set SINGLE_RESULT_METHODS
   \<and> route_to_vendor DEFAULT_CONFIG adapters_flaky ''get_indicators'' call_600000 \<noteq> Inr (Joined ''x'')"
proof -
  have h: "''get_indicators'' \<in> set SINGLE_RESULT_METHODS" by (simp add: SINGLE_RESULT_METHODS_def)
  show ?thesis using h single_result_not_joined [OF h] by simp
qed

text \<open>C5: every run of the loop ends in a state satisfying the loop invariant
  \<open>route_inv\<close>: a successful vendor is recorded exactly when there are results and it is
  a vendor of the fallback plan; the invocation counter counts the adapter invocations of
  the trace; every invoked adapter is a catalog adapter of a plan vendor; the results are
  exactly the values returned by the adapters in the attempts that were accepted, in
  order; and \<^verbatim>\<open>vendor_attempt_count\<close> is the number of attempts of registered
  vendors, skipped vendors not counted.\<close>

theorem route_exec_invariant:
  assumes "get_category_for_method m = Inr c" and "route_exec cfg ad m cl = Inr st"
  shows "\<exists>impls. vendor_methods_of m = Some impls \<and>
           route_inv ad cl (set (fallback_plan cfg (extract_symbol cl) (route_primary cfg c m cl) impls)) impls st"
  using route_exec_cases [OF assms(2)] assms(1) exec_vendors_route_inv [OF route_inv_init order_refl]
  by auto

theorem route_exec_invariant_witness: "get_category_for_method ''get_stock_data'' = Inr ''core_stock_apis''
   \<and> route_exec DEFAULT_CONFIG adapters_flaky ''get_stock_data'' call_600000
       = Inr (projr (route_exec DEFAULT_CONFIG adapters_flaky ''get_stock_data'' call_600000))
   \<and> (\<exists>impls. vendor_methods_of ''get_stock_data'' = Some impls \<and>
        route_inv adapters_flaky call_600000 (set (fallback_plan DEFAULT_CONFIG (extract_symbol call_600000)
                          (route_primary DEFAULT_CONFIG ''core_stock_apis'' ''get_stock_data'' call_600000) impls))
          impls (projr (route_exec DEFAULT_CONFIG adapters_flaky ''get_stock_data'' call_600000)))"
proof -
  have h1: "get_category_for_method ''get_stock_data'' = Inr ''core_stock_apis''" by code_simp
  have h2: "route_exec DEFAULT_CONFIG adapters_flaky ''get_stock_data'' call_600000
       = Inr (projr (route_exec DEFAULT_CONFIG adapters_flaky ''get_stock_data'' call_600000))" by code_simp
  show ?thesis using h1 h2 route_exec_invariant [OF h1 h2] by simp
qed

text \<open>C8: under a market-scoped configuration, only the configured vendors of
  the market are invoked: there is no safety net.\<close>

theorem market_scoped_only_configured:
  assumes "market_scoped cfg (extract_symbol cl)" and "get_category_for_method m = Inr c"
    and "route_exec cfg ad m cl = Inr st" and "Invoked v f k \<in> set (trace st)"
  shows "v \<in> set (route_primary cfg c m cl)"
proof -
  from route_exec_cases [OF assms(3)] assms(2) obtain impls where
    st: "st = fst (exec_vendors ad cl m (route_primary cfg c m cl) impls (route_primary cfg c m cl) init_rstate)"
    using assms(1) by (auto simp: fallback_plan_def)
  then have "rstate_inv (set (route_primary cfg c m cl)) impls st"
    using exec_vendors_inv [OF rstate_inv_init order_refl] by simp
  with assms(4) show ?thesis
    by (auto simp: rstate_inv_def list_all_iff)
qed

theorem market_scoped_only_configured_witness: "market_scoped DEFAULT_CONFIG (extract_symbol call_600000)
   \<and> get_category_for_method ''get_stock_data'' = Inr ''core_stock_apis''
   \<and> route_exec DEFAULT_CONFIG adapters_flaky ''get_stock_data'' call_600000
       = Inr (projr (route_exec DEFAULT_CONFIG adapters_flaky ''get_stock_data'' call_600000))
   \<and> Invoked ''baostock'' ''get_baostock_stock_data'' None
       \<in> set (trace (projr (route_exec DEFAULT_CONFIG adapters_flaky ''get_stock_data'' call_600000)))
   \<and> ''baostock'' \<in> set (route_primary DEFAULT_CONFIG ''core_stock_apis'' ''get_stock_data'' call_600000)"
proof -
  have h1: "market_scoped DEFAULT_CONFIG (extract_symbol call_600000)" by code_simp
  have h2: "get_category_for_method ''get_stock_data'' = Inr ''core_stock_apis''" by code_simp
  have h3: "route_exec DEFAULT_CONFIG adapters_flaky ''get_stock_data'' call_600000
       = Inr (projr (route_exec DEFAULT_CONFIG adapters_flaky ''get_stock_data'' call_600000))" by code_simp
  have h4: "Invoked ''baostock'' ''get_baostock_stock_data'' None
       \<in> set (trace (projr (route_exec DEFAULT_CONFIG adapters_flaky ''get_stock_data'' call_600000)))"
    by code_simp
  show ?thesis using h1 h2 h3 h4 market_scoped_only_configured [OF h1 h2 h3 h4] by simp
qed

text \<open>Under a market-scoped configuration whose vendors implement none of
  the method, the router attempts nothing and raises the terminal \<^verbatim>\<open>RuntimeError\<close>.\<close>

theorem market_scoped_unregistered_fails:
  assumes "market_scoped cfg (extract_symbol cl)" and "get_category_for_method m = Inr c"
    and "vendor_methods_of m = Some impls"
    and "\<forall>v\<in>set (route_primary cfg c m cl). map_of impls v = None"
  shows "route_to_vendor cfg ad m cl =
           Inl (RuntimeError (''All vendor implementations failed for method '' @ CHR 0x27 # m @ [CHR 0x27]))
         \<and> (case route_exec cfg ad m cl of Inr st \<Rightarrow> vendor_attempt_count st = 0 | Inl _ \<Rightarrow> False)"
proof -
  let ?pv = "route_primary cfg c m cl"
  have plan: "fallback_plan cfg (extract_symbol cl) ?pv impls = ?pv"
    using assms(1) by (simp add: fallback_plan_def)
  have "filter (\<lambda>v. map_of impls v \<noteq> None) ?pv = []"
    using assms(4) by (simp add: filter_empty_conv)
  then have "vendor_attempt_count (fst (exec_vendors ad cl m ?pv impls ?pv init_rstate)) = 0"
    using exec_attempts_le [of ad cl m ?pv impls ?pv init_rstate] by simp
  moreover have "results (fst (exec_vendors ad cl m ?pv impls ?pv init_rstate)) = []"
    using exec_unregistered [OF assms(4), where ad = ad and cl = cl and m = m and pv = ?pv
        and st = init_rstate] by simp
  ultimately show ?thesis
    by (simp add: route_to_vendor_def route_exec_Inr [OF assms(2,3)] plan aggregate_def)
qed

theorem market_scoped_unregistered_fails_witness: "market_scoped (DEFAULT_CONFIG\<lparr>market_vendors := [''A_STOCK'' \<mapsto> [''primary'' \<mapsto> ''openai'']]\<rparr>)
      (extract_symbol call_600000)
   \<and> get_category_for_method ''get_stock_data'' = Inr ''core_stock_apis''
   \<and> vendor_methods_of ''get_stock_data'' = Some (the (vendor_methods_of ''get_stock_data''))
   \<and> route_primary (DEFAULT_CONFIG\<lparr>market_vendors := [''A_STOCK'' \<mapsto> [''primary'' \<mapsto> ''openai'']]\<rparr>)
         ''core_stock_apis'' ''get_stock_data'' call_600000 = [''openai'']
   \<and> map_of (the (vendor_methods_of ''get_stock_data'')) ''openai'' = None
   \<and> route_to_vendor (DEFAULT_CONFIG\<lparr>market_vendors := [''A_STOCK'' \<mapsto> [''primary'' \<mapsto> ''openai'']]\<rparr>)
         adapters_flaky ''get_stock_data'' call_600000 =
       Inl (RuntimeError (''All vendor implementations failed for method '' @ CHR 0x27 # ''get_stock_data'' @ [CHR 0x27]))"
proof -
  have h1: "market_scoped (DEFAULT_CONFIG\<lparr>market_vendors := [''A_STOCK'' \<mapsto> [''primary'' \<mapsto> ''openai'']]\<rparr>)
      (extract_symbol call_600000)" by code_simp
  have h2: "get_category_for_method ''get_stock_data'' = Inr ''core_stock_apis''" by code_simp
  have h3: "vendor_methods_of ''get_stock_data'' = Some (the (vendor_methods_of ''get_stock_data''))"
    by code_simp
  have h4: "\<forall>v\<in>set (route_primary (DEFAULT_CONFIG\<lparr>market_vendors := [''A_STOCK'' \<mapsto> [''primary'' \<mapsto> ''openai'']]\<rparr>)
                 ''core_stock_apis'' ''get_stock_data'' call_600000).
         map_of (the (vendor_methods_of ''get_stock_data'')) v = None" by code_simp
  have h5: "route_primary (DEFAULT_CONFIG\<lparr>market_vendors := [''A_STOCK'' \<mapsto> [''primary'' \<mapsto> ''openai'']]\<rparr>)
         ''core_stock_apis'' ''get_stock_data'' call_600000 = [''openai'']" by code_simp
  have h6: "map_of (the (vendor_methods_of ''get_stock_data'')) ''openai'' = None" by code_simp
  show ?thesis using h1 h2 h3 h5 h6 market_scoped_unregistered_fails [OF h1 h2 h3 h4, of adapters_flaky] by simp
qed

text \<open>C7: without a market-scoped configuration, the fallback plan is the
  configured primaries followed by every other vendor of the method, in catalog order.\<close>

theorem fallback_plan_safety_net:
  assumes "\<not> market_scoped cfg symbol" and "vendor_methods_of method = Some impls"
  shows "fallback_plan cfg symbol pv impls = pv @ filter (\<lambda>v. v \<notin> set pv) (map fst impls)"
  using assms vendor_keys_distinct [OF assms(2)]
  by (simp add: fallback_plan_def add_missing_eq)

theorem fallback_plan_safety_net_witness: "\<not> market_scoped DEFAULT_CONFIG None
   \<and> vendor_methods_of ''get_stock_data'' = Some (the (vendor_methods_of ''get_stock_data''))
   \<and> fallback_plan DEFAULT_CONFIG None [''akshare''] (the (vendor_methods_of ''get_stock_data'')) =
       [''akshare''] @ filter (\<lambda>v. v \<notin> set [''akshare''])
                        (map fst (the (vendor_methods_of ''get_stock_data'')))"
proof -
  have h1: "\<not> market_scoped DEFAULT_CONFIG None" by code_simp
  have h2: "vendor_methods_of ''get_stock_data'' = Some (the (vendor_methods_of ''get_stock_data''))"
    by code_simp
  show ?thesis using h1 h2 fallback_plan_safety_net [OF h1 h2, of "[''akshare'']"] by simp
qed

text \<open>An indicator result that the quality gate judges invalid is rejected:
  it is neither stored nor a success, and the loop goes on to the next vendor.\<close>

theorem indicator_invalid_rejected:
  assumes "map_of impls b = Some (Single f)"
    and "world ad (invocations st) f cl = Returned x"
    and "is_indicator_result_invalid (float_ok ad) (str_of ad x)"
  shows "vendor_step ad cl ''get_indicators'' pv impls b st =
           (st\<lparr>vendor_attempt_count := Suc (vendor_attempt_count st),
               invocations := Suc (invocations st),
               trace := trace st @ [Invoked b f None, Rejected b]\<rparr>, False)"
  using assms by (simp add: vendor_step_closed Let_def)

theorem indicator_invalid_rejected_witness: "map_of (the (vendor_methods_of ''get_indicators'')) ''akshare'' = Some (Single ''get_akshare_indicators'')
   \<and> world adapters_flaky (invocations st_one_attempt) ''get_akshare_indicators'' call_600000
       = Returned ''data from get_akshare_indicators''
   \<and> is_indicator_result_invalid (float_ok adapters_flaky) (str_of adapters_flaky ''data from get_akshare_indicators'')
   \<and> vendor_step adapters_flaky call_600000 ''get_indicators'' [''akshare''] (the (vendor_methods_of ''get_indicators''))
         ''akshare'' st_one_attempt =
       (st_one_attempt\<lparr>vendor_attempt_count := 2, invocations := 2,
           trace := [Invoked ''akshare'' ''get_akshare_indicators'' None, Rejected ''akshare'']\<rparr>, False)"
proof -
  have h1: "map_of (the (vendor_methods_of ''get_indicators'')) ''akshare'' = Some (Single ''get_akshare_indicators'')"
    by code_simp
  have h2: "world adapters_flaky (invocations st_one_attempt) ''get_akshare_indicators'' call_600000
       = Returned ''data from get_akshare_indicators''" by (simp add: adapters_flaky_def st_one_attempt_def)
  have h3: "is_indicator_result_invalid (float_ok adapters_flaky) (str_of adapters_flaky ''data from get_akshare_indicators'')"
    by code_simp
  show ?thesis using h1 h2 h3 indicator_invalid_rejected [OF h1 h2 h3, of "[''akshare'']"] by (simp add: st_one_attempt_def)
qed

end
