(* ===== verification/Adapters.thy ===== *)
theory Adapters
  imports Router
begin

text \<open>
  The error handling of the AKShare and BaoStock adapters, where they meet the router:
  \<^verbatim>\<open>akshare_common.py\<close>, \<^verbatim>\<open>baostock_common.py\<close>, the \<^verbatim>\<open>get_stock_data\<close>
  adapters of \<^verbatim>\<open>akshare_stock.py\<close> and \<^verbatim>\<open>baostock_stock.py\<close>, and the small
  dispatchers of \<^verbatim>\<open>akshare.py\<close> and \<^verbatim>\<open>baostock_stock.py\<close>.
  An adapter returns a \<open>pystr outcome\<close>: what the router's \<^verbatim>\<open>impl_func(*args)\<close>
  sees. The third-party libraries are oracles in a record (\<open>ak_lib\<close>, \<open>bs_lib\<close>).
  A data frame is the list of its rows, \<open>None\<close> standing for a \<^verbatim>\<open>None\<close> result.
  The CSV rendering of \<^verbatim>\<open>process_dataframe_for_output\<close> (pandas and the clock) is a
  field of the record. The BaoStock session is explicit state: the list of
  login/logout calls made, in order.
\<close>

section \<open>Exceptions\<close>

text \<open>\<^verbatim>\<open>str(e)\<close>: every exception of the model carries its message.\<close>

fun exc_str :: "exc \<Rightarrow> pystr" where
  "exc_str (AlphaVantageRateLimitError m) = m"
| "exc_str (ConnectionError m) = m"
| "exc_str (ConnectionAbortedError m) = m"
| "exc_str (ConnectionResetError m) = m"
| "exc_str (TimeoutError m) = m"
| "exc_str (OtherException m) = m"

text \<open>\<^verbatim>\<open>f" for {symbol}" if symbol else ""\<close>.\<close>

definition symbol_info :: "pystr option \<Rightarrow> pystr" where
  "symbol_info symbol = (case symbol of Some s \<Rightarrow> if s = [] then [] else '' for '' @ s | None \<Rightarrow> [])"

definition quoted :: "pystr \<Rightarrow> pystr" where
  "quoted s = CHR 0x27 # s @ [CHR 0x27]"

section \<open>AKShare common utilities\<close>

text \<open>The exceptions of \<^verbatim>\<open>check_akshare_availability\<close> and
  \<^verbatim>\<open>check_baostock_availability\<close> when the library is missing.\<close>

definition AK_NOT_INSTALLED :: exc where
  "AK_NOT_INSTALLED = OtherException ''AKShare is not installed. Please install with: pip install akshare''"

definition BS_NOT_INSTALLED :: exc where
  "BS_NOT_INSTALLED = OtherException ''BaoStock is not installed. Please install with: pip install baostock''"

definition AK_NETWORK_KEYWORDS :: "pystr list" where
  "AK_NETWORK_KEYWORDS = [''connection'', ''network'', ''timeout'', ''remote'', ''aborted'', ''disconnected'']"

text \<open>\<^verbatim>\<open>handle_akshare_exception(e, operation, symbol)\<close>: a network-related error is
  raised again as a plain \<^verbatim>\<open>Exception\<close>, any other becomes an error string.\<close>

definition handle_akshare_exception :: "exc \<Rightarrow> pystr \<Rightarrow> pystr option \<Rightarrow> pystr outcome" where
  "handle_akshare_exception e operation symbol =
     (if list_ex (\<lambda>k. py_contains k (py_lower (exc_str e))) AK_NETWORK_KEYWORDS then
        Raised (OtherException (''Network error '' @ operation @ symbol_info symbol @ '': '' @ exc_str e))
      else Returned (''Error '' @ operation @ symbol_info symbol @ '': '' @ exc_str e))"

definition format_date_for_akshare :: "pystr \<Rightarrow> market \<Rightarrow> pystr" where
  "format_date_for_akshare date_str market = py_replace ''-'' [] date_str"

text \<open>\<^verbatim>\<open>validate_date_format\<close> (both modules): \<open>Some\<close> of the exception it
  raises.\<close>

definition ak_validate_date_format :: "pystr \<Rightarrow> exc option" where
  "ak_validate_date_format date_str =
     (if strptime_ymd date_str = None
      then Some (OtherException (''Invalid date format: '' @ date_str @ ''. Expected YYYY-MM-DD format.''))
      else None)"

definition ak_validate_market_support :: "pystr \<Rightarrow> pystr \<Rightarrow> exc + market" where
  "ak_validate_market_support symbol operation =
     (let market = identify_market symbol in
      if \<not> is_market_supported symbol ''akshare''
      then Inl (OtherException (''Market '' @ market_str market @ '' is not supported by AKShare for '' @ operation))
      else Inr market)"

definition create_fallback_response :: "pystr \<Rightarrow> pystr option \<Rightarrow> pystr" where
  "create_fallback_response primary_error fallback_result =
     (case fallback_result of
        Some r \<Rightarrow> if r \<noteq> [] \<and> \<not> py_startswith r ''Error'' then r else primary_error
      | None \<Rightarrow> primary_error)"

section \<open>The AKShare stock adapter\<close>

type_synonym frame = "pystr list"

text \<open>The library calls \<^verbatim>\<open>get_stock_data\<close> makes: their arguments are the
  formatted symbol and the formatted dates; \<open>stock_us_daily\<close> stands for the call and the
  date filter that follows it, and \<open>ak_render\<close> for
  \<^verbatim>\<open>process_dataframe_for_output\<close> of the standardised frame.\<close>

record ak_lib =
  ak_available :: bool
  stock_zh_a_hist :: "pystr \<Rightarrow> pystr \<Rightarrow> pystr \<Rightarrow> frame option outcome"
  stock_hk_hist :: "pystr \<Rightarrow> pystr \<Rightarrow> pystr \<Rightarrow> frame option outcome"
  stock_us_daily :: "pystr \<Rightarrow> pystr \<Rightarrow> pystr \<Rightarrow> frame option outcome"
  ak_render :: "pystr \<Rightarrow> market \<Rightarrow> pystr \<Rightarrow> frame \<Rightarrow> pystr"

text \<open>\<^verbatim>\<open>if data is None or data.empty:\<close> the error message, raised for a US symbol
  (to trigger the router's fallback) and returned otherwise.\<close>

definition ak_stock_no_data :: "pystr \<Rightarrow> pystr \<Rightarrow> pystr \<Rightarrow> market \<Rightarrow> (market option \<times> exc) + pystr" where
  "ak_stock_no_data symbol start_date end_date market =
     (let error_msg = ''No data found for symbol '' @ quoted symbol @ '' between '' @ start_date @
                      '' and '' @ end_date in
      if market = US_STOCK then Inl (Some market, OtherException error_msg) else Inr error_msg)"

definition ak_stock_after_fetch :: "ak_lib \<Rightarrow> pystr \<Rightarrow> pystr \<Rightarrow> pystr \<Rightarrow> market \<Rightarrow> pystr \<Rightarrow>
                                     frame option \<Rightarrow> (market option \<times> exc) + pystr" where
  "ak_stock_after_fetch lib symbol start_date end_date market formatted_symbol data =
     (case data of
        Some rows \<Rightarrow>
          if rows \<noteq> [] then Inr (ak_render lib symbol market formatted_symbol rows)
          else ak_stock_no_data symbol start_date end_date market
      | None \<Rightarrow> ak_stock_no_data symbol start_date end_date market)"

text \<open>The body of the outer \<^verbatim>\<open>try\<close> of \<^verbatim>\<open>get_stock_data\<close>: \<open>Inr\<close> of the
  returned string, or \<open>Inl\<close> of the exception with the value of the local
  \<^verbatim>\<open>market\<close> if it is bound.\<close>

definition ak_stock_body :: "ak_lib \<Rightarrow> pystr \<Rightarrow> pystr \<Rightarrow> pystr \<Rightarrow> (market option \<times> exc) + pystr" where
  "ak_stock_body lib symbol start_date end_date =
     (if \<not> ak_available lib then
        Inl (None, AK_NOT_INSTALLED)
      else case ak_validate_date_format start_date of
        Some e \<Rightarrow> Inl (None, e)
      | None \<Rightarrow>
      (case ak_validate_date_format end_date of
        Some e \<Rightarrow> Inl (None, e)
      | None \<Rightarrow>
      (case ak_validate_market_support symbol ''stock data retrieval'' of
        Inl e \<Rightarrow> Inl (None, e)
      | Inr market \<Rightarrow>
          (let formatted_symbol = format_symbol_for_vendor symbol ''akshare'' (Some market);
               formatted_start = format_date_for_akshare start_date market;
               formatted_end = format_date_for_akshare end_date market in
           case market of
             A_STOCK \<Rightarrow>
               (case stock_zh_a_hist lib formatted_symbol formatted_start formatted_end of
                  Raised e \<Rightarrow> Inl (Some market, e)
                | Returned data \<Rightarrow>
                    ak_stock_after_fetch lib symbol start_date end_date market formatted_symbol data)
           | HK_STOCK \<Rightarrow>
               (case stock_hk_hist lib formatted_symbol formatted_start formatted_end of
                  Raised e \<Rightarrow> Inl (Some market, e)
                | Returned data \<Rightarrow>
                    ak_stock_after_fetch lib symbol start_date end_date market formatted_symbol data)
           | US_STOCK \<Rightarrow>
               (case stock_us_daily lib formatted_symbol start_date end_date of
                  Raised e \<Rightarrow>
                    Inl (Some market, OtherException (''AKShare US stock interface failed for '' @ symbol @
                                                      '': '' @ exc_str e))
                | Returned data \<Rightarrow>
                    ak_stock_after_fetch lib symbol start_date end_date market formatted_symbol data)
           | UNKNOWN \<Rightarrow> ak_stock_after_fetch lib symbol start_date end_date market formatted_symbol None))))"

text \<open>\<^verbatim>\<open>get_stock_data\<close> of \<^verbatim>\<open>akshare_stock.py\<close> (the router's
  \<^verbatim>\<open>get_akshare_stock_data\<close>): the outer \<^verbatim>\<open>except\<close> raises again for a US
  symbol and hands every other exception to \<^verbatim>\<open>handle_akshare_exception\<close>.\<close>

definition akshare_get_stock_data :: "ak_lib \<Rightarrow> pystr \<Rightarrow> pystr \<Rightarrow> pystr \<Rightarrow> pystr outcome" where
  "akshare_get_stock_data lib symbol start_date end_date =
     (case ak_stock_body lib symbol start_date end_date of
        Inr r \<Rightarrow> Returned r
      | Inl (market, e) \<Rightarrow>
          if market = Some US_STOCK then Raised e
          else handle_akshare_exception e ''retrieving stock data'' (Some symbol))"

section \<open>BaoStock common utilities\<close>

definition BS_FALLBACK_KEYWORDS :: "pystr list" where
  "BS_FALLBACK_KEYWORDS =
     [''baostock is not installed'', ''no module named'', ''connection'', ''network'', ''timeout'',
      ''remote'', ''aborted'', ''disconnected'']"

text \<open>\<^verbatim>\<open>handle_baostock_exception(e, operation, symbol)\<close>.\<close>

definition handle_baostock_exception :: "exc \<Rightarrow> pystr \<Rightarrow> pystr option \<Rightarrow> pystr outcome" where
  "handle_baostock_exception e operation symbol =
     (if list_ex (\<lambda>k. py_contains k (py_lower (exc_str e))) BS_FALLBACK_KEYWORDS then
        Raised (OtherException (''BaoStock error '' @ operation @ symbol_info symbol @ '': '' @ exc_str e))
      else Returned (''Error '' @ operation @ symbol_info symbol @ '': '' @ exc_str e))"

definition bs_validate_date_format :: "pystr \<Rightarrow> exc option" where
  "bs_validate_date_format date_str =
     (if strptime_ymd date_str = None
      then Some (OtherException (''Invalid date format: '' @ date_str @ ''. Expected format: YYYY-MM-DD''))
      else None)"

definition bs_validate_market_support :: "pystr \<Rightarrow> pystr \<Rightarrow> exc + market" where
  "bs_validate_market_support symbol operation =
     (let market = identify_market symbol in
      if \<not> is_market_supported symbol ''baostock''
      then Inl (OtherException (''Market '' @ market_str market @ '' is not supported by BaoStock for '' @
                                operation @ '' (A-shares only)''))
      else Inr market)"

section \<open>The BaoStock session and stock adapter\<close>

text \<open>The calls made on the \<^verbatim>\<open>bs\<close> module, in order.\<close>

datatype bs_call = Login | Query | Logout

text \<open>\<^verbatim>\<open>bs.login()\<close> returns \<open>(error_code, error_msg)\<close> or raises;
  \<^verbatim>\<open>query_history_k_data_plus\<close> returns \<open>(error_code, error_msg, rows)\<close> (the rows
  its \<^verbatim>\<open>while rs.next()\<close> loop collects) or raises; \<^verbatim>\<open>bs.logout()\<close> is taken not
  to raise.\<close>

record bs_lib =
  bs_available :: bool
  bs_login :: "(pystr \<times> pystr) outcome"
  query_history_k_data_plus :: "pystr \<Rightarrow> pystr \<Rightarrow> pystr \<Rightarrow> (pystr \<times> pystr \<times> frame) outcome"
  bs_render :: "pystr \<Rightarrow> market \<Rightarrow> pystr \<Rightarrow> frame \<Rightarrow> pystr"

text \<open>\<^verbatim>\<open>with BaoStockSession(): body\<close> with \<^verbatim>\<open>BAOSTOCK_AVAILABLE\<close> true:
  \<^verbatim>\<open>__enter__\<close> logs in and raises \<^verbatim>\<open>BaoStockDataError\<close> on a non-zero error
  code, without calling \<^verbatim>\<open>__exit__\<close>; once logged in, \<^verbatim>\<open>__exit__\<close> logs out
  whether the body returns or raises. The body's calls are the middle of the log.\<close>

definition bs_session :: "bs_lib \<Rightarrow> (exc + 'a) \<times> bs_call list \<Rightarrow> (exc + 'a) \<times> bs_call list" where
  "bs_session lib body =
     (case bs_login lib of
        Raised e \<Rightarrow> (Inl e, [Login])
      | Returned (code, msg) \<Rightarrow>
          if code \<noteq> ''0'' then (Inl (OtherException (''BaoStock login failed: '' @ msg)), [Login])
          else (fst body, Login # snd body @ [Logout]))"

text \<open>The body of the session in \<^verbatim>\<open>get_stock_data\<close>: the query, the error-code
  test and the empty-result test; \<open>Inr\<close> carries the string returned, or \<open>None\<close>
  when the body falls through to the rendering after the \<^verbatim>\<open>with\<close>.\<close>

definition bs_stock_query :: "bs_lib \<Rightarrow> pystr \<Rightarrow> pystr \<Rightarrow> pystr \<Rightarrow> pystr \<Rightarrow> market \<Rightarrow>
                               (exc + pystr) \<times> bs_call list" where
  "bs_stock_query lib symbol start_date end_date formatted_symbol market =
     (case query_history_k_data_plus lib formatted_symbol start_date end_date of
        Raised e \<Rightarrow> (Inl e, [Query])
      | Returned (code, msg, rows) \<Rightarrow>
          (if code \<noteq> ''0'' then Inr (''Error: BaoStock query failed: '' @ msg)
           else if rows = [] then
             Inr (''No data found for symbol '' @ quoted symbol @ '' between '' @ start_date @ '' and '' @ end_date)
           else Inr (bs_render lib symbol market formatted_symbol rows), [Query]))"

definition bs_stock_body :: "bs_lib \<Rightarrow> pystr \<Rightarrow> pystr \<Rightarrow> pystr \<Rightarrow> (exc + pystr) \<times> bs_call list" where
  "bs_stock_body lib symbol start_date end_date =
     (if \<not> bs_available lib then
        (Inl (BS_NOT_INSTALLED), [])
      else case bs_validate_date_format start_date of
        Some e \<Rightarrow> (Inl e, [])
      | None \<Rightarrow>
      (case bs_validate_date_format end_date of
        Some e \<Rightarrow> (Inl e, [])
      | None \<Rightarrow>
      (case bs_validate_market_support symbol ''stock data retrieval'' of
        Inl e \<Rightarrow> (Inl e, [])
      | Inr market \<Rightarrow>
          bs_session lib
            (bs_stock_query lib symbol start_date end_date
               (format_symbol_for_vendor symbol ''baostock'' (Some market)) market))))"

text \<open>\<^verbatim>\<open>get_stock_data\<close> of \<^verbatim>\<open>baostock_stock.py\<close> (the router's
  \<^verbatim>\<open>get_baostock_stock_data\<close>), with the calls it makes on \<^verbatim>\<open>bs\<close>.\<close>

definition baostock_get_stock_data :: "bs_lib \<Rightarrow> pystr \<Rightarrow> pystr \<Rightarrow> pystr \<Rightarrow> pystr outcome \<times> bs_call list" where
  "baostock_get_stock_data lib symbol start_date end_date =
     (case bs_stock_body lib symbol start_date end_date of
        (Inr r, calls) \<Rightarrow> (Returned r, calls)
      | (Inl e, calls) \<Rightarrow> (handle_baostock_exception e ''retrieving stock data'' (Some symbol), calls))"

definition baostock_get_realtime_data :: "pystr \<Rightarrow> pystr" where
  "baostock_get_realtime_data symbol =
     ''Note: BaoStock does not provide real-time data. Please use the latest trading day data from get_stock_data instead.''"

section \<open>Example libraries\<close>

text \<open>An AKShare library whose A-share history call fails with a rate-limit message for
  \<^verbatim>\<open>600000\<close> and with a connection error otherwise, and a BaoStock library whose
  login fails.\<close>

definition ak_lib_example :: ak_lib where
  "ak_lib_example =
     \<lparr>ak_available = True,
      stock_zh_a_hist = (\<lambda>sy st en. if sy = ''600000'' then Raised (OtherException ''Too many requests'')
                                   else Raised (ConnectionError ''Connection aborted.'')),
      stock_hk_hist = (\<lambda>sy st en. Returned None),
      stock_us_daily = (\<lambda>sy st en. Raised (ConnectionResetError ''reset by peer'')),
      ak_render = (\<lambda>sy m fs rows. ''# Stock data for '' @ sy)\<rparr>"

definition bs_lib_example :: bs_lib where
  "bs_lib_example =
     \<lparr>bs_available = True, bs_login = Returned (''10001001'', ''user not logged in''),
      query_history_k_data_plus = (\<lambda>sy st en. Returned (''0'', ''success'', [''2024-01-02,sh.600000,10.1''])),
      bs_render = (\<lambda>sy m fs rows. ''# Stock data for '' @ sy)\<rparr>"

section \<open>Lemmas\<close>

lemma lower_network_prefix: "py_lower (''Network error '' @ t) = ''network'' @ '' error '' @ py_lower t"
  by code_simp

lemma classify_network_prefix:
  "classify_exc (OtherException (''Network error '' @ t)) = NETWORK_ERROR"
proof -
  have "py_contains ''network'' (py_lower (''Network error '' @ t))"
    unfolding lower_network_prefix by (rule py_contains_prefix)
  then show ?thesis by (simp add: NETWORK_KEYWORDS_def)
qed

lemma handle_akshare_raised:
  assumes "handle_akshare_exception e op so = Raised e'"
  shows "classify_exc e' = NETWORK_ERROR"
proof -
  from assms have "e' = OtherException (''Network error '' @ (op @ symbol_info so @ '': '' @ exc_str e))"
    by (simp add: handle_akshare_exception_def split: if_splits)
  then show ?thesis by (simp only: classify_network_prefix)
qed

lemma ak_stock_body_us:
  "ak_stock_body lib s sd ed = Inl (Some US_STOCK, e) \<Longrightarrow> identify_market s = US_STOCK"
  by (auto simp: ak_stock_body_def ak_validate_market_support_def ak_stock_after_fetch_def
                 ak_stock_no_data_def Let_def
           split: if_splits option.splits sum.splits market.splits outcome.splits)

lemma list_ex_keywords_split:
  "list_ex (\<lambda>k. py_contains k t) BS_FALLBACK_KEYWORDS \<longleftrightarrow>
     list_ex (\<lambda>k. py_contains k t) NETWORK_KEYWORDS \<or>
     list_ex (\<lambda>k. py_contains k t) [''baostock is not installed'', ''no module named'', ''disconnected'']"
  by (auto simp: BS_FALLBACK_KEYWORDS_def NETWORK_KEYWORDS_def)

lemma classify_other_suffix:
  "list_ex (\<lambda>k. py_contains k (py_lower m)) NETWORK_KEYWORDS \<Longrightarrow>
   classify_exc (OtherException (p @ m)) = NETWORK_ERROR"
  by (auto simp: list_ex_iff intro: py_contains_append_left)

lemma ak_stock_a_share_raise:
  assumes "identify_market s = A_STOCK" and "ak_available lib"
    and "strptime_ymd sd \<noteq> None" and "strptime_ymd ed \<noteq> None"
    and "stock_zh_a_hist lib (format_symbol_for_vendor s ''akshare'' (Some A_STOCK))
           (format_date_for_akshare sd A_STOCK) (format_date_for_akshare ed A_STOCK) = Raised e"
  shows "akshare_get_stock_data lib s sd ed = handle_akshare_exception e ''retrieving stock data'' (Some s)"
proof -
  have "is_market_supported s ''akshare''"
    using assms(1) by (simp add: is_market_supported_def get_supported_markets_def)
  then have "ak_stock_body lib s sd ed = Inl (Some A_STOCK, e)"
    using assms by (simp add: ak_stock_body_def ak_validate_date_format_def ak_validate_market_support_def)
  then show ?thesis by (simp add: akshare_get_stock_data_def)
qed

text \<open>C23: the AKShare stock adapter raises only for a US symbol (where it raises on
  purpose, to trigger the router's fallback) or with an exception that the router's
  \<^verbatim>\<open>except\<close> clauses classify as a network error; every other failure comes back
  as a returned string.\<close>

theorem akshare_raises_only_network_or_us:
  assumes "akshare_get_stock_data lib s sd ed = Raised e"
  shows "identify_market s = US_STOCK \<or> classify_exc e = NETWORK_ERROR"
proof (cases "ak_stock_body lib s sd ed")
  case (Inl me)
  obtain m e0 where me: "me = (m, e0)" by fastforce
  show ?thesis
  proof (cases "m = Some US_STOCK")
    case True
    with Inl me show ?thesis using ak_stock_body_us by blast
  next
    case False
    with assms Inl me have "handle_akshare_exception e0 ''retrieving stock data'' (Some s) = Raised e"
      by (simp add: akshare_get_stock_data_def)
    then show ?thesis by (simp add: handle_akshare_raised)
  qed
next
  case (Inr r)
  with assms show ?thesis by (simp add: akshare_get_stock_data_def)
qed

theorem akshare_raises_only_network_or_us_witness: "akshare_get_stock_data ak_lib_example ''000001'' ''2024-01-02'' ''2024-01-31'' =
     Raised (OtherException ''Network error retrieving stock data for 000001: Connection aborted.'')
   \<and> classify_exc (OtherException ''Network error retrieving stock data for 000001: Connection aborted.'') = NETWORK_ERROR"
proof -
  have h: "akshare_get_stock_data ak_lib_example ''000001'' ''2024-01-02'' ''2024-01-31'' =
     Raised (OtherException ''Network error retrieving stock data for 000001: Connection aborted.'')"
    by code_simp
  have "identify_market ''000001'' \<noteq> US_STOCK" by code_simp
  then show ?thesis using h akshare_raises_only_network_or_us [OF h] by simp
qed

text \<open>An exception re-raised by \<^verbatim>\<open>handle_baostock_exception\<close> is classified
  by the router as a network error, unless its message matched only one of the keywords the
  router does not know (\<^verbatim>\<open>baostock is not installed\<close>, \<^verbatim>\<open>no module named\<close>,
  \<^verbatim>\<open>disconnected\<close>): the two keyword lists disagree.\<close>

theorem baostock_reraise_classification:
  assumes "handle_baostock_exception e op so = Raised e'"
  shows "classify_exc e' = NETWORK_ERROR \<or>
         list_ex (\<lambda>k. py_contains k (py_lower (exc_str e)))
           [''baostock is not installed'', ''no module named'', ''disconnected'']"
proof -
  from assms obtain p where e': "e' = OtherException (p @ exc_str e)"
    and kw: "list_ex (\<lambda>k. py_contains k (py_lower (exc_str e))) BS_FALLBACK_KEYWORDS"
    by (auto simp: handle_baostock_exception_def split: if_splits)
  from kw show ?thesis
    unfolding list_ex_keywords_split
  proof
    assume "list_ex (\<lambda>k. py_contains k (py_lower (exc_str e))) NETWORK_KEYWORDS"
    then show ?thesis using e' classify_other_suffix by blast
  qed simp
qed

theorem baostock_reraise_classification_witness: "handle_baostock_exception (OtherException ''Server disconnected'') ''retrieving stock data'' (Some ''600000'') =
     Raised (OtherException ''BaoStock error retrieving stock data for 600000: Server disconnected'')
   \<and> classify_exc (OtherException ''BaoStock error retrieving stock data for 600000: Server disconnected'') = FAILED
   \<and> list_ex (\<lambda>k. py_contains k (py_lower ''Server disconnected''))
       [''baostock is not installed'', ''no module named'', ''disconnected'']"
proof -
  have h: "handle_baostock_exception (OtherException ''Server disconnected'') ''retrieving stock data'' (Some ''600000'') =
     Raised (OtherException ''BaoStock error retrieving stock data for 600000: Server disconnected'')"
    by code_simp
  have f: "classify_exc (OtherException ''BaoStock error retrieving stock data for 600000: Server disconnected'') = FAILED"
    by code_simp
  show ?thesis using h f baostock_reraise_classification [OF h] by simp
qed

text \<open>C25: the BaoStock stock adapter leaves no session open: its calls on
  \<^verbatim>\<open>bs\<close> are none (a failure before the session), a failed login alone, or login,
  query and logout.\<close>

theorem baostock_session_balanced:
  "snd (baostock_get_stock_data lib s sd ed) = [] \<or>
   (snd (baostock_get_stock_data lib s sd ed) = [Login] \<and> (\<forall>m. bs_login lib \<noteq> Returned (''0'', m))) \<or>
   snd (baostock_get_stock_data lib s sd ed) = [Login, Query, Logout]"
  by (auto simp: baostock_get_stock_data_def bs_stock_body_def bs_session_def bs_stock_query_def
           split: sum.split prod.split option.split outcome.split if_splits)

theorem baostock_session_balanced_witness: "snd (baostock_get_stock_data bs_lib_example ''600000'' ''2024-01-02'' ''2024-01-31'') = [Login]"
proof -
  have s: "snd (baostock_get_stock_data bs_lib_example ''600000'' ''2024-01-02'' ''2024-01-31'') \<noteq> []
         \<and> snd (baostock_get_stock_data bs_lib_example ''600000'' ''2024-01-02'' ''2024-01-31'') \<noteq> [Login, Query, Logout]"
    by code_simp
  show ?thesis using s baostock_session_balanced [of bs_lib_example "''600000''" "''2024-01-02''" "''2024-01-31''"] by blast
qed

end
