(* ===== verification/Fundamentals.thy ===== *)
theory Fundamentals
  imports Adapters "HOL-Library.AList"
begin

text \<open>
  The financial-statement adapters: \<^verbatim>\<open>akshare_fundamentals.py\<close> and
  \<^verbatim>\<open>baostock_fundamentals.py\<close>. Each function is a \<^verbatim>\<open>try\<close> block whose
  exceptions go to the module's \<^verbatim>\<open>handle_*_exception\<close>, so its result is a
  \<open>pystr outcome\<close> as for the stock adapters of \<open>Adapters\<close>. The library calls are
  oracle fields of records extending \<open>ak_lib\<close> and \<open>bs_lib\<close>: each returns the
  frame it builds, and \<^verbatim>\<open>DataFrame.to_csv\<close> is an oracle too. The Chinese display
  name \<^verbatim>\<open>market_info['market_name']\<close> lies outside the Latin-1 strings of the
  model and is the parameter \<open>mn\<close>; \<^verbatim>\<open>datetime.now()\<close> gives the parameters
  \<open>now\<close> (its \<^verbatim>\<open>strftime\<close>) and \<open>now_year\<close>. The \<^verbatim>\<open>log_operation\<close> and
  \<^verbatim>\<open>print\<close> calls only write to standard output and are left out.
\<close>

section \<open>Shared pieces\<close>

text \<open>The baostock module joins its header lines with \<^verbatim>\<open>'\\n'\<close> written inside a
  normal string literal: a backslash followed by \<open>n\<close>, not a newline.\<close>

definition BSNL :: pystr where
  "BSNL = [CHR 0x5C, CHR ''n'']"

section \<open>akshare_fundamentals.py\<close>

text \<open>The statement calls of AKShare (\<open>None\<close> for a \<^verbatim>\<open>None\<close> result, a frame is
  its list of rows), \<^verbatim>\<open>stock_individual_info_em\<close> as its \<^verbatim>\<open>(item, value)\<close>
  rows, and \<^verbatim>\<open>to_csv\<close> of a frame and of the two-column info frame.\<close>

datatype ak_statement = BalanceSheetEM | ProfitSheetEM | CashFlowSheetEM

record ak_fin_lib = ak_lib +
  ak_statement_by_report :: "ak_statement \<Rightarrow> pystr \<Rightarrow> frame option outcome"
  stock_individual_info_em :: "pystr \<Rightarrow> (pystr \<times> pystr) list option outcome"
  ak_to_csv :: "frame \<Rightarrow> pystr"
  ak_info_to_csv :: "(pystr \<times> pystr) list \<Rightarrow> pystr"

text \<open>\<^verbatim>\<open>data.empty\<close> on a \<^verbatim>\<open>None\<close> result raises \<^verbatim>\<open>AttributeError\<close>.\<close>

definition NONE_EMPTY :: exc where
  "NONE_EMPTY = OtherException (quoted ''NoneType'' @ '' object has no attribute '' @ quoted ''empty'')"

definition NONE_ITERROWS :: exc where
  "NONE_ITERROWS = OtherException (quoted ''NoneType'' @ '' object has no attribute '' @ quoted ''iterrows'')"

definition ak_header :: "(market \<Rightarrow> pystr) \<Rightarrow> pystr \<Rightarrow> pystr \<Rightarrow> market \<Rightarrow> pystr \<Rightarrow> pystr list \<Rightarrow> pystr \<Rightarrow> pystr" where
  "ak_header mn title symbol market formatted_symbol extra now =
     py_join [CHR 0x0A] ([''# '' @ title @ '' for '' @ symbol @ '' ('' @ mn market @ '')'',
                  ''# Formatted symbol: '' @ formatted_symbol,
                  ''# Market: '' @ mn market @ '' ('' @ market_currency market @ '')''] @ extra @
                 [''# Data source: AKShare'', ''# Data retrieved on: '' @ now]) @ [CHR 0x0A, CHR 0x0A]"

text \<open>The body of the \<^verbatim>\<open>try\<close> of \<^verbatim>\<open>get_balance_sheet\<close>,
  \<^verbatim>\<open>get_income_statement\<close> and \<^verbatim>\<open>get_cashflow\<close>: they differ only in the call,
  the operation named in messages, the title and the noun of the no-data message.\<close>

definition ak_statement_body :: "ak_fin_lib \<Rightarrow> (market \<Rightarrow> pystr) \<Rightarrow> pystr \<Rightarrow> ak_statement \<Rightarrow> pystr \<Rightarrow> pystr \<Rightarrow> pystr \<Rightarrow>
                                   pystr \<Rightarrow> pystr \<Rightarrow> exc + pystr" where
  "ak_statement_body lib mn now st operation title noun symbol freq =
     (if \<not> ak_available lib then Inl (AK_NOT_INSTALLED)
      else case ak_validate_market_support symbol operation of
        Inl e \<Rightarrow> Inl e
      | Inr market \<Rightarrow>
          if market \<noteq> A_STOCK then Inr ''Financial data is mainly available for A-shares only''
          else
            (let formatted_symbol = format_symbol_for_vendor symbol ''akshare'' (Some market);
                 clean_symbol = py_replace ''sh'' [] (py_replace ''sz'' [] formatted_symbol) in
             case ak_statement_by_report lib st clean_symbol of
               Raised e \<Rightarrow> Inl e
             | Returned None \<Rightarrow> Inl NONE_EMPTY
             | Returned (Some rows) \<Rightarrow>
                 if rows = [] then Inr (''No '' @ noun @ '' data found for symbol '' @ quoted symbol)
                 else Inr (ak_header mn title symbol market formatted_symbol [''# Frequency: '' @ freq] now @
                           ak_to_csv lib rows)))"

definition ak_get_balance_sheet :: "ak_fin_lib \<Rightarrow> (market \<Rightarrow> pystr) \<Rightarrow> pystr \<Rightarrow> pystr \<Rightarrow> pystr \<Rightarrow> pystr outcome" where
  "ak_get_balance_sheet lib mn now symbol freq =
     (case ak_statement_body lib mn now BalanceSheetEM ''balance sheet retrieval'' ''Balance Sheet'' ''balance sheet''
             symbol freq of
        Inr r \<Rightarrow> Returned r
      | Inl e \<Rightarrow> handle_akshare_exception e ''retrieving balance sheet'' (Some symbol))"

definition ak_get_income_statement :: "ak_fin_lib \<Rightarrow> (market \<Rightarrow> pystr) \<Rightarrow> pystr \<Rightarrow> pystr \<Rightarrow> pystr \<Rightarrow> pystr outcome" where
  "ak_get_income_statement lib mn now symbol freq =
     (case ak_statement_body lib mn now ProfitSheetEM ''income statement retrieval'' ''Income Statement''
             ''income statement'' symbol freq of
        Inr r \<Rightarrow> Returned r
      | Inl e \<Rightarrow> handle_akshare_exception e ''retrieving income statement'' (Some symbol))"

definition ak_get_cashflow :: "ak_fin_lib \<Rightarrow> (market \<Rightarrow> pystr) \<Rightarrow> pystr \<Rightarrow> pystr \<Rightarrow> pystr \<Rightarrow> pystr outcome" where
  "ak_get_cashflow lib mn now symbol freq =
     (case ak_statement_body lib mn now CashFlowSheetEM ''cashflow retrieval'' ''Cash Flow Statement''
             ''cashflow'' symbol freq of
        Inr r \<Rightarrow> Returned r
      | Inl e \<Rightarrow> handle_akshare_exception e ''retrieving cashflow'' (Some symbol))"

text \<open>\<^verbatim>\<open>info_dict[row['item']] = row['value']\<close> over the rows: a later duplicate
  item overwrites the value in place.\<close>

definition info_dict :: "(pystr \<times> pystr) list \<Rightarrow> (pystr \<times> pystr) list" where
  "info_dict rows = fold (\<lambda>(k, v) d. AList.update k v d) rows []"

definition ak_fundamentals_body :: "ak_fin_lib \<Rightarrow> (market \<Rightarrow> pystr) \<Rightarrow> pystr \<Rightarrow> pystr \<Rightarrow> exc + pystr" where
  "ak_fundamentals_body lib mn now symbol =
     (if \<not> ak_available lib then Inl (AK_NOT_INSTALLED)
      else case ak_validate_market_support symbol ''fundamentals retrieval'' of
        Inl e \<Rightarrow> Inl e
      | Inr market \<Rightarrow>
          (let formatted_symbol = format_symbol_for_vendor symbol ''akshare'' (Some market);
               hdr = ak_header mn ''Fundamentals'' symbol market formatted_symbol [] now in
           if market = A_STOCK then
             (case stock_individual_info_em lib (py_replace ''sh'' [] (py_replace ''sz'' [] formatted_symbol)) of
                Raised e \<Rightarrow> Inl e
              | Returned None \<Rightarrow> Inl NONE_ITERROWS
              | Returned (Some rows) \<Rightarrow> Inr (hdr @ ak_info_to_csv lib (info_dict rows)))
           else if market = HK_STOCK then Inr ''Fundamentals for Hong Kong stocks not fully supported by AKShare''
           else Inr ''Fundamentals for US stocks not fully supported by AKShare''))"

definition ak_get_fundamentals :: "ak_fin_lib \<Rightarrow> (market \<Rightarrow> pystr) \<Rightarrow> pystr \<Rightarrow> pystr \<Rightarrow> pystr outcome" where
  "ak_get_fundamentals lib mn now symbol =
     (case ak_fundamentals_body lib mn now symbol of
        Inr r \<Rightarrow> Returned r
      | Inl e \<Rightarrow> handle_akshare_exception e ''retrieving fundamentals'' (Some symbol))"

section \<open>baostock_fundamentals.py\<close>

text \<open>The five quarterly queries of BaoStock. A query returns its
  \<^verbatim>\<open>(error_code, error_msg, fields, rows)\<close>, the rows being what the
  \<^verbatim>\<open>while (rs.error_code == '0') & rs.next()\<close> loop collects, or raises; \<open>bs_to_csv\<close>
  is \<^verbatim>\<open>pd.DataFrame(rows, columns=fields).to_csv(index=False)\<close>.\<close>

datatype fin_query = ProfitQ | OperationQ | GrowthQ | BalanceQ | CashFlowQ

type_synonym result_set = "pystr \<times> pystr \<times> pystr list \<times> pystr list list"

record bs_fin_lib = bs_lib +
  query_fin :: "fin_query \<Rightarrow> pystr \<Rightarrow> int \<Rightarrow> int \<Rightarrow> result_set outcome"
  bs_to_csv :: "pystr list \<Rightarrow> pystr list list \<Rightarrow> pystr"

text \<open>What precedes the \<^verbatim>\<open>with\<close> block in every function: the availability check,
  the market check, the formatted symbol and the defaults of \<^verbatim>\<open>year\<close> and
  \<^verbatim>\<open>quarter\<close>.\<close>

record bs_setup =
  su_market :: market
  su_formatted :: pystr
  su_year :: int
  su_quarter :: int

definition bs_fin_setup :: "bs_fin_lib \<Rightarrow> int \<Rightarrow> pystr \<Rightarrow> pystr \<Rightarrow> int option \<Rightarrow> int option \<Rightarrow> exc + bs_setup" where
  "bs_fin_setup lib now_year operation symbol year quarter =
     (if \<not> bs_available lib then Inl (BS_NOT_INSTALLED)
      else case bs_validate_market_support symbol operation of
        Inl e \<Rightarrow> Inl e
      | Inr market \<Rightarrow>
          Inr \<lparr>su_market = market, su_formatted = format_symbol_for_vendor symbol ''baostock'' (Some market),
               su_year = (case year of None \<Rightarrow> now_year | Some y \<Rightarrow> y),
               su_quarter = (case quarter of None \<Rightarrow> 4 | Some q \<Rightarrow> q)\<rparr>)"

definition year_quarter :: "bs_setup \<Rightarrow> pystr" where
  "year_quarter su = int_str (su_year su) @ ''Q'' @ int_str (su_quarter su)"

definition bs_header :: "(market \<Rightarrow> pystr) \<Rightarrow> pystr \<Rightarrow> pystr \<Rightarrow> bs_setup \<Rightarrow> pystr list \<Rightarrow> pystr \<Rightarrow> pystr" where
  "bs_header mn title symbol su extra now =
     py_join BSNL ([''# '' @ title @ '' for '' @ symbol @ '' ('' @ mn (su_market su) @ '') - '' @ year_quarter su,
                    ''# Formatted symbol: '' @ su_formatted su,
                    ''# Market: '' @ mn (su_market su) @ '' ('' @ market_currency (su_market su) @ '')''] @ extra @
                   [''# Data retrieved on: '' @ now]) @ BSNL @ BSNL"

text \<open>The session body of \<^verbatim>\<open>get_balance_sheet\<close>, \<^verbatim>\<open>get_income_statement\<close> and
  \<^verbatim>\<open>get_cashflow\<close>: \<open>Inl\<close> of the string returned inside the \<^verbatim>\<open>with\<close>, or
  \<open>Inr\<close> of the frame it falls through with.\<close>

definition bs_statement_query :: "bs_fin_lib \<Rightarrow> fin_query \<Rightarrow> pystr \<Rightarrow> pystr \<Rightarrow> bs_setup \<Rightarrow>
                                    (exc + (pystr + pystr list \<times> pystr list list)) \<times> bs_call list" where
  "bs_statement_query lib q noun symbol su =
     (case query_fin lib q (su_formatted su) (su_year su) (su_quarter su) of
        Raised e \<Rightarrow> (Inl e, [Query])
      | Returned (code, msg, cols, rows) \<Rightarrow>
          (if code \<noteq> ''0'' then Inr (Inl (''Error: BaoStock query failed: '' @ msg))
           else if rows = [] then
             Inr (Inl (''No '' @ noun @ '' data found for symbol '' @ quoted symbol @ '' for '' @ year_quarter su))
           else Inr (Inr (cols, rows)), [Query]))"

definition bs_statement_body :: "bs_fin_lib \<Rightarrow> (market \<Rightarrow> pystr) \<Rightarrow> pystr \<Rightarrow> int \<Rightarrow> fin_query \<Rightarrow> pystr \<Rightarrow> pystr \<Rightarrow>
                                   pystr \<Rightarrow> pystr \<Rightarrow> pystr \<Rightarrow> int option \<Rightarrow> int option \<Rightarrow> (exc + pystr) \<times> bs_call list" where
  "bs_statement_body lib mn now now_year q operation title noun source symbol year quarter =
     (case bs_fin_setup lib now_year operation symbol year quarter of
        Inl e \<Rightarrow> (Inl e, [])
      | Inr su \<Rightarrow>
          (case bs_session (bs_lib.truncate lib) (bs_statement_query lib q noun symbol su) of
             (Inl e, calls) \<Rightarrow> (Inl e, calls)
           | (Inr (Inl r), calls) \<Rightarrow> (Inr r, calls)
           | (Inr (Inr (cols, rows)), calls) \<Rightarrow>
               (Inr (bs_header mn title symbol su [''# Total records: '' @ nat_str (length rows),
                                                   ''# Data source: BaoStock ('' @ source @ '')''] now @
                     bs_to_csv lib cols rows), calls)))"

definition bs_handle :: "pystr \<Rightarrow> pystr \<Rightarrow> (exc + pystr) \<times> bs_call list \<Rightarrow> pystr outcome \<times> bs_call list" where
  "bs_handle operation symbol r =
     (case r of
        (Inr s, calls) \<Rightarrow> (Returned s, calls)
      | (Inl e, calls) \<Rightarrow> (handle_baostock_exception e operation (Some symbol), calls))"

definition bs_get_balance_sheet :: "bs_fin_lib \<Rightarrow> (market \<Rightarrow> pystr) \<Rightarrow> pystr \<Rightarrow> int \<Rightarrow> pystr \<Rightarrow> int option \<Rightarrow>
                                      int option \<Rightarrow> pystr outcome \<times> bs_call list" where
  "bs_get_balance_sheet lib mn now now_year symbol year quarter =
     bs_handle ''retrieving balance sheet'' symbol
       (bs_statement_body lib mn now now_year BalanceQ ''balance sheet retrieval'' ''Balance Sheet data''
          ''balance sheet'' ''Balance/Debt Analysis'' symbol year quarter)"

definition bs_get_income_statement :: "bs_fin_lib \<Rightarrow> (market \<Rightarrow> pystr) \<Rightarrow> pystr \<Rightarrow> int \<Rightarrow> pystr \<Rightarrow> int option \<Rightarrow>
                                         int option \<Rightarrow> pystr outcome \<times> bs_call list" where
  "bs_get_income_statement lib mn now now_year symbol year quarter =
     bs_handle ''retrieving income statement'' symbol
       (bs_statement_body lib mn now now_year ProfitQ ''income statement retrieval'' ''Income Statement data''
          ''income statement'' ''Profit Analysis'' symbol year quarter)"

definition bs_get_cashflow :: "bs_fin_lib \<Rightarrow> (market \<Rightarrow> pystr) \<Rightarrow> pystr \<Rightarrow> int \<Rightarrow> pystr \<Rightarrow> int option \<Rightarrow>
                                 int option \<Rightarrow> pystr outcome \<times> bs_call list" where
  "bs_get_cashflow lib mn now now_year symbol year quarter =
     bs_handle ''retrieving cashflow'' symbol
       (bs_statement_body lib mn now now_year CashFlowQ ''cashflow retrieval'' ''Cash Flow Statement data''
          ''cashflow'' ''Cash Flow Analysis'' symbol year quarter)"

text \<open>The loops of \<^verbatim>\<open>get_financial_data\<close> and \<^verbatim>\<open>get_fundamentals\<close>: each query
  in its own \<^verbatim>\<open>try\<close>, kept under its name when it succeeds with rows, skipped
  otherwise. The names are distinct, so \<^verbatim>\<open>results\<close> is the list of kept entries in
  query order.\<close>

fun collect_results :: "bs_fin_lib \<Rightarrow> bs_setup \<Rightarrow> (pystr \<times> fin_query) list \<Rightarrow>
                          (pystr \<times> pystr list \<times> pystr list list) list \<times> bs_call list" where
  "collect_results lib su [] = ([], [])"
| "collect_results lib su ((name, q) # qs) =
     (let (rest, calls) = collect_results lib su qs in
      case query_fin lib q (su_formatted su) (su_year su) (su_quarter su) of
        Returned (code, msg, cols, rows) \<Rightarrow>
          (if code = ''0'' \<and> rows \<noteq> [] then (name, cols, rows) # rest else rest, Query # calls)
      | Raised e \<Rightarrow> (rest, Query # calls))"

definition FINANCIAL_QUERIES :: "(pystr \<times> fin_query) list" where
  "FINANCIAL_QUERIES =
     [(''profit'', ProfitQ), (''operation'', OperationQ), (''growth'', GrowthQ), (''balance'', BalanceQ),
      (''cash_flow'', CashFlowQ)]"

definition FUNDAMENTAL_QUERIES :: "(pystr \<times> fin_query) list" where
  "FUNDAMENTAL_QUERIES = [(''operation'', OperationQ), (''growth'', GrowthQ)]"

definition combined_csv :: "bs_fin_lib \<Rightarrow> (pystr \<times> pystr list \<times> pystr list list) list \<Rightarrow> pystr" where
  "combined_csv lib res =
     concat (map (\<lambda>(name, cols, rows). BSNL @ ''## '' @ py_upper name @ '' DATA ##'' @ BSNL @
                                          bs_to_csv lib cols rows @ BSNL) res)"

definition bs_multi_body :: "bs_fin_lib \<Rightarrow> (market \<Rightarrow> pystr) \<Rightarrow> pystr \<Rightarrow> int \<Rightarrow> (pystr \<times> fin_query) list \<Rightarrow>
                               pystr \<Rightarrow> pystr \<Rightarrow> pystr \<Rightarrow> pystr \<Rightarrow> pystr \<Rightarrow> int option \<Rightarrow> int option \<Rightarrow>
                               (exc + pystr) \<times> bs_call list" where
  "bs_multi_body lib mn now now_year queries operation title noun source symbol year quarter =
     (case bs_fin_setup lib now_year operation symbol year quarter of
        Inl e \<Rightarrow> (Inl e, [])
      | Inr su \<Rightarrow>
          (case bs_session (bs_lib.truncate lib) (case collect_results lib su queries of (rs, calls) \<Rightarrow> (Inr rs, calls)) of
             (Inl e, calls) \<Rightarrow> (Inl e, calls)
           | (Inr res, calls) \<Rightarrow>
               if res = [] then
                 (Inr (''No '' @ noun @ '' data found for symbol '' @ quoted symbol @ '' for '' @ year_quarter su), calls)
               else
                 (Inr (bs_header mn title symbol su [''# Data types: '' @ py_join '', '' (map fst res),
                                                     ''# Total data sources: '' @ nat_str (length res),
                                                     ''# Data source: '' @ source] now @
                       combined_csv lib res), calls)))"

definition bs_get_financial_data :: "bs_fin_lib \<Rightarrow> (market \<Rightarrow> pystr) \<Rightarrow> pystr \<Rightarrow> int \<Rightarrow> pystr \<Rightarrow> int option \<Rightarrow>
                                       int option \<Rightarrow> pystr outcome \<times> bs_call list" where
  "bs_get_financial_data lib mn now now_year symbol year quarter =
     bs_handle ''retrieving financial data'' symbol
       (bs_multi_body lib mn now now_year FINANCIAL_QUERIES ''financial data retrieval'' ''Financial data''
          ''financial'' ''BaoStock'' symbol year quarter)"

definition bs_get_fundamentals :: "bs_fin_lib \<Rightarrow> (market \<Rightarrow> pystr) \<Rightarrow> pystr \<Rightarrow> int \<Rightarrow> pystr \<Rightarrow> int option \<Rightarrow>
                                     int option \<Rightarrow> pystr outcome \<times> bs_call list" where
  "bs_get_fundamentals lib mn now now_year symbol year quarter =
     bs_handle ''retrieving fundamentals'' symbol
       (bs_multi_body lib mn now now_year FUNDAMENTAL_QUERIES ''fundamentals retrieval'' ''Fundamentals data''
          ''fundamentals'' ''BaoStock (Operation & Growth Analysis)'' symbol year quarter)"

section \<open>Specifications\<close>

text \<open>The calls a BaoStock adapter may leave behind: none, a failed login alone, or a
  login, queries and the logout of \<^verbatim>\<open>__exit__\<close>. A query succeeds when its error
  code is 0 and it yields rows.\<close>

fun balanced_log :: "bs_call list \<Rightarrow> bool" where
  "balanced_log [] = True"
| "balanced_log [Login] = True"
| "balanced_log (Login # c # cs) = (last (c # cs) = Logout \<and> list_all (\<lambda>x. x = Query) (butlast (c # cs)))"
| "balanced_log _ = False"

definition query_ok :: "bs_fin_lib \<Rightarrow> bs_setup \<Rightarrow> fin_query \<Rightarrow> bool" where
  "query_ok lib su q =
     (case query_fin lib q (su_formatted su) (su_year su) (su_quarter su) of
        Returned (code, msg, cols, rows) \<Rightarrow> code = ''0'' \<and> rows \<noteq> []
      | Raised e \<Rightarrow> False)"

section \<open>Lemmas\<close>

lemma bs_session_balanced:
  "list_all (\<lambda>x. x = Query) (snd body) \<Longrightarrow> balanced_log (snd (bs_session lib body))"
  by (cases "snd body") (auto simp: bs_session_def split: outcome.split prod.split)

lemma collect_results_calls: "snd (collect_results lib su qs) = replicate (length qs) Query"
  by (induction lib su qs rule: collect_results.induct) (auto split: prod.split outcome.split)

lemma collect_results_names:
  "map fst (fst (collect_results lib su qs)) = map fst (filter (\<lambda>(n, q). query_ok lib su q) qs)"
  by (induction lib su qs rule: collect_results.induct) (auto simp: query_ok_def split: prod.split outcome.split)

lemma bs_statement_query_calls: "snd (bs_statement_query lib q noun symbol su) = [Query]"
  by (simp add: bs_statement_query_def split: outcome.split prod.split)

lemma bs_statement_body_balanced:
  "balanced_log (snd (bs_statement_body lib mn now now_year q operation title noun source symbol year quarter))"
proof (cases "bs_fin_setup lib now_year operation symbol year quarter")
  case (Inr su)
  obtain r calls where rc: "bs_session (bs_lib.truncate lib) (bs_statement_query lib q noun symbol su) = (r, calls)"
    by fastforce
  have "balanced_log (snd (bs_session (bs_lib.truncate lib) (bs_statement_query lib q noun symbol su)))"
    by (rule bs_session_balanced) (simp add: bs_statement_query_calls)
  with rc have "balanced_log calls" by simp
  with Inr rc show ?thesis by (auto simp: bs_statement_body_def split: sum.split)
qed (simp add: bs_statement_body_def)

lemma bs_multi_body_balanced:
  "balanced_log (snd (bs_multi_body lib mn now now_year queries operation title noun source symbol year quarter))"
proof (cases "bs_fin_setup lib now_year operation symbol year quarter")
  case (Inr su)
  let ?body = "case collect_results lib su queries of (rs, calls) \<Rightarrow> (Inr rs, calls)"
  obtain r calls where rc: "bs_session (bs_lib.truncate lib) ?body = (r, calls)" by fastforce
  have "balanced_log (snd (bs_session (bs_lib.truncate lib) ?body))"
    by (rule bs_session_balanced) (simp add: case_prod_unfold collect_results_calls list_all_iff)
  with rc have "balanced_log calls" by simp
  with Inr rc show ?thesis by (auto simp: bs_multi_body_def split: sum.split)
qed (simp add: bs_multi_body_def)

lemma bs_handle_calls: "snd (bs_handle operation symbol r) = snd r"
  by (simp add: bs_handle_def split: prod.split sum.split)


lemma info_dict_fold:
  "distinct (map fst d) \<Longrightarrow>
   distinct (map fst (fold (\<lambda>(k, v) d. AList.update k v d) rows d)) \<and>
   fst ` set (fold (\<lambda>(k, v) d. AList.update k v d) rows d) = fst ` set d \<union> fst ` set rows \<and>
   map_of (fold (\<lambda>(k, v) d. AList.update k v d) rows d) = map_of d ++ map_of (rev rows)"
proof (induction rows arbitrary: d)
  case (Cons r rows)
  obtain k v where r: "r = (k, v)" by fastforce
  have "distinct (map fst (AList.update k v d))" using Cons.prems by (simp add: distinct_update)
  note IH = Cons.IH [OF this]
  have "map_of (AList.update k v d) ++ map_of (rev rows) = map_of d ++ map_of (rev (r # rows))"
    by (simp add: r update_conv' map_add_upd_left [symmetric] map_add_assoc [symmetric])
  then show ?case
    using IH by (auto simp: r dom_update)
qed simp

text \<open>The item table that \<^verbatim>\<open>get_fundamentals\<close> of AKShare builds behaves as a
  Python dict: each item once, the items of the rows, and the last value given for an
  item.\<close>

theorem info_dict_python_dict:
  "distinct (map fst (info_dict rows)) \<and> fst ` set (info_dict rows) = fst ` set rows \<and>
   map_of (info_dict rows) = map_of (rev rows)"
  using info_dict_fold [of "[]" rows] by (simp add: info_dict_def)

lemma collect_results_Nil_iff:
  "fst (collect_results lib su qs) = [] \<longleftrightarrow> \<not> list_ex (\<lambda>(n, q). query_ok lib su q) qs"
proof -
  have "fst (collect_results lib su qs) = [] \<longleftrightarrow> map fst (fst (collect_results lib su qs)) = []" by simp
  also have "\<dots> \<longleftrightarrow> filter (\<lambda>(n, q). query_ok lib su q) qs = []" by (simp only: collect_results_names) simp
  finally show ?thesis by (auto simp: filter_empty_conv list_ex_iff)
qed

lemma bs_header_hd: "\<exists>r. bs_header mn title symbol su extra now = CHR ''#'' # r"
  by (simp add: bs_header_def)

lemma bs_session_login_ok:
  "bs_login lib = Returned (''0'', m) \<Longrightarrow> bs_session (bs_lib.truncate lib) body = (fst body, Login # snd body @ [Logout])"
  by (simp add: bs_session_def bs_lib.defs)

text \<open>C10: once the setup succeeds and the login is accepted,
  \<^verbatim>\<open>get_financial_data\<close> returns its no-data message exactly when none of the five
  queries returns rows with error code 0: a failing query is skipped silently.\<close>

theorem financial_data_none_iff:
  assumes su: "bs_fin_setup lib now_year ''financial data retrieval'' symbol year quarter = Inr su"
    and login: "bs_login lib = Returned (''0'', m)"
  shows "fst (bs_get_financial_data lib mn now now_year symbol year quarter) =
           Returned (''No financial data found for symbol '' @ quoted symbol @ '' for '' @ year_quarter su)
         \<longleftrightarrow> \<not> list_ex (\<lambda>(n, q). query_ok lib su q) FINANCIAL_QUERIES"
proof -
  obtain rs calls where rc: "collect_results lib su FINANCIAL_QUERIES = (rs, calls)" by fastforce
  have none: "rs = [] \<longleftrightarrow> \<not> list_ex (\<lambda>(n, q). query_ok lib su q) FINANCIAL_QUERIES"
    using collect_results_Nil_iff [of lib su FINANCIAL_QUERIES] rc by simp
  show ?thesis
  proof (cases "rs = []")
    case True
    with su login rc none show ?thesis
      by (simp add: bs_get_financial_data_def bs_multi_body_def bs_session_login_ok bs_handle_def)
  next
    case False
    obtain h where "bs_header mn ''Financial data'' symbol su
        [''# Data types: '' @ py_join '', '' (map fst rs), ''# Total data sources: '' @ nat_str (length rs),
         ''# Data source: '' @ ''BaoStock''] now = CHR ''#'' # h"
      using bs_header_hd by blast
    with False su login rc none show ?thesis
      by (simp add: bs_get_financial_data_def bs_multi_body_def bs_session_login_ok bs_handle_def)
  qed
qed

lemma set_nat_str: "set (nat_str n) \<subseteq> char_of ` {48..<58::nat}"
proof (induction n rule: nat_str.induct)
  case (1 n)
  have "char_of (48 + n mod 10) \<in> char_of ` {48..<58::nat}" by (intro imageI) simp
  moreover have "n < 10 \<Longrightarrow> char_of (48 + n) \<in> char_of ` {48..<58::nat}" by (intro imageI) simp
  ultimately show ?case using 1 by (subst nat_str.simps) auto
qed

lemma newline_not_digit: "CHR 0x0A \<notin> char_of ` {48..<58::nat}"
proof
  assume "CHR 0x0A \<in> char_of ` {48..<58::nat}"
  then obtain k :: nat where "k \<in> {48..<58}" "CHR 0x0A = char_of k" by blast
  then have "of_char (CHR 0x0A) = k" by (simp add: of_char_of)
  with \<open>k \<in> {48..<58}\<close> show False by simp
qed

lemma set_int_str: "CHR 0x0A \<notin> set (int_str i)"
  using set_nat_str newline_not_digit by (auto simp: int_str_def)

lemma set_py_join: "set (py_join sep xs) \<subseteq> set sep \<union> \<Union> (set ` set xs)"
  by (induction sep xs rule: py_join.induct) auto

lemma bs_header_no_newline:
  assumes "\<forall>x \<in> set (title # symbol # mn (su_market su) # su_formatted su # now # extra). CHR 0x0A \<notin> set x"
  shows "CHR 0x0A \<notin> set (bs_header mn title symbol su extra now)"
proof -
  have c: "CHR 0x0A \<notin> set (market_currency m)" for m by (cases m) simp_all
  have "CHR 0x0A \<notin> set (year_quarter su)" by (simp add: year_quarter_def set_int_str)
  then show ?thesis
    using assms c set_py_join [of BSNL] by (fastforce simp: bs_header_def BSNL_def)
qed

lemma bs_header_no_newline_witness:
  "CHR 0x0A \<notin> set (bs_header (\<lambda>_. ''A'') ''Balance Sheet data'' ''600000''
                      \<lparr>su_market = A_STOCK, su_formatted = ''sh.600000'', su_year = 2024, su_quarter = 4\<rparr>
                      [''# Total records: 2''] ''2025-01-02 10:00:00'')"
  by (rule bs_header_no_newline) simp

lemma financial_data_none_iff_witness:
  "fst (bs_get_financial_data
          \<lparr>bs_available = True, bs_login = Returned (''0'', ''success''),
           query_history_k_data_plus = (\<lambda>_ _ _. Raised (OtherException ''unused'')),
           bs_render = (\<lambda>_ _ _ _. []), query_fin = (\<lambda>_ _ _ _. Returned (''10004011'', ''no data'', [], [])),
           bs_to_csv = (\<lambda>_ _. [])\<rparr> (\<lambda>_. ''A'') ''2025-01-02 10:00:00'' 2024 ''600000'' None None) =
     Returned (''No financial data found for symbol '' @ quoted ''600000'' @ '' for '' @
               year_quarter \<lparr>su_market = A_STOCK, su_formatted = ''sh.600000'', su_year = 2024, su_quarter = 4\<rparr>)
   \<longleftrightarrow> \<not> list_ex (\<lambda>(n, q). query_ok
          \<lparr>bs_available = True, bs_login = Returned (''0'', ''success''),
           query_history_k_data_plus = (\<lambda>_ _ _. Raised (OtherException ''unused'')),
           bs_render = (\<lambda>_ _ _ _. []), query_fin = (\<lambda>_ _ _ _. Returned (''10004011'', ''no data'', [], [])),
           bs_to_csv = (\<lambda>_ _. [])\<rparr>
          \<lparr>su_market = A_STOCK, su_formatted = ''sh.600000'', su_year = 2024, su_quarter = 4\<rparr> q) FINANCIAL_QUERIES"
proof -
  have m: "identify_market ''600000'' = A_STOCK" by code_simp
  have f: "format_symbol_for_vendor ''600000'' ''baostock'' (Some A_STOCK) = ''sh.600000''" by code_simp
  have s: "is_market_supported ''600000'' ''baostock''" by code_simp
  show ?thesis
    by (rule financial_data_none_iff)
       (simp_all add: bs_fin_setup_def bs_validate_market_support_def m f s)
qed

end
