(* ===== verification/News.thy ===== *)
theory News
  imports Fundamentals
begin

text \<open>
  The news and sentiment adapter \<^verbatim>\<open>akshare_news.py\<close>. A data frame is its columns and
  rows (\<open>news_df\<close>), and the AKShare calls are oracle fields of \<open>ak_news_lib\<close>, an
  extension of \<open>ak_lib\<close>, as are \<^verbatim>\<open>to_csv\<close> and \<^verbatim>\<open>pd.concat\<close>. The news sources
  are named by constructors; their Chinese display names, which lie outside the Latin-1
  strings of the model, are the parameter \<open>lbl\<close>. The fallback search tries the
  sources in order and keeps the first usable frame; the aggregation and the sentiment
  functions try each source in its own \<^verbatim>\<open>try\<close> and keep those that answer.
\<close>

section \<open>Frames\<close>

record news_df =
  nd_cols :: "pystr list"
  nd_rows :: "pystr list list"

text \<open>\<^verbatim>\<open>DataFrame.empty\<close>: no column or no row.\<close>

definition df_empty :: "news_df \<Rightarrow> bool" where
  "df_empty d = (nd_cols d = [] \<or> nd_rows d = [])"

definition EMPTY_DF :: news_df where
  "EMPTY_DF = \<lparr>nd_cols = [], nd_rows = []\<rparr>"

text \<open>\<^verbatim>\<open>if len(data) > limit: data = data.head(limit)\<close>, where a negative
  \<^verbatim>\<open>head(n)\<close> drops the last \<open>|n|\<close> rows.\<close>

definition df_limit :: "int \<Rightarrow> news_df \<Rightarrow> news_df" where
  "df_limit limit d =
     (if int (length (nd_rows d)) > limit
      then d\<lparr>nd_rows := take (nat (if 0 \<le> limit then limit else int (length (nd_rows d)) + limit)) (nd_rows d)\<rparr>
      else d)"

text \<open>\<^verbatim>\<open>data['news_source'] = name\<close>: overwrites the column if present, appends it
  otherwise.\<close>

definition set_column :: "pystr \<Rightarrow> pystr \<Rightarrow> news_df \<Rightarrow> news_df" where
  "set_column c v d =
     (case find (\<lambda>i. nd_cols d ! i = c) [0..<length (nd_cols d)] of
        Some i \<Rightarrow> d\<lparr>nd_rows := map (\<lambda>r. r[i := v]) (nd_rows d)\<rparr>
      | None \<Rightarrow> \<lparr>nd_cols = nd_cols d @ [c], nd_rows = map (\<lambda>r. r @ [v]) (nd_rows d)\<rparr>)"

text \<open>\<^verbatim>\<open>xs[:n]\<close> of a Python list.\<close>

definition py_prefix :: "int \<Rightarrow> 'a list \<Rightarrow> 'a list" where
  "py_prefix n xs = take (nat (if 0 \<le> n then n else int (length xs) + n)) xs"

section \<open>Sources and the library\<close>

datatype news_src = CLS | THS | SINA | FUTU | CCTV | BAIDU_ECONOMIC | EM_GLOBAL | CX_MAIN | SHMET_FUTURES

text \<open>The source names that appear in the output: a news source, the per-stock source
  of a market, or the name used when no source answers.\<close>

datatype news_label = SrcLabel news_src | StockNewsLabel market | NoSourceLabel

datatype senti_src = A_SPOT | FUND_FLOW | NEWS_SENTIMENT | SUSPEND_BAIDU | DIVIDEND_BAIDU | REPORT_TIME_BAIDU

record ak_news_lib = ak_lib +
  news_call :: "news_src \<Rightarrow> news_df outcome"
  stock_news_em :: "nat \<Rightarrow> pystr \<Rightarrow> news_df outcome"
  senti_call :: "senti_src \<Rightarrow> news_df outcome"
  nd_to_csv :: "news_df \<Rightarrow> pystr"
  nd_concat :: "news_df list \<Rightarrow> news_df option"

text \<open>\<^verbatim>\<open>news_sources\<close> of \<^verbatim>\<open>_get_enhanced_fallback_news\<close> and
  \<^verbatim>\<open>all_news_sources\<close> of \<^verbatim>\<open>get_aggregated_news\<close>, in priority order.\<close>

definition NEWS_SOURCES :: "news_src list" where
  "NEWS_SOURCES = [CLS, THS, SINA, FUTU, CCTV, BAIDU_ECONOMIC, EM_GLOBAL, CX_MAIN, SHMET_FUTURES]"

definition ALL_NEWS_SOURCES :: "news_src list" where
  "ALL_NEWS_SOURCES = [CLS, THS, SINA, FUTU, CCTV, BAIDU_ECONOMIC, EM_GLOBAL, CX_MAIN]"

section \<open>The fallback and the per-stock news\<close>

text \<open>The loop of \<^verbatim>\<open>_get_enhanced_fallback_news\<close> (and of
  \<^verbatim>\<open>_get_fallback_news\<close>, which calls it): the first source whose frame is not
  empty, cut to \<open>limit\<close> rows; a source that raises is skipped.\<close>

fun fallback_loop :: "ak_news_lib \<Rightarrow> int \<Rightarrow> news_src list \<Rightarrow> news_df \<times> news_label" where
  "fallback_loop lib limit [] = (EMPTY_DF, NoSourceLabel)"
| "fallback_loop lib limit (s # ss) =
     (case news_call lib s of
        Raised e \<Rightarrow> fallback_loop lib limit ss
      | Returned d \<Rightarrow>
          if \<not> df_empty d \<and> nd_cols d \<noteq> [] then (df_limit limit d, SrcLabel s)
          else fallback_loop lib limit ss)"

definition get_fallback_news :: "ak_news_lib \<Rightarrow> int \<Rightarrow> news_df \<times> news_label" where
  "get_fallback_news lib limit = fallback_loop lib limit NEWS_SOURCES"

text \<open>\<^verbatim>\<open>_get_stock_specific_news\<close>, with the symbols passed to
  \<^verbatim>\<open>stock_news_em\<close>, in order. The oracle \<open>stock_news_em lib n\<close> answers the
  call number \<open>n\<close> (0 the first, 1 the retry): a network call may answer differently
  when repeated.\<close>

definition news_clean_symbol :: "pystr \<Rightarrow> market \<Rightarrow> pystr \<Rightarrow> pystr" where
  "news_clean_symbol symbol market formatted_symbol =
     (case market of
        A_STOCK \<Rightarrow> py_replace ''sh'' [] (py_replace ''sz'' [] formatted_symbol)
      | HK_STOCK \<Rightarrow> py_zfill 5 (py_replace ''.HK'' [] formatted_symbol)
      | US_STOCK \<Rightarrow> py_upper symbol
      | UNKNOWN \<Rightarrow> symbol)"

definition get_stock_specific_news :: "ak_news_lib \<Rightarrow> pystr \<Rightarrow> market \<Rightarrow> pystr \<Rightarrow> int \<Rightarrow>
                                         (news_df \<times> news_label) \<times> pystr list" where
  "get_stock_specific_news lib symbol market formatted_symbol limit =
     (let clean_symbol = news_clean_symbol symbol market formatted_symbol in
      case stock_news_em lib 0 clean_symbol of
        Returned d \<Rightarrow>
          (if \<not> df_empty d \<and> nd_cols d \<noteq> [] then ((df_limit limit d, StockNewsLabel market), [clean_symbol])
           else (get_fallback_news lib limit, [clean_symbol]))
      | Raised e \<Rightarrow>
          (if market = A_STOCK then
             (case stock_news_em lib 1 formatted_symbol of
                Returned d \<Rightarrow>
                  (if \<not> df_empty d then ((df_limit limit d, StockNewsLabel market), [clean_symbol, formatted_symbol])
                   else (get_fallback_news lib limit, [clean_symbol, formatted_symbol]))
              | Raised e2 \<Rightarrow> (get_fallback_news lib limit, [clean_symbol, formatted_symbol]))
           else (get_fallback_news lib limit, [clean_symbol])))"

section \<open>get_stock_news and get_global_news\<close>

definition news_lines :: "pystr list \<Rightarrow> pystr" where
  "news_lines ls = py_join [CHR 0x0A] ls @ [CHR 0x0A, CHR 0x0A]"

definition stock_news_body :: "ak_news_lib \<Rightarrow> (news_label \<Rightarrow> pystr) \<Rightarrow> (market \<Rightarrow> pystr) \<Rightarrow> pystr \<Rightarrow>
                                 pystr \<Rightarrow> pystr \<Rightarrow> pystr \<Rightarrow> exc + pystr" where
  "stock_news_body lib lbl mn now query start_date end_date =
     (let limit = 20 in
      if \<not> ak_available lib then Inl AK_NOT_INSTALLED
      else
        (let r = (if query \<noteq> [] then
                    (case ak_validate_market_support query ''stock news retrieval'' of
                       Inl e \<Rightarrow> Inl e
                     | Inr market \<Rightarrow>
                         Inr (Some market,
                              fst (get_stock_specific_news lib query market
                                     (format_symbol_for_vendor query ''akshare'' (Some market)) limit)))
                  else Inr (None, get_fallback_news lib limit))
         in case r of
              Inl e \<Rightarrow> Inl e
            | Inr (mk, d0, src) \<Rightarrow>
                if df_empty d0 then
                  Inr (if query \<noteq> [] then ''No news found for query '' @ quoted query else ''No general news found'')
                else
                  (let d = df_limit limit d0;
                       head = (case mk of
                                 Some market \<Rightarrow>
                                   [''# Stock news for '' @ query @ '' ('' @ mn market @ '')'',
                                    ''# Market: '' @ mn market @ '' ('' @ market_currency market @ '')'',
                                    ''# News source: '' @ lbl src,
                                    ''# Date range: '' @ start_date @ '' to '' @ end_date]
                               | None \<Rightarrow>
                                   [''# General financial news'', ''# News source: '' @ lbl src,
                                    ''# Date range: '' @ start_date @ '' to '' @ end_date])
                   in Inr (news_lines (head @ [''# Total news items: '' @ nat_str (length (nd_rows d)),
                                              ''# Data provider: AKShare'', ''# Data retrieved on: '' @ now]) @
                           nd_to_csv lib d))))"

definition get_stock_news :: "ak_news_lib \<Rightarrow> (news_label \<Rightarrow> pystr) \<Rightarrow> (market \<Rightarrow> pystr) \<Rightarrow> pystr \<Rightarrow>
                                pystr \<Rightarrow> pystr \<Rightarrow> pystr \<Rightarrow> pystr outcome" where
  "get_stock_news lib lbl mn now query start_date end_date =
     (case stock_news_body lib lbl mn now query start_date end_date of
        Inr r \<Rightarrow> Returned r
      | Inl e \<Rightarrow> handle_akshare_exception e ''retrieving stock news'' (Some query))"

definition get_global_news :: "ak_news_lib \<Rightarrow> (news_label \<Rightarrow> pystr) \<Rightarrow> pystr \<Rightarrow> pystr \<Rightarrow> int \<Rightarrow> int \<Rightarrow>
                                 pystr outcome" where
  "get_global_news lib lbl now curr_date look_back_days limit =
     (if \<not> ak_available lib then handle_akshare_exception AK_NOT_INSTALLED ''retrieving global news'' None
      else
        (case get_fallback_news lib limit of
           (d, src) \<Rightarrow>
             if df_empty d then Returned ''No global news found from any available source''
             else Returned (news_lines [''# Global financial news'',
                                       ''# Date range: '' @ int_str look_back_days @ '' days before '' @ curr_date @
                                         '' to '' @ curr_date,
                                       ''# News source: '' @ lbl src,
                                       ''# Total news items: '' @ nat_str (length (nd_rows d)),
                                       ''# Data provider: AKShare'', ''# Data retrieved on: '' @ now] @
                            nd_to_csv lib d)))"

section \<open>get_aggregated_news\<close>

fun aggregate_loop :: "ak_news_lib \<Rightarrow> (news_label \<Rightarrow> pystr) \<Rightarrow> int \<Rightarrow> news_src list \<Rightarrow> (news_df \<times> news_src) list" where
  "aggregate_loop lib lbl limit [] = []"
| "aggregate_loop lib lbl limit (s # ss) =
     (case news_call lib s of
        Raised e \<Rightarrow> aggregate_loop lib lbl limit ss
      | Returned d \<Rightarrow>
          if \<not> df_empty d \<and> nd_cols d \<noteq> []
          then (set_column ''news_source'' (lbl (SrcLabel s)) (df_limit limit d), s) # aggregate_loop lib lbl limit ss
          else aggregate_loop lib lbl limit ss)"

definition get_aggregated_news :: "ak_news_lib \<Rightarrow> (news_label \<Rightarrow> pystr) \<Rightarrow> pystr \<Rightarrow> pystr \<Rightarrow> int \<Rightarrow> int \<Rightarrow>
                                     pystr outcome" where
  "get_aggregated_news lib lbl now category limit sources =
     (if \<not> ak_available lib
      then handle_akshare_exception AK_NOT_INSTALLED (''retrieving aggregated news for category '' @ category) None
      else
        (let got = aggregate_loop lib lbl limit (py_prefix sources ALL_NEWS_SOURCES) in
         if got = [] then Returned (''No aggregated '' @ category @ '' news found from any source'')
         else
           (let combined = (case nd_concat lib (map fst got) of Some c \<Rightarrow> c | None \<Rightarrow> fst (hd got)) in
            Returned (news_lines [''# Aggregated '' @ category @ '' news from multiple sources'',
                                  ''# Category: '' @ category,
                                  ''# News sources: '' @ py_join '', '' (map (lbl \<circ> SrcLabel \<circ> snd) got),
                                  ''# Total news items: '' @ nat_str (length (nd_rows combined)),
                                  ''# Sources used: '' @ nat_str (length got),
                                  ''# Data provider: AKShare (Multi-source)'',
                                  ''# Data retrieved on: '' @ now] @
                      nd_to_csv lib combined))))"

section \<open>Market sentiment\<close>

text \<open>Each sentiment source in its own \<^verbatim>\<open>try\<close>: kept under its key when it answers
  with a non-empty frame. \<open>pre\<close> is what the source's lambda applies to the frame before
  the emptiness test, \<open>post\<close> what the loop applies after it.\<close>

fun sentiment_loop :: "ak_news_lib \<Rightarrow> (pystr \<times> senti_src \<times> (news_df \<Rightarrow> news_df) \<times> (news_df \<Rightarrow> news_df)) list \<Rightarrow>
                         (pystr \<times> news_df) list" where
  "sentiment_loop lib [] = []"
| "sentiment_loop lib ((key, s, pre, post) # ss) =
     (case senti_call lib s of
        Raised e \<Rightarrow> sentiment_loop lib ss
      | Returned d \<Rightarrow> if \<not> df_empty (pre d) then (key, post (pre d)) # sentiment_loop lib ss else sentiment_loop lib ss)"

definition df_head :: "nat \<Rightarrow> news_df \<Rightarrow> news_df" where
  "df_head n d = d\<lparr>nd_rows := take n (nd_rows d)\<rparr>"

definition sentiment_csv :: "ak_news_lib \<Rightarrow> (pystr \<times> news_df) list \<Rightarrow> pystr" where
  "sentiment_csv lib xs =
     concat (map (\<lambda>(k, d). [CHR 0x0A] @ ''## '' @ py_upper k @ '' ##'' @ [CHR 0x0A] @ nd_to_csv lib d @ [CHR 0x0A]) xs)"

text \<open>In \<^verbatim>\<open>get_market_sentiment\<close> the A-share frame is cut to 10 rows after the
  emptiness test; in \<^verbatim>\<open>get_enhanced_market_sentiment\<close> the call itself takes
  \<^verbatim>\<open>head(20)\<close>, before the test.\<close>

definition get_market_sentiment :: "ak_news_lib \<Rightarrow> pystr \<Rightarrow> pystr outcome" where
  "get_market_sentiment lib now =
     (if \<not> ak_available lib then handle_akshare_exception AK_NOT_INSTALLED ''retrieving market sentiment'' None
      else
        (let got = sentiment_loop lib [(''a_stock_summary'', A_SPOT, id, df_head 10), (''money_flow'', FUND_FLOW, id, id)] in
         if got = [] then Returned ''Error: Unable to retrieve market sentiment data from AKShare''
         else Returned (news_lines [''# Market sentiment data'', ''# Data types: '' @ py_join '', '' (map fst got),
                                   ''# Data source: AKShare'', ''# Data retrieved on: '' @ now] @
                        sentiment_csv lib got)))"

definition ENHANCED_SOURCES :: "(pystr \<times> senti_src \<times> (news_df \<Rightarrow> news_df) \<times> (news_df \<Rightarrow> news_df)) list" where
  "ENHANCED_SOURCES =
     [(''a_stock_summary'', A_SPOT, df_head 20, id), (''money_flow'', FUND_FLOW, id, id),
      (''news_sentiment'', NEWS_SENTIMENT, id, id), (''trade_suspend'', SUSPEND_BAIDU, id, id),
      (''trade_dividend'', DIVIDEND_BAIDU, id, id), (''report_time'', REPORT_TIME_BAIDU, id, id)]"

definition get_enhanced_market_sentiment :: "ak_news_lib \<Rightarrow> pystr \<Rightarrow> pystr outcome" where
  "get_enhanced_market_sentiment lib now =
     (if \<not> ak_available lib then handle_akshare_exception AK_NOT_INSTALLED ''retrieving enhanced market sentiment'' None
      else
        (let got = sentiment_loop lib ENHANCED_SOURCES in
         if got = [] then Returned ''Error: Unable to retrieve any market sentiment data from AKShare''
         else Returned (news_lines [''# Enhanced market sentiment data'', ''# Data types: '' @ py_join '', '' (map fst got),
                                   ''# Total data sources: '' @ nat_str (length got),
                                   ''# Data source: AKShare (Multi-source sentiment analysis)'',
                                   ''# Data retrieved on: '' @ now] @
                        sentiment_csv lib got)))"


section \<open>Lemmas\<close>

lemma df_limit_bounded: "0 \<le> limit \<Longrightarrow> length (nd_rows (df_limit limit d)) \<le> nat limit"
  by (simp add: df_limit_def le_nat_iff)

lemma df_limit_cols [simp]: "nd_cols (df_limit limit d) = nd_cols d"
  by (simp add: df_limit_def)

lemma news_clean_symbol_a_stock: "news_clean_symbol q A_STOCK (upper_strip q) = upper_strip q"
proof -
  have sz: "py_replace ''sz'' [] (upper_strip q) = upper_strip q"
    by (rule py_replace_absent) (simp_all add: upper_strip_no_s)
  have "py_replace ''sh'' [] (upper_strip q) = upper_strip q"
    by (rule py_replace_absent) (simp_all add: upper_strip_no_s)
  with sz show ?thesis by (simp add: news_clean_symbol_def)
qed

lemma akshare_a_symbol: "format_symbol_for_vendor q ''akshare'' (Some A_STOCK) = upper_strip q"
  by (simp add: format_symbol_for_vendor_def not_starts_sz_sh)

text \<open>C24: for an A-share, \<^verbatim>\<open>_get_stock_specific_news\<close> calls
  \<^verbatim>\<open>stock_news_em\<close> with the upper-cased symbol; when that call raises, the
  "alternative" call, meant to use the prefixed symbol (\<^verbatim>\<open>sz000001\<close>), passes the
  very same string. Its own outcome then decides: its frame (cut to \<open>limit\<close> rows) when
  it is not empty, without the column check of the first call, and the fallback news
  otherwise.\<close>

theorem stock_news_retry_same_symbol:
  "get_stock_specific_news lib q A_STOCK (format_symbol_for_vendor q ''akshare'' (Some A_STOCK)) limit =
     (case stock_news_em lib 0 (upper_strip q) of
        Raised e \<Rightarrow>
          (case stock_news_em lib 1 (upper_strip q) of
             Returned d \<Rightarrow>
               (if \<not> df_empty d then ((df_limit limit d, StockNewsLabel A_STOCK), [upper_strip q, upper_strip q])
                else (get_fallback_news lib limit, [upper_strip q, upper_strip q]))
           | Raised e2 \<Rightarrow> (get_fallback_news lib limit, [upper_strip q, upper_strip q]))
      | Returned d \<Rightarrow>
          if \<not> df_empty d \<and> nd_cols d \<noteq> [] then ((df_limit limit d, StockNewsLabel A_STOCK), [upper_strip q])
          else (get_fallback_news lib limit, [upper_strip q]))"
  by (simp add: get_stock_specific_news_def Let_def akshare_a_symbol news_clean_symbol_a_stock split: outcome.split)

lemma fallback_loop_bounded: "0 \<le> limit \<Longrightarrow> length (nd_rows (fst (fallback_loop lib limit ss))) \<le> nat limit"
  by (induction ss) (simp_all add: EMPTY_DF_def df_limit_bounded split: outcome.split)

theorem fallback_news_bounded: "0 \<le> limit \<Longrightarrow> length (nd_rows (fst (get_fallback_news lib limit))) \<le> nat limit"
  by (simp add: get_fallback_news_def fallback_loop_bounded)

lemma aggregate_loop_sources:
  "map snd (aggregate_loop lib lbl limit ss) =
     filter (\<lambda>s. case news_call lib s of Returned d \<Rightarrow> \<not> df_empty d \<and> nd_cols d \<noteq> [] | Raised e \<Rightarrow> False) ss"
  by (induction ss) (simp_all split: outcome.split)

lemma set_column_has: "c \<in> set (nd_cols (set_column c v d))"
  by (auto simp: set_column_def split: option.split dest!: find_Some_iff [THEN iffD1])

lemma aggregate_loop_tagged:
  "list_all (\<lambda>(d, s). ''news_source'' \<in> set (nd_cols d)) (aggregate_loop lib lbl limit ss)"
  by (induction ss) (simp_all add: set_column_has split: outcome.split)

end
