(* ===== verification/Stock_Info.thy ===== *)
theory Stock_Info
  imports Fundamentals
begin

text \<open>
  The remaining functions of the stock adapters: \<^verbatim>\<open>process_dataframe_for_output\<close> of
  \<^verbatim>\<open>akshare_common.py\<close> and of \<^verbatim>\<open>baostock_common.py\<close>, whose header takes the
  additional items by repeated \<^verbatim>\<open>list.insert(-2, ...)\<close>; \<^verbatim>\<open>get_realtime_data\<close> and
  \<^verbatim>\<open>get_stock_info\<close> of \<^verbatim>\<open>akshare_stock.py\<close>; \<^verbatim>\<open>get_stock_info\<close> and
  \<^verbatim>\<open>get_dividend_data\<close> of \<^verbatim>\<open>baostock_stock.py\<close>. The library calls are oracle
  fields of \<open>ak_info_lib\<close> and \<open>bs_info_lib\<close>, extensions of the records of
  \<open>Fundamentals\<close>; the BaoStock functions run their query in \<open>bs_session\<close>.
\<close>

section \<open>The report header\<close>

text \<open>\<^verbatim>\<open>xs.insert(i, x)\<close>: a negative index counts from the end, and an index out of
  range is clamped.\<close>

definition py_insert :: "int \<Rightarrow> 'a \<Rightarrow> 'a list \<Rightarrow> 'a list" where
  "py_insert i x xs =
     (let n = int (length xs); j = (if i < 0 then max 0 (i + n) else min i n) in
      take (nat j) xs @ x # drop (nat j) xs)"

definition base_header :: "pystr \<Rightarrow> pystr \<Rightarrow> pystr \<Rightarrow> pystr \<Rightarrow> pystr \<Rightarrow> nat \<Rightarrow> pystr \<Rightarrow> pystr list" where
  "base_header source data_type symbol market_name currency nrec now =
     [''# '' @ data_type @ '' data for '' @ symbol @ '' ('' @ market_name @ '')'',
      ''# Market: '' @ market_name @ '' ('' @ currency @ '')'',
      ''# Total records: '' @ nat_str nrec,
      ''# Data source: '' @ source,
      ''# Data retrieved on: '' @ now]"

text \<open>\<^verbatim>\<open>for key, value in additional_info.items(): header_lines.insert(-2, ...)\<close>;
  an absent or empty \<^verbatim>\<open>additional_info\<close> adds nothing.\<close>

definition add_info :: "(pystr \<times> pystr) list \<Rightarrow> pystr list \<Rightarrow> pystr list" where
  "add_info info hl = fold (\<lambda>(k, v) h. py_insert (-2) (''# '' @ k @ '': '' @ v) h) info hl"

text \<open>\<^verbatim>\<open>process_dataframe_for_output\<close> of \<^verbatim>\<open>akshare_common.py\<close>: the frame's
  conversion (the \<^verbatim>\<open>Date\<close> index and the rounding of the numeric columns) and
  \<^verbatim>\<open>to_csv\<close> are the oracle \<open>to_csv\<close>.\<close>

definition ak_process_output :: "(frame \<Rightarrow> pystr) \<Rightarrow> (market \<Rightarrow> pystr) \<Rightarrow> pystr \<Rightarrow> frame \<Rightarrow> pystr \<Rightarrow> market \<Rightarrow>
                                   pystr \<Rightarrow> (pystr \<times> pystr) list \<Rightarrow> pystr" where
  "ak_process_output to_csv mn now df symbol market data_type info =
     (if df = [] then ''No '' @ data_type @ '' data found for symbol '' @ quoted symbol
      else py_join [CHR 0x0A]
             (add_info info (base_header ''AKShare'' data_type symbol (mn market) (market_currency market) (length df) now))
           @ [CHR 0x0A, CHR 0x0A] @ to_csv df)"

text \<open>\<^verbatim>\<open>process_dataframe_for_output\<close> of \<^verbatim>\<open>baostock_common.py\<close>, on a frame given
  by its columns and rows.\<close>

definition bs_process_output :: "(pystr list \<Rightarrow> pystr list list \<Rightarrow> pystr) \<Rightarrow> (market \<Rightarrow> pystr) \<Rightarrow> pystr \<Rightarrow>
                                   pystr list \<Rightarrow> pystr list list \<Rightarrow> pystr \<Rightarrow> market \<Rightarrow> pystr \<Rightarrow>
                                   (pystr \<times> pystr) list \<Rightarrow> pystr" where
  "bs_process_output to_csv mn now cols rows symbol market data_type info =
     py_join [CHR 0x0A]
       (add_info info (base_header ''BaoStock'' data_type symbol (mn market) (market_currency market) (length rows) now))
     @ [CHR 0x0A, CHR 0x0A] @ to_csv cols rows"

section \<open>akshare_stock.py: real-time data and company information\<close>

text \<open>The spot tables (\<^verbatim>\<open>stock_zh_a_spot_em\<close>, \<^verbatim>\<open>stock_hk_spot_em\<close>,
  \<^verbatim>\<open>stock_us_spot_em\<close>) as rows keyed by their code column, their \<^verbatim>\<open>to_csv\<close>,
  and \<^verbatim>\<open>ak.datetime.now().strftime(...)\<close>, read through the \<^verbatim>\<open>akshare\<close> module.\<close>

record ak_info_lib = ak_fin_lib +
  spot_em :: "market \<Rightarrow> (pystr \<times> pystr list) list outcome"
  spot_to_csv :: "(pystr \<times> pystr list) list \<Rightarrow> pystr"
  ak_clock :: "pystr outcome"

text \<open>Reading a local variable that no branch assigned raises \<^verbatim>\<open>UnboundLocalError\<close>.\<close>

definition UNBOUND :: "pystr \<Rightarrow> exc" where
  "UNBOUND v = OtherException (''cannot access local variable '' @ quoted v @ '' where it is not associated with a value'')"

definition ak_info_header :: "pystr \<Rightarrow> (market \<Rightarrow> pystr) \<Rightarrow> pystr \<Rightarrow> market \<Rightarrow> pystr \<Rightarrow> pystr \<Rightarrow> pystr" where
  "ak_info_header title mn symbol market formatted_symbol now =
     py_join [CHR 0x0A]
       [''# '' @ title @ '' for '' @ symbol @ '' ('' @ mn market @ '')'',
        ''# Formatted symbol: '' @ formatted_symbol,
        ''# Market: '' @ mn market @ '' ('' @ market_currency market @ '')'',
        ''# Data source: AKShare'',
        ''# Data retrieved on: '' @ now] @ [CHR 0x0A, CHR 0x0A]"

definition ak_realtime_body :: "ak_info_lib \<Rightarrow> (market \<Rightarrow> pystr) \<Rightarrow> pystr \<Rightarrow> exc + pystr" where
  "ak_realtime_body lib mn symbol =
     (if \<not> ak_available lib then Inl AK_NOT_INSTALLED
      else case ak_validate_market_support symbol ''realtime data retrieval'' of
        Inl e \<Rightarrow> Inl e
      | Inr market \<Rightarrow>
          (let formatted_symbol = format_symbol_for_vendor symbol ''akshare'' (Some market) in
           if market \<in> {A_STOCK, HK_STOCK, US_STOCK} then
             (case spot_em lib market of
                Raised e \<Rightarrow> Inl e
              | Returned data \<Rightarrow>
                  (let key = (if market = A_STOCK then py_replace ''sh'' [] (py_replace ''sz'' [] formatted_symbol)
                              else formatted_symbol);
                       stock_data = filter (\<lambda>(c, _). c = key) data in
                   if stock_data = [] then Inr (''No real-time data found for symbol '' @ quoted symbol)
                   else
                     (case ak_clock lib of
                        Raised e \<Rightarrow> Inl e
                      | Returned now \<Rightarrow>
                          Inr (ak_info_header ''Real-time data'' mn symbol market formatted_symbol now @
                               spot_to_csv lib stock_data))))
           else Inl (UNBOUND ''stock_data'')))"

definition ak_get_realtime_data :: "ak_info_lib \<Rightarrow> (market \<Rightarrow> pystr) \<Rightarrow> pystr \<Rightarrow> pystr outcome" where
  "ak_get_realtime_data lib mn symbol =
     (case ak_realtime_body lib mn symbol of
        Inr r \<Rightarrow> Returned r
      | Inl e \<Rightarrow> handle_akshare_exception e ''retrieving real-time data'' (Some symbol))"

definition ak_stock_info_body :: "ak_info_lib \<Rightarrow> (market \<Rightarrow> pystr) \<Rightarrow> pystr \<Rightarrow> exc + pystr" where
  "ak_stock_info_body lib mn symbol =
     (if \<not> ak_available lib then Inl AK_NOT_INSTALLED
      else case ak_validate_market_support symbol ''company info retrieval'' of
        Inl e \<Rightarrow> Inl e
      | Inr market \<Rightarrow>
          (let formatted_symbol = format_symbol_for_vendor symbol ''akshare'' (Some market) in
           if market = A_STOCK then
             (case stock_individual_info_em lib (py_replace ''sh'' [] (py_replace ''sz'' [] formatted_symbol)) of
                Raised e \<Rightarrow> Inl e
              | Returned None \<Rightarrow> Inl NONE_ITERROWS
              | Returned (Some rows) \<Rightarrow>
                  (let csv_string = ak_info_to_csv lib (info_dict rows) in
                   case ak_clock lib of
                     Raised e \<Rightarrow> Inl e
                   | Returned now \<Rightarrow>
                       Inr (ak_info_header ''Company information'' mn symbol market formatted_symbol now @ csv_string)))
           else if market = HK_STOCK then Inr ''Company info for Hong Kong stocks not fully supported by AKShare''
           else if market = US_STOCK then Inr ''Company info for US stocks not fully supported by AKShare''
           else (case ak_clock lib of Raised e \<Rightarrow> Inl e | Returned now \<Rightarrow> Inl (UNBOUND ''csv_string''))))"

definition ak_get_stock_info :: "ak_info_lib \<Rightarrow> (market \<Rightarrow> pystr) \<Rightarrow> pystr \<Rightarrow> pystr outcome" where
  "ak_get_stock_info lib mn symbol =
     (case ak_stock_info_body lib mn symbol of
        Inr r \<Rightarrow> Returned r
      | Inl e \<Rightarrow> handle_akshare_exception e ''retrieving company info'' (Some symbol))"

section \<open>baostock_stock.py: company information and dividends\<close>

text \<open>\<^verbatim>\<open>query_stock_basic\<close> and \<^verbatim>\<open>query_dividend_data\<close> return their
  \<^verbatim>\<open>(error_code, error_msg, fields, rows)\<close>; \<open>bs_frame_csv\<close> is \<^verbatim>\<open>to_csv()\<close> of
  the frame built from them, with its index.\<close>

record bs_info_lib = bs_lib +
  query_stock_basic :: "pystr \<Rightarrow> result_set outcome"
  query_dividend_data :: "pystr \<Rightarrow> pystr \<Rightarrow> pystr \<Rightarrow> result_set outcome"
  bs_frame_csv :: "pystr list \<Rightarrow> pystr list list \<Rightarrow> pystr"

text \<open>The body of the \<^verbatim>\<open>with\<close> block of both functions: \<open>Inl\<close> of a string returned
  inside the block, \<open>Inr\<close> of the frame it falls through with.\<close>

definition bs_rows_query :: "result_set outcome \<Rightarrow> pystr \<Rightarrow>
                               (exc + (pystr + pystr list \<times> pystr list list)) \<times> bs_call list" where
  "bs_rows_query q no_data =
     (case q of
        Raised e \<Rightarrow> (Inl e, [Query])
      | Returned (code, msg, cols, rows) \<Rightarrow>
          (if code \<noteq> ''0'' then Inr (Inl (''Error: BaoStock query failed: '' @ msg))
           else if rows = [] then Inr (Inl no_data)
           else Inr (Inr (cols, rows)), [Query]))"

definition bs_info_session :: "bs_info_lib \<Rightarrow> (market \<Rightarrow> pystr) \<Rightarrow> pystr \<Rightarrow> pystr \<Rightarrow> market \<Rightarrow> pystr \<Rightarrow>
                                 (pystr \<times> pystr) list \<Rightarrow> result_set outcome \<Rightarrow> pystr \<Rightarrow> (exc + pystr) \<times> bs_call list" where
  "bs_info_session lib mn now symbol market data_type info q no_data =
     (case bs_session (bs_lib.truncate lib) (bs_rows_query q no_data) of
        (Inl e, calls) \<Rightarrow> (Inl e, calls)
      | (Inr (Inl r), calls) \<Rightarrow> (Inr r, calls)
      | (Inr (Inr (cols, rows)), calls) \<Rightarrow>
          (Inr (bs_process_output (bs_frame_csv lib) mn now cols rows symbol market data_type info), calls))"

definition bs_stock_info_body :: "bs_info_lib \<Rightarrow> (market \<Rightarrow> pystr) \<Rightarrow> pystr \<Rightarrow> pystr \<Rightarrow> (exc + pystr) \<times> bs_call list" where
  "bs_stock_info_body lib mn now symbol =
     (if \<not> bs_available lib then (Inl BS_NOT_INSTALLED, [])
      else case bs_validate_market_support symbol ''company info retrieval'' of
        Inl e \<Rightarrow> (Inl e, [])
      | Inr market \<Rightarrow>
          (let formatted_symbol = format_symbol_for_vendor symbol ''baostock'' (Some market) in
           bs_info_session lib mn now symbol market ''Company Info'' [(''Formatted symbol'', formatted_symbol)]
             (query_stock_basic lib formatted_symbol) (''No company info found for symbol '' @ quoted symbol)))"

definition bs_get_stock_info :: "bs_info_lib \<Rightarrow> (market \<Rightarrow> pystr) \<Rightarrow> pystr \<Rightarrow> pystr \<Rightarrow> pystr outcome \<times> bs_call list" where
  "bs_get_stock_info lib mn now symbol =
     bs_handle ''retrieving company info'' symbol (bs_stock_info_body lib mn now symbol)"

text \<open>\<open>this_year\<close> is \<^verbatim>\<open>str(datetime.now().year)\<close>, the default of \<^verbatim>\<open>year\<close>.\<close>

definition bs_dividend_body :: "bs_info_lib \<Rightarrow> (market \<Rightarrow> pystr) \<Rightarrow> pystr \<Rightarrow> pystr \<Rightarrow> pystr \<Rightarrow> pystr option \<Rightarrow> pystr \<Rightarrow>
                                  (exc + pystr) \<times> bs_call list" where
  "bs_dividend_body lib mn now this_year symbol year year_type =
     (if \<not> bs_available lib then (Inl BS_NOT_INSTALLED, [])
      else case bs_validate_market_support symbol ''dividend data retrieval'' of
        Inl e \<Rightarrow> (Inl e, [])
      | Inr market \<Rightarrow>
          (let formatted_symbol = format_symbol_for_vendor symbol ''baostock'' (Some market);
               y = (case year of None \<Rightarrow> this_year | Some y \<Rightarrow> y) in
           bs_info_session lib mn now symbol market ''Dividend''
             [(''Formatted symbol'', formatted_symbol), (''Year'', y), (''Year type'', year_type)]
             (query_dividend_data lib formatted_symbol y year_type)
             (''No dividend data found for symbol '' @ quoted symbol @ '' for year '' @ y)))"

definition bs_get_dividend_data :: "bs_info_lib \<Rightarrow> (market \<Rightarrow> pystr) \<Rightarrow> pystr \<Rightarrow> pystr \<Rightarrow> pystr \<Rightarrow> pystr option \<Rightarrow>
                                      pystr \<Rightarrow> pystr outcome \<times> bs_call list" where
  "bs_get_dividend_data lib mn now this_year symbol year year_type =
     bs_handle ''retrieving dividend data'' symbol (bs_dividend_body lib mn now this_year symbol year year_type)"

section \<open>Lemmas\<close>

lemma py_insert_minus2:
  assumes "2 \<le> length xs"
  shows "py_insert (-2) x xs = take (length xs - 2) xs @ x # drop (length xs - 2) xs"
proof -
  have "nat (int (length xs) - 2) = length xs - 2" by arith
  with assms show ?thesis by (simp add: py_insert_def Let_def)
qed

lemma add_info_splice:
  "add_info info (hs @ [p, q]) = hs @ map (\<lambda>(k, v). ''# '' @ k @ '': '' @ v) info @ [p, q]"
proof (induction info arbitrary: hs)
  case Nil
  then show ?case by (simp add: add_info_def)
next
  case (Cons kv info)
  obtain k v where kv: "kv = (k, v)" by (cases kv)
  have "py_insert (-2) (''# '' @ k @ '': '' @ v) (hs @ [p, q]) = (hs @ [''# '' @ k @ '': '' @ v]) @ [p, q]"
    by (simp add: py_insert_minus2)
  then show ?case using Cons [of "hs @ [''# '' @ k @ '': '' @ v]"] by (simp add: add_info_def kv)
qed

text \<open>The additional items of \<^verbatim>\<open>process_dataframe_for_output\<close> appear in their
  order between the record count and the data source.\<close>

theorem header_info_order:
  "add_info info (base_header source data_type symbol market_name currency nrec now) =
     [''# '' @ data_type @ '' data for '' @ symbol @ '' ('' @ market_name @ '')'',
      ''# Market: '' @ market_name @ '' ('' @ currency @ '')'',
      ''# Total records: '' @ nat_str nrec] @
     map (\<lambda>(k, v). ''# '' @ k @ '': '' @ v) info @
     [''# Data source: '' @ source, ''# Data retrieved on: '' @ now]"
  using add_info_splice [of info "[''# '' @ data_type @ '' data for '' @ symbol @ '' ('' @ market_name @ '')'',
      ''# Market: '' @ market_name @ '' ('' @ currency @ '')'', ''# Total records: '' @ nat_str nrec]"]
  by (simp add: base_header_def)

lemma ak_market_supported:
  "ak_validate_market_support symbol operation = Inr market \<Longrightarrow> market \<in> {A_STOCK, HK_STOCK, US_STOCK}"
  by (auto simp: ak_validate_market_support_def Let_def is_market_supported_def get_supported_markets_def
           split: if_splits)

lemma bs_rows_query_calls: "list_all (\<lambda>x. x = Query) (snd (bs_rows_query q no_data))"
  by (simp add: bs_rows_query_def split: outcome.split prod.split)

lemma bs_info_session_balanced:
  "balanced_log (snd (bs_info_session lib mn now symbol market data_type info q no_data))"
proof -
  have "balanced_log (snd (bs_session (bs_lib.truncate lib) (bs_rows_query q no_data)))"
    by (rule bs_session_balanced [OF bs_rows_query_calls])
  then show ?thesis
    by (auto simp: bs_info_session_def split: prod.split sum.split)
qed

lemma bs_handle_calls': "snd (bs_handle operation symbol r) = snd r"
  by (simp add: bs_handle_def split: prod.split sum.split)

theorem stock_info_sessions_balanced:
  "balanced_log (snd (bs_get_stock_info lib mn now symbol)) \<and>
   balanced_log (snd (bs_get_dividend_data lib mn now this_year symbol year year_type))"
  by (simp add: bs_get_stock_info_def bs_get_dividend_data_def bs_handle_calls' bs_stock_info_body_def
      bs_dividend_body_def Let_def bs_info_session_balanced split: sum.split)

end
