(* ===== verification/Indicators.thy ===== *)
theory Indicators
  imports Complex_Main Adapters
begin

text \<open>
  The technical indicators of \<^verbatim>\<open>src/tradingagents/dataflows/akshare_indicators.py\<close>
  (\<^verbatim>\<open>calculate_sma\<close> to \<^verbatim>\<open>calculate_mfi\<close>) on the pandas operations they use.

  A float64 value is \<open>fval\<close>: a finite number, an infinity or NaN. Finite values are
  exact reals, so rounding is not modelled, and the sign of zero is not modelled. The
  operations \<open>fadd\<close>, \<open>fmul\<close>, \<open>fdiv\<close> follow IEEE 754 on these values. A price
  column is a list of finite reals, one per row of the frame. \<^verbatim>\<open>rolling(window=p)\<close>
  with its default \<^verbatim>\<open>min_periods = p\<close> is NaN on the first \<open>p - 1\<close> rows and applies
  its aggregate to the last \<open>p\<close> values elsewhere. \<^verbatim>\<open>ewm(span=s, adjust=False)\<close> is
  the recursion \<open>y\<^sub>0 = x\<^sub>0\<close>, \<open>y\<^sub>t = (1 - \<alpha>) y\<^sub>t\<^sub>-\<^sub>1 + \<alpha> x\<^sub>t\<close> with
  \<open>\<alpha> = 2 / (s + 1)\<close>. \<^verbatim>\<open>diff\<close> and \<^verbatim>\<open>shift\<close> put NaN on the first row; a
  comparison with NaN is false, so \<^verbatim>\<open>where(cond, 0)\<close> gives 0 there.

  Then \<^verbatim>\<open>get_akshare_indicators\<close>: the table \<^verbatim>\<open>indicator_params\<close>, the date
  arithmetic on day ordinals, the search of the CSV header, the frame built from
  \<^verbatim>\<open>pd.read_csv\<close> (an oracle, like the stock data adapter), and the day-by-day report
  loop. The lemmas bound RSI and MFI, order the Bollinger bands, and describe the report
  loop: its per-day lines, its closest-date search, its success on distinct dates and its
  failure on a duplicated one.
\<close>

section \<open>Float values\<close>

datatype fval = Num real | PosInf | NegInf | NaN

fun fneg :: "fval \<Rightarrow> fval" where
  "fneg (Num a) = Num (- a)"
| "fneg PosInf = NegInf"
| "fneg NegInf = PosInf"
| "fneg NaN = NaN"

fun fadd :: "fval \<Rightarrow> fval \<Rightarrow> fval" where
  "fadd (Num a) (Num b) = Num (a + b)"
| "fadd NaN _ = NaN"
| "fadd _ NaN = NaN"
| "fadd PosInf NegInf = NaN"
| "fadd NegInf PosInf = NaN"
| "fadd PosInf _ = PosInf"
| "fadd _ PosInf = PosInf"
| "fadd NegInf _ = NegInf"
| "fadd _ NegInf = NegInf"

definition fsub :: "fval \<Rightarrow> fval \<Rightarrow> fval" where
  "fsub a b = fadd a (fneg b)"

definition finf :: "bool \<Rightarrow> fval" where
  "finf pos = (if pos then PosInf else NegInf)"

fun fmul :: "fval \<Rightarrow> fval \<Rightarrow> fval" where
  "fmul (Num a) (Num b) = Num (a * b)"
| "fmul NaN _ = NaN"
| "fmul _ NaN = NaN"
| "fmul (Num a) y = (if a = 0 then NaN else finf ((0 < a) = (y = PosInf)))"
| "fmul x (Num b) = (if b = 0 then NaN else finf ((0 < b) = (x = PosInf)))"
| "fmul x y = finf (x = y)"

fun fdiv :: "fval \<Rightarrow> fval \<Rightarrow> fval" where
  "fdiv (Num a) (Num b) =
     (if b \<noteq> 0 then Num (a / b) else if a = 0 then NaN else finf (0 < a))"
| "fdiv NaN _ = NaN"
| "fdiv _ NaN = NaN"
| "fdiv (Num a) _ = Num 0"
| "fdiv x (Num b) = finf ((0 \<le> b) = (x = PosInf))"
| "fdiv _ _ = NaN"

text \<open>\<^verbatim>\<open>pd.isna(value)\<close>.\<close>

definition isna :: "fval \<Rightarrow> bool" where
  "isna x = (x = NaN)"

section \<open>pandas operations\<close>

definition rolling :: "nat \<Rightarrow> (real list \<Rightarrow> fval) \<Rightarrow> real list \<Rightarrow> fval list" where
  "rolling p agg xs =
     map (\<lambda>i. if Suc i < p then NaN else agg (take p (drop (Suc i - p) xs))) [0..<length xs]"

definition rmean :: "real list \<Rightarrow> fval" where
  "rmean w = Num (sum_list w / real (length w))"

definition rsum :: "real list \<Rightarrow> fval" where
  "rsum w = Num (sum_list w)"

text \<open>\<^verbatim>\<open>rolling(...).std()\<close>: the sample standard deviation (\<^verbatim>\<open>ddof=1\<close>).\<close>

definition rstd :: "real list \<Rightarrow> fval" where
  "rstd w =
     (if length w \<le> 1 then NaN
      else (let m = sum_list w / real (length w)
            in Num (sqrt (sum_list (map (\<lambda>x. (x - m)\<^sup>2) w) / real (length w - 1)))))"

fun ewm_from :: "real \<Rightarrow> real \<Rightarrow> real list \<Rightarrow> real list" where
  "ewm_from a y [] = []"
| "ewm_from a y (x # xs) = (let y' = (1 - a) * y + a * x in y' # ewm_from a y' xs)"

definition ewm_mean :: "nat \<Rightarrow> real list \<Rightarrow> real list" where
  "ewm_mean sp xs =
     (case xs of [] \<Rightarrow> [] | x # rest \<Rightarrow> x # ewm_from (2 / (real sp + 1)) x rest)"

text \<open>\<^verbatim>\<open>delta.where(delta > 0, 0)\<close> and \<^verbatim>\<open>-delta.where(delta < 0, 0)\<close> for
  \<^verbatim>\<open>delta = close.diff()\<close>: the first row's NaN fails both tests.\<close>

definition gains :: "real list \<Rightarrow> real list" where
  "gains xs = 0 # map2 (\<lambda>a b. if b - a > 0 then b - a else 0) xs (tl xs)"

definition losses :: "real list \<Rightarrow> real list" where
  "losses xs = 0 # map2 (\<lambda>a b. if b - a < 0 then - (b - a) else 0) xs (tl xs)"

text \<open>\<^verbatim>\<open>100 - (100 / (1 + r))\<close> on a ratio \<open>r\<close>.\<close>

definition index_of_ratio :: "fval \<Rightarrow> fval" where
  "index_of_ratio r = fsub (Num 100) (fdiv (Num 100) (fadd (Num 1) r))"

section \<open>The indicators\<close>

text \<open>The columns of the frame, after the renaming of \<^verbatim>\<open>column_mapping\<close>.\<close>

record ohlcv_frame =
  Close :: "real list"
  High :: "real list"
  Low :: "real list"
  Volume :: "real list"

definition calculate_sma :: "ohlcv_frame \<Rightarrow> nat \<Rightarrow> fval list" where
  "calculate_sma df period = rolling period rmean (Close df)"

definition calculate_ema :: "ohlcv_frame \<Rightarrow> nat \<Rightarrow> fval list" where
  "calculate_ema df period = map Num (ewm_mean period (Close df))"

record macd_result =
  macd_line :: "fval list"
  signal_line :: "fval list"
  histogram :: "fval list"

definition calculate_macd :: "ohlcv_frame \<Rightarrow> nat \<Rightarrow> nat \<Rightarrow> nat \<Rightarrow> macd_result" where
  "calculate_macd df fast_p slow_p signal_p =
     (let ema_fast = ewm_mean fast_p (Close df);
          ema_slow = ewm_mean slow_p (Close df);
          m = map2 (-) ema_fast ema_slow;
          s = ewm_mean signal_p m
      in \<lparr>macd_line = map Num m, signal_line = map Num s, histogram = map Num (map2 (-) m s)\<rparr>)"

definition calculate_rsi :: "ohlcv_frame \<Rightarrow> nat \<Rightarrow> fval list" where
  "calculate_rsi df period =
     (let gain = rolling period rmean (gains (Close df));
          loss = rolling period rmean (losses (Close df))
      in map2 (\<lambda>g l. index_of_ratio (fdiv g l)) gain loss)"

record bollinger =
  upper :: "fval list"
  middle :: "fval list"
  lower :: "fval list"

definition calculate_bollinger_bands :: "ohlcv_frame \<Rightarrow> nat \<Rightarrow> real \<Rightarrow> bollinger" where
  "calculate_bollinger_bands df period std_dev =
     (let m = rolling period rmean (Close df);
          s = rolling period rstd (Close df)
      in \<lparr>upper = map2 (\<lambda>a b. fadd a (fmul b (Num std_dev))) m s, middle = m,
          lower = map2 (\<lambda>a b. fsub a (fmul b (Num std_dev))) m s\<rparr>)"

text \<open>The true range: \<^verbatim>\<open>max(axis=1)\<close> skips the NaN of the shifted close on the first
  row.\<close>

definition true_range :: "ohlcv_frame \<Rightarrow> real list" where
  "true_range df =
     (case map2 (-) (High df) (Low df) of
        [] \<Rightarrow> []
      | h0 # hs \<Rightarrow>
          h0 # map2 (\<lambda>x (h, l, c). max x (max \<bar>h - c\<bar> \<bar>l - c\<bar>))
                 hs (zip (tl (High df)) (zip (tl (Low df)) (Close df))))"

definition calculate_atr :: "ohlcv_frame \<Rightarrow> nat \<Rightarrow> fval list" where
  "calculate_atr df period = rolling period rmean (true_range df)"

definition calculate_vwma :: "ohlcv_frame \<Rightarrow> nat \<Rightarrow> fval list" where
  "calculate_vwma df period =
     map2 fdiv (rolling period rsum (map2 (*) (Close df) (Volume df))) (rolling period rsum (Volume df))"

definition typical_price :: "ohlcv_frame \<Rightarrow> real list" where
  "typical_price df = map2 (\<lambda>h (l, c). (h + l + c) / 3) (High df) (zip (Low df) (Close df))"

text \<open>\<^verbatim>\<open>money_flow.where(cmp(typical_price, typical_price.shift(1)), 0)\<close>.\<close>

definition flows :: "(real \<Rightarrow> real \<Rightarrow> bool) \<Rightarrow> real list \<Rightarrow> real list \<Rightarrow> real list" where
  "flows cmp tp mf =
     (case mf of
        [] \<Rightarrow> []
      | m0 # ms \<Rightarrow> 0 # map2 (\<lambda>m (prev, cur). if cmp cur prev then m else 0) ms (zip tp (tl tp)))"

definition calculate_mfi :: "ohlcv_frame \<Rightarrow> nat \<Rightarrow> fval list" where
  "calculate_mfi df period =
     (let tp = typical_price df;
          money_flow = map2 (*) tp (Volume df);
          positive_flow = rolling period rsum (flows (>) tp money_flow);
          negative_flow = rolling period rsum (flows (<) tp money_flow)
      in map2 (\<lambda>p n. index_of_ratio (fdiv p n)) positive_flow negative_flow)"

section \<open>Dates\<close>

text \<open>The proleptic Gregorian ordinals of Python's \<^verbatim>\<open>datetime\<close> (CPython's
  \<^verbatim>\<open>_ymd2ord\<close> and \<^verbatim>\<open>_ord2ymd\<close>). Subtracting \<^verbatim>\<open>relativedelta(days=k)\<close>
  subtracts \<open>k\<close> from the ordinal and raises \<^verbatim>\<open>OverflowError\<close> outside years 1 to
  9999; comparisons and \<^verbatim>\<open>(a - b).days\<close> of midnight datetimes are those of the
  ordinals.\<close>

definition DAYS_IN_MONTH :: "int list" where
  "DAYS_IN_MONTH = [-1, 31, 28, 31, 30, 31, 30, 31, 31, 30, 31, 30, 31]"

definition DAYS_BEFORE_MONTH :: "int list" where
  "DAYS_BEFORE_MONTH = [-1, 0, 31, 59, 90, 120, 151, 181, 212, 243, 273, 304, 334]"

definition py_is_leap :: "int \<Rightarrow> bool" where
  "py_is_leap y = (y mod 4 = 0 \<and> (y mod 100 \<noteq> 0 \<or> y mod 400 = 0))"

definition days_before_year :: "int \<Rightarrow> int" where
  "days_before_year year = (let y = year - 1 in y * 365 + y div 4 - y div 100 + y div 400)"

definition days_before_month :: "int \<Rightarrow> nat \<Rightarrow> int" where
  "days_before_month y m = DAYS_BEFORE_MONTH ! m + (if 2 < m \<and> py_is_leap y then 1 else 0)"

definition ymd2ord :: "int \<Rightarrow> nat \<Rightarrow> nat \<Rightarrow> int" where
  "ymd2ord y m d = days_before_year y + days_before_month y m + int d"

definition ord2ymd :: "int \<Rightarrow> int \<times> nat \<times> nat" where
  "ord2ymd n0 =
     (let n = n0 - 1; n400 = n div 146097; n = n mod 146097; year = n400 * 400 + 1;
          n100 = n div 36524; n = n mod 36524; n4 = n div 1461; n = n mod 1461;
          n1 = n div 365; n = n mod 365; year = year + n100 * 100 + n4 * 4 + n1
      in if n1 = 4 \<or> n100 = 4 then (year - 1, 12, 31)
         else
           (let leapyear = (n1 = 3 \<and> (n4 \<noteq> 24 \<or> n100 = 3));
                month = nat ((n + 50) div 32);
                preceding = DAYS_BEFORE_MONTH ! month + (if 2 < month \<and> leapyear then 1 else 0)
            in if n < preceding then
                 (let month' = month - 1;
                      preceding' = preceding - (DAYS_IN_MONTH ! month' + (if month' = 2 \<and> leapyear then 1 else 0))
                  in (year, month', nat (n - preceding' + 1)))
               else (year, month, nat (n - preceding + 1))))"

definition MAX_ORDINAL :: int where
  "MAX_ORDINAL = 3652059"

definition sub_days :: "int \<Rightarrow> int \<Rightarrow> exc + int" where
  "sub_days ordn k = (if ordn - k < 1 \<or> MAX_ORDINAL < ordn - k then Inl (OtherException ''date value out of range'') else Inr (ordn - k))"

text \<open>\<^verbatim>\<open>strftime('%Y-%m-%d')\<close>, for years from 1000 on.\<close>

definition date_str :: "int \<Rightarrow> pystr" where
  "date_str ordn =
     (case ord2ymd ordn of (y, m, d) \<Rightarrow> nat_str (nat y) @ ''-'' @ py_zfill 2 (nat_str m) @ ''-'' @ py_zfill 2 (nat_str d))"

section \<open>get_akshare_indicators\<close>

text \<open>\<^verbatim>\<open>f"{value:.4f}"\<close>: rounding to four decimals, ties to even.\<close>

definition fmt4 :: "fval \<Rightarrow> pystr" where
  "fmt4 v =
     (case v of
        Num x \<Rightarrow>
          (let m = \<bar>x\<bar> * 10000; f = \<lfloor>m\<rfloor>;
               n = nat (if m - of_int f > 1 / 2 \<or> (m - of_int f = 1 / 2 \<and> odd f) then f + 1 else f)
           in (if x < 0 then ''-'' else []) @ nat_str (n div 10000) @ ''.'' @ py_zfill 4 (nat_str (n mod 10000)))
      | PosInf \<Rightarrow> ''inf''
      | NegInf \<Rightarrow> ''-inf''
      | NaN \<Rightarrow> ''nan'')"

definition NL :: pystr where
  "NL = [CHR 0x0A]"

text \<open>The closest earlier data date of the inner \<^verbatim>\<open>for\<close> loop, with its distance:
  \<open>None\<close> while \<^verbatim>\<open>min_diff\<close> is still infinite.\<close>

definition closest_step :: "int \<Rightarrow> int \<Rightarrow> (int \<times> int) option \<Rightarrow> (int \<times> int) option" where
  "closest_step cur a acc =
     (let diff = \<bar>cur - a\<bar> in
      if (case acc of None \<Rightarrow> True | Some (_, md) \<Rightarrow> diff < md) \<and> a \<le> cur then Some (a, diff) else acc)"

definition closest_date :: "int \<Rightarrow> int list \<Rightarrow> (int \<times> int) option" where
  "closest_date cur dates = fold (closest_step cur) dates None"

text \<open>\<^verbatim>\<open>indicator_values.loc[d]\<close> is a Series when \<open>d\<close> occurs twice in the index,
  and \<^verbatim>\<open>if pd.isna(value)\<close> then raises.\<close>

definition SERIES_AMBIGUOUS :: pystr where
  "SERIES_AMBIGUOUS =
     ''The truth value of a Series is ambiguous. Use a.empty, a.bool(), a.item(), a.any() or a.all().''"

definition value_line :: "int list \<Rightarrow> fval list \<Rightarrow> int \<Rightarrow> exc + pystr" where
  "value_line dates vals cur =
     (let ds = date_str cur in
      case closest_date cur dates of
        Some (cd, md) \<Rightarrow>
          if md \<le> 7 then
            (if 1 < count_list dates cd then Inl (OtherException SERIES_AMBIGUOUS)
             else (let v = vals ! length (takeWhile (\<lambda>a. a \<noteq> cd) dates) in
                   Inr (if isna v then ds @ '': N/A'' @ NL else ds @ '': '' @ fmt4 v @ NL)))
          else Inr (ds @ '': N/A: Not a trading day'' @ NL)
      | None \<Rightarrow> Inr (ds @ '': N/A: Not a trading day'' @ NL))"

text \<open>The \<^verbatim>\<open>while current_dt >= before_date\<close> loop, one line per day, newest first.\<close>

function report_loop :: "int list \<Rightarrow> fval list \<Rightarrow> int \<Rightarrow> int \<Rightarrow> exc + pystr" where
  "report_loop dates vals before_d cur =
     (if before_d \<le> cur then
        (case value_line dates vals cur of
           Inl e \<Rightarrow> Inl e
         | Inr l \<Rightarrow> (case report_loop dates vals before_d (cur - 1) of Inl e \<Rightarrow> Inl e | Inr rest \<Rightarrow> Inr (l @ rest)))
      else Inr [])"
  by pat_completeness auto
termination
  by (relation "measure (\<lambda>(_, _, before_d, cur). nat (cur - before_d + 1))") auto

text \<open>\<^verbatim>\<open>repr\<close> of a string without backslashes or control characters.\<close>

definition py_repr :: "pystr \<Rightarrow> pystr" where
  "py_repr s =
     (if CHR 0x27 \<in> set s \<and> CHR 0x22 \<notin> set s then CHR 0x22 # s @ [CHR 0x22]
      else CHR 0x27 # concat (map (\<lambda>c. if c = CHR 0x27 then [CHR 0x5C, c] else [c]) s) @ [CHR 0x27])"

text \<open>The message of the \<^verbatim>\<open>ValueError\<close> of \<^verbatim>\<open>datetime.strptime(s, "%Y-%m-%d")\<close>,
  branch by branch of \<open>strptime_ymd\<close>.\<close>

definition strptime_msg :: "pystr \<Rightarrow> pystr" where
  "strptime_msg s =
     (case ymd_first_match s of
        None \<Rightarrow> ''time data '' @ py_repr s @ '' does not match format '' @ py_repr ''%Y-%m-%d''
      | Some (m, d) \<Rightarrow>
          if length s \<noteq> 6 + fst m + fst d then ''unconverted data remains: '' @ drop (6 + fst m + fst d) s
          else if digits_val (take 4 s) = 0 then ''year 0 is out of range''
          else ''day is out of range for month'')"

text \<open>One entry of \<^verbatim>\<open>indicator_params\<close>: the display name, the columns its
  \<^verbatim>\<open>calc_func\<close> reads, in the order of their first access (a missing one raises
  \<^verbatim>\<open>KeyError\<close>), and the \<^verbatim>\<open>calc_func\<close>. The Chinese description is named by the
  key of the entry.\<close>

record indicator_param =
  ip_name :: pystr
  ip_cols :: "pystr list"
  ip_calc :: "ohlcv_frame \<Rightarrow> fval list"

definition indicator_params :: "(pystr \<times> indicator_param) list" where
  "indicator_params =
     [(''close_50_sma'', \<lparr>ip_name = ''50 SMA'', ip_cols = [''Close''], ip_calc = \<lambda>df. calculate_sma df 50\<rparr>),
      (''close_200_sma'', \<lparr>ip_name = ''200 SMA'', ip_cols = [''Close''], ip_calc = \<lambda>df. calculate_sma df 200\<rparr>),
      (''close_10_ema'', \<lparr>ip_name = ''10 EMA'', ip_cols = [''Close''], ip_calc = \<lambda>df. calculate_ema df 10\<rparr>),
      (''macd'', \<lparr>ip_name = ''MACD'', ip_cols = [''Close''], ip_calc = \<lambda>df. macd_line (calculate_macd df 12 26 9)\<rparr>),
      (''macds'', \<lparr>ip_name = ''MACD Signal'', ip_cols = [''Close''],
                   ip_calc = \<lambda>df. signal_line (calculate_macd df 12 26 9)\<rparr>),
      (''macdh'', \<lparr>ip_name = ''MACD Histogram'', ip_cols = [''Close''],
                   ip_calc = \<lambda>df. histogram (calculate_macd df 12 26 9)\<rparr>),
      (''rsi'', \<lparr>ip_name = ''RSI'', ip_cols = [''Close''], ip_calc = \<lambda>df. calculate_rsi df 14\<rparr>),
      (''boll'', \<lparr>ip_name = ''Bollinger Middle'', ip_cols = [''Close''],
                  ip_calc = \<lambda>df. middle (calculate_bollinger_bands df 20 2)\<rparr>),
      (''boll_ub'', \<lparr>ip_name = ''Bollinger Upper Band'', ip_cols = [''Close''],
                     ip_calc = \<lambda>df. upper (calculate_bollinger_bands df 20 2)\<rparr>),
      (''boll_lb'', \<lparr>ip_name = ''Bollinger Lower Band'', ip_cols = [''Close''],
                     ip_calc = \<lambda>df. lower (calculate_bollinger_bands df 20 2)\<rparr>),
      (''atr'', \<lparr>ip_name = ''ATR'', ip_cols = [''High'', ''Low'', ''Close''], ip_calc = \<lambda>df. calculate_atr df 14\<rparr>),
      (''vwma'', \<lparr>ip_name = ''VWMA'', ip_cols = [''Close'', ''Volume''], ip_calc = \<lambda>df. calculate_vwma df 20\<rparr>),
      (''mfi'', \<lparr>ip_name = ''MFI'', ip_cols = [''High'', ''Low'', ''Close'', ''Volume''],
                 ip_calc = \<lambda>df. calculate_mfi df 14\<rparr>)]"

text \<open>What \<^verbatim>\<open>pd.read_csv\<close> gives: the header, \<^verbatim>\<open>pd.to_datetime\<close> of a column as
  day ordinals (or its exception), and the numeric values of a column. The library
  calls are oracles: \<open>il_ak\<close> for \<^verbatim>\<open>akshare_stock.get_stock_data\<close> and
  \<open>read_csv\<close> for the parser.\<close>

record csv_table =
  rt_columns :: "pystr list"
  rt_to_datetime :: "pystr \<Rightarrow> exc + int list"
  rt_values :: "pystr \<Rightarrow> real list"

record ind_lib =
  il_ak :: ak_lib
  read_csv :: "pystr \<Rightarrow> exc + csv_table"

text \<open>\<^verbatim>\<open>column_mapping\<close> and \<^verbatim>\<open>df[c]\<close> after \<^verbatim>\<open>set_index(date_col)\<close> and
  \<^verbatim>\<open>rename\<close>: the raw column renamed to \<open>c\<close>.\<close>

definition column_rename :: "pystr \<Rightarrow> pystr" where
  "column_rename c =
     (if c = ''open'' then ''Open'' else if c = ''high'' then ''High'' else if c = ''low'' then ''Low''
      else if c = ''close'' then ''Close'' else if c = ''volume'' then ''Volume'' else c)"

definition frame_col :: "csv_table \<Rightarrow> pystr \<Rightarrow> pystr \<Rightarrow> pystr option" where
  "frame_col t dc c = find (\<lambda>r. column_rename r = c) (filter (\<lambda>r. r \<noteq> dc) (rt_columns t))"

definition build_frame :: "csv_table \<Rightarrow> pystr \<Rightarrow> pystr list \<Rightarrow> exc + ohlcv_frame" where
  "build_frame t dc cols =
     (case find (\<lambda>c. frame_col t dc c = None) cols of
        Some c \<Rightarrow> Inl (OtherException (py_repr c))
      | None \<Rightarrow>
          (let col = (\<lambda>c. case frame_col t dc c of Some r \<Rightarrow> rt_values t r | None \<Rightarrow> []) in
           Inr \<lparr>Close = col ''Close'', High = col ''High'', Low = col ''Low'', Volume = col ''Volume''\<rparr>))"

text \<open>The header search of the CSV text: the first line that mentions a date column.\<close>

definition is_header :: "pystr \<Rightarrow> bool" where
  "is_header line =
     (let line = py_strip line in
      line \<noteq> [] \<and> (py_contains ''Date,'' line \<or> py_startswith line ''Date,'' \<or>
                    py_contains ''date,'' line \<or> py_startswith line ''date,''))"

definition data_start :: "pystr list \<Rightarrow> nat" where
  "data_start lines = (let k = length (takeWhile (\<lambda>l. \<not> is_header l) lines) in if k < length lines then k else 0)"

text \<open>The result: a plain string, or the report whose text is followed by
  \<^verbatim>\<open>"\n\n"\<close> and the Chinese description of the indicator with the given key.\<close>

datatype ind_result = IndText pystr | IndReport pystr pystr

text \<open>The body of the \<^verbatim>\<open>try\<close> block: \<open>Inl\<close> of the exception it raises.\<close>

definition ind_body :: "ind_lib \<Rightarrow> pystr \<Rightarrow> pystr \<Rightarrow> indicator_param \<Rightarrow> pystr \<Rightarrow> int \<Rightarrow> exc + ind_result" where
  "ind_body lib symbol indicator ip curr_date look_back_days =
     (let market = info_market (get_market_info symbol) in
      if \<not> is_market_supported symbol ''akshare''
      then Inr (IndText (''Error: Market '' @ market_str market @ '' is not supported by AKShare''))
      else case strptime_ymd curr_date of
        None \<Rightarrow> Inl (OtherException (strptime_msg curr_date))
      | Some (y, m, d) \<Rightarrow>
      (let cur = ymd2ord (int y) m d in
       case sub_days cur (look_back_days + 200) of
         Inl e \<Rightarrow> Inl e
       | Inr start \<Rightarrow>
       (case akshare_get_stock_data (il_ak lib) symbol (date_str start) curr_date of
          Raised e \<Rightarrow> Inl e
        | Returned csv \<Rightarrow>
          if py_startswith csv ''Error'' \<or> py_startswith csv ''No data''
          then Inr (IndText (''Error getting stock data: '' @ csv))
          else
          (let lines = py_split (CHR 0x0A) csv;
               csv_data = py_strip (py_join NL (drop (data_start lines) lines)) in
           if csv_data = [] then Inr (IndText (''Error: No valid CSV data found for '' @ symbol))
           else case read_csv lib csv_data of
             Inl e \<Rightarrow> Inl e
           | Inr t \<Rightarrow>
           (case find (\<lambda>c. c \<in> set (rt_columns t)) [''Date'', ''date''] of
              None \<Rightarrow> Inr (IndText (''Error: No date column found in data for '' @ symbol))
            | Some dc \<Rightarrow>
            (case rt_to_datetime t dc of
               Inl e \<Rightarrow> Inl e
             | Inr dates \<Rightarrow>
               if dates = [] \<or> filter (\<lambda>c. c \<noteq> dc) (rt_columns t) = []
               then Inr (IndText (''Error: No valid data for symbol '' @ symbol))
               else case build_frame t dc (ip_cols ip) of
                 Inl e \<Rightarrow> Inl e
               | Inr df \<Rightarrow>
               (case sub_days cur look_back_days of
                  Inl e \<Rightarrow> Inl e
                | Inr before_d \<Rightarrow>
                  (case report_loop dates (ip_calc ip df) before_d cur of
                     Inl e \<Rightarrow> Inl e
                   | Inr body \<Rightarrow>
                       Inr (IndReport (''## '' @ ip_name ip @ '' values from '' @ date_str before_d @ '' to '' @
                                       curr_date @ '':'' @ NL @ NL @ body) indicator)))))))))"

definition get_akshare_indicators :: "ind_lib \<Rightarrow> pystr \<Rightarrow> pystr \<Rightarrow> pystr \<Rightarrow> int \<Rightarrow> ind_result" where
  "get_akshare_indicators lib symbol indicator curr_date look_back_days =
     (if \<not> ak_available (il_ak lib)
      then IndText ''Error: AKShare is not installed. Please install with: pip install akshare''
      else case map_of indicator_params indicator of
        None \<Rightarrow> IndText (''Error: Indicator '' @ py_repr indicator @ '' is not supported. Supported indicators: '' @
                        ''['' @ py_join '', '' (map (py_repr \<circ> fst) indicator_params) @ '']'')
      | Some ip \<Rightarrow>
          (case ind_body lib symbol indicator ip curr_date look_back_days of
             Inl e \<Rightarrow> IndText (''Error calculating '' @ indicator @ '' for '' @ symbol @ '': '' @ exc_str e)
           | Inr r \<Rightarrow> r))"

section \<open>Specifications\<close>

text \<open>A percentage or a missing value; a non-negative value or a missing value; three
  bands in order.\<close>

fun pct_or_nan :: "fval \<Rightarrow> bool" where
  "pct_or_nan (Num x) = (0 \<le> x \<and> x \<le> 100)"
| "pct_or_nan NaN = True"
| "pct_or_nan _ = False"

fun nonneg_or_nan :: "fval \<Rightarrow> bool" where
  "nonneg_or_nan (Num x) = (0 \<le> x)"
| "nonneg_or_nan NaN = True"
| "nonneg_or_nan _ = False"

fun ordered3 :: "fval \<Rightarrow> fval \<Rightarrow> fval \<Rightarrow> bool" where
  "ordered3 (Num a) (Num b) (Num c) = (a \<le> b \<and> b \<le> c)"
| "ordered3 NaN NaN NaN = True"
| "ordered3 _ _ _ = False"

text \<open>The trading days on or before a day, and the result of a sequence of per-day
  lines: the first exception, or the lines joined.\<close>

definition latest_before :: "int \<Rightarrow> int list \<Rightarrow> int set" where
  "latest_before cur dates = set (filter (\<lambda>a. a \<le> cur) dates)"

fun seq_lines :: "(exc + pystr) list \<Rightarrow> exc + pystr" where
  "seq_lines [] = Inr []"
| "seq_lines (Inl e # _) = Inl e"
| "seq_lines (Inr l # rs) = (case seq_lines rs of Inl e \<Rightarrow> Inl e | Inr r \<Rightarrow> Inr (l @ r))"

declare report_loop.simps [simp del]

section \<open>Lemmas\<close>

subsection \<open>Rolling windows and the bounded indicators\<close>

lemma length_rolling [simp]: "length (rolling p agg xs) = length xs"
  by (simp add: rolling_def)

lemma set_rolling:
  assumes "v \<in> set (rolling p agg xs)"
  shows "v = NaN \<or> (\<exists>w. set w \<subseteq> set xs \<and> v = agg w)"
proof -
  from assms have "v \<in> (\<lambda>i. if Suc i < p then NaN else agg (take p (drop (Suc i - p) xs))) ` set [0..<length xs]"
    by (simp add: rolling_def)
  then obtain i where v: "v = (if Suc i < p then NaN else agg (take p (drop (Suc i - p) xs)))"
    by blast
  have "set (take p (drop (Suc i - p) xs)) \<subseteq> set xs"
    by (rule order_trans [OF set_take_subset set_drop_subset])
  with v show ?thesis by auto
qed

lemma rolling_nonneg:
  assumes "list_all (\<lambda>x. 0 \<le> x) xs" "agg = rmean \<or> agg = rsum"
  shows "list_all nonneg_or_nan (rolling p agg xs)"
proof -
  have "nonneg_or_nan v" if "v \<in> set (rolling p agg xs)" for v
  proof -
    from set_rolling [OF that] consider "v = NaN" | w where "set w \<subseteq> set xs" "v = agg w" by blast
    then show ?thesis
    proof cases
      case 2
      with assms(1) have "\<forall>x \<in> set w. 0 \<le> x" by (auto simp: list_all_iff)
      hence "0 \<le> sum_list w" by (simp add: sum_list_nonneg)
      with 2 assms(2) show ?thesis by (auto simp: rmean_def rsum_def)
    qed simp
  qed
  then show ?thesis by (simp add: list_all_iff)
qed

lemma gains_nonneg: "list_all (\<lambda>x. 0 \<le> x) (gains xs)"
  by (auto simp: gains_def list_all_iff)

lemma losses_nonneg: "list_all (\<lambda>x. 0 \<le> x) (losses xs)"
  by (auto simp: losses_def list_all_iff)

lemma index_ratio_pct:
  assumes "nonneg_or_nan g" "nonneg_or_nan l"
  shows "pct_or_nan (index_of_ratio (fdiv g l))"
proof (cases g)
  case (Num a)
  show ?thesis
  proof (cases l)
    case (Num b)
    show ?thesis
    proof (cases "b = 0")
      case False
      with assms \<open>g = Num a\<close> \<open>l = Num b\<close> have r: "0 \<le> a / b" by simp
      hence "100 / (1 + a / b) \<le> 100" by (simp add: divide_le_eq)
      moreover have "0 \<le> 100 / (1 + a / b)" "1 + a / b \<noteq> 0" using r by simp_all
      ultimately show ?thesis using False \<open>g = Num a\<close> \<open>l = Num b\<close>
        by (simp add: index_of_ratio_def fsub_def)
    qed (use \<open>g = Num a\<close> \<open>l = Num b\<close> assms in \<open>auto simp: index_of_ratio_def fsub_def finf_def\<close>)
  qed (use \<open>g = Num a\<close> assms in \<open>auto simp: index_of_ratio_def fsub_def finf_def\<close>)
qed (use assms in \<open>auto simp: index_of_ratio_def fsub_def\<close>)

lemma list_all_map2:
  "list_all P xs \<Longrightarrow> list_all Q ys \<Longrightarrow> (\<And>x y. P x \<Longrightarrow> Q y \<Longrightarrow> R (f x y)) \<Longrightarrow> list_all R (map2 f xs ys)"
  by (auto simp: list_all_iff) (meson set_zip_leftD set_zip_rightD)

text \<open>C32: every value of \<^verbatim>\<open>calculate_rsi\<close> is a percentage between 0 and 100,
  or NaN (a window not yet full, or no gain and no loss in the window), whatever the
  closing prices and the period.\<close>

theorem rsi_in_range: "list_all pct_or_nan (calculate_rsi df period)"
  unfolding calculate_rsi_def Let_def
  by (rule list_all_map2 [OF rolling_nonneg [OF gains_nonneg] rolling_nonneg [OF losses_nonneg]])
     (simp_all add: index_ratio_pct)

lemma flows_nonneg: "list_all (\<lambda>x. 0 \<le> x) mf \<Longrightarrow> list_all (\<lambda>x. 0 \<le> x) (flows cmp tp mf)"
  by (cases mf) (auto simp: flows_def list_all_iff dest!: set_zip_leftD)

lemma typical_price_nonneg:
  "list_all (\<lambda>x. 0 \<le> x) (High df) \<Longrightarrow> list_all (\<lambda>x. 0 \<le> x) (Low df) \<Longrightarrow>
   list_all (\<lambda>x. 0 \<le> x) (Close df) \<Longrightarrow> list_all (\<lambda>x. 0 \<le> x) (typical_price df)"
  unfolding typical_price_def
  by (rule list_all_map2 [where P = "\<lambda>x. 0 \<le> x" and Q = "\<lambda>(l, c). 0 \<le> l \<and> 0 \<le> c"])
     (auto simp: list_all_iff dest: set_zip_leftD set_zip_rightD)

theorem mfi_in_range:
  assumes "list_all (\<lambda>x. 0 \<le> x) (High df)" "list_all (\<lambda>x. 0 \<le> x) (Low df)"
    "list_all (\<lambda>x. 0 \<le> x) (Close df)" "list_all (\<lambda>x. 0 \<le> x) (Volume df)"
  shows "list_all pct_or_nan (calculate_mfi df period)"
proof -
  have mf: "list_all (\<lambda>x. 0 \<le> x) (map2 (*) (typical_price df) (Volume df))"
    by (rule list_all_map2 [OF typical_price_nonneg [OF assms(1-3)] assms(4)]) simp
  show ?thesis
    unfolding calculate_mfi_def Let_def
    by (rule list_all_map2 [OF rolling_nonneg [OF flows_nonneg [OF mf]] rolling_nonneg [OF flows_nonneg [OF mf]]])
       (simp_all add: index_ratio_pct)
qed

lemma rstd_Num: "1 < length w \<Longrightarrow> \<exists>sd. rstd w = Num sd \<and> 0 \<le> sd"
  by (auto simp: rstd_def Let_def intro!: divide_nonneg_pos sum_list_nonneg)

lemma rolling_nth:
  "i < length xs \<Longrightarrow> rolling p agg xs ! i = (if Suc i < p then NaN else agg (take p (drop (Suc i - p) xs)))"
  by (simp add: rolling_def)

text \<open>C19: for a window of at least two rows and a non-negative width, each row of
  \<^verbatim>\<open>calculate_bollinger_bands\<close> has lower band \<open>\<le>\<close> middle \<open>\<le>\<close> upper band,
  all three NaN while the window is not full.\<close>

theorem bollinger_ordered:
  assumes "2 \<le> period" "0 \<le> std_dev"
  shows "list_all (\<lambda>(l, m, u). ordered3 l m u)
           (zip (lower (calculate_bollinger_bands df period std_dev))
              (zip (middle (calculate_bollinger_bands df period std_dev))
                 (upper (calculate_bollinger_bands df period std_dev))))"
proof -
  have "ordered3 (fsub (rolling period rmean (Close df) ! i) (fmul (rolling period rstd (Close df) ! i) (Num std_dev)))
          (rolling period rmean (Close df) ! i)
          (fadd (rolling period rmean (Close df) ! i) (fmul (rolling period rstd (Close df) ! i) (Num std_dev)))"
    if i: "i < length (Close df)" for i
  proof (cases "Suc i < period")
    case False
    let ?w = "take period (drop (Suc i - period) (Close df))"
    from i False have len: "length ?w = period" by simp
    with assms(1) have "1 < length ?w" by simp
    then obtain sd where sd: "rstd ?w = Num sd" "0 \<le> sd" using rstd_Num by blast
    with i False assms(2) show ?thesis
      by (simp add: rolling_nth rmean_def fsub_def)
  qed (simp add: rolling_nth i fsub_def)
  then show ?thesis
    by (auto simp: calculate_bollinger_bands_def Let_def list_all_length)
qed

lemma ewm_from_const: "ewm_from a c (replicate n c) = replicate n c"
  by (induction n) (simp_all add: algebra_simps)

lemma ema_constant: "ewm_mean sp (replicate n c) = replicate n c"
  by (cases n) (simp_all add: ewm_mean_def ewm_from_const)

subsection \<open>The report of get_akshare_indicators\<close>

lemma count_list_distinct: "distinct xs \<Longrightarrow> \<not> Suc 0 < count_list xs a"
  by (induction xs) auto

text \<open>The \<^verbatim>\<open>while\<close> loop of \<^verbatim>\<open>get_akshare_indicators\<close> computes
  the line of each day from \<^verbatim>\<open>curr_date\<close> down to \<^verbatim>\<open>before_date\<close>, in that
  order, and stops at the first exception.\<close>

theorem report_loop_lines:
  "report_loop dates vals b c = seq_lines (map (value_line dates vals) (rev [b..c]))"
proof (induction dates vals b c rule: report_loop.induct)
  case (1 dates vals b c)
  show ?case
  proof (cases "b \<le> c")
    case True
    then have "rev [b..c] = c # rev [b..c - 1]" by (simp add: upto_rec2)
    with True 1 show ?thesis
      by (simp add: report_loop.simps [of dates vals b c] split: sum.split)
  qed (simp add: report_loop.simps [of dates vals b c])
qed

lemma Max_insert_below:
  assumes "finite S" "b \<le> a0"
  shows "Max (insert a0 (insert b S)) = Max (insert a0 S)"
proof -
  have "a0 \<le> Max (insert a0 S)" using assms(1) by simp
  with assms(2) have "b \<le> Max (insert a0 S)" by simp
  then show ?thesis using assms(1) by (simp add: insert_commute [of a0 b] max_absorb2)
qed

lemma closest_fold_Some:
  assumes "a0 \<le> cur"
  shows "fold (closest_step cur) dates (Some (a0, cur - a0)) =
         Some (Max (insert a0 (latest_before cur dates)), cur - Max (insert a0 (latest_before cur dates)))"
  using assms
proof (induction dates arbitrary: a0)
  case (Cons a ds)
  have fin: "finite (latest_before cur ds)" by (simp add: latest_before_def)
  show ?case
  proof (cases "a \<le> cur \<and> a0 < a")
    case True
    moreover have "a \<le> Max (insert a (latest_before cur ds))" using fin by simp
    ultimately have "a0 \<le> Max (insert a (latest_before cur ds))" by simp
    then have "Max (insert a0 (latest_before cur (a # ds))) = Max (insert a (latest_before cur ds))"
      using True fin by (simp add: latest_before_def insert_commute max_absorb2)
    with True Cons.IH [of a] show ?thesis by (simp add: closest_step_def)
  next
    case False
    then have "Max (insert a0 (latest_before cur (a # ds))) = Max (insert a0 (latest_before cur ds))"
      using fin Max_insert_below [OF fin, of a a0] by (cases "a \<le> cur") (auto simp: latest_before_def)
    with False Cons.prems Cons.IH [of a0] show ?thesis by (auto simp: closest_step_def)
  qed
qed (simp add: latest_before_def)

lemma closest_fold_None:
  "fold (closest_step cur) dates None =
     (if latest_before cur dates = {} then None
      else Some (Max (latest_before cur dates), cur - Max (latest_before cur dates)))"
proof (induction dates)
  case (Cons a ds)
  show ?case
  proof (cases "a \<le> cur")
    case True
    then have "closest_step cur a None = Some (a, cur - a)" by (simp add: closest_step_def)
    with True closest_fold_Some [OF True, of ds] show ?thesis by (simp add: latest_before_def)
  next
    case False
    then show ?thesis using Cons.IH by (simp add: closest_step_def latest_before_def)
  qed
qed (simp add: latest_before_def)


text \<open>C14: the inner \<^verbatim>\<open>for\<close> loop finds the latest trading day on or before the
  reported day, with its distance in days, and \<open>None\<close> when every trading day is later.\<close>

theorem closest_date_latest:
  "closest_date cur dates =
     (if latest_before cur dates = {} then None
      else Some (Max (latest_before cur dates), cur - Max (latest_before cur dates)))"
  by (simp add: closest_date_def closest_fold_None)

lemma value_line_cases:
  "(\<exists>r. value_line dates vals d = Inr (date_str d @ r @ NL)) \<or>
   value_line dates vals d = Inl (OtherException SERIES_AMBIGUOUS)"
  by (auto simp: value_line_def Let_def split: option.split)

lemma value_line_Inr:
  assumes "distinct dates"
  shows "\<exists>r. value_line dates vals d = Inr (date_str d @ r @ NL)"
  using assms by (auto simp: value_line_def Let_def count_list_distinct split: option.split)

lemma seq_lines_Inr: "seq_lines (map (Inr \<circ> g) xs) = Inr (concat (map g xs))"
  by (induction xs) simp_all

lemma seq_lines_Inl:
  "\<forall>x\<in>set xs. x \<in> range Inr \<or> x = Inl e \<Longrightarrow> Inl e \<in> set xs \<Longrightarrow> seq_lines xs = Inl e"
  by (induction xs rule: seq_lines.induct) (auto split: sum.split)

text \<open>C16: when the trading days of the frame are distinct, the loop raises no
  exception and writes exactly one line per day from \<^verbatim>\<open>curr_date\<close> down to
  \<^verbatim>\<open>before_date\<close>, each starting with that day and ending with a newline.\<close>

theorem report_loop_one_line_per_day:
  assumes "distinct dates"
  shows "\<exists>ls. report_loop dates vals b c = Inr (concat ls) \<and>
              list_all2 (\<lambda>l d. \<exists>r. l = date_str d @ r @ NL) ls (rev [b..c])"
proof -
  define g where "g d = projr (value_line dates vals d)" for d
  have vl: "value_line dates vals d = Inr (g d) \<and> (\<exists>r. g d = date_str d @ r @ NL)" for d
    using value_line_Inr [OF assms, of vals d] by (auto simp: g_def)
  then have "value_line dates vals = Inr \<circ> g" by auto
  moreover have "list_all2 (\<lambda>l d. \<exists>r. l = date_str d @ r @ NL) (map g (rev [b..c])) (rev [b..c])"
    using vl by (simp add: list_all2_map1 list_all2_same)
  ultimately show ?thesis unfolding report_loop_lines by (auto simp: seq_lines_Inr)
qed

text \<open>C17: when a day of the range takes its value from a trading day that occurs twice
  in the frame, \<^verbatim>\<open>indicator_values.loc\<close> returns a Series, \<^verbatim>\<open>pd.isna\<close> of it
  cannot be used in \<^verbatim>\<open>if\<close>, and the whole report fails with the ambiguity error.\<close>

theorem report_loop_duplicate_date:
  assumes "b \<le> d" "d \<le> c" "closest_date d dates = Some (a, md)" "md \<le> 7" "1 < count_list dates a"
  shows "report_loop dates vals b c = Inl (OtherException SERIES_AMBIGUOUS)"
proof -
  have "value_line dates vals d = Inl (OtherException SERIES_AMBIGUOUS)"
    using assms(3-5) by (simp add: value_line_def)
  moreover have "d \<in> set (rev [b..c])" using assms(1,2) by simp
  ultimately show ?thesis unfolding report_loop_lines
    by (intro seq_lines_Inl) (use value_line_cases in force)+
qed

subsection \<open>Instances\<close>

lemma bollinger_ordered_witness:
  "list_all (\<lambda>(l, m, u). ordered3 l m u)
     (zip (lower (calculate_bollinger_bands \<lparr>Close = [10, 11, 12], High = [], Low = [], Volume = []\<rparr> 20 2))
        (zip (middle (calculate_bollinger_bands \<lparr>Close = [10, 11, 12], High = [], Low = [], Volume = []\<rparr> 20 2))
           (upper (calculate_bollinger_bands \<lparr>Close = [10, 11, 12], High = [], Low = [], Volume = []\<rparr> 20 2))))"
  using bollinger_ordered [of 20 2 "\<lparr>Close = [10, 11, 12], High = [], Low = [], Volume = []\<rparr>"] by simp

lemma report_loop_one_line_per_day_witness:
  "\<exists>ls. report_loop [ymd2ord 2025 1 2, ymd2ord 2025 1 3] [Num 1, Num 2] (ymd2ord 2025 1 1) (ymd2ord 2025 1 4) =
        Inr (concat ls) \<and>
        list_all2 (\<lambda>l d. \<exists>r. l = date_str d @ r @ NL) ls (rev [ymd2ord 2025 1 1..ymd2ord 2025 1 4])"
  using report_loop_one_line_per_day [of "[ymd2ord 2025 1 2, ymd2ord 2025 1 3]" "[Num 1, Num 2]"
                                         "ymd2ord 2025 1 1" "ymd2ord 2025 1 4"]
  by (simp add: ymd2ord_def days_before_year_def days_before_month_def DAYS_BEFORE_MONTH_def)

lemma report_loop_duplicate_date_witness:
  "report_loop [ymd2ord 2025 1 3, ymd2ord 2025 1 3] [Num 1, Num 1] (ymd2ord 2025 1 1) (ymd2ord 2025 1 6) =
     Inl (OtherException SERIES_AMBIGUOUS)"
  using report_loop_duplicate_date [where b = "ymd2ord 2025 1 1" and d = "ymd2ord 2025 1 6" and c = "ymd2ord 2025 1 6"
                                      and dates = "[ymd2ord 2025 1 3, ymd2ord 2025 1 3]" and a = "ymd2ord 2025 1 3"
                                      and md = 3 and vals = "[Num 1, Num 1]"]
  by (simp add: ymd2ord_def days_before_year_def days_before_month_def DAYS_BEFORE_MONTH_def py_is_leap_def
                closest_date_def closest_step_def)

end
