(* ===== verification/Stockstats.thy ===== *)
theory Stockstats
  imports Indicators
begin

text \<open>
  \<^verbatim>\<open>StockstatsUtils.get_stock_stats\<close> of \<^verbatim>\<open>dataflows/stockstats_utils.py\<close>: the value
  of a stockstats indicator for a symbol on a day. The data come from a bundled CSV file
  (configuration \<^verbatim>\<open>"local"\<close>) or from a CSV cache of Yahoo Finance downloads covering
  the fifteen years up to today; the row is chosen by an exact date match, or else by a
  scan for the latest earlier trading day within seven days.

  pandas, stockstats and yfinance are the oracle \<open>ss_lib\<close>: reading a CSV file, the
  download, \<^verbatim>\<open>pd.to_datetime\<close> of a string, and \<^verbatim>\<open>wrap(data)\<close> with the
  indicator column \<^verbatim>\<open>df[indicator]\<close>, which yields the dates of the rows (as
  \<^verbatim>\<open>datetime\<close> ordinals, as in \<open>Indicators\<close>) with the indicator's values. Dates are
  ordinals and \<^verbatim>\<open>strftime('%Y-%m-%d')\<close> is \<open>date_str\<close>. The files written to the cache
  are returned with the result.
\<close>

section \<open>Library and configuration\<close>

record ('f, 'v) ss_lib =
  ss_today :: int
  ss_to_datetime :: "pystr \<Rightarrow> int option"
  ss_exists :: "pystr \<Rightarrow> bool"
  ss_read_csv :: "pystr \<Rightarrow> exc + 'f"
  ss_download :: "pystr \<Rightarrow> pystr \<Rightarrow> pystr \<Rightarrow> exc + 'f"
  ss_wrap :: "'f \<Rightarrow> pystr \<Rightarrow> exc + int list \<times> 'v list"

text \<open>\<^verbatim>\<open>os.path.join(a, b)\<close> for a relative \<open>b\<close>.\<close>

definition path_join :: "pystr \<Rightarrow> pystr \<Rightarrow> pystr" where
  "path_join a b = (if a = [] \<or> last a = CHR ''/'' then a @ b else a @ ''/'' @ b)"

text \<open>\<^verbatim>\<open>ts - pd.DateOffset(years=k)\<close>: the same month and day \<open>k\<close> years earlier,
  the day clipped to the length of the month (29 February becomes 28 February).\<close>

definition days_in_month :: "int \<Rightarrow> nat \<Rightarrow> int" where
  "days_in_month y m = DAYS_IN_MONTH ! m + (if m = 2 \<and> py_is_leap y then 1 else 0)"

definition minus_years :: "nat \<Rightarrow> int \<Rightarrow> int" where
  "minus_years k ordn =
     (case ord2ymd ordn of (y, m, d) \<Rightarrow>
        let y' = y - int k in ymd2ord y' m (min d (nat (days_in_month y' m))))"

text \<open>The message of \<^verbatim>\<open>pd.to_datetime\<close> on a string it cannot parse.\<close>

definition UNPARSABLE_DATE :: "pystr \<Rightarrow> pystr" where
  "UNPARSABLE_DATE s = ''Unknown datetime string format, unable to parse: '' @ s"

definition STOCKSTATS_NOT_FETCHED :: pystr where
  "STOCKSTATS_NOT_FETCHED = ''Stockstats fail: Yahoo Finance data not fetched yet!''"

definition NOT_TRADING_DAY :: pystr where
  "NOT_TRADING_DAY = ''N/A: Not a trading day (weekend or holiday)''"

definition to_datetime :: "('f, 'v) ss_lib \<Rightarrow> pystr \<Rightarrow> exc + int" where
  "to_datetime lib s = (case ss_to_datetime lib s of Some d \<Rightarrow> Inr d | None \<Rightarrow> Inl (OtherException (UNPARSABLE_DATE s)))"

section \<open>Loading the data\<close>

text \<open>The bundled file, when the technical indicators are configured \<^verbatim>\<open>"local"\<close>:
  \<^verbatim>\<open>FileNotFoundError\<close> becomes the \<^verbatim>\<open>Exception\<close> of the source.\<close>

definition ss_load_local :: "('f, 'v) ss_lib \<Rightarrow> pystr \<Rightarrow> pystr \<Rightarrow> exc + 'f" where
  "ss_load_local lib data_dir symbol =
     (let p = path_join data_dir (symbol @ ''-YFin-data-2015-01-01-2025-03-25.csv'') in
      if \<not> ss_exists lib p then Inl (OtherException STOCKSTATS_NOT_FETCHED)
      else ss_read_csv lib p)"

text \<open>The online branch: the cache file named by today's fifteen-year window, read when
  it exists and downloaded and written otherwise; \<^verbatim>\<open>curr_date\<close> is parsed first and
  formatted again afterwards.\<close>

definition ss_cache_file :: "('f, 'v) ss_lib \<Rightarrow> pystr \<Rightarrow> pystr \<Rightarrow> pystr" where
  "ss_cache_file lib cache_dir symbol =
     path_join cache_dir (symbol @ ''-YFin-data-'' @ date_str (minus_years 15 (ss_today lib)) @ ''-'' @
                          date_str (ss_today lib) @ ''.csv'')"

definition ss_load_online :: "('f, 'v) ss_lib \<Rightarrow> pystr \<Rightarrow> pystr \<Rightarrow> pystr \<Rightarrow> (exc + 'f \<times> pystr) \<times> pystr list" where
  "ss_load_online lib cache_dir symbol curr_date =
     (case to_datetime lib curr_date of
        Inl e \<Rightarrow> (Inl e, [])
      | Inr cd \<Rightarrow>
          (let p = ss_cache_file lib cache_dir symbol in
           if ss_exists lib p then
             (case ss_read_csv lib p of Inl e \<Rightarrow> (Inl e, []) | Inr data \<Rightarrow> (Inr (data, date_str cd), []))
           else
             (case ss_download lib symbol (date_str (minus_years 15 (ss_today lib))) (date_str (ss_today lib)) of
                Inl e \<Rightarrow> (Inl e, [])
              | Inr data \<Rightarrow> (Inr (data, date_str cd), [p]))))"

section \<open>Choosing the row\<close>

text \<open>\<^verbatim>\<open>rows[indicator].values[0]\<close> of the rows dated \<open>d\<close>: the first of them.\<close>

definition first_row :: "int list \<Rightarrow> 'v list \<Rightarrow> int \<Rightarrow> 'v" where
  "first_row dates col d = col ! length (takeWhile (\<lambda>a. a \<noteq> d) dates)"

text \<open>The exact match, else the scan of \<^verbatim>\<open>available_dates\<close> (the loop of
  \<open>closest_date\<close>, the same as in \<^verbatim>\<open>get_akshare_indicators\<close>) and its seven-day
  bound; \<open>Inl\<close> is the indicator value, \<open>Inr\<close> the text returned instead.\<close>

definition ss_select :: "int list \<Rightarrow> 'v list \<Rightarrow> int \<Rightarrow> 'v + pystr" where
  "ss_select dates col cur =
     (if cur \<in> set dates then Inl (first_row dates col cur)
      else case closest_date cur dates of
             Some (cd, md) \<Rightarrow>
               if md \<le> 7 \<and> cd \<in> set dates then Inl (first_row dates col cd) else Inr NOT_TRADING_DAY
           | None \<Rightarrow> Inr NOT_TRADING_DAY)"

definition get_stock_stats ::
  "('f, 'v) ss_lib \<Rightarrow> config \<Rightarrow> pystr \<Rightarrow> pystr \<Rightarrow> pystr \<Rightarrow> pystr \<Rightarrow> pystr \<Rightarrow> (exc + ('v + pystr)) \<times> pystr list" where
  "get_stock_stats lib cfg data_dir cache_dir symbol indicator curr_date =
     (case data_vendors cfg ''technical_indicators'' of
        None \<Rightarrow> (Inl (OtherException ([CHR 0x27] @ ''technical_indicators'' @ [CHR 0x27])), [])
      | Some tv \<Rightarrow>
          (let loaded = (if tv \<noteq> ''local'' then ss_load_online lib cache_dir symbol curr_date
                         else (case ss_load_local lib data_dir symbol of
                                 Inl e \<Rightarrow> (Inl e, []) | Inr data \<Rightarrow> (Inr (data, curr_date), [])))
           in case loaded of
                (Inl e, ws) \<Rightarrow> (Inl e, ws)
              | (Inr (data, cd_str), ws) \<Rightarrow>
                  (case ss_wrap lib data indicator of
                     Inl e \<Rightarrow> (Inl e, ws)
                   | Inr (dates, col) \<Rightarrow>
                       (case to_datetime lib cd_str of
                          Inl e \<Rightarrow> (Inl e, ws)
                        | Inr cur \<Rightarrow> (Inr (ss_select dates col cur), ws)))))"

section \<open>Reference\<close>

text \<open>What the lookup promises: the first row of the latest trading day on or before
  the day asked for, when that day is at most seven days earlier.\<close>

definition ss_reference :: "int list \<Rightarrow> 'v list \<Rightarrow> int \<Rightarrow> 'v + pystr" where
  "ss_reference dates col cur =
     (if latest_before cur dates = {} then Inr NOT_TRADING_DAY
      else (let d = Max (latest_before cur dates) in
            if cur - d \<le> 7 then Inl (first_row dates col d) else Inr NOT_TRADING_DAY))"

section \<open>Lemmas\<close>

text \<open>The latest trading day on or before a day is a trading day of the frame.\<close>

lemma latest_before_Max:
  assumes "latest_before cur dates \<noteq> {}"
  shows "Max (latest_before cur dates) \<in> set dates" "Max (latest_before cur dates) \<le> cur"
proof -
  have "finite (latest_before cur dates)" by (simp add: latest_before_def)
  then have "Max (latest_before cur dates) \<in> latest_before cur dates" using assms by (rule Max_in)
  then show "Max (latest_before cur dates) \<in> set dates" "Max (latest_before cur dates) \<le> cur"
    by (simp_all add: latest_before_def)
qed

lemma latest_before_self:
  assumes "cur \<in> set dates"
  shows "latest_before cur dates \<noteq> {}" "Max (latest_before cur dates) = cur"
proof -
  have m: "cur \<in> latest_before cur dates" using assms by (simp add: latest_before_def)
  then show "latest_before cur dates \<noteq> {}" by blast
  show "Max (latest_before cur dates) = cur"
    using m by (intro Max_eqI) (auto simp: latest_before_def)
qed

text \<open>C37: the exact-date match followed by the scan for the closest earlier date
  within seven days selects exactly the reference row: the first row of the latest
  trading day on or before the requested day when that day is at most seven days earlier,
  and the text \<^verbatim>\<open>N/A: Not a trading day\<close> otherwise.\<close>

theorem ss_select_reference: "ss_select dates col cur = ss_reference dates col cur"
proof (cases "cur \<in> set dates")
  case True
  then show ?thesis by (simp add: ss_select_def ss_reference_def latest_before_self)
next
  case False
  then show ?thesis
    using latest_before_Max [of cur dates]
    by (auto simp: ss_select_def ss_reference_def closest_date_def closest_fold_None Let_def)
qed


text \<open>With the bundled data, \<^verbatim>\<open>get_stock_stats\<close> returns the reference value; a day
  more than seven days after the last row of the file, which ends on 2025-03-25, is reported
  as not a trading day.\<close>

lemma get_stock_stats_local:
  assumes "data_vendors cfg ''technical_indicators'' = Some ''local''"
    and "ss_load_local lib data_dir symbol = Inr data" "ss_wrap lib data indicator = Inr (dates, col)"
    and "ss_to_datetime lib curr_date = Some cur"
  shows "get_stock_stats lib cfg data_dir cache_dir symbol indicator curr_date = (Inr (ss_reference dates col cur), [])"
  using assms by (simp add: get_stock_stats_def to_datetime_def ss_select_reference)

lemma ss_reference_after_end:
  assumes "\<forall>d\<in>set dates. d + 7 < cur"
  shows "ss_reference dates col cur = Inr NOT_TRADING_DAY"
proof (cases "latest_before cur dates = {}")
  case False
  have "Max (latest_before cur dates) + 7 < cur" using assms latest_before_Max(1) [OF False] by blast
  then show ?thesis using False by (simp add: ss_reference_def Let_def)
qed (simp add: ss_reference_def)

lemma ss_load_online_writes:
  "snd (ss_load_online lib cache_dir symbol curr_date) \<noteq> [] \<Longrightarrow>
   snd (ss_load_online lib cache_dir symbol curr_date) = [ss_cache_file lib cache_dir symbol]
   \<and> \<not> ss_exists lib (ss_cache_file lib cache_dir symbol)"
  by (auto simp: ss_load_online_def Let_def split: sum.splits if_splits)

text \<open>A day without a row, two days after a trading day, takes that day's value.\<close>

lemma ss_select_weekend: "ss_select [739000, 739001, 739004] [''a'', ''b'', ''c''] 739003 = Inl ''b''"
  by (simp add: ss_select_def closest_date_def closest_step_def first_row_def)

end
