(* ===== verification/Web_Auth.thy ===== *)
theory Web_Auth
  imports Indicator_Quality
begin

text \<open>
  Authentication and authorisation of the web backend: \<^verbatim>\<open>src/web/backend/auth.py\<close>,
  the dependencies of \<^verbatim>\<open>auth_routes.py\<close>, the \<^verbatim>\<open>AuthMiddleware\<close> and request
  helpers of \<^verbatim>\<open>middleware.py\<close>, the ownership checks of \<^verbatim>\<open>decorators.py\<close> and the
  validators of \<^verbatim>\<open>schemas.py\<close>.

  The database is explicit state: the record \<open>db\<close> holds the \<^verbatim>\<open>users\<close> and
  \<^verbatim>\<open>analysis_records\<close> tables as lists in insertion order, and the next primary key.
  A query's \<^verbatim>\<open>.first()\<close> is the first matching row in that order. Password hashing
  (bcrypt) and JWT encoding are oracles in the record \<open>crypto\<close>. Time is a number of
  minutes. An \<^verbatim>\<open>HTTPException\<close> is a value of \<open>http_error\<close>. Its Chinese
  detail messages, which lie outside the Latin-1 alphabet of the model, are constructors
  named after their meaning.
\<close>

section \<open>Data\<close>

record user =
  uid :: nat
  username :: pystr
  email :: pystr
  hashed_password :: pystr
  is_active :: bool

record analysis_record =
  analysis_id :: pystr
  user_id :: nat
  ticker :: pystr
  rec_status :: pystr

record db =
  users :: "user list"
  analyses :: "analysis_record list"
  next_user_id :: nat

text \<open>The \<^verbatim>\<open>detail\<close> of an \<^verbatim>\<open>HTTPException\<close>. The Chinese messages of the
  handlers are named constants, since the model's strings are Latin-1:
  \<open>USERNAME_EXISTS\<close>, \<open>EMAIL_EXISTS\<close>, \<open>CANNOT_VALIDATE_CREDENTIALS\<close>,
  \<open>USER_NOT_ACTIVE\<close> and \<open>WRONG_USERNAME_OR_PASSWORD\<close> for \<^verbatim>\<open>auth_routes.py\<close>;
  for \<^verbatim>\<open>routes/analysis_routes.py\<close>, \<open>ANALYSIS_NOT_FOUND\<close> ("analysis not found"),
  \<open>ANALYSIS_FINISHED s\<close> ("analysis already finished, status: s"),
  \<open>TASK_NOT_FOUND_OR_DONE\<close> ("task not found or already completed"),
  \<open>ANALYSIS_STATUS s\<close> ("analysis status: s") and \<open>CANNOT_DELETE_RUNNING\<close>
  ("cannot delete a running analysis, stop it first"); for \<^verbatim>\<open>routes/config_routes.py\<close>,
  \<open>KEY_REQUIRED\<close> ("provider and API key required"), \<open>INVALID_KEY_FORMAT p\<close>
  ("invalid p API key format"), \<open>UNSUPPORTED_PROVIDER\<close> ("unsupported provider") and
  \<open>VALIDATION_ERROR s\<close> ("validation error: s").\<close>

datatype detail =
    Detail pystr
  | USERNAME_EXISTS
  | EMAIL_EXISTS
  | CANNOT_VALIDATE_CREDENTIALS
  | USER_NOT_ACTIVE
  | WRONG_USERNAME_OR_PASSWORD
  | ANALYSIS_NOT_FOUND
  | ANALYSIS_FINISHED pystr
  | TASK_NOT_FOUND_OR_DONE
  | ANALYSIS_STATUS pystr
  | CANNOT_DELETE_RUNNING
  | KEY_REQUIRED
  | INVALID_KEY_FORMAT pystr
  | UNSUPPORTED_PROVIDER
  | VALIDATION_ERROR pystr

datatype http_error = HTTPException nat detail

record token_payload =
  sub :: "pystr option"
  exp :: nat

text \<open>\<open>jwt_decode c t now\<close> is \<^verbatim>\<open>jwt.decode(t, SECRET_KEY, ...)\<close> at time
  \<open>now\<close>, \<open>None\<close> for a \<^verbatim>\<open>JWTError\<close> (a bad signature or an expired token).\<close>

record crypto =
  pw_hash :: "pystr \<Rightarrow> pystr"
  pw_verify :: "pystr \<Rightarrow> pystr \<Rightarrow> bool"
  jwt_encode :: "token_payload \<Rightarrow> pystr"
  jwt_decode :: "pystr \<Rightarrow> nat \<Rightarrow> token_payload option"

section \<open>auth.py\<close>

definition ACCESS_TOKEN_EXPIRE_MINUTES :: nat where
  "ACCESS_TOKEN_EXPIRE_MINUTES = 480"

definition get_user_by_username :: "db \<Rightarrow> pystr \<Rightarrow> user option" where
  "get_user_by_username d name = find (\<lambda>u. username u = name) (users d)"

definition get_user_by_email :: "db \<Rightarrow> pystr \<Rightarrow> user option" where
  "get_user_by_email d mail = find (\<lambda>u. email u = mail) (users d)"

definition get_user_by_id :: "db \<Rightarrow> nat \<Rightarrow> user option" where
  "get_user_by_id d i = find (\<lambda>u. uid u = i) (users d)"

text \<open>\<^verbatim>\<open>create_access_token(data, expires_delta)\<close> with \<^verbatim>\<open>data = {"sub": ...}\<close>;
  a zero \<^verbatim>\<open>timedelta\<close> is falsy and gives the default lifetime.\<close>

definition create_access_token :: "crypto \<Rightarrow> pystr option \<Rightarrow> nat option \<Rightarrow> nat \<Rightarrow> pystr" where
  "create_access_token c data_sub expires_delta now =
     jwt_encode c \<lparr>sub = data_sub,
                   exp = now + (case expires_delta of
                                  Some delta \<Rightarrow> if delta \<noteq> 0 then delta else ACCESS_TOKEN_EXPIRE_MINUTES
                                | None \<Rightarrow> ACCESS_TOKEN_EXPIRE_MINUTES)\<rparr>"

definition verify_token :: "crypto \<Rightarrow> pystr \<Rightarrow> nat \<Rightarrow> token_payload option" where
  "verify_token c token now = jwt_decode c token now"

text \<open>\<open>None\<close> for the \<^verbatim>\<open>False\<close> it returns.\<close>

definition authenticate_user :: "crypto \<Rightarrow> db \<Rightarrow> pystr \<Rightarrow> pystr \<Rightarrow> user option" where
  "authenticate_user c d name password =
     (case get_user_by_username d name of
        None \<Rightarrow> None
      | Some u \<Rightarrow>
          if \<not> pw_verify c password (hashed_password u) then None
          else if \<not> is_active u then None
          else Some u)"

definition create_user :: "crypto \<Rightarrow> db \<Rightarrow> pystr \<Rightarrow> pystr \<Rightarrow> pystr \<Rightarrow> http_error + user \<times> db" where
  "create_user c d name mail password =
     (if get_user_by_username d name \<noteq> None then Inl (HTTPException 400 USERNAME_EXISTS)
      else if get_user_by_email d mail \<noteq> None then Inl (HTTPException 400 EMAIL_EXISTS)
      else
        (let u = \<lparr>uid = next_user_id d, username = name, email = mail,
                  hashed_password = pw_hash c password, is_active = True\<rparr> in
         Inr (u, d\<lparr>users := users d @ [u], next_user_id := Suc (next_user_id d)\<rparr>)))"

definition get_current_user_from_token :: "crypto \<Rightarrow> pystr \<Rightarrow> db \<Rightarrow> nat \<Rightarrow> user option" where
  "get_current_user_from_token c token d now =
     (case verify_token c token now of
        None \<Rightarrow> None
      | Some payload \<Rightarrow>
          (case sub payload of
             None \<Rightarrow> None
           | Some name \<Rightarrow>
               (case get_user_by_username d name of
                  None \<Rightarrow> None
                | Some u \<Rightarrow> if \<not> is_active u then None else Some u)))"

section \<open>auth_routes.py\<close>

text \<open>The dependencies \<^verbatim>\<open>get_current_user\<close> and \<^verbatim>\<open>get_current_active_user\<close>,
  given the bearer token that \<^verbatim>\<open>HTTPBearer\<close> extracted.\<close>

definition get_current_user :: "crypto \<Rightarrow> pystr \<Rightarrow> db \<Rightarrow> nat \<Rightarrow> http_error + user" where
  "get_current_user c token d now =
     (case get_current_user_from_token c token d now of
        None \<Rightarrow> Inl (HTTPException 401 CANNOT_VALIDATE_CREDENTIALS)
      | Some u \<Rightarrow> Inr u)"

definition get_current_active_user :: "crypto \<Rightarrow> pystr \<Rightarrow> db \<Rightarrow> nat \<Rightarrow> http_error + user" where
  "get_current_active_user c token d now =
     (case get_current_user c token d now of
        Inl e \<Rightarrow> Inl e
      | Inr u \<Rightarrow> if \<not> is_active u then Inl (HTTPException 400 USER_NOT_ACTIVE) else Inr u)"

record auth_response =
  access_token :: pystr
  token_type :: pystr
  resp_user :: user

definition register :: "crypto \<Rightarrow> db \<Rightarrow> pystr \<Rightarrow> pystr \<Rightarrow> pystr \<Rightarrow> nat \<Rightarrow> http_error + auth_response \<times> db" where
  "register c d name mail password now =
     (case create_user c d name mail password of
        Inl e \<Rightarrow> Inl e
      | Inr (u, d') \<Rightarrow>
          Inr (\<lparr>access_token = create_access_token c (Some (username u)) (Some ACCESS_TOKEN_EXPIRE_MINUTES) now,
                 token_type = ''bearer'', resp_user = u\<rparr>, d'))"

definition login :: "crypto \<Rightarrow> db \<Rightarrow> pystr \<Rightarrow> pystr \<Rightarrow> nat \<Rightarrow> http_error + auth_response" where
  "login c d name password now =
     (case authenticate_user c d name password of
        None \<Rightarrow> Inl (HTTPException 401 WRONG_USERNAME_OR_PASSWORD)
      | Some u \<Rightarrow>
          Inr \<lparr>access_token = create_access_token c (Some (username u)) (Some ACCESS_TOKEN_EXPIRE_MINUTES) now,
               token_type = ''bearer'', resp_user = u\<rparr>)"

definition refresh_token :: "crypto \<Rightarrow> pystr \<Rightarrow> db \<Rightarrow> nat \<Rightarrow> http_error + pystr" where
  "refresh_token c token d now =
     (case get_current_active_user c token d now of
        Inl e \<Rightarrow> Inl e
      | Inr u \<Rightarrow> Inr (create_access_token c (Some (username u)) (Some ACCESS_TOKEN_EXPIRE_MINUTES) now))"

section \<open>middleware.py\<close>

record request =
  path :: pystr
  req_method :: pystr
  authorization :: "pystr option"

definition EXEMPT_PATHS :: "pystr list" where
  "EXEMPT_PATHS = [''/'', ''/static'', ''/api/config'', ''/api/validate-key'', ''/api/auth/register'',
                   ''/api/auth/login'', ''/docs'', ''/redoc'', ''/openapi.json'']"

text \<open>\<^verbatim>\<open>get_authorization_scheme_param(authorization)\<close>: \<^verbatim>\<open>("", "")\<close> for a
  missing or empty header, else \<^verbatim>\<open>authorization.partition(" ")\<close> without the
  separator.\<close>

definition get_authorization_scheme_param :: "pystr option \<Rightarrow> pystr \<times> pystr" where
  "get_authorization_scheme_param authz =
     (case authz of
        None \<Rightarrow> ([], [])
      | Some a \<Rightarrow>
          if a = [] then ([], [])
          else (takeWhile (\<lambda>c. c \<noteq> CHR '' '') a, drop 1 (dropWhile (\<lambda>c. c \<noteq> CHR '' '') a)))"

text \<open>What \<^verbatim>\<open>AuthMiddleware.dispatch\<close> does with a request: forward it to the
  route (\<^verbatim>\<open>call_next\<close>) with the user it stored in \<^verbatim>\<open>request.state\<close>, if any,
  or answer with a 401 \<^verbatim>\<open>JSONResponse\<close> carrying its detail. The
  \<^verbatim>\<open>except Exception\<close> branch (401 "Could not validate credentials") is taken only
  when the database read raises: \<open>get_current_user_from_token\<close> catches the JWT errors
  itself, and the reads of the modelled database do not fail, so the branch is not
  modelled.\<close>

datatype mw_result = Forward "user option" | Reject nat pystr

definition auth_dispatch :: "crypto \<Rightarrow> db \<Rightarrow> nat \<Rightarrow> request \<Rightarrow> mw_result" where
  "auth_dispatch c d now req =
     (if list_ex (\<lambda>exempt. py_startswith (path req) exempt) EXEMPT_PATHS then Forward None
      else if req_method req = ''OPTIONS'' then Forward None
      else
        (let (scheme, token) = get_authorization_scheme_param (authorization req) in
         if authorization req = None \<or> authorization req = Some [] \<or> py_lower scheme \<noteq> ''bearer''
         then Reject 401 ''Not authenticated''
         else
           (case get_current_user_from_token c token d now of
              None \<Rightarrow> Reject 401 ''Invalid authentication credentials''
            | Some u \<Rightarrow>
                if \<not> is_active u then Reject 401 ''Invalid authentication credentials''
                else Forward (Some u))))"

text \<open>\<^verbatim>\<open>require_auth\<close> and \<^verbatim>\<open>require_active_user\<close>, on the user stored in
  \<^verbatim>\<open>request.state\<close>.\<close>

definition require_auth :: "user option \<Rightarrow> http_error + user" where
  "require_auth state_user =
     (case state_user of
        None \<Rightarrow> Inl (HTTPException 401 (Detail ''Authentication required''))
      | Some u \<Rightarrow> Inr u)"

definition require_active_user :: "user option \<Rightarrow> http_error + user" where
  "require_active_user state_user =
     (case require_auth state_user of
        Inl e \<Rightarrow> Inl e
      | Inr u \<Rightarrow> if \<not> is_active u then Inl (HTTPException 403 (Detail ''User account is inactive'')) else Inr u)"

section \<open>decorators.py\<close>

definition check_user_owns_analysis :: "user \<Rightarrow> pystr \<Rightarrow> db \<Rightarrow> http_error + analysis_record" where
  "check_user_owns_analysis u aid d =
     (case find (\<lambda>r. analysis_id r = aid \<and> user_id r = uid u) (analyses d) of
        None \<Rightarrow> Inl (HTTPException 404 (Detail ''Analysis not found or access denied''))
      | Some r \<Rightarrow> Inr r)"

definition check_user_can_access_analysis :: "user \<Rightarrow> analysis_record \<Rightarrow> bool" where
  "check_user_can_access_analysis u r = (user_id r = uid u)"

text \<open>\<^verbatim>\<open>AnalysisOwnershipChecker.__call__\<close>.\<close>

definition analysis_ownership_checker :: "user option \<Rightarrow> pystr \<Rightarrow> db \<Rightarrow> http_error + user \<times> analysis_record" where
  "analysis_ownership_checker state_user aid d =
     (case require_active_user state_user of
        Inl e \<Rightarrow> Inl e
      | Inr u \<Rightarrow>
          (case check_user_owns_analysis u aid d of
             Inl e \<Rightarrow> Inl e
           | Inr r \<Rightarrow> Inr (u, r)))"

section \<open>schemas.py validators\<close>

text \<open>A validator returns the value or \<open>Inl\<close> of the \<^verbatim>\<open>ValueError\<close> message.\<close>

definition validate_username :: "pystr \<Rightarrow> pystr + pystr" where
  "validate_username v =
     (if length v < 3 \<or> length v > 50 then Inl ''Username must be between 3 and 50 characters''
      else if \<not> py_isalnum (py_replace ''-'' [] (py_replace ''_'' [] v))
      then Inl ''Username can only contain letters, numbers, underscores, and hyphens''
      else Inr v)"

definition validate_password :: "pystr \<Rightarrow> pystr + pystr" where
  "validate_password v =
     (if length v < 6 then Inl ''Password must be at least 6 characters long'' else Inr v)"

text \<open>\<^verbatim>\<open>AnalysisRequest.validate_date\<close> on the day \<open>today\<close>.\<close>

definition date_after :: "nat \<times> nat \<times> nat \<Rightarrow> nat \<times> nat \<times> nat \<Rightarrow> bool" where
  "date_after a b =
     (case (a, b) of ((y, m, dd), (y', m', dd')) \<Rightarrow>
        y > y' \<or> (y = y' \<and> (m > m' \<or> (m = m' \<and> dd > dd'))))"

definition validate_date :: "nat \<times> nat \<times> nat \<Rightarrow> pystr \<Rightarrow> pystr + pystr" where
  "validate_date today v =
     (case strptime_ymd v of
        None \<Rightarrow> Inl ''Invalid date format. Use YYYY-MM-DD''
      | Some dt \<Rightarrow> if date_after dt today then Inl ''Analysis date cannot be in the future'' else Inr v)"

definition validate_analysts :: "pystr list \<Rightarrow> pystr + pystr list" where
  "validate_analysts v = (if v = [] then Inl ''At least one analyst must be selected'' else Inr v)"

definition validate_format :: "pystr \<Rightarrow> pystr + pystr" where
  "validate_format v =
     (if v \<notin> set [''pdf'', ''markdown'', ''json''] then Inl ''Format must be pdf, markdown, or json'' else Inr v)"

section \<open>The users table: reachable states and an abstract view\<close>

text \<open>The states of the database reachable from the empty one by registrations, the
  invariant they keep, and the abstract view of the users table as a map from usernames,
  with the abstract registration it refines.\<close>

definition users_map :: "db \<Rightarrow> pystr \<rightharpoonup> user" where
  "users_map d = map_of (map (\<lambda>u. (username u, u)) (users d))"

definition create_abs :: "(pystr \<rightharpoonup> user) \<Rightarrow> pystr \<Rightarrow> pystr \<Rightarrow> pystr \<Rightarrow> nat \<Rightarrow> (pystr \<rightharpoonup> user) option" where
  "create_abs M name mail h i =
     (if name \<in> dom M \<or> mail \<in> email ` ran M then None
      else Some (M(name \<mapsto> \<lparr>uid = i, username = name, email = mail, hashed_password = h, is_active = True\<rparr>)))"

inductive db_reachable :: "crypto \<Rightarrow> db \<Rightarrow> bool" where
  init: "db_reachable c \<lparr>users = [], analyses = [], next_user_id = 1\<rparr>"
| create: "db_reachable c d \<Longrightarrow> create_user c d name mail password = Inr (u, d') \<Longrightarrow> db_reachable c d'"

definition db_inv :: "db \<Rightarrow> bool" where
  "db_inv d =
     (distinct (map username (users d)) \<and> distinct (map email (users d)) \<and>
      distinct (map uid (users d)) \<and> list_all (\<lambda>u. uid u < next_user_id d) (users d))"

section \<open>Examples\<close>

definition crypto_example :: crypto where
  "crypto_example =
     \<lparr>pw_hash = (\<lambda>p. ''h:'' @ p), pw_verify = (\<lambda>p h. h = ''h:'' @ p),
      jwt_encode = (\<lambda>pl. case sub pl of Some s \<Rightarrow> s | None \<Rightarrow> []),
      jwt_decode = (\<lambda>t n. if n < 1000 then Some \<lparr>sub = Some t, exp = 1000\<rparr> else None)\<rparr>"

definition user_alice :: user where
  "user_alice = \<lparr>uid = 1, username = ''alice'', email = ''alice@example.org'',
                 hashed_password = ''h:secret1'', is_active = True\<rparr>"

definition db_alice :: db where
  "db_alice = \<lparr>users = [user_alice],
               analyses = [\<lparr>analysis_id = ''a-1'', user_id = 1, ticker = ''600000'', rec_status = ''completed''\<rparr>],
               next_user_id = 2\<rparr>"

definition db_init :: db where
  "db_init = \<lparr>users = [], analyses = [], next_user_id = 1\<rparr>"

section \<open>Lemmas\<close>

lemma create_user_Inr:
  assumes "create_user c d name mail password = Inr (u, d')"
  shows "name \<notin> set (map username (users d)) \<and> mail \<notin> set (map email (users d)) \<and>
         u = \<lparr>uid = next_user_id d, username = name, email = mail,
              hashed_password = pw_hash c password, is_active = True\<rparr> \<and>
         d' = d\<lparr>users := users d @ [u], next_user_id := Suc (next_user_id d)\<rparr>"
  using assms
  by (auto simp: create_user_def get_user_by_username_def get_user_by_email_def Let_def
                 find_None_conv split: if_splits)

lemma create_user_inv:
  "db_inv d \<Longrightarrow> create_user c d name mail password = Inr (u, d') \<Longrightarrow> db_inv d'"
  by (drule create_user_Inr) (auto simp: db_inv_def list_all_iff less_Suc_eq)

lemma find_username_self:
  "find (\<lambda>u. username u = name) us = Some u \<Longrightarrow> find (\<lambda>x. username x = username u) us = Some u"
  by (frule find_Some_mem) simp

lemma token_user_active: "get_current_user_from_token c token d now = Some u \<Longrightarrow> is_active u"
  by (auto simp: get_current_user_from_token_def split: option.splits if_splits)

lemma map_of_username_find:
  "map_of (map (\<lambda>u. (username u, u)) us) name = find (\<lambda>u. username u = name) us"
  by (induction us) auto

lemma get_user_by_username_map: "get_user_by_username d name = users_map d name"
  by (simp add: get_user_by_username_def users_map_def map_of_username_find)

lemma email_ran_users_map:
  "distinct (map username (users d)) \<Longrightarrow> email ` ran (users_map d) = set (map email (users d))"
proof -
  assume "distinct (map username (users d))"
  then have "ran (users_map d) = set (users d)"
    by (simp add: users_map_def ran_distinct image_image comp_def)
  then show ?thesis by simp
qed

lemma users_map_append:
  "users_map d (username u) = None \<Longrightarrow>
   users_map (d\<lparr>users := users d @ [u], next_user_id := n\<rparr>) = (users_map d)(username u \<mapsto> u)"
  by (auto simp: users_map_def map_of_append map_add_def fun_eq_iff split: option.split)

lemma create_alice:
  "create_user crypto_example db_init ''alice'' ''alice@example.org'' ''secret1'' =
     Inr (user_alice, \<lparr>users = [user_alice], analyses = [], next_user_id = 2\<rparr>)"
  by (simp add: create_user_def get_user_by_username_def get_user_by_email_def db_init_def
                user_alice_def crypto_example_def Let_def numeral_2_eq_2)

text \<open>C27: every database reachable by registrations keeps distinct usernames, distinct
  e-mail addresses and distinct user ids below the next id: \<^verbatim>\<open>create_user\<close>'s two
  existence checks keep the \<^verbatim>\<open>unique=True\<close> constraints of \<^verbatim>\<open>models.py\<close>.\<close>

theorem db_reachable_inv: "db_reachable c d \<Longrightarrow> db_inv d"
proof (induction rule: db_reachable.induct)
  case (init c)
  then show ?case by (simp add: db_inv_def)
next
  case (create c d name mail password u d')
  then show ?case by (blast intro: create_user_inv)
qed

theorem db_reachable_inv_witness: "db_inv \<lparr>users = [user_alice], analyses = [], next_user_id = 2\<rparr>"
proof -
  have "db_reachable crypto_example db_init"
    unfolding db_init_def by (rule db_reachable.init)
  then have "db_reachable crypto_example \<lparr>users = [user_alice], analyses = [], next_user_id = 2\<rparr>"
    using create_alice by (rule db_reachable.create)
  then show ?thesis by (rule db_reachable_inv)
qed

text \<open>C28: the token that \<^verbatim>\<open>login\<close> returns identifies the user who logged in:
  decoded before it expires, \<^verbatim>\<open>get_current_user_from_token\<close> gives that user back.\<close>

theorem login_token_roundtrip:
  assumes "login c d name password now = Inr resp"
    and "jwt_decode c (jwt_encode c \<lparr>sub = Some (username (resp_user resp)), exp = now + ACCESS_TOKEN_EXPIRE_MINUTES\<rparr>) t =
           Some \<lparr>sub = Some (username (resp_user resp)), exp = now + ACCESS_TOKEN_EXPIRE_MINUTES\<rparr>"
  shows "get_current_user_from_token c (access_token resp) d t = Some (resp_user resp)"
proof -
  from assms(1) obtain u where a: "authenticate_user c d name password = Some u"
    and r: "resp = \<lparr>access_token = create_access_token c (Some (username u)) (Some ACCESS_TOKEN_EXPIRE_MINUTES) now,
                   token_type = ''bearer'', resp_user = u\<rparr>"
    by (auto simp: login_def split: option.splits)
  from a have f: "find (\<lambda>x. username x = name) (users d) = Some u" and act: "is_active u"
    by (auto simp: authenticate_user_def get_user_by_username_def split: option.splits if_splits)
  have "get_user_by_username d (username u) = Some u"
    using find_username_self [OF f] by (simp add: get_user_by_username_def)
  then show ?thesis
    using assms(2) r act
    by (simp add: get_current_user_from_token_def verify_token_def create_access_token_def
                  ACCESS_TOKEN_EXPIRE_MINUTES_def)
qed

theorem login_token_roundtrip_witness: "get_current_user_from_token crypto_example ''alice'' db_alice 700 = Some user_alice"
proof -
  have l: "login crypto_example db_alice ''alice'' ''secret1'' 520 =
             Inr \<lparr>access_token = ''alice'', token_type = ''bearer'', resp_user = user_alice\<rparr>"
    by (simp add: login_def authenticate_user_def get_user_by_username_def db_alice_def user_alice_def
                  crypto_example_def create_access_token_def)
  have j: "jwt_decode crypto_example
             (jwt_encode crypto_example \<lparr>sub = Some (username (resp_user \<lparr>access_token = ''alice'', token_type = ''bearer'', resp_user = user_alice\<rparr>)),
                                        exp = 520 + ACCESS_TOKEN_EXPIRE_MINUTES\<rparr>) 700 =
           Some \<lparr>sub = Some (username (resp_user \<lparr>access_token = ''alice'', token_type = ''bearer'', resp_user = user_alice\<rparr>)),
                 exp = 520 + ACCESS_TOKEN_EXPIRE_MINUTES\<rparr>"
    by (simp add: crypto_example_def user_alice_def ACCESS_TOKEN_EXPIRE_MINUTES_def)
  show ?thesis using login_token_roundtrip [OF l j] by simp
qed

text \<open>The \<^verbatim>\<open>is_active\<close> test of \<^verbatim>\<open>get_current_active_user\<close> never fires:
  \<^verbatim>\<open>get_current_user_from_token\<close> already refuses inactive users, so the dependency
  equals \<^verbatim>\<open>get_current_user\<close> and its 400 response is unreachable.\<close>

theorem active_check_redundant:
  "get_current_active_user c token d now = get_current_user c token d now"
  by (cases "get_current_user_from_token c token d now")
     (auto simp: get_current_active_user_def get_current_user_def dest: token_user_active)

theorem active_check_redundant_witness: "get_current_active_user crypto_example ''bob'' db_alice 700 =
     Inl (HTTPException 401 CANNOT_VALIDATE_CREDENTIALS)"
proof -
  have "get_current_user crypto_example ''bob'' db_alice 700 = Inl (HTTPException 401 CANNOT_VALIDATE_CREDENTIALS)"
    by (simp add: get_current_user_def get_current_user_from_token_def verify_token_def crypto_example_def
                  get_user_by_username_def db_alice_def user_alice_def)
  then show ?thesis using active_check_redundant [of crypto_example "''bob''" db_alice 700] by simp
qed

text \<open>C30: \<^verbatim>\<open>AuthMiddleware\<close> exempts every request: its exempt list contains
  \<^verbatim>\<open>"/"\<close> and every request path starts with it, so no request is ever checked and no
  user is stored in the request state.\<close>

theorem auth_middleware_exempts_all:
  assumes "path req \<noteq> []" and "hd (path req) = CHR ''/''"
  shows "auth_dispatch c d now req = Forward None"
proof -
  have "py_startswith (path req) ''/''"
    using assms by (cases "path req") (simp_all add: py_startswith_def)
  then show ?thesis by (simp add: auth_dispatch_def EXEMPT_PATHS_def)
qed

theorem auth_middleware_exempts_all_witness: "auth_dispatch crypto_example db_alice 700
     \<lparr>path = ''/api/analysis/start'', req_method = ''POST'', authorization = None\<rparr> = Forward None"
  by (rule auth_middleware_exempts_all) simp_all

text \<open>\<^verbatim>\<open>check_user_owns_analysis\<close> returns a record exactly when the analysis
  exists and belongs to the user, that is when \<^verbatim>\<open>check_user_can_access_analysis\<close>
  holds for it.\<close>

theorem owns_analysis_iff:
  "(\<exists>r. check_user_owns_analysis u aid d = Inr r) \<longleftrightarrow>
     (\<exists>r\<in>set (analyses d). analysis_id r = aid \<and> check_user_can_access_analysis u r)"
  by (auto simp: check_user_owns_analysis_def check_user_can_access_analysis_def find_None_conv
           dest: find_Some_mem split: option.splits)

theorem owns_analysis_iff_witness: "\<exists>r. check_user_owns_analysis user_alice ''a-1'' db_alice = Inr r"
proof -
  have "\<exists>r\<in>set (analyses db_alice). analysis_id r = ''a-1'' \<and> check_user_can_access_analysis user_alice r"
    by (simp add: db_alice_def user_alice_def check_user_can_access_analysis_def)
  then show ?thesis using owns_analysis_iff [of user_alice "''a-1''" db_alice] by blast
qed

text \<open>An accepted username has 3 to 50 characters, all of them alphanumeric,
  underscores or hyphens, and at least one of them alphanumeric.\<close>

theorem validate_username_accepts:
  assumes "validate_username v = Inr v'"
  shows "v' = v \<and> 3 \<le> length v \<and> length v \<le> 50 \<and>
         (\<forall>ch\<in>set v. py_isalnum_char ch \<or> ch = CHR ''_'' \<or> ch = CHR ''-'') \<and>
         (\<exists>ch\<in>set v. py_isalnum_char ch)"
proof -
  have r: "py_replace ''-'' [] (py_replace ''_'' [] v) = filter (\<lambda>x. x \<noteq> CHR ''-'' \<and> x \<noteq> CHR ''_'') v"
    by (simp add: py_replace_drop_char conj_commute)
  from assms have "py_isalnum (filter (\<lambda>x. x \<noteq> CHR ''-'' \<and> x \<noteq> CHR ''_'') v)"
    and "v' = v" "3 \<le> length v" "length v \<le> 50"
    by (auto simp: validate_username_def r split: if_splits)
  then show ?thesis
    by (fastforce simp: py_isalnum_def list_all_iff filter_empty_conv)
qed

theorem validate_username_accepts_witness: "3 \<le> length ''bob_smith'' \<and> (\<exists>ch\<in>set ''bob_smith''. py_isalnum_char ch)"
proof -
  have h: "validate_username ''bob_smith'' = Inr ''bob_smith''" by code_simp
  show ?thesis using validate_username_accepts [OF h] by blast
qed

text \<open>C33: on a database satisfying the invariant, \<^verbatim>\<open>create_user\<close> refines the
  abstract registration on the map from usernames to users: it fails exactly when the name
  or the e-mail address is taken, and otherwise adds the new user under its name.\<close>

theorem create_user_refines:
  assumes "db_inv d"
  shows "(case create_user c d name mail password of Inl _ \<Rightarrow> None | Inr (u, d') \<Rightarrow> Some (users_map d')) =
         create_abs (users_map d) name mail (pw_hash c password) (next_user_id d)"
proof -
  have e: "email ` ran (users_map d) = set (map email (users d))"
    using assms by (simp add: db_inv_def email_ran_users_map)
  have n: "(name \<in> dom (users_map d)) = (get_user_by_username d name \<noteq> None)"
    by (simp add: get_user_by_username_map domIff)
  have m: "(mail \<in> email ` set (users d)) = (get_user_by_email d mail \<noteq> None)"
    by (auto simp: get_user_by_email_def find_None_conv)
  show ?thesis
  proof (cases "get_user_by_username d name = None \<and> get_user_by_email d mail = None")
    case True
    then have "users_map d name = None" by (simp add: get_user_by_username_map)
    with True show ?thesis
      using users_map_append [of d "\<lparr>uid = next_user_id d, username = name, email = mail,
                                      hashed_password = pw_hash c password, is_active = True\<rparr>"]
      by (simp add: create_user_def create_abs_def e n m Let_def)
  next
    case False
    then show ?thesis by (auto simp: create_user_def create_abs_def e n m)
  qed
qed

theorem create_user_refines_witness: "(case create_user crypto_example \<lparr>users = [user_alice], analyses = [], next_user_id = 2\<rparr>
                 ''alice'' ''x@example.org'' ''pw1234'' of Inl _ \<Rightarrow> None | Inr (u, d') \<Rightarrow> Some (users_map d')) = None"
proof -
  have i: "db_inv \<lparr>users = [user_alice], analyses = [], next_user_id = 2\<rparr>"
    by (simp add: db_inv_def user_alice_def)
  have "create_abs (users_map \<lparr>users = [user_alice], analyses = [], next_user_id = 2\<rparr>) ''alice'' ''x@example.org''
          (pw_hash crypto_example ''pw1234'') 2 = None"
    by (simp add: create_abs_def users_map_def user_alice_def)
  then show ?thesis using create_user_refines [OF i, of crypto_example "''alice''" "''x@example.org''" "''pw1234''"]
    by simp
qed

end
