(* ===== verification/Analysis_Task.thy ===== *)
theory Analysis_Task
  imports Web_Auth
begin

text \<open>
  The background analysis of the web backend, \<^verbatim>\<open>src/web/backend/analysis_task.py\<close>,
  as the database sees it: the columns of \<^verbatim>\<open>AnalysisRecord\<close> (\<^verbatim>\<open>models.py\<close>) as an
  extension of the record \<open>analysis_record\<close> of \<open>Web_Auth\<close>, the helpers
  \<^verbatim>\<open>truncate_message\<close> and the error classification of \<^verbatim>\<open>run_analysis_task\<close>, and
  \<^verbatim>\<open>run_analysis_task\<close> itself as a straight-line program of stop checks, commits
  and calls that may raise, run by an interpreter with Python's exception semantics.

  The agent graph, the LLMs and the WebSocket are the oracle record \<open>task_env\<close>: whether
  the stop event is set at the n-th check, the message of an exception raised by a
  call, and the progress values the stream commits. Commits to the database succeed.
  Chinese texts written to the record are named constants of the datatypes \<open>msg_note\<close> and
  \<open>step\<close>.
\<close>

section \<open>Data\<close>

text \<open>Texts stored as \<^verbatim>\<open>error_message\<close>: a Python string, or one of the Chinese
  messages of the error classification (context limit, with or without the token
  count; API key failure, quoting the message; network failure; rate limit) and of
  the clean-up at server start.\<close>

datatype msg_note =
    Note pystr
  | CONTEXT_LIMIT_TOKENS pystr
  | CONTEXT_LIMIT
  | API_KEY_FAILED pystr
  | NETWORK_FAILED
  | RATE_LIMITED
  | SERVER_RESTART_INTERRUPTED

text \<open>Values of \<^verbatim>\<open>current_step\<close>: a Python string, or one of the Chinese steps
  (waiting in the queue, setting the configuration, initialising the graph, starting the
  analysis, completed, interrupted, an error followed by its message, and interrupted by
  a server restart).\<close>

datatype step =
    Step pystr
  | WAITING_IN_QUEUE
  | SETTING_CONFIG
  | INIT_GRAPH
  | START_ANALYSIS
  | COMPLETED_OK
  | TASK_INTERRUPTED
  | STEP_ERROR msg_note
  | SERVER_RESTARTED

text \<open>The parts of the final agent state (the JSON column \<^verbatim>\<open>final_state\<close>) that the
  handlers read. A missing key or an empty dict is \<open>None\<close>.\<close>

record invest_debate =
  bull_history :: "pystr option"
  bear_history :: "pystr option"
  judge_decision :: "pystr option"

record risk_debate =
  risky_history :: "pystr option"
  neutral_history :: "pystr option"
  safe_history :: "pystr option"
  risk_judge_decision :: "pystr option"

record agent_state =
  investment_debate_state :: "invest_debate option"
  trader_investment_plan :: "pystr option"
  risk_debate_state :: "risk_debate option"
  investment_plan :: "pystr option"
  final_trade_decision :: "pystr option"
  market_report :: "pystr option"
  sentiment_report :: "pystr option"
  news_report :: "pystr option"
  fundamentals_report :: "pystr option"
  state_risk_assessment :: "pystr option"

text \<open>\<^verbatim>\<open>class AnalysisRecord\<close>: the columns beyond those of \<open>analysis_record\<close>.
  Timestamps are whole seconds.\<close>

record analysis_row = analysis_record +
  analysis_date :: pystr
  analysts :: "pystr list"
  research_depth :: int
  llm_provider :: pystr
  shallow_thinker :: pystr
  deep_thinker :: pystr
  backend_url :: pystr
  current_step :: "step option"
  progress_percentage :: real
  final_state :: "agent_state option"
  trading_decision :: "pystr option"
  final_summary :: "pystr option"
  market_analysis :: "pystr option"
  sentiment_analysis :: "pystr option"
  news_analysis :: "pystr option"
  fundamentals_analysis :: "pystr option"
  risk_assessment :: "pystr option"
  error_message :: "msg_note option"
  created_at :: int
  started_at :: "int option"
  completed_at :: "int option"

definition get_str :: "pystr option \<Rightarrow> pystr" where
  "get_str x = (case x of None \<Rightarrow> [] | Some s \<Rightarrow> s)"

section \<open>Helpers\<close>

definition truncate_message :: "pystr \<Rightarrow> nat \<Rightarrow> pystr" where
  "truncate_message message max_length =
     (if length message \<le> max_length then message else take max_length message @ ''...'')"

text \<open>\<^verbatim>\<open>re.search(r'(\d+)\s+tokens', error_msg).group(1)\<close>. The leftmost match starts
  at the beginning of a maximal run of digits, since a match inside a run is a match
  from its start; a run not followed by whitespace and \<^verbatim>\<open>tokens\<close> is skipped whole.\<close>

function token_count :: "pystr \<Rightarrow> pystr option" where
  "token_count [] = None"
| "token_count (c # cs) =
     (if py_isdigit c then
        (let d = takeWhile py_isdigit (c # cs); r = dropWhile py_isdigit (c # cs) in
         if takeWhile py_isspace r \<noteq> [] \<and> py_startswith (dropWhile py_isspace r) ''tokens''
         then Some d else token_count r)
      else token_count cs)"
  by pat_completeness auto
termination
  by (relation "measure length") (auto simp: le_imp_less_Suc length_dropWhile_le)

text \<open>The classification of an exception message in the \<^verbatim>\<open>except Exception\<close> branch
  of \<^verbatim>\<open>run_analysis_task\<close>. Messages are Latin-1 strings, so the test for the
  Chinese phrase for an invalid token never holds in the model.\<close>

definition friendly_error :: "pystr \<Rightarrow> msg_note" where
  "friendly_error msg =
     (let low = py_lower msg in
      if py_contains ''context_length_exceeded'' msg \<or> py_contains ''maximum context length'' low then
        (case token_count msg of Some n \<Rightarrow> CONTEXT_LIMIT_TOKENS n | None \<Rightarrow> CONTEXT_LIMIT)
      else if py_contains ''api_key'' low \<or> py_contains ''authentication'' low \<or>
              py_contains ''unauthorized'' low \<or> py_contains ''invalid'' low then API_KEY_FAILED msg
      else if py_contains ''connection'' low \<or> py_contains ''timeout'' low then NETWORK_FAILED
      else if py_contains ''rate_limit'' low \<or> py_contains ''too many requests'' low then RATE_LIMITED
      else Note (if length msg > 200 then take 200 msg @ ''...'' else msg))"

section \<open>run_analysis_task\<close>

datatype task_exc = InterruptedError pystr | TaskError pystr

text \<open>The actions of the task body: a test of the stop event that raises
  \<^verbatim>\<open>InterruptedError\<close> with the given message, attribute writes followed by a commit,
  a call that raises \<^verbatim>\<open>Exception(msg)\<close> when its oracle says \<open>Some msg\<close>, and a block
  whose exceptions other than \<^verbatim>\<open>InterruptedError\<close> are swallowed
  (\<^verbatim>\<open>except InterruptedError: raise\<close> / \<^verbatim>\<open>except Exception: pass\<close>).\<close>

datatype task_act =
    StopCheck pystr
  | Commit "analysis_row \<Rightarrow> analysis_row"
  | MayRaise "pystr option"
  | Guarded "task_act list"

fun run_acts :: "(nat \<Rightarrow> bool) \<Rightarrow> nat \<Rightarrow> task_act list \<Rightarrow> analysis_row \<Rightarrow>
    (task_exc \<times> nat \<times> analysis_row) + (nat \<times> analysis_row)" where
  "run_acts stop n [] r = Inr (n, r)"
| "run_acts stop n (StopCheck m # as) r =
     (if stop n then Inl (InterruptedError m, Suc n, r) else run_acts stop (Suc n) as r)"
| "run_acts stop n (Commit f # as) r = run_acts stop n as (f r)"
| "run_acts stop n (MayRaise e # as) r =
     (case e of Some m \<Rightarrow> Inl (TaskError m, n, r) | None \<Rightarrow> run_acts stop n as r)"
| "run_acts stop n (Guarded bs # as) r =
     (case run_acts stop n bs r of
        Inl (InterruptedError m, n', r') \<Rightarrow> Inl (InterruptedError m, n', r')
      | Inl (TaskError _, n', r') \<Rightarrow> run_acts stop n' as r'
      | Inr (n', r') \<Rightarrow> run_acts stop n' as r')"

text \<open>The oracle of one run. \<open>stop_set n\<close> is \<^verbatim>\<open>stop_event.is_set()\<close> at the n-th
  check; \<open>graph_error\<close> the exception of building the graph and its initial state;
  \<open>stream_progress\<close> the progress value committed after each chunk of the stream, if
  any; \<open>stream_error\<close> an exception of the stream; \<open>final_error\<close> an exception while
  computing the final state and the decision; \<open>notify_error\<close> an exception of the
  final WebSocket notification.\<close>

record task_env =
  stop_set :: "nat \<Rightarrow> bool"
  graph_error :: "pystr option"
  stream_progress :: "real option list"
  stream_error :: "pystr option"
  final_error :: "pystr option"
  notify_error :: "pystr option"
  final :: "agent_state option"
  decision :: pystr
  env_now :: int

definition check_stop :: task_act where
  "check_stop = StopCheck ''Analysis interrupted by user or system''"

text \<open>The stream loop with \<^verbatim>\<open>stream_with_interrupt_check\<close>: before each chunk the
  generator tests the stop event, then the loop body calls \<^verbatim>\<open>check_stop()\<close> and may
  commit a progress value (capped at 90 by \<^verbatim>\<open>min(90.0, ...)\<close>); a last generator
  test precedes the end of the stream.\<close>

definition chunk_acts :: "real option \<Rightarrow> task_act list" where
  "chunk_acts p =
     [StopCheck ''Analysis interrupted during stream'', check_stop] @
     (case p of None \<Rightarrow> [] | Some v \<Rightarrow> [Commit (\<lambda>r. r\<lparr>progress_percentage := min 90 v\<rparr>)])"

definition stream_acts :: "task_env \<Rightarrow> task_act list" where
  "stream_acts env =
     concat (map chunk_acts (stream_progress env))
     @ [StopCheck ''Analysis interrupted during stream'', MayRaise (stream_error env)]"

definition completed_fields :: "task_env \<Rightarrow> analysis_row \<Rightarrow> analysis_row" where
  "completed_fields env r =
     (let fs = final env; g = (\<lambda>f. case fs of None \<Rightarrow> Some [] | Some s \<Rightarrow> Some (get_str (f s))) in
      r\<lparr>rec_status := ''completed'', current_step := Some COMPLETED_OK, progress_percentage := 100,
        completed_at := Some (env_now env), final_state := fs,
        market_analysis := g market_report, sentiment_analysis := g sentiment_report,
        news_analysis := g news_report, fundamentals_analysis := g fundamentals_report,
        risk_assessment := g state_risk_assessment,
        trading_decision := (if decision env = [] then None else Some (decision env))\<rparr>)"

definition task_acts :: "task_env \<Rightarrow> task_act list" where
  "task_acts env =
     [check_stop,
      Commit (\<lambda>r. r\<lparr>rec_status := ''initializing'', current_step := Some SETTING_CONFIG,
                     started_at := Some (env_now env)\<rparr>),
      check_stop, check_stop, check_stop,
      Commit (\<lambda>r. r\<lparr>rec_status := ''running'', current_step := Some INIT_GRAPH,
                     progress_percentage := 8\<rparr>),
      check_stop,
      MayRaise (graph_error env),
      Commit (\<lambda>r. r\<lparr>current_step := Some START_ANALYSIS, progress_percentage := 10\<rparr>),
      check_stop,
      Guarded (stream_acts env),
      check_stop,
      MayRaise (final_error env),
      check_stop,
      Commit (completed_fields env),
      MayRaise (notify_error env)]"

definition update_analysis :: "pystr \<Rightarrow> (analysis_row \<Rightarrow> analysis_row) \<Rightarrow> analysis_row list \<Rightarrow> analysis_row list" where
  "update_analysis aid f rows = map (\<lambda>r. if analysis_id r = aid then f r else r) rows"

definition find_analysis :: "pystr \<Rightarrow> analysis_row list \<Rightarrow> analysis_row option" where
  "find_analysis aid rows = find (\<lambda>r. analysis_id r = aid) rows"

definition run_analysis_task :: "task_env \<Rightarrow> pystr \<Rightarrow> analysis_row list \<Rightarrow> analysis_row list" where
  "run_analysis_task env aid rows =
     (case find_analysis aid rows of
        None \<Rightarrow> rows
      | Some r0 \<Rightarrow>
          (let r1 = (case run_acts (stop_set env) 0 (task_acts env) r0 of
                       Inr (_, r) \<Rightarrow> r
                     | Inl (InterruptedError m, _, r) \<Rightarrow>
                         r\<lparr>rec_status := ''interrupted'', current_step := Some TASK_INTERRUPTED,
                           error_message := Some (Note m)\<rparr>
                     | Inl (TaskError m, _, r) \<Rightarrow>
                         (let e = friendly_error m in
                          r\<lparr>rec_status := ''error'', current_step := Some (STEP_ERROR e),
                            error_message := Some e\<rparr>))
           in update_analysis aid (\<lambda>_. r1) rows))"

text \<open>The row an outcome of the interpreter carries.\<close>

definition res_row :: "(task_exc \<times> nat \<times> 'r) + (nat \<times> 'r) \<Rightarrow> 'r" where
  "res_row x = (case x of Inl (_, _, r) \<Rightarrow> r | Inr (_, r) \<Rightarrow> r)"

section \<open>Examples\<close>

definition row_example :: analysis_row where
  "row_example =
     \<lparr>analysis_id = ''analysis_20250102_093000_600000_1'', user_id = 1, ticker = ''600000'',
      rec_status = ''queued'', analysis_date = ''2025-01-02'', analysts = [''market''],
      research_depth = 1, llm_provider = ''openai'', shallow_thinker = ''gpt-4o-mini'',
      deep_thinker = ''gpt-4o'', backend_url = [], current_step = Some (Step ''Analysis queued''),
      progress_percentage = 0, final_state = None, trading_decision = None, final_summary = None,
      market_analysis = None, sentiment_analysis = None, news_analysis = None,
      fundamentals_analysis = None, risk_assessment = None, error_message = None,
      created_at = 100, started_at = None, completed_at = None\<rparr>"

text \<open>A run whose stop event is set from the third check on.\<close>

definition env_stopped :: task_env where
  "env_stopped =
     \<lparr>stop_set = (\<lambda>n. 2 \<le> n), graph_error = None, stream_progress = [Some 40], stream_error = None,
      final_error = None, notify_error = None, final = None, decision = ''BUY'', env_now = 200\<rparr>"

section \<open>Lemmas\<close>

lemma run_acts_append:
  "run_acts stop n (xs @ ys) r =
   (case run_acts stop n xs r of Inl x \<Rightarrow> Inl x | Inr (n', r') \<Rightarrow> run_acts stop n' ys r')"
  by (induction stop n xs r rule: run_acts.induct)
     (auto split: sum.splits prod.splits task_exc.splits option.splits)

lemma chunks_keep:
  "analysis_id (res_row (run_acts stop n (concat (map chunk_acts ps)) r)) = analysis_id r \<and>
   rec_status (res_row (run_acts stop n (concat (map chunk_acts ps)) r)) = rec_status r"
proof (induction ps arbitrary: n r)
  case (Cons p ps)
  then show ?case
    by (cases p) (simp_all add: run_acts_append chunk_acts_def check_stop_def res_row_def
        split: sum.splits prod.splits)
qed (simp add: res_row_def)

lemma stream_keep:
  "analysis_id (res_row (run_acts stop n (stream_acts env) r)) = analysis_id r \<and>
   rec_status (res_row (run_acts stop n (stream_acts env) r)) = rec_status r"
  using chunks_keep [of stop n "stream_progress env" r]
  by (auto simp: stream_acts_def run_acts_append res_row_def split: sum.splits prod.splits option.splits)

lemma stream_keep_Inl:
  "run_acts stop n (stream_acts env) r = Inl (e, n', r') \<Longrightarrow> analysis_id r' = analysis_id r"
  using stream_keep [of stop n env r] by (simp add: res_row_def)

lemma stream_keep_Inr:
  "run_acts stop n (stream_acts env) r = Inr (n', r') \<Longrightarrow> analysis_id r' = analysis_id r"
  using stream_keep [of stop n env r] by (simp add: res_row_def)

lemma task_acts_id: "analysis_id (res_row (run_acts stop n (task_acts env) r)) = analysis_id r"
  by (auto simp: task_acts_def check_stop_def res_row_def completed_fields_def Let_def
      dest: stream_keep_Inl stream_keep_Inr split: sum.splits prod.splits task_exc.splits option.splits)

lemma task_acts_Inr:
  assumes "run_acts stop n (task_acts env) r = Inr (n', r')"
  shows "rec_status r' = ''completed''"
proof -
  define xs where "xs = take 14 (task_acts env)"
  have eq: "task_acts env = xs @ [Commit (completed_fields env), MayRaise (notify_error env)]"
    by (simp add: task_acts_def xs_def)
  from assms have "(case run_acts stop n xs r of Inl x \<Rightarrow> Inl x
      | Inr (m, q) \<Rightarrow> run_acts stop m [Commit (completed_fields env), MayRaise (notify_error env)] q) = Inr (n', r')"
    by (simp only: eq run_acts_append)
  then show ?thesis
    by (auto simp: completed_fields_def Let_def split: sum.splits prod.splits option.splits)
qed

lemma find_update_analysis:
  "find_analysis aid rows \<noteq> None \<Longrightarrow> analysis_id r1 = aid \<Longrightarrow>
   find_analysis aid (update_analysis aid (\<lambda>_. r1) rows) = Some r1"
  by (induction rows) (auto simp: find_analysis_def update_analysis_def)

text \<open>The classification tests for \<^verbatim>\<open>invalid\<close> before the network keywords, so a
  network failure whose message mentions an invalid response is reported as an API key
  failure; a context-limit message reports the first token count it quotes.\<close>

lemma friendly_error_invalid_network:
  "friendly_error ''Connection timeout: invalid response from server'' =
   API_KEY_FAILED ''Connection timeout: invalid response from server''"
  by code_simp

lemma friendly_error_tokens:
  "friendly_error ''This model's maximum context length is 8192 tokens, you requested 9000 tokens'' =
   CONTEXT_LIMIT_TOKENS ''8192''"
  by code_simp

text \<open>C39: Whatever the stop requests and the exceptions of the graph, the LLMs and
  the notification, a run of \<^verbatim>\<open>run_analysis_task\<close> on an existing record leaves it
  with status \<^verbatim>\<open>completed\<close>, \<^verbatim>\<open>interrupted\<close> or \<^verbatim>\<open>error\<close>: no record is left
  \<^verbatim>\<open>queued\<close>, \<^verbatim>\<open>initializing\<close> or \<^verbatim>\<open>running\<close> by a task that has returned.\<close>

theorem run_analysis_task_terminal:
  assumes "find_analysis aid rows \<noteq> None"
  shows "\<exists>r. find_analysis aid (run_analysis_task env aid rows) = Some r \<and>
             rec_status r \<in> {''completed'', ''interrupted'', ''error''}"
proof -
  from assms obtain r0 where r0: "find_analysis aid rows = Some r0" by auto
  hence "analysis_id r0 = aid" by (auto simp: find_analysis_def dest: find_Some_mem)
  hence idr: "analysis_id (res_row (run_acts (stop_set env) 0 (task_acts env) r0)) = aid"
    by (simp add: task_acts_id)
  show ?thesis
  proof (cases "run_acts (stop_set env) 0 (task_acts env) r0")
    case (Inl x)
    then obtain e n r where x: "run_acts (stop_set env) 0 (task_acts env) r0 = Inl (e, n, r)"
      by (cases x) auto
    with idr have "analysis_id r = aid" by (simp add: res_row_def)
    with r0 x assms show ?thesis
      by (cases e) (auto simp: run_analysis_task_def Let_def find_update_analysis)
  next
    case (Inr y)
    then obtain n r where y: "run_acts (stop_set env) 0 (task_acts env) r0 = Inr (n, r)"
      by (cases y) auto
    with idr have "analysis_id r = aid" by (simp add: res_row_def)
    moreover from y have "rec_status r = ''completed''" by (rule task_acts_Inr)
    ultimately show ?thesis using r0 y assms
      by (auto simp: run_analysis_task_def find_update_analysis)
  qed
qed

theorem run_analysis_task_terminal_witness:
  "\<exists>r. find_analysis ''analysis_20250102_093000_600000_1''
         (run_analysis_task env_stopped ''analysis_20250102_093000_600000_1'' [row_example]) = Some r \<and>
       rec_status r \<in> {''completed'', ''interrupted'', ''error''}"
proof -
  have h: "find_analysis ''analysis_20250102_093000_600000_1'' [row_example] \<noteq> None"
    by (simp add: find_analysis_def row_example_def)
  show ?thesis using run_analysis_task_terminal [OF h] .
qed

lemma run_analysis_task_stopped_example:
  "find_analysis ''analysis_20250102_093000_600000_1''
     (run_analysis_task env_stopped ''analysis_20250102_093000_600000_1'' [row_example]) =
   Some (row_example\<lparr>rec_status := ''interrupted'', current_step := Some TASK_INTERRUPTED,
     started_at := Some 200, error_message := Some (Note ''Analysis interrupted by user or system'')\<rparr>)"
  by (simp add: run_analysis_task_def find_analysis_def update_analysis_def row_example_def env_stopped_def
      task_acts_def check_stop_def)

end
