(* ===== verification/Task_Manager.thy ===== *)
theory Task_Manager
  imports Prelude "HOL-Library.AList" "HOL-Library.Monad_Syntax" "HOL-Library.Sublist"
begin

text \<open>
  The task scheduler and the WebSocket connection registry of the web backend
  (\<^verbatim>\<open>src/web/backend/app_v2.py\<close>, classes \<^verbatim>\<open>TaskManager\<close> and
  \<^verbatim>\<open>ConnectionManager\<close>).

  The state of a \<^verbatim>\<open>TaskManager\<close> is the record \<open>task_manager\<close>; its Python
  dicts are association lists kept in insertion order (\<open>AList.update\<close> replaces a
  present key in place and appends a new one, \<open>AList.delete\<close> removes a key), its
  \<^verbatim>\<open>Queue\<close>s are lists with \<^verbatim>\<open>put\<close> at the end and \<^verbatim>\<open>get\<close> at the front. The
  callable and arguments of a task are an opaque job of type \<open>'j\<close>; times are whole
  seconds. The \<^verbatim>\<open>ThreadPoolExecutor\<close> is the list \<open>executor\<close> of the work items
  whose future is not yet done; a future finishing runs the done callback
  \<^verbatim>\<open>_task_completed\<close>.

  \<^verbatim>\<open>self.lock\<close> is a \<^verbatim>\<open>threading.Lock\<close>, which is not reentrant. Each method is
  modelled as one critical section: \<open>acquire\<close> on a free lock takes it, and \<open>acquire\<close>
  on a held lock can only be reached from inside a method of the same thread that
  holds it, where the thread waits forever. That outcome is the value \<open>None\<close>.
\<close>

section \<open>TaskManager\<close>

type_synonym 'j user_queue_item = "pystr \<times> 'j"
type_synonym 'j queue_item = "pystr \<times> nat \<times> 'j"

record 'j task_manager =
  max_workers :: nat
  executor :: "'j queue_item list"
  active_tasks :: "(pystr \<times> bool) list"
  task_queue :: "'j queue_item list"
  running_count :: int
  lock_held :: bool
  user_running_tasks :: "(nat \<times> pystr) list"
  user_task_queues :: "(nat \<times> 'j user_queue_item list) list"
  task_last_log_time :: "(pystr \<times> int) list"
  task_no_log_count :: "(pystr \<times> nat) list"

definition TaskManager :: "nat \<Rightarrow> 'j task_manager" where
  "TaskManager mw =
     \<lparr>max_workers = mw, executor = [], active_tasks = [], task_queue = [], running_count = 0,
      lock_held = False, user_running_tasks = [], user_task_queues = [],
      task_last_log_time = [], task_no_log_count = []\<rparr>"

definition acquire :: "'j task_manager \<Rightarrow> 'j task_manager option" where
  "acquire tm = (if lock_held tm then None else Some (tm\<lparr>lock_held := True\<rparr>))"

definition release :: "'j task_manager \<Rightarrow> 'j task_manager" where
  "release tm = tm\<lparr>lock_held := False\<rparr>"

text \<open>\<^verbatim>\<open>_start_task\<close>: called with the lock held; the new stop event is unset.\<close>

definition start_task :: "'j task_manager \<Rightarrow> pystr \<Rightarrow> nat \<Rightarrow> 'j \<Rightarrow> int \<Rightarrow> 'j task_manager" where
  "start_task tm aid u j now =
     tm\<lparr>active_tasks := AList.update aid False (active_tasks tm),
        user_running_tasks := AList.update u aid (user_running_tasks tm),
        running_count := running_count tm + 1,
        task_last_log_time := AList.update aid now (task_last_log_time tm),
        task_no_log_count := AList.update aid 0 (task_no_log_count tm),
        executor := executor tm @ [(aid, u, j)]\<rparr>"

definition user_queue :: "'j task_manager \<Rightarrow> nat \<Rightarrow> 'j user_queue_item list" where
  "user_queue tm u = (case map_of (user_task_queues tm) u of None \<Rightarrow> [] | Some q \<Rightarrow> q)"

text \<open>The body of \<^verbatim>\<open>submit_task\<close> inside \<^verbatim>\<open>with self.lock\<close>.\<close>

definition submit_locked :: "'j task_manager \<Rightarrow> pystr \<Rightarrow> nat \<Rightarrow> 'j \<Rightarrow> int \<Rightarrow> bool \<times> 'j task_manager" where
  "submit_locked tm aid u j now =
     (if map_of (active_tasks tm) aid \<noteq> None then (False, tm)
      else if list_ex (\<lambda>(a, _). a = aid) (task_queue tm) then (False, tm)
      else if map_of (user_task_queues tm) u \<noteq> None \<and> list_ex (\<lambda>(a, _). a = aid) (user_queue tm u)
        then (False, tm)
      else if map_of (user_running_tasks tm) u \<noteq> None then
        (False, tm\<lparr>user_task_queues := AList.update u (user_queue tm u @ [(aid, j)]) (user_task_queues tm)\<rparr>)
      else if int (max_workers tm) \<le> running_count tm then
        (False, tm\<lparr>task_queue := task_queue tm @ [(aid, u, j)]\<rparr>)
      else (True, start_task tm aid u j now))"

definition submit_task :: "'j task_manager \<Rightarrow> pystr \<Rightarrow> nat \<Rightarrow> 'j \<Rightarrow> int \<Rightarrow> (bool \<times> 'j task_manager) option" where
  "submit_task tm aid u j now = do {
     tm \<leftarrow> acquire tm;
     let (b, tm) = submit_locked tm aid u j now;
     Some (b, release tm)
   }"

text \<open>\<^verbatim>\<open>_task_completed\<close>: the done callback of a task's future. After the clean-up
  it starts the head of the user's own queue; otherwise it hands the head of the
  global queue to \<^verbatim>\<open>submit_task\<close>, still inside its own \<^verbatim>\<open>with self.lock\<close>.\<close>

definition task_completed :: "'j task_manager \<Rightarrow> pystr \<Rightarrow> nat \<Rightarrow> int \<Rightarrow> 'j task_manager option" where
  "task_completed tm aid u now = do {
     tm \<leftarrow> acquire tm;
     let tm = tm\<lparr>active_tasks := AList.delete aid (active_tasks tm),
                 user_running_tasks := AList.delete u (user_running_tasks tm),
                 task_last_log_time := AList.delete aid (task_last_log_time tm),
                 task_no_log_count := AList.delete aid (task_no_log_count tm),
                 running_count := running_count tm - 1\<rparr>;
     if map_of (user_task_queues tm) u \<noteq> None \<and> user_queue tm u \<noteq> [] then
       (let (qid, j) = hd (user_queue tm u)
        in Some (release (start_task (tm\<lparr>user_task_queues := AList.update u (tl (user_queue tm u)) (user_task_queues tm)\<rparr>) qid u j now)))
     else
       (case task_queue tm of
          [] \<Rightarrow> Some (release tm)
        | (qid, quid, j) # rest \<Rightarrow>
            do {
              (_, tm) \<leftarrow> submit_task (tm\<lparr>task_queue := rest\<rparr>) qid quid j now;
              Some (release tm)
            })
   }"

definition update_task_log_time :: "'j task_manager \<Rightarrow> pystr \<Rightarrow> int \<Rightarrow> 'j task_manager option" where
  "update_task_log_time tm aid now = do {
     tm \<leftarrow> acquire tm;
     Some (release
       (if map_of (task_last_log_time tm) aid \<noteq> None
        then tm\<lparr>task_last_log_time := AList.update aid now (task_last_log_time tm),
                task_no_log_count := AList.update aid 0 (task_no_log_count tm)\<rparr>
        else tm))
   }"

text \<open>The two loops of \<^verbatim>\<open>check_stalled_tasks\<close>: counting the checks without a log
  line for more than 60 seconds, and setting the stop event of the tasks counted five
  times.\<close>

fun stall_scan :: "int \<Rightarrow> (pystr \<times> int) list \<Rightarrow> (pystr \<times> nat) list \<Rightarrow> pystr list \<Rightarrow> (pystr \<times> nat) list \<times> pystr list" where
  "stall_scan now [] cnt st = (cnt, st)"
| "stall_scan now ((aid, t) # rest) cnt st =
     (if now - t > 60 then
        (let c = (case map_of cnt aid of None \<Rightarrow> 0 | Some n \<Rightarrow> n) + 1
         in stall_scan now rest (AList.update aid c cnt) (if 5 \<le> c then st @ [aid] else st))
      else stall_scan now rest cnt st)"

fun interrupt_stalled :: "pystr list \<Rightarrow> (pystr \<times> bool) list \<Rightarrow> (pystr \<times> nat) list \<Rightarrow> (pystr \<times> bool) list \<times> (pystr \<times> nat) list" where
  "interrupt_stalled [] act cnt = (act, cnt)"
| "interrupt_stalled (aid # rest) act cnt =
     (if map_of act aid \<noteq> None
      then interrupt_stalled rest (AList.update aid True act) (AList.delete aid cnt)
      else interrupt_stalled rest act cnt)"

definition check_stalled_tasks :: "'j task_manager \<Rightarrow> int \<Rightarrow> 'j task_manager option" where
  "check_stalled_tasks tm now = do {
     tm \<leftarrow> acquire tm;
     let (cnt, stalled) = stall_scan now (task_last_log_time tm) (task_no_log_count tm) [];
     let (act, cnt) = interrupt_stalled stalled (active_tasks tm) cnt;
     Some (release (tm\<lparr>active_tasks := act, task_no_log_count := cnt\<rparr>))
   }"

definition stop_task :: "'j task_manager \<Rightarrow> pystr \<Rightarrow> (bool \<times> 'j task_manager) option" where
  "stop_task tm aid = do {
     tm \<leftarrow> acquire tm;
     Some (if map_of (active_tasks tm) aid \<noteq> None
           then (True, release (tm\<lparr>active_tasks := AList.update aid True (active_tasks tm)\<rparr>))
           else (False, release tm))
   }"

record tm_status =
  st_running :: int
  st_max_workers :: nat
  st_queued :: nat
  st_active_tasks :: "pystr list"
  st_user_running_tasks :: "(nat \<times> pystr) list"

definition get_status :: "'j task_manager \<Rightarrow> (tm_status \<times> 'j task_manager) option" where
  "get_status tm = do {
     tm \<leftarrow> acquire tm;
     Some (\<lparr>st_running = running_count tm, st_max_workers = max_workers tm,
            st_queued = length (task_queue tm), st_active_tasks = map fst (active_tasks tm),
            st_user_running_tasks = user_running_tasks tm\<rparr>, release tm)
   }"

section \<open>ConnectionManager\<close>

text \<open>\<^verbatim>\<open>active_connections\<close> maps an analysis id to its open WebSockets. The
  outcome of \<^verbatim>\<open>send_text\<close> on a socket is the oracle \<open>ok\<close>; both exception branches
  of \<^verbatim>\<open>send_message\<close> remove the socket, ignoring a socket already gone.
  \<^verbatim>\<open>list.remove\<close> in \<^verbatim>\<open>disconnect\<close> raises \<^verbatim>\<open>ValueError\<close> on a socket that is not
  registered: the value \<open>None\<close> of \<open>disconnect\<close>.\<close>

type_synonym 'w connections = "(pystr \<times> 'w list) list"

definition conns_of :: "'w connections \<Rightarrow> pystr \<Rightarrow> 'w list" where
  "conns_of cs aid = (case map_of cs aid of None \<Rightarrow> [] | Some l \<Rightarrow> l)"

definition connect :: "'w connections \<Rightarrow> 'w \<Rightarrow> pystr \<Rightarrow> 'w connections" where
  "connect cs ws aid = AList.update aid (conns_of cs aid @ [ws]) cs"

definition disconnect :: "'w connections \<Rightarrow> 'w \<Rightarrow> pystr \<Rightarrow> 'w connections option" where
  "disconnect cs ws aid =
     (case map_of cs aid of
        None \<Rightarrow> Some cs
      | Some l \<Rightarrow>
          if ws \<notin> set l then None
          else if remove1 ws l = [] then Some (AList.delete aid cs)
          else Some (AList.update aid (remove1 ws l) cs))"

fun send_each :: "('w \<Rightarrow> bool) \<Rightarrow> 'w list \<Rightarrow> 'w list \<Rightarrow> 'w list \<times> 'w list" where
  "send_each ok [] live = (live, [])"
| "send_each ok (c # cs) live =
     (if ok c then (let (l, d) = send_each ok cs live in (l, c # d))
      else send_each ok cs (remove1 c live))"

definition send_message :: "'w connections \<Rightarrow> ('w \<Rightarrow> bool) \<Rightarrow> pystr \<Rightarrow> 'w connections \<times> 'w list" where
  "send_message cs ok aid =
     (case map_of cs aid of
        None \<Rightarrow> (cs, [])
      | Some l \<Rightarrow> (let (l', d) = send_each ok l l in (AList.update aid l' cs, d)))"

definition close_connections :: "'w connections \<Rightarrow> pystr \<Rightarrow> 'w connections \<times> 'w list" where
  "close_connections cs aid =
     (case map_of cs aid of None \<Rightarrow> (cs, []) | Some l \<Rightarrow> (AList.delete aid cs, l))"

section \<open>Runs of the task manager\<close>

text \<open>One step is one call of a method that returns, or the future of a work item
  finishing and its done callback returning. The monitor coroutine
  \<^verbatim>\<open>task_monitor\<close> calls \<^verbatim>\<open>check_stalled_tasks\<close>.\<close>

inductive tm_step :: "'j task_manager \<Rightarrow> 'j task_manager \<Rightarrow> bool" where
  submit: "submit_task tm aid u j now = Some (b, tm') \<Longrightarrow> tm_step tm tm'"
| complete: "(aid, u, j) \<in> set (executor tm) \<Longrightarrow>
    task_completed (tm\<lparr>executor := remove1 (aid, u, j) (executor tm)\<rparr>) aid u now = Some tm' \<Longrightarrow>
    tm_step tm tm'"
| stop: "stop_task tm aid = Some (b, tm') \<Longrightarrow> tm_step tm tm'"
| log: "update_task_log_time tm aid now = Some tm' \<Longrightarrow> tm_step tm tm'"
| monitor: "check_stalled_tasks tm now = Some tm' \<Longrightarrow> tm_step tm tm'"
| status: "get_status tm = Some (s, tm') \<Longrightarrow> tm_step tm tm'"

definition tm_reachable :: "nat \<Rightarrow> 'j task_manager \<Rightarrow> bool" where
  "tm_reachable mw tm \<longleftrightarrow> tm_step\<^sup>*\<^sup>* (TaskManager mw) tm"

definition run_user :: "'j queue_item \<Rightarrow> nat" where
  "run_user x = fst (snd x)"

definition run_pair :: "'j queue_item \<Rightarrow> nat \<times> pystr" where
  "run_pair x = (fst (snd x), fst x)"

text \<open>Between two calls the lock is free, \<^verbatim>\<open>running_count\<close> counts the work items
  of the executor and does not exceed \<^verbatim>\<open>max_workers\<close>, and
  \<^verbatim>\<open>user_running_tasks\<close> lists the user and analysis of each work item, one item
  per user.\<close>

definition tm_inv :: "'j task_manager \<Rightarrow> bool" where
  "tm_inv tm \<longleftrightarrow>
     \<not> lock_held tm \<and>
     running_count tm = int (length (executor tm)) \<and>
     length (executor tm) \<le> max_workers tm \<and>
     user_running_tasks tm = map run_pair (executor tm) \<and>
     distinct (map run_user (executor tm))"

text \<open>The state inside \<^verbatim>\<open>_task_completed\<close> after its clean-up of the finished task.\<close>

definition completion_cleanup :: "'j task_manager \<Rightarrow> pystr \<Rightarrow> nat \<Rightarrow> 'j task_manager" where
  "completion_cleanup tm aid u =
     tm\<lparr>lock_held := True, active_tasks := AList.delete aid (active_tasks tm),
        user_running_tasks := AList.delete u (user_running_tasks tm),
        task_last_log_time := AList.delete aid (task_last_log_time tm),
        task_no_log_count := AList.delete aid (task_no_log_count tm),
        running_count := running_count tm - 1\<rparr>"

section \<open>Examples\<close>

text \<open>One worker: user 1 runs analysis \<open>a\<close>; user 2 submits \<open>b\<close>, which waits in the
  global queue; user 1 submits \<open>c\<close>, which waits in the queue of user 1.\<close>

definition tm_example_1 :: "nat task_manager" where
  "tm_example_1 = (TaskManager 1)\<lparr>executor := [(''a'', 1, 0)], active_tasks := [(''a'', False)],
     running_count := 1, user_running_tasks := [(1, ''a'')],
     task_last_log_time := [(''a'', 0)], task_no_log_count := [(''a'', 0)]\<rparr>"

definition tm_example_2 :: "nat task_manager" where
  "tm_example_2 = tm_example_1\<lparr>task_queue := [(''b'', 2, 1)]\<rparr>"

definition tm_example_3 :: "nat task_manager" where
  "tm_example_3 = tm_example_2\<lparr>user_task_queues := [(1, [(''c'', 2)])]\<rparr>"

section \<open>Lemmas\<close>

lemma update_absent: "map_of al k = None \<Longrightarrow> AList.update k v al = al @ [(k, v)]"
  by (induction al) auto

lemma map_of_run_pair_None: "map_of (map run_pair xs) u = None \<longleftrightarrow> u \<notin> set (map run_user xs)"
  by (induction xs) (auto simp: run_pair_def run_user_def)

lemma fst_run_pair [simp]: "fst (run_pair x) = run_user x"
  by (simp add: run_pair_def run_user_def)

lemma delete_run_pair:
  "distinct (map run_user xs) \<Longrightarrow> x \<in> set xs \<Longrightarrow>
   AList.delete (run_user x) (map run_pair xs) = map run_pair (remove1 x xs)"
proof (induction xs)
  case (Cons y ys)
  show ?case
  proof (cases "x = y")
    case True
    with Cons.prems have "run_user x \<notin> set (map run_user ys)" by simp
    hence "AList.delete (run_user x) (map run_pair ys) = map run_pair ys"
      by (intro delete_id) (fastforce simp: run_pair_def run_user_def image_iff)
    with True show ?thesis by simp
  next
    case False
    with Cons.prems have "run_user y \<noteq> run_user x" by (auto simp: image_iff)
    with False Cons show ?thesis by simp
  qed
qed simp

lemma distinct_map_remove1: "distinct (map f xs) \<Longrightarrow> distinct (map f (remove1 x xs))"
  by (induction xs) (auto dest: subsetD [OF set_remove1_subset])

lemma notin_map_remove1: "distinct (map f xs) \<Longrightarrow> x \<in> set xs \<Longrightarrow> f x \<notin> set (map f (remove1 x xs))"
proof (induction xs)
  case (Cons a xs)
  show ?case
  proof (cases "x = a")
    case False
    with Cons have "f x \<notin> set (map f (remove1 x xs))" by simp
    moreover from Cons.prems False have "f a \<noteq> f x" by auto
    ultimately show ?thesis using False by simp
  qed (use Cons.prems in simp)
qed simp

lemma length_remove1_mem: "x \<in> set xs \<Longrightarrow> length (remove1 x xs) = length xs - 1"
  by (simp add: length_remove1)

lemma start_task_inv:
  assumes "running_count tm = int (length (executor tm))" "length (executor tm) < max_workers tm"
    "user_running_tasks tm = map run_pair (executor tm)" "distinct (map run_user (executor tm))"
    "u \<notin> set (map run_user (executor tm))"
  shows "tm_inv (release (start_task tm aid u j now))"
proof -
  have "AList.update u aid (map run_pair (executor tm)) = map run_pair (executor tm @ [(aid, u, j)])"
    using assms(5) by (subst update_absent) (simp_all add: map_of_run_pair_None run_pair_def)
  with assms show ?thesis
    by (simp add: tm_inv_def release_def start_task_def run_user_def)
qed

lemma submit_task_Some:
  "submit_task tm aid u j now = Some (b, tm') \<longleftrightarrow>
   \<not> lock_held tm \<and> (b, tm') = map_prod id release (submit_locked (tm\<lparr>lock_held := True\<rparr>) aid u j now)"
  by (auto simp: submit_task_def acquire_def split: prod.splits)

lemma submit_task_inv:
  assumes "tm_inv tm" "submit_task tm aid u j now = Some (b, tm')"
  shows "tm_inv tm' \<and> max_workers tm' = max_workers tm \<and> prefix (task_queue tm) (task_queue tm')"
proof -
  let ?t = "tm\<lparr>lock_held := True\<rparr>"
  from assms have tm': "(b, tm') = map_prod id release (submit_locked ?t aid u j now)"
    by (simp add: submit_task_Some)
  show ?thesis
  proof (cases "map_of (active_tasks tm) aid = None \<and> \<not> list_ex (\<lambda>(a, _). a = aid) (task_queue tm)
      \<and> \<not> (map_of (user_task_queues tm) u \<noteq> None \<and> list_ex (\<lambda>(a, _). a = aid) (user_queue ?t u))
      \<and> map_of (user_running_tasks tm) u = None \<and> running_count tm < int (max_workers tm)")
    case True
    then have "tm' = release (start_task ?t aid u j now)"
      using tm' by (auto simp add: submit_locked_def)
    moreover have "tm_inv (release (start_task ?t aid u j now))"
      using assms(1) True by (intro start_task_inv) (auto simp: tm_inv_def map_of_run_pair_None)
    ultimately show ?thesis by (simp add: start_task_def release_def)
  next
    case False
    with assms(1) tm' show ?thesis
      by (auto simp: submit_locked_def tm_inv_def release_def split: if_splits)
  qed
qed


lemma task_completed_Some:
  assumes "task_completed tm aid u now = Some tm'"
  shows "\<not> lock_held tm \<and>
    (let t1 = completion_cleanup tm aid u in
     if map_of (user_task_queues t1) u \<noteq> None \<and> user_queue t1 u \<noteq> []
     then tm' = release (start_task (t1\<lparr>user_task_queues := AList.update u (tl (user_queue t1 u)) (user_task_queues t1)\<rparr>)
                  (fst (hd (user_queue t1 u))) u (snd (hd (user_queue t1 u))) now)
     else task_queue tm = [] \<and> tm' = release t1)"
  using assms
  by (auto simp: task_completed_def acquire_def submit_task_def completion_cleanup_def Let_def
      split: if_splits list.splits prod.splits)

lemma task_completed_inv:
  assumes inv: "tm_inv tm" and x: "(aid, u, j) \<in> set (executor tm)"
    and tc: "task_completed (tm\<lparr>executor := remove1 (aid, u, j) (executor tm)\<rparr>) aid u now = Some tm'"
  shows "tm_inv tm' \<and> max_workers tm' = max_workers tm \<and> prefix (task_queue tm) (task_queue tm')"
proof -
  let ?x = "(aid, u, j)"
  let ?ex = "remove1 ?x (executor tm)"
  let ?t1 = "completion_cleanup (tm\<lparr>executor := ?ex\<rparr>) aid u"
  have u: "run_user ?x = u" by (simp add: run_user_def)
  from inv x have ur: "user_running_tasks ?t1 = map run_pair ?ex"
    using delete_run_pair [of "executor tm" ?x]
    by (simp add: tm_inv_def u completion_cleanup_def)
  from inv have d: "distinct (map run_user ?ex)"
    by (simp add: tm_inv_def distinct_map_remove1)
  from inv x have nu: "u \<notin> set (map run_user ?ex)"
    using notin_map_remove1 [of run_user "executor tm" ?x] by (simp add: tm_inv_def u)
  from x have pos: "1 \<le> length (executor tm)" by (cases "executor tm") auto
  with inv x have len: "length ?ex < max_workers tm"
    and cnt: "running_count ?t1 = int (length ?ex)"
    by (auto simp: tm_inv_def length_remove1_mem completion_cleanup_def of_nat_diff)
  note c = task_completed_Some [OF tc, unfolded Let_def]
  show ?thesis
  proof (cases "map_of (user_task_queues ?t1) u \<noteq> None \<and> user_queue ?t1 u \<noteq> []")
    case True
    with c have tm': "tm' = release (start_task (?t1\<lparr>user_task_queues := AList.update u (tl (user_queue ?t1 u)) (user_task_queues ?t1)\<rparr>)
                  (fst (hd (user_queue ?t1 u))) u (snd (hd (user_queue ?t1 u))) now)"
      by simp
    have "tm_inv tm'"
      unfolding tm' using ur d nu len cnt
      by (intro start_task_inv) (simp_all add: completion_cleanup_def)
    then show ?thesis
      by (simp add: tm' start_task_def release_def completion_cleanup_def)
  next
    case False
    with c have "tm' = release ?t1" by simp
    with ur d cnt len show ?thesis
      by (simp add: tm_inv_def release_def completion_cleanup_def)
  qed
qed

lemma tm_step_inv:
  assumes "tm_step tm tm'" "tm_inv tm"
  shows "tm_inv tm' \<and> max_workers tm' = max_workers tm \<and> prefix (task_queue tm) (task_queue tm')"
  using assms(1)
proof cases
  case (submit aid u j now b)
  with assms(2) show ?thesis by (blast dest: submit_task_inv)
next
  case (complete aid u j now)
  with assms(2) show ?thesis by (blast dest: task_completed_inv)
next
  case (stop aid b)
  with assms(2) show ?thesis
    by (auto simp: stop_task_def acquire_def release_def tm_inv_def split: if_splits)
next
  case (log aid now)
  with assms(2) show ?thesis
    by (auto simp: update_task_log_time_def acquire_def release_def tm_inv_def split: if_splits)
next
  case (monitor now)
  with assms(2) show ?thesis
    by (auto simp: check_stalled_tasks_def acquire_def release_def tm_inv_def split: if_splits prod.splits)
next
  case (status s)
  with assms(2) show ?thesis
    by (auto simp: get_status_def acquire_def release_def tm_inv_def split: if_splits)
qed

lemma tm_steps_inv:
  "tm_step\<^sup>*\<^sup>* tm tm' \<Longrightarrow> tm_inv tm \<Longrightarrow>
   tm_inv tm' \<and> max_workers tm' = max_workers tm \<and> prefix (task_queue tm) (task_queue tm')"
  by (induction rule: rtranclp_induct) (auto dest: tm_step_inv intro: prefix_order.trans)

lemma release_acquire: "\<not> lock_held tm \<Longrightarrow> release (tm\<lparr>lock_held := True\<rparr>) = tm"
  by (simp add: release_def)

lemma tm_inv_init: "tm_inv (TaskManager mw)"
  by (simp add: tm_inv_def TaskManager_def)

lemma fold_remove1_filter:
  "\<forall>y \<in> set ys. ok y \<Longrightarrow> fold remove1 (filter (Not \<circ> ok) xs) (ys @ xs) = ys @ filter ok xs"
proof (induction xs arbitrary: ys)
  case (Cons c cs)
  show ?case
  proof (cases "ok c")
    case True
    with Cons.IH [of "ys @ [c]"] Cons.prems show ?thesis by simp
  next
    case False
    with Cons.prems have "c \<notin> set ys" by blast
    hence "remove1 c (ys @ c # cs) = ys @ cs" by (simp add: remove1_append)
    with False Cons.IH [of ys] Cons.prems show ?thesis by simp
  qed
qed simp

lemma send_each_fold: "send_each ok xs live = (fold remove1 (filter (Not \<circ> ok) xs) live, filter ok xs)"
  by (induction xs arbitrary: live) (auto split: prod.split)

lemma send_message_filter:
  "map_of cs aid = Some l \<Longrightarrow> send_message cs ok aid = (AList.update aid (filter ok l) cs, filter ok l)"
  using fold_remove1_filter [of "[]" ok l] by (simp add: send_message_def send_each_fold)

text \<open>C34: In every state the task manager reaches from its construction (each
  step a call of one of its methods that returns, or a work item finishing and its
  done callback returning) the lock is free, \<^verbatim>\<open>running_count\<close> equals the number of
  work items in the executor and is at most \<^verbatim>\<open>max_workers\<close>, \<^verbatim>\<open>user_running_tasks\<close>
  lists exactly the user and analysis of each work item, and no user has two work
  items.\<close>

theorem tm_reachable_inv: "tm_reachable mw tm \<Longrightarrow> tm_inv tm \<and> max_workers tm = mw"
  using tm_steps_inv [OF _ tm_inv_init] by (fastforce simp: tm_reachable_def TaskManager_def)

text \<open>C35: The done callback of a task deadlocks whenever the user of the task has no
  queued task and the global queue is not empty: \<^verbatim>\<open>_task_completed\<close> calls
  \<^verbatim>\<open>submit_task\<close> while holding the non-reentrant lock, and \<^verbatim>\<open>submit_task\<close>
  waits for that lock forever.\<close>

theorem completion_deadlocks:
  "user_queue tm u = [] \<Longrightarrow> task_queue tm \<noteq> [] \<Longrightarrow> task_completed tm aid u now = None"
  by (auto simp: task_completed_def acquire_def submit_task_def user_queue_def Let_def
      split: list.splits option.splits)

text \<open>C36: From a reachable state, no run of the task manager ever removes an entry
  of the global queue: the queue of a later state extends the queue of an earlier one,
  so an analysis submitted while all workers were busy is never started.\<close>

theorem global_queue_never_drained:
  "tm_reachable mw tm \<Longrightarrow> tm_step\<^sup>*\<^sup>* tm tm' \<Longrightarrow> prefix (task_queue tm) (task_queue tm')"
  unfolding tm_reachable_def using tm_steps_inv tm_inv_init by (blast intro: rtranclp_trans)

text \<open>When the task of a user with queued tasks finishes, the done callback
  returns, starts the head of that user's queue as the user's running task, leaves the
  rest of the queue, and keeps the number of running tasks.\<close>

theorem completion_starts_user_queue_head:
  "\<not> lock_held tm \<Longrightarrow> map_of (user_task_queues tm) u = Some ((qid, j) # rest) \<Longrightarrow>
   \<exists>tm'. task_completed tm aid u now = Some tm' \<and> (qid, u, j) \<in> set (executor tm') \<and>
     map_of (user_task_queues tm') u = Some rest \<and> map_of (user_running_tasks tm') u = Some qid \<and>
     running_count tm' = running_count tm \<and> \<not> lock_held tm'"
  by (simp add: task_completed_def acquire_def user_queue_def start_task_def release_def
      update_conv')




lemma tm_example_steps:
  "submit_task (TaskManager 1) ''a'' 1 0 0 = Some (True, tm_example_1)"
  "submit_task tm_example_1 ''b'' 2 1 0 = Some (False, tm_example_2)"
  "submit_task tm_example_2 ''c'' 1 2 0 = Some (False, tm_example_3)"
  by code_simp+

lemma tm_example_reachable: "tm_reachable 1 tm_example_1" "tm_step tm_example_1 tm_example_2"
  "tm_step tm_example_2 tm_example_3"
  using tm_example_steps by (auto simp: tm_reachable_def intro: tm_step.submit)

theorem tm_reachable_inv_witness: "tm_inv tm_example_1 \<and> max_workers tm_example_1 = 1"
  using tm_reachable_inv [OF tm_example_reachable(1)] .

theorem completion_deadlocks_witness: "task_completed (tm_example_2\<lparr>executor := []\<rparr>) ''a'' 1 60 = None"
proof -
  have "user_queue (tm_example_2\<lparr>executor := []\<rparr>) 1 = []" "task_queue (tm_example_2\<lparr>executor := []\<rparr>) \<noteq> []"
    by code_simp+
  then show ?thesis using completion_deadlocks by blast
qed

theorem global_queue_never_drained_witness: "prefix (task_queue tm_example_1) (task_queue tm_example_3)"
  using global_queue_never_drained [OF tm_example_reachable(1)] tm_example_reachable(2,3)
  by (meson converse_rtranclp_into_rtranclp r_into_rtranclp)

theorem completion_starts_user_queue_head_witness:
  "\<exists>tm'. task_completed tm_example_3 ''a'' 1 60 = Some tm' \<and> (''c'', 1, 2) \<in> set (executor tm') \<and>
     map_of (user_task_queues tm') 1 = Some [] \<and> map_of (user_running_tasks tm') 1 = Some ''c'' \<and>
     running_count tm' = running_count tm_example_3 \<and> \<not> lock_held tm'"
proof -
  have h1: "\<not> lock_held tm_example_3" and h2: "map_of (user_task_queues tm_example_3) 1 = Some [(''c'', 2)]"
    by code_simp+
  show ?thesis using completion_starts_user_queue_head [OF h1 h2, of "''a''" 60] .
qed

end
