(* ===== verification/Analysis_Routes.thy ===== *)
theory Analysis_Routes
  imports Analysis_Task Task_Manager
begin

text \<open>
  The analysis API of the web backend, \<^verbatim>\<open>src/web/backend/routes/analysis_routes.py\<close>,
  and the clean-up of \<^verbatim>\<open>cleanup_running_tasks\<close> in \<^verbatim>\<open>app_v2.py\<close>. Each handler
  takes the user that its dependency \<^verbatim>\<open>get_current_active_user\<close> returned
  (\<open>Web_Auth\<close>), the rows of \<^verbatim>\<open>analysis_records\<close> in table order, and where it
  calls them the \<^verbatim>\<open>TaskManager\<close> and \<^verbatim>\<open>ConnectionManager\<close> of \<open>Task_Manager\<close>; it
  returns the response or the \<^verbatim>\<open>HTTPException\<close>, and the new state. The job of a
  submitted task is the argument triple of \<^verbatim>\<open>run_analysis_task\<close>.

  The database is SQLite (the default of \<^verbatim>\<open>database.py\<close>): \<^verbatim>\<open>ilike\<close> is
  \<^verbatim>\<open>lower(x) LIKE lower(y)\<close> with ASCII case folding and the wildcards \<open>%\<close> and
  \<open>_\<close>; a negative \<^verbatim>\<open>OFFSET\<close> counts as zero and a negative \<^verbatim>\<open>LIMIT\<close> as no
  limit. \<^verbatim>\<open>ORDER BY created_at DESC\<close> keeps rows with equal timestamps in table
  order. Chinese texts of the responses are named constants; the Markdown report of
  \<^verbatim>\<open>get_analysis_markdown\<close> and the column \<^verbatim>\<open>updated_at\<close> are not modelled.
\<close>

section \<open>Requests and responses\<close>

record analysis_request =
  req_ticker :: pystr
  req_analysis_date :: pystr
  req_analysts :: "pystr list"
  req_research_depth :: int
  req_llm_provider :: pystr
  req_backend_url :: pystr
  req_shallow_thinker :: pystr
  req_deep_thinker :: pystr
  openai_api_key :: "pystr option"
  anthropic_api_key :: "pystr option"
  google_api_key :: "pystr option"
  openrouter_api_key :: "pystr option"

type_synonym analysis_job = "pystr \<times> nat \<times> analysis_request"

text \<open>\<open>ALREADY_RUNNING_CONNECTED\<close>: the message that the user already has a running
  analysis and has been connected to it.\<close>

datatype start_note = ALREADY_RUNNING_CONNECTED

record analysis_response =
  resp_analysis_id :: pystr
  resp_status :: pystr
  resp_message :: "start_note option"

definition RUNNING_STATUSES :: "pystr list" where
  "RUNNING_STATUSES = [''initializing'', ''running'']"

definition FINISHED_STATUSES :: "pystr list" where
  "FINISHED_STATUSES = [''completed'', ''error'', ''interrupted'']"

definition find_owned :: "pystr \<Rightarrow> user \<Rightarrow> analysis_row list \<Rightarrow> analysis_row option" where
  "find_owned aid u rows = find (\<lambda>r. analysis_id r = aid \<and> user_id r = uid u) rows"

section \<open>start_analysis\<close>

definition new_analysis_row :: "pystr \<Rightarrow> user \<Rightarrow> analysis_request \<Rightarrow> int \<Rightarrow> analysis_row" where
  "new_analysis_row aid u req now =
     \<lparr>analysis_id = aid, user_id = uid u, ticker = req_ticker req, rec_status = ''queued'',
      analysis_date = req_analysis_date req, analysts = req_analysts req,
      research_depth = req_research_depth req, llm_provider = req_llm_provider req,
      shallow_thinker = req_shallow_thinker req, deep_thinker = req_deep_thinker req,
      backend_url = req_backend_url req, current_step = Some (Step ''Analysis queued''),
      progress_percentage = 0, final_state = None, trading_decision = None, final_summary = None,
      market_analysis = None, sentiment_analysis = None, news_analysis = None,
      fundamentals_analysis = None, risk_assessment = None, error_message = None,
      created_at = now, started_at = None, completed_at = None\<rparr>"

text \<open>\<open>ts\<close> is \<^verbatim>\<open>datetime.now().strftime('%Y%m%d_%H%M%S')\<close>. A second analysis of
  the same ticker by the same user within one second gets the same id; the unique
  index on \<^verbatim>\<open>analysis_id\<close> then makes \<^verbatim>\<open>db.commit()\<close> raise, which FastAPI answers
  with status 500.\<close>

definition start_analysis ::
  "analysis_job task_manager \<Rightarrow> analysis_row list \<Rightarrow> user \<Rightarrow> analysis_request \<Rightarrow> pystr \<Rightarrow> int \<Rightarrow>
   ((http_error + analysis_response) \<times> analysis_row list \<times> analysis_job task_manager) option" where
  "start_analysis tm rows u req ts now =
     (case find (\<lambda>r. user_id r = uid u \<and> rec_status r \<in> set RUNNING_STATUSES) rows of
        Some r \<Rightarrow>
          Some (Inr \<lparr>resp_analysis_id = analysis_id r, resp_status = rec_status r,
                     resp_message = Some ALREADY_RUNNING_CONNECTED\<rparr>, rows, tm)
      | None \<Rightarrow>
          (let aid = ''analysis_'' @ ts @ ''_'' @ req_ticker req @ ''_'' @ nat_str (uid u) in
           if find_analysis aid rows \<noteq> None
           then Some (Inl (HTTPException 500 (Detail ''Internal Server Error'')), rows, tm)
           else do {
             let rows1 = rows @ [new_analysis_row aid u req now];
             (submitted, tm') \<leftarrow> submit_task tm aid (uid u) (aid, uid u, req) now;
             let rows2 = (if submitted then rows1
                          else update_analysis aid
                                 (\<lambda>r. r\<lparr>rec_status := ''queued'', current_step := Some WAITING_IN_QUEUE\<rparr>) rows1);
             Some (Inr \<lparr>resp_analysis_id = aid, resp_status = ''queued'', resp_message = None\<rparr>, rows2, tm')
           }))"

section \<open>stop_analysis\<close>

text \<open>On success the handler schedules the \<^verbatim>\<open>interrupted\<close> message and the closing
  of the analysis' WebSockets; the model performs them in that order. The outcome of
  each \<^verbatim>\<open>send_text\<close> is the oracle \<open>ok\<close>.\<close>

definition stop_analysis ::
  "analysis_job task_manager \<Rightarrow> 'w connections \<Rightarrow> ('w \<Rightarrow> bool) \<Rightarrow> analysis_row list \<Rightarrow> user \<Rightarrow> pystr \<Rightarrow>
   ((http_error + pystr) \<times> analysis_job task_manager \<times> 'w connections) option" where
  "stop_analysis tm cs ok rows u aid =
     (case find_owned aid u rows of
        None \<Rightarrow> Some (Inl (HTTPException 404 ANALYSIS_NOT_FOUND), tm, cs)
      | Some r \<Rightarrow>
          if rec_status r \<in> set FINISHED_STATUSES
          then Some (Inl (HTTPException 400 (ANALYSIS_FINISHED (rec_status r))), tm, cs)
          else do {
            (stopped, tm') \<leftarrow> stop_task tm aid;
            if stopped
            then Some (Inr aid, tm', fst (close_connections (fst (send_message cs ok aid)) aid))
            else Some (Inl (HTTPException 404 TASK_NOT_FOUND_OR_DONE), tm', cs)
          })"

section \<open>get_analysis_status\<close>

record analysis_status =
  as_analysis_id :: pystr
  as_status :: pystr
  as_current_step :: "step option"
  as_progress_percentage :: real
  as_started_at :: "int option"

definition get_analysis_status :: "analysis_row list \<Rightarrow> user \<Rightarrow> pystr \<Rightarrow> http_error + analysis_status" where
  "get_analysis_status rows u aid =
     (case find_owned aid u rows of
        None \<Rightarrow> Inl (HTTPException 404 ANALYSIS_NOT_FOUND)
      | Some r \<Rightarrow> Inr \<lparr>as_analysis_id = analysis_id r, as_status = rec_status r,
                       as_current_step = current_step r,
                       as_progress_percentage = progress_percentage r, as_started_at = started_at r\<rparr>)"

section \<open>get_analysis_results\<close>

text \<open>The Chinese display names of the agents and of the four phases, and the
  headings of the parts of the final summary: a section \<^verbatim>\<open>"## heading\n\n{text}"\<close>
  or a brief \<^verbatim>\<open>"**heading**\n{text[:300]}..."\<close>. The summary is the stored
  \<^verbatim>\<open>final_summary\<close>, the parts joined by blank lines, the trading decision, or the
  constant text that no summary is available.\<close>

datatype agent_name =
    MARKET_ANALYST | SOCIAL_MEDIA_ANALYST | NEWS_ANALYST | FUNDAMENTALS_ANALYST
  | BULL_RESEARCHER | BEAR_RESEARCHER | INVEST_JUDGE | TRADER
  | RISKY_ANALYST | NEUTRAL_ANALYST | SAFE_ANALYST | RISK_MANAGER_JUDGE

datatype phase_title = ANALYST_TEAM | RESEARCH_TEAM | TRADING_TEAM | RISK_MANAGEMENT

record phase =
  phase_id :: nat
  phase_name :: phase_title
  phase_icon :: pystr
  phase_color :: pystr
  phase_agents :: "(agent_name \<times> pystr) list"

datatype summary_head = INVESTMENT_DECISION_H | TRADING_STRATEGY_H | FINAL_TRADE_DECISION_H | RISK_ASSESSMENT_H

datatype brief_head = MARKET_BRIEF | INVEST_ADVICE_BRIEF | TRADING_BRIEF

datatype summary_part = Section summary_head pystr | Brief brief_head pystr

datatype summary = Stored pystr | Parts "summary_part list" | Decision pystr | NO_SUMMARY

definition opt_agent :: "agent_name \<Rightarrow> pystr option \<Rightarrow> (agent_name \<times> pystr) list" where
  "opt_agent a x = (if truthy x then [(a, get_str x)] else [])"

definition state_get :: "analysis_row \<Rightarrow> (agent_state \<Rightarrow> 'a option) \<Rightarrow> 'a option" where
  "state_get r f = (case final_state r of None \<Rightarrow> None | Some s \<Rightarrow> f s)"

definition invest_judge :: "analysis_row \<Rightarrow> pystr option" where
  "invest_judge r = (case state_get r investment_debate_state of None \<Rightarrow> None | Some d \<Rightarrow> judge_decision d)"

definition risk_judge :: "analysis_row \<Rightarrow> pystr option" where
  "risk_judge r = (case state_get r risk_debate_state of None \<Rightarrow> None | Some d \<Rightarrow> risk_judge_decision d)"

definition results_phases :: "analysis_row \<Rightarrow> phase list" where
  "results_phases r =
     (let analyst_agents =
            opt_agent MARKET_ANALYST (market_analysis r) @ opt_agent SOCIAL_MEDIA_ANALYST (sentiment_analysis r) @
            opt_agent NEWS_ANALYST (news_analysis r) @ opt_agent FUNDAMENTALS_ANALYST (fundamentals_analysis r);
          research_agents =
            (case state_get r investment_debate_state of None \<Rightarrow> []
             | Some d \<Rightarrow> opt_agent BULL_RESEARCHER (bull_history d) @ opt_agent BEAR_RESEARCHER (bear_history d) @
                         opt_agent INVEST_JUDGE (judge_decision d));
          tip = state_get r trader_investment_plan;
          risk_agents =
            (case state_get r risk_debate_state of None \<Rightarrow> []
             | Some d \<Rightarrow> opt_agent RISKY_ANALYST (risky_history d) @ opt_agent NEUTRAL_ANALYST (neutral_history d) @
                         opt_agent SAFE_ANALYST (safe_history d) @ opt_agent RISK_MANAGER_JUDGE (risk_judge_decision d))
      in (if analyst_agents \<noteq> [] then [\<lparr>phase_id = 1, phase_name = ANALYST_TEAM, phase_icon = ''fa-users'',
                                           phase_color = ''blue'', phase_agents = analyst_agents\<rparr>] else []) @
         (if research_agents \<noteq> [] then [\<lparr>phase_id = 2, phase_name = RESEARCH_TEAM, phase_icon = ''fa-search'',
                                            phase_color = ''green'', phase_agents = research_agents\<rparr>] else []) @
         (if truthy tip then [\<lparr>phase_id = 3, phase_name = TRADING_TEAM, phase_icon = ''fa-chart-line'',
                                 phase_color = ''purple'', phase_agents = [(TRADER, get_str tip)]\<rparr>] else []) @
         (if risk_agents \<noteq> [] then [\<lparr>phase_id = 4, phase_name = RISK_MANAGEMENT, phase_icon = ''fa-shield-alt'',
                                        phase_color = ''red'', phase_agents = risk_agents\<rparr>] else []))"

definition results_summary :: "analysis_row \<Rightarrow> summary" where
  "results_summary r =
     (if truthy (final_summary r) then Stored (get_str (final_summary r))
      else
        (let ip = state_get r investment_plan; tip = state_get r trader_investment_plan;
             ftd = state_get r final_trade_decision; ijd = invest_judge r; rjd = risk_judge r;
             parts =
               (if truthy ip then [Section INVESTMENT_DECISION_H (get_str ip)]
                else if truthy ijd then [Section INVESTMENT_DECISION_H (get_str ijd)] else []) @
               (if truthy tip then [Section TRADING_STRATEGY_H (get_str tip)] else []) @
               (if truthy ftd then [Section FINAL_TRADE_DECISION_H (get_str ftd)]
                else if truthy rjd then [Section RISK_ASSESSMENT_H (get_str rjd)] else []);
             parts =
               (if parts \<noteq> [] then parts
                else (if truthy (market_analysis r) then [Brief MARKET_BRIEF (take 300 (get_str (market_analysis r)))] else []) @
                     (if truthy ijd then [Brief INVEST_ADVICE_BRIEF (take 300 (get_str ijd))] else []) @
                     (if truthy tip then [Brief TRADING_BRIEF (take 300 (get_str tip))] else []))
         in if parts \<noteq> [] then Parts parts
            else if truthy (trading_decision r) then Decision (get_str (trading_decision r))
            else NO_SUMMARY))"

record analysis_results =
  res_ticker :: pystr
  res_analysis_date :: pystr
  res_trading_decision :: "pystr option"
  res_final_summary :: summary
  res_phases :: "phase list"
  res_created_at :: int
  res_completed_at :: "int option"

definition get_analysis_results :: "analysis_row list \<Rightarrow> user \<Rightarrow> pystr \<Rightarrow> http_error + analysis_results" where
  "get_analysis_results rows u aid =
     (case find_owned aid u rows of
        None \<Rightarrow> Inl (HTTPException 404 ANALYSIS_NOT_FOUND)
      | Some r \<Rightarrow>
          if rec_status r \<noteq> ''completed'' then Inl (HTTPException 400 (ANALYSIS_STATUS (rec_status r)))
          else Inr \<lparr>res_ticker = ticker r, res_analysis_date = analysis_date r,
                    res_trading_decision = trading_decision r, res_final_summary = results_summary r,
                    res_phases = results_phases r, res_created_at = created_at r,
                    res_completed_at = completed_at r\<rparr>)"

section \<open>list_analyses\<close>

definition sql_lower :: "pystr \<Rightarrow> pystr" where
  "sql_lower s = map (\<lambda>c. let n = (of_char c :: nat) in if 65 \<le> n \<and> n \<le> 90 then char_of (n + 32) else c) s"

text \<open>SQLite \<^verbatim>\<open>LIKE\<close> without \<^verbatim>\<open>ESCAPE\<close>: pattern first, then the text.\<close>

fun like_match :: "pystr \<Rightarrow> pystr \<Rightarrow> bool" where
  "like_match [] s = (s = [])"
| "like_match (p # ps) [] = (p = CHR ''%'' \<and> like_match ps [])"
| "like_match (p # ps) (c # cs) =
     (if p = CHR ''%'' then like_match ps (c # cs) \<or> like_match (p # ps) cs
      else (p = CHR ''_'' \<or> p = c) \<and> like_match ps cs)"

definition ilike :: "pystr \<Rightarrow> pystr \<Rightarrow> bool" where
  "ilike s pat = like_match (sql_lower pat) (sql_lower s)"

definition sql_offset_limit :: "int \<Rightarrow> int \<Rightarrow> 'a list \<Rightarrow> 'a list" where
  "sql_offset_limit off lmt xs = (let ys = drop (nat off) xs in if lmt < 0 then ys else take (nat lmt) ys)"

record list_entry =
  le_id :: pystr
  le_ticker :: pystr
  le_analysis_date :: pystr
  le_status :: pystr
  le_progress_percentage :: real
  le_created_at :: int
  le_completed_at :: "int option"
  le_recommendation :: "pystr option"

definition list_entry_of :: "analysis_row \<Rightarrow> list_entry" where
  "list_entry_of r =
     \<lparr>le_id = analysis_id r, le_ticker = ticker r, le_analysis_date = analysis_date r, le_status = rec_status r,
      le_progress_percentage = progress_percentage r, le_created_at = created_at r,
      le_completed_at = completed_at r,
      le_recommendation = (if truthy (trading_decision r) then trading_decision r else None)\<rparr>"

record analysis_page =
  pg_analyses :: "list_entry list"
  pg_total :: nat
  pg_page :: int
  pg_limit :: int
  pg_has_next :: bool

definition user_query :: "analysis_row list \<Rightarrow> user \<Rightarrow> pystr option \<Rightarrow> pystr option \<Rightarrow> analysis_row list" where
  "user_query rows u status_filter ticker_filter =
     (let q = filter (\<lambda>r. user_id r = uid u) rows;
          q = (if truthy status_filter then filter (\<lambda>r. rec_status r = get_str status_filter) q else q)
      in if truthy ticker_filter then filter (\<lambda>r. ilike (ticker r) (''%'' @ get_str ticker_filter @ ''%'')) q else q)"

definition list_analyses ::
  "analysis_row list \<Rightarrow> user \<Rightarrow> int \<Rightarrow> int \<Rightarrow> pystr option \<Rightarrow> pystr option \<Rightarrow> analysis_page" where
  "list_analyses rows u page limit status_filter ticker_filter =
     (let q = user_query rows u status_filter ticker_filter;
          total = length q;
          offset = (page - 1) * limit;
          xs = sql_offset_limit offset limit (sort_key (\<lambda>r. - created_at r) q)
      in \<lparr>pg_analyses = map list_entry_of xs, pg_total = total, pg_page = page, pg_limit = limit,
          pg_has_next = offset + limit < int total\<rparr>)"

section \<open>delete_analysis\<close>

definition delete_analysis :: "analysis_row list \<Rightarrow> user \<Rightarrow> pystr \<Rightarrow> http_error + pystr \<times> analysis_row list" where
  "delete_analysis rows u aid =
     (case find_owned aid u rows of
        None \<Rightarrow> Inl (HTTPException 404 ANALYSIS_NOT_FOUND)
      | Some r \<Rightarrow>
          if rec_status r \<in> set RUNNING_STATUSES then Inl (HTTPException 400 CANNOT_DELETE_RUNNING)
          else Inr (aid, remove1 r rows))"

section \<open>cleanup_running_tasks (app_v2.py)\<close>

definition cleanup_running_tasks :: "analysis_row list \<Rightarrow> analysis_row list" where
  "cleanup_running_tasks rows =
     map (\<lambda>r. if rec_status r \<in> set RUNNING_STATUSES
              then r\<lparr>rec_status := ''interrupted'', current_step := Some SERVER_RESTARTED,
                     error_message := Some SERVER_RESTART_INTERRUPTED\<rparr>
              else r) rows"

section \<open>Examples\<close>

definition request_example :: analysis_request where
  "request_example =
     \<lparr>req_ticker = ''600000'', req_analysis_date = ''2025-01-02'', req_analysts = [''market''],
      req_research_depth = 1, req_llm_provider = ''openai'', req_backend_url = [],
      req_shallow_thinker = ''gpt-4o-mini'', req_deep_thinker = ''gpt-4o'',
      openai_api_key = None, anthropic_api_key = None, google_api_key = None, openrouter_api_key = None\<rparr>"

section \<open>Lemmas\<close>

lemma cleanup_no_running: "\<forall>r \<in> set (cleanup_running_tasks rows). rec_status r \<notin> set RUNNING_STATUSES"
  by (auto simp: cleanup_running_tasks_def RUNNING_STATUSES_def)

lemma cleanup_keeps_queued:
  "rec_status r = ''queued'' \<Longrightarrow> r \<in> set rows \<Longrightarrow> r \<in> set (cleanup_running_tasks rows)"
  by (force simp: cleanup_running_tasks_def RUNNING_STATUSES_def)

lemma results_summary_dead_briefs:
  "results_summary r = Parts ps \<Longrightarrow> Brief INVEST_ADVICE_BRIEF x \<notin> set ps \<and> Brief TRADING_BRIEF x \<notin> set ps"
  by (auto simp: results_summary_def Let_def split: if_splits)

lemma list_page_items:
  "1 \<le> page \<Longrightarrow> 0 < limit \<Longrightarrow>
   pg_analyses (list_analyses rows u page limit sf tf) =
   map list_entry_of (take (nat limit) (drop (nat (page - 1) * nat limit)
     (sort_key (\<lambda>r. - created_at r) (user_query rows u sf tf))))"
  by (simp add: list_analyses_def sql_offset_limit_def Let_def nat_mult_distrib)

lemma list_has_next_iff_next_page:
  assumes "1 \<le> page" "0 < limit"
  shows "pg_has_next (list_analyses rows u page limit sf tf) \<longleftrightarrow>
         pg_analyses (list_analyses rows u (page + 1) limit sf tf) \<noteq> []"
proof -
  have "(page + 1 - 1) * limit = (page - 1) * limit + limit" by (simp add: algebra_simps)
  moreover have "0 \<le> (page - 1) * limit + limit" using assms by simp
  ultimately show ?thesis using assms
    by (auto simp: list_analyses_def sql_offset_limit_def Let_def le_nat_iff)
qed

text \<open>C18: an analysis whose record is \<^verbatim>\<open>queued\<close> and whose task is not among the
  manager's active tasks (it waits in a queue, or its queue was lost in a restart, which
  \<^verbatim>\<open>cleanup_running_tasks\<close> leaves queued) cannot be stopped: \<^verbatim>\<open>stop_analysis\<close>
  answers 404 "task not found or already completed" and changes nothing.\<close>

theorem stop_queued_analysis_not_found:
  "find_owned aid u rows = Some r \<Longrightarrow> rec_status r = ''queued'' \<Longrightarrow> map_of (active_tasks tm) aid = None \<Longrightarrow>
   \<not> lock_held tm \<Longrightarrow>
   stop_analysis tm cs ok rows u aid = Some (Inl (HTTPException 404 TASK_NOT_FOUND_OR_DONE), tm, cs)"
  by (simp add: stop_analysis_def FINISHED_STATUSES_def stop_task_def acquire_def release_acquire)

text \<open>The pages of \<^verbatim>\<open>list_analyses\<close> for a positive \<^verbatim>\<open>limit\<close>, requested in
  order from page 1 on the same table, list the user's filtered analyses newest first,
  each exactly once: pages 1 to n together are the first n times \<^verbatim>\<open>limit\<close> of them.\<close>

theorem list_pages_partition:
  assumes "0 < limit"
  shows "concat (map (\<lambda>p. pg_analyses (list_analyses rows u (int p) limit sf tf)) [1..<Suc n]) =
         map list_entry_of (take (n * nat limit) (sort_key (\<lambda>r. - created_at r) (user_query rows u sf tf)))"
proof (induction n)
  case (Suc n)
  let ?xs = "sort_key (\<lambda>r. - created_at r) (user_query rows u sf tf)"
  have "take (Suc n * nat limit) ?xs = take (n * nat limit) ?xs @ take (nat limit) (drop (n * nat limit) ?xs)"
  proof -
    have "Suc n * nat limit = n * nat limit + nat limit" by simp
    then show ?thesis by (simp only: take_add)
  qed
  with Suc assms show ?case
    by (simp add: list_page_items)
qed simp

theorem stop_queued_analysis_not_found_witness:
  "stop_analysis (TaskManager 50) ([] :: nat connections) (\<lambda>_. True) (cleanup_running_tasks [row_example])
     user_alice ''analysis_20250102_093000_600000_1'' =
   Some (Inl (HTTPException 404 TASK_NOT_FOUND_OR_DONE), TaskManager 50, [])"
proof -
  have h1: "find_owned ''analysis_20250102_093000_600000_1'' user_alice (cleanup_running_tasks [row_example]) =
            Some row_example"
    by (simp add: find_owned_def cleanup_running_tasks_def RUNNING_STATUSES_def row_example_def user_alice_def)
  have h2: "rec_status row_example = ''queued''" by (simp add: row_example_def)
  have h3: "map_of (active_tasks (TaskManager 50 :: analysis_job task_manager)) ''analysis_20250102_093000_600000_1'' = None"
    by (simp add: TaskManager_def)
  have h4: "\<not> lock_held (TaskManager 50 :: analysis_job task_manager)" by (simp add: TaskManager_def)
  show ?thesis using stop_queued_analysis_not_found [OF h1 h2 h3 h4] .
qed

theorem list_pages_partition_witness:
  "concat (map (\<lambda>p. pg_analyses (list_analyses [row_example] user_alice (int p) 10 None None)) [1..<Suc 1]) =
   map list_entry_of (take (1 * nat 10) (sort_key (\<lambda>r. - created_at r) (user_query [row_example] user_alice None None)))"
proof -
  have h: "(0::int) < 10" by simp
  show ?thesis
    using list_pages_partition [OF h, where rows = "[row_example]" and u = user_alice and sf = None
        and tf = None and n = 1] .
qed

end
