(* ===== verification/Web_Routes.thy ===== *)
theory Web_Routes
  imports Analysis_Routes
begin

text \<open>
  The small routers of the web backend: \<^verbatim>\<open>validate_api_key\<close> of
  \<^verbatim>\<open>routes/config_routes.py\<close>, \<^verbatim>\<open>export_analysis_pdf\<close> of
  \<^verbatim>\<open>routes/export_routes.py\<close>, \<^verbatim>\<open>get_tasks_status\<close> of
  \<^verbatim>\<open>routes/task_routes.py\<close> and \<^verbatim>\<open>websocket_endpoint\<close> of
  \<^verbatim>\<open>routes/websocket_routes.py\<close>, on the state of the task manager and of the
  connection registry of \<open>Task_Manager\<close>. The WebSocket is a list of the events its
  \<^verbatim>\<open>receive_text\<close> produces; \<^verbatim>\<open>json.loads\<close> is an oracle.
\<close>

section \<open>validate_api_key\<close>

text \<open>\<^verbatim>\<open>request.get(k, "")\<close> on a request body whose values are strings.\<close>

definition req_get :: "(pystr \<times> pystr) list \<Rightarrow> pystr \<Rightarrow> pystr" where
  "req_get req k = (case map_of req k of Some v \<Rightarrow> v | None \<Rightarrow> [])"

text \<open>The answer is the constant \<^verbatim>\<open>{"valid": True, ...}\<close>, so a success is \<open>Inr ()\<close>.\<close>

definition validate_api_key :: "(pystr \<times> pystr) list \<Rightarrow> http_error + unit" where
  "validate_api_key request =
     (let provider = py_lower (req_get request ''provider''); api_key = req_get request ''api_key'' in
      if provider = [] \<or> api_key = [] then Inl (HTTPException 400 KEY_REQUIRED)
      else if provider = ''openai'' then
        (if \<not> py_startswith api_key ''sk-'' then Inl (HTTPException 400 (INVALID_KEY_FORMAT ''OpenAI'')) else Inr ())
      else if provider = ''anthropic'' then
        (if \<not> py_startswith api_key ''sk-ant-'' then Inl (HTTPException 400 (INVALID_KEY_FORMAT ''Anthropic''))
         else Inr ())
      else if provider = ''google'' then
        (if length api_key < 20 then Inl (HTTPException 400 (INVALID_KEY_FORMAT ''Google'')) else Inr ())
      else if provider = ''openrouter'' then
        (if \<not> py_startswith api_key ''sk-or-'' then Inl (HTTPException 400 (INVALID_KEY_FORMAT ''OpenRouter''))
         else Inr ())
      else if provider = ''ollama'' then Inr ()
      else Inl (HTTPException 400 UNSUPPORTED_PROVIDER))"

section \<open>export_analysis_pdf\<close>

record export_response =
  download_url :: pystr
  expires_at :: int
  file_size :: nat

text \<open>\<open>now\<close> is \<^verbatim>\<open>time.time()\<close> in whole seconds; \<^verbatim>\<open>expires_at\<close> is kept in
  seconds (its \<^verbatim>\<open>isoformat\<close> is not modelled).\<close>

definition export_analysis_pdf :: "pystr \<Rightarrow> user \<Rightarrow> analysis_row list \<Rightarrow> nat \<Rightarrow> http_error + export_response" where
  "export_analysis_pdf aid u rows now =
     (case find_owned aid u rows of
        None \<Rightarrow> Inl (HTTPException 404 ANALYSIS_NOT_FOUND)
      | Some a \<Rightarrow>
          if rec_status a \<noteq> ''completed'' then Inl (HTTPException 400 (ANALYSIS_STATUS (rec_status a)))
          else Inr \<lparr>download_url = ''/api/analysis/'' @ aid @ ''/download/pdf?token='' @ nat_str now,
                    expires_at = int now + 24 * 3600, file_size = 1024000\<rparr>)"

section \<open>get_tasks_status\<close>

text \<open>The authentication dependency runs first; the handler then calls
  \<^verbatim>\<open>task_manager.get_status()\<close>, which takes the manager's lock.\<close>

definition get_tasks_status :: "crypto \<Rightarrow> pystr \<Rightarrow> db \<Rightarrow> nat \<Rightarrow> 'j task_manager \<Rightarrow>
                                  http_error + (tm_status \<times> 'j task_manager) option" where
  "get_tasks_status c tok d now tm =
     (case get_current_active_user c tok d now of
        Inl e \<Rightarrow> Inl e
      | Inr _ \<Rightarrow> Inr (get_status tm))"

section \<open>websocket_endpoint\<close>

text \<open>What \<^verbatim>\<open>receive_text\<close> gives: a text frame, the client's disconnect
  (\<^verbatim>\<open>WebSocketDisconnect\<close>), or another exception with its message.\<close>

datatype ws_recv = Received pystr | ClientDisconnect | ReceiveError pystr

text \<open>What \<^verbatim>\<open>json.loads(data)\<close> and \<^verbatim>\<open>message.get('type')\<close> make of a frame:
  a \<^verbatim>\<open>JSONDecodeError\<close>, a dict with its \<^verbatim>\<open>'type'\<close> entry (\<open>None\<close> when absent or
  not a string), or a JSON value that is not a dict, whose \<^verbatim>\<open>get\<close> raises
  \<^verbatim>\<open>AttributeError\<close>.\<close>

datatype json_msg = JSONDecodeError | JDict "pystr option" | JNonDict

text \<open>How the \<^verbatim>\<open>while True\<close> loop ends: not yet (the events seen so far leave it
  waiting), by \<^verbatim>\<open>except WebSocketDisconnect\<close>, or by \<^verbatim>\<open>except Exception\<close>.\<close>

datatype ws_exit = StillOpen | ExitDisconnect | ExitError

definition PONG :: pystr where
  "PONG = ''{\"type\": \"pong\"}''"

fun ws_loop :: "(pystr \<Rightarrow> json_msg) \<Rightarrow> ws_recv list \<Rightarrow> ws_exit \<times> pystr list" where
  "ws_loop parse [] = (StillOpen, [])"
| "ws_loop parse (ClientDisconnect # _) = (ExitDisconnect, [])"
| "ws_loop parse (ReceiveError e # _) = (ExitError, [])"
| "ws_loop parse (Received d # rest) =
     (case parse d of
        JSONDecodeError \<Rightarrow> ws_loop parse rest
      | JNonDict \<Rightarrow> (ExitError, [])
      | JDict t \<Rightarrow>
          if t = Some ''ping'' then (case ws_loop parse rest of (x, sent) \<Rightarrow> (x, PONG # sent))
          else ws_loop parse rest)"

text \<open>The endpoint: \<^verbatim>\<open>manager.connect\<close>, the loop, and
  \<^verbatim>\<open>manager.disconnect\<close> in the \<^verbatim>\<open>WebSocketDisconnect\<close> handler only. The
  registry afterwards is \<open>None\<close> when that \<^verbatim>\<open>disconnect\<close> raises; the frames sent
  are the pongs.\<close>

definition websocket_endpoint :: "'w connections \<Rightarrow> 'w \<Rightarrow> pystr \<Rightarrow> (pystr \<Rightarrow> json_msg) \<Rightarrow> ws_recv list \<Rightarrow>
                                    'w connections option \<times> pystr list" where
  "websocket_endpoint cs w aid parse evs =
     (let cs1 = connect cs w aid in
      case ws_loop parse evs of
        (x, sent) \<Rightarrow> (if x = ExitDisconnect then disconnect cs1 w aid else Some cs1, sent))"

section \<open>Well-formedness of the registry\<close>

text \<open>The registry is well formed when each analysis id occurs once and no socket is
  listed twice under an id.\<close>

definition conns_wf :: "'w connections \<Rightarrow> bool" where
  "conns_wf cs = (distinct (map fst cs) \<and> list_all (\<lambda>(_, l). distinct l) cs)"

section \<open>Interleaved registry calls\<close>

text \<open>The calls the endpoints and the analysis tasks make on the shared
  \<^verbatim>\<open>ConnectionManager\<close>, in the order the event loop runs them: \<^verbatim>\<open>connect\<close>,
  \<^verbatim>\<open>disconnect\<close>, \<^verbatim>\<open>send_message\<close> (with the outcome of each socket's send) and
  \<^verbatim>\<open>close_connections\<close>. \<open>reg_run\<close> returns the registry and, per
  \<^verbatim>\<open>send_message\<close>, the analysis and the sockets the message reached; it is
  \<open>None\<close> when a \<^verbatim>\<open>disconnect\<close> raises.\<close>

datatype 'w reg_op = RConnect 'w pystr | RDisconnect 'w pystr | RSend "'w \<Rightarrow> bool" pystr | RClose pystr

fun reg_run :: "'w connections \<Rightarrow> 'w reg_op list \<Rightarrow> ('w connections \<times> (pystr \<times> 'w list) list) option" where
  "reg_run cs [] = Some (cs, [])"
| "reg_run cs (RConnect w a # ops) = reg_run (connect cs w a) ops"
| "reg_run cs (RDisconnect w a # ops) =
     (case disconnect cs w a of None \<Rightarrow> None | Some cs' \<Rightarrow> reg_run cs' ops)"
| "reg_run cs (RSend ok a # ops) =
     (case send_message cs ok a of
        (cs', ds) \<Rightarrow> map_option (\<lambda>(c, sent). (c, (a, ds) # sent)) (reg_run cs' ops))"
| "reg_run cs (RClose a # ops) = reg_run (fst (close_connections cs a)) ops"

text \<open>The calls that leave a socket \<open>w\<close> of analysis \<open>aid\<close> in place: anything
  but its own \<^verbatim>\<open>disconnect\<close>, the analysis' \<^verbatim>\<open>close_connections\<close>, and a
  \<^verbatim>\<open>send_message\<close> to the analysis whose send to \<open>w\<close> fails.\<close>

fun keeps_socket :: "'w \<Rightarrow> pystr \<Rightarrow> 'w reg_op \<Rightarrow> bool" where
  "keeps_socket w aid (RDisconnect w' a) = (w' \<noteq> w \<or> a \<noteq> aid)"
| "keeps_socket w aid (RClose a) = (a \<noteq> aid)"
| "keeps_socket w aid (RSend ok a) = (a = aid \<longrightarrow> ok w)"
| "keeps_socket w aid (RConnect _ _) = True"

section \<open>Lemmas\<close>

lemma map_of_connect: "map_of (connect cs w aid) = (map_of cs)(aid \<mapsto> conns_of cs aid @ [w])"
  by (simp add: connect_def update_conv')

lemma conns_of_connect: "conns_of (connect cs w aid) aid = conns_of cs aid @ [w]"
  by (simp add: conns_of_def map_of_connect)

lemma websocket_endpoint_fst:
  "fst (websocket_endpoint cs w aid parse evs) =
     (if fst (ws_loop parse evs) = ExitDisconnect then disconnect (connect cs w aid) w aid else Some (connect cs w aid))"
  by (cases "ws_loop parse evs") (simp add: websocket_endpoint_def)

text \<open>When the receive loop ends with an exception other than
  \<^verbatim>\<open>WebSocketDisconnect\<close> (a failed receive, or a frame holding JSON that is not an
  object, whose \<^verbatim>\<open>get\<close> raises \<^verbatim>\<open>AttributeError\<close> outside the inner
  \<^verbatim>\<open>try\<close>), the endpoint returns with the socket still registered for the
  analysis.\<close>

theorem ws_error_keeps_socket:
  assumes "fst (ws_loop parse evs) = ExitError"
  shows "\<exists>cs'. fst (websocket_endpoint cs w aid parse evs) = Some cs' \<and> w \<in> set (conns_of cs' aid)"
  using assms by (simp add: websocket_endpoint_fst conns_of_connect)

lemma ws_connect_disconnect_roundtrip:
  assumes "w \<notin> set (conns_of cs aid)" "fst (ws_loop parse evs) = ExitDisconnect"
  shows "\<exists>cs'. fst (websocket_endpoint cs w aid parse evs) = Some cs' \<and>
               map_of cs' = (map_of cs)(aid := (if conns_of cs aid = [] then None else Some (conns_of cs aid)))"
proof -
  have r: "remove1 w (conns_of cs aid @ [w]) = conns_of cs aid"
    using assms(1) by (simp add: remove1_append)
  have "disconnect (connect cs w aid) w aid =
          Some (if conns_of cs aid = [] then AList.delete aid (connect cs w aid)
                else AList.update aid (conns_of cs aid) (connect cs w aid))"
    by (simp add: disconnect_def map_of_connect r)
  moreover have "map_of (AList.delete aid (connect cs w aid)) = (map_of cs)(aid := None)"
    by (simp add: delete_conv' map_of_connect)
  moreover have "map_of (AList.update aid l (connect cs w aid)) = (map_of cs)(aid \<mapsto> l)" for l
    by (simp add: update_conv' map_of_connect)
  ultimately show ?thesis using assms(2) by (simp add: websocket_endpoint_fst)
qed

lemma ws_loop_pongs: "set (snd (ws_loop parse evs)) \<subseteq> {PONG}"
  by (induction parse evs rule: ws_loop.induct) (auto split: json_msg.split prod.split)

lemma conns_wf_update:
  "conns_wf cs \<Longrightarrow> distinct l \<Longrightarrow> conns_wf (AList.update k l cs)"
proof (induction cs)
  case (Cons p cs)
  then show ?case
    by (cases p) (auto simp: conns_wf_def dom_update)
qed (simp add: conns_wf_def)

lemma conns_wf_delete: "conns_wf cs \<Longrightarrow> conns_wf (AList.delete k cs)"
  unfolding conns_wf_def by (simp add: distinct_delete) (auto simp: list_all_iff AList.delete_eq)

lemma conns_wf_map_of: "conns_wf cs \<Longrightarrow> map_of cs k = Some l \<Longrightarrow> distinct l"
  by (auto simp: conns_wf_def list_all_iff dest: map_of_SomeD)

lemma conns_wf_conns_of: "conns_wf cs \<Longrightarrow> distinct (conns_of cs k)"
  by (auto simp: conns_of_def conns_wf_map_of split: option.split)

lemma conns_of_update: "conns_of (AList.update k v cs) aid = (if k = aid then v else conns_of cs aid)"
  by (simp add: conns_of_def update_conv')

lemma conns_of_delete: "conns_of (AList.delete k cs) aid = (if k = aid then [] else conns_of cs aid)"
  by (simp add: conns_of_def delete_conv')

lemma connect_keeps: "w \<in> set (conns_of cs aid) \<Longrightarrow> w \<in> set (conns_of (connect cs w' a) aid)"
  by (simp add: connect_def conns_of_update)

lemma disconnect_keeps:
  assumes "w \<in> set (conns_of cs aid)" "disconnect cs w' a = Some cs'" "w' \<noteq> w \<or> a \<noteq> aid"
  shows "w \<in> set (conns_of cs' aid)"
proof (cases "a = aid")
  case True
  obtain l where l: "map_of cs aid = Some l" and w: "w \<in> set l"
    using assms(1) by (cases "map_of cs aid") (auto simp: conns_of_def)
  have "w \<in> set (remove1 w' l)" using w True assms(3) by (simp add: in_set_remove1)
  then have "cs' = AList.update aid (remove1 w' l) cs"
    using assms(2) True l by (auto simp: disconnect_def split: if_splits)
  then show ?thesis using \<open>w \<in> set (remove1 w' l)\<close> by (simp add: conns_of_update)
next
  case False
  have "cs' = cs \<or> cs' = AList.delete a cs \<or> (\<exists>l. cs' = AList.update a l cs)"
    using assms(2) by (auto simp: disconnect_def split: option.splits if_splits)
  then show ?thesis using assms(1) False by (auto simp: conns_of_update conns_of_delete)
qed

lemma send_message_keeps:
  assumes "w \<in> set (conns_of cs aid)" "a = aid \<longrightarrow> ok w"
  shows "w \<in> set (conns_of (fst (send_message cs ok a)) aid) \<and>
         (a = aid \<longrightarrow> w \<in> set (snd (send_message cs ok a)))"
proof (cases "map_of cs a")
  case None
  then show ?thesis using assms by (auto simp: send_message_def conns_of_def)
next
  case (Some l)
  have "a = aid \<Longrightarrow> conns_of cs aid = l" using Some by (simp add: conns_of_def)
  then show ?thesis using assms Some
    by (auto simp: send_message_filter conns_of_update)
qed

lemma close_keeps: "w \<in> set (conns_of cs aid) \<Longrightarrow> a \<noteq> aid \<Longrightarrow> w \<in> set (conns_of (fst (close_connections cs a)) aid)"
  by (auto simp: close_connections_def conns_of_delete split: option.split)

text \<open>Every operation on the connection registry keeps it well formed:
  \<^verbatim>\<open>connect\<close> of a socket not yet registered under the id, \<^verbatim>\<open>disconnect\<close> when
  it returns, \<^verbatim>\<open>send_message\<close>, \<^verbatim>\<open>close_connections\<close>, and the WebSocket
  endpoint that composes \<^verbatim>\<open>connect\<close> and \<^verbatim>\<open>disconnect\<close>.\<close>

theorem conns_wf_preserved:
  assumes "conns_wf cs" "w \<notin> set (conns_of cs aid)"
  shows "conns_wf (connect cs w aid) \<and> pred_option conns_wf (disconnect cs w' aid) \<and>
         conns_wf (fst (send_message cs ok aid)) \<and> conns_wf (fst (close_connections cs aid)) \<and>
         pred_option conns_wf (fst (websocket_endpoint cs w aid parse evs))"
proof -
  have c: "conns_wf (connect cs w aid)"
    using assms by (simp add: connect_def conns_wf_update conns_wf_conns_of)
  have d: "conns_wf cs0 \<Longrightarrow> pred_option conns_wf (disconnect cs0 w0 aid)" for cs0 w0
    by (auto simp: disconnect_def conns_wf_delete conns_wf_update conns_wf_map_of split: option.splits)
  have s: "conns_wf (fst (send_message cs ok aid))"
    using assms(1) by (cases "map_of cs aid") (simp_all add: send_message_filter conns_wf_update conns_wf_map_of, simp add: send_message_def)
  have cl: "conns_wf (fst (close_connections cs aid))"
    using assms(1) by (auto simp: close_connections_def conns_wf_delete split: option.split)
  show ?thesis
    using c d [OF assms(1)] d [OF c] s cl by (simp add: websocket_endpoint_fst)
qed

text \<open>C9: a socket registered for an analysis stays registered and receives every message
  sent for that analysis, through any interleaving of registry calls that neither
  disconnects it, nor closes the analysis' connections, nor fails a send to it; the
  other sockets' failures and disconnects, and the calls of other analyses, do not affect
  it.\<close>

theorem ws_delivery:
  assumes "w \<in> set (conns_of cs aid)" "list_all (keeps_socket w aid) ops"
    and "reg_run cs ops = Some (cs', sent)"
  shows "w \<in> set (conns_of cs' aid) \<and> (\<forall>(a, ds) \<in> set sent. a = aid \<longrightarrow> w \<in> set ds)"
  using assms
proof (induction cs ops arbitrary: cs' sent rule: reg_run.induct)
  case (1 cs)
  then show ?case by simp
next
  case (2 cs w' a ops)
  have k: "w \<in> set (conns_of (connect cs w' a) aid)" using "2.prems"(1) by (rule connect_keeps)
  show ?case using "2.IH" [OF k] "2.prems"(2,3) by simp
next
  case (3 cs w' a ops)
  obtain c1 where d: "disconnect cs w' a = Some c1" and r: "reg_run c1 ops = Some (cs', sent)"
    using "3.prems"(3) by (auto split: option.splits)
  have k: "w \<in> set (conns_of c1 aid)"
    using disconnect_keeps [OF "3.prems"(1) d] "3.prems"(2) by simp
  show ?case using "3.IH" d r k "3.prems"(2) by simp
next
  case (4 cs ok a ops)
  obtain c1 ds where sm: "send_message cs ok a = (c1, ds)" by fastforce
  obtain sent' where r: "reg_run c1 ops = Some (cs', sent')" and l: "sent = (a, ds) # sent'"
    using "4.prems"(3) sm by (auto split: prod.splits)
  have "a = aid \<longrightarrow> ok w" using "4.prems"(2) by simp
  from send_message_keeps [of w cs aid a ok, OF "4.prems"(1) this]
  have k: "w \<in> set (conns_of c1 aid) \<and> (a = aid \<longrightarrow> w \<in> set ds)"
    unfolding sm by simp
  have ih: "w \<in> set (conns_of cs' aid) \<and> (\<forall>(a', ds') \<in> set sent'. a' = aid \<longrightarrow> w \<in> set ds')"
    using "4.IH" [OF sm [symmetric]] k "4.prems"(2) r by simp
  show ?case using ih k l by auto
next
  case (5 cs a ops)
  have k: "w \<in> set (conns_of (fst (close_connections cs a)) aid)"
    using close_keeps [OF "5.prems"(1)] "5.prems"(2) by simp
  show ?case using "5.IH" [OF k] "5.prems"(2,3) by simp
qed

lemma send_message_empty_entry:
  "map_of cs aid = Some l \<Longrightarrow> \<not> list_ex ok l \<Longrightarrow> map_of (fst (send_message cs ok aid)) aid = Some []"
  by (simp add: send_message_filter update_conv' list_ex_iff filter_empty_conv)

lemma export_ok_iff:
  "(\<exists>r. export_analysis_pdf aid u rows now = Inr r) \<longleftrightarrow>
     (\<exists>a. find_owned aid u rows = Some a \<and> rec_status a = ''completed'')"
  by (auto simp: export_analysis_pdf_def split: option.split)

lemma ws_error_keeps_socket_witness:
  "\<exists>cs'. fst (websocket_endpoint ([] :: (pystr \<times> nat list) list) 7 ''analysis_1'' (\<lambda>_. JNonDict) [Received ''[1]'']) = Some cs' \<and>
         7 \<in> set (conns_of cs' ''analysis_1'')"
  using ws_error_keeps_socket [of "\<lambda>_. JNonDict" "[Received ''[1]'']" "[] :: (pystr \<times> nat list) list" 7 "''analysis_1''"]
  by simp

theorem ws_delivery_witness:
  "reg_run [(''a1'', [1::nat, 2])] [RConnect 3 ''a1'', RSend (\<lambda>s. s \<noteq> 2) ''a1'', RDisconnect 3 ''a1'', RSend (\<lambda>_. True) ''a1''] = Some ([(''a1'', [1])], [(''a1'', [1, 3]), (''a1'', [1])]) \<and>
   (1::nat) \<in> set (conns_of [(''a1'', [1])] ''a1'') \<and> (1::nat) \<in> set [1, 3] \<and> (1::nat) \<in> set [1]"
proof -
  have h1: "(1::nat) \<in> set (conns_of [(''a1'', [1, 2])] ''a1'')" by (simp add: conns_of_def)
  have h2: "list_all (keeps_socket (1::nat) ''a1'') [RConnect 3 ''a1'', RSend (\<lambda>s. s \<noteq> 2) ''a1'', RDisconnect 3 ''a1'', RSend (\<lambda>_. True) ''a1'']" by simp
  have h3: "reg_run [(''a1'', [1::nat, 2])] [RConnect 3 ''a1'', RSend (\<lambda>s. s \<noteq> 2) ''a1'', RDisconnect 3 ''a1'', RSend (\<lambda>_. True) ''a1''] = Some ([(''a1'', [1])], [(''a1'', [1, 3]), (''a1'', [1])])"
    by code_simp
  show ?thesis using ws_delivery [OF h1 h2 h3] h3 by simp
qed

end
