(* ===== verification/Web_App.thy ===== *)
theory Web_App
  imports Web_Auth "HOL-Library.AList"
begin

text \<open>
  The first web application, \<^verbatim>\<open>web/backend/app.py\<close>. Its state is two module-level
  dicts, \<^verbatim>\<open>active_analyses\<close> and \<^verbatim>\<open>analysis_results\<close>, kept as association
  lists in insertion order (\<open>AList.update\<close> keeps a key's position, as a Python dict
  does), together with \<^verbatim>\<open>os.environ\<close>, which \<^verbatim>\<open>run_trading_analysis\<close> writes,
  and the background tasks that \<^verbatim>\<open>start_analysis\<close> has scheduled and that have not run
  yet. \<^verbatim>\<open>run_trading_analysis\<close> is an \<^verbatim>\<open>async def\<close> without an \<^verbatim>\<open>await\<close>, so
  the event loop runs it from its first line to its last without serving another request:
  it is one step of the model. The trading graph is an oracle (\<open>app_graph\<close>); the Chinese
  steps and details are named constants.
\<close>

section \<open>Requests and state\<close>

record app_request =
  ticker :: pystr
  analysis_date :: pystr
  analysts :: "pystr list"
  research_depth :: int
  llm_provider :: pystr
  backend_url :: pystr
  shallow_thinker :: pystr
  deep_thinker :: pystr
  openai_api_key :: "pystr option"
  anthropic_api_key :: "pystr option"
  google_api_key :: "pystr option"
  openrouter_api_key :: "pystr option"

text \<open>The values of \<^verbatim>\<open>current_step\<close>: queued, setting the configuration,
  initialising the TradingAgents graph, running the analysis pipeline, completed, and
  an error followed by its message.\<close>

datatype app_step = APP_QUEUED | APP_SETTING_CONFIG | APP_INIT_GRAPH | APP_RUN_PIPELINE | APP_DONE
  | APP_ERROR pystr

record active_entry =
  a_status :: pystr
  a_step :: app_step
  started_at :: pystr
  a_request :: app_request

text \<open>A value of the final state: a scalar (\<^verbatim>\<open>str\<close>, \<^verbatim>\<open>int\<close>, \<^verbatim>\<open>float\<close>,
  \<^verbatim>\<open>bool\<close> or \<^verbatim>\<open>None\<close>), written as its JSON text, or any other object with its
  \<^verbatim>\<open>str()\<close>.\<close>

datatype pyval = PyScalar pystr | PyObject pystr

record result_entry =
  r_status :: pystr
  r_timestamp :: pystr
  r_request :: app_request
  r_final_state :: "(pystr \<times> pyval) list option"
  r_decision :: "pystr option"
  r_error :: "(pystr \<times> pystr) option"

record app_state =
  analysis_results :: "(pystr \<times> result_entry) list"
  active_analyses :: "(pystr \<times> active_entry) list"
  os_environ :: "(pystr \<times> pystr) list"
  pending :: "(pystr \<times> app_request) list"

definition app_init :: app_state where
  "app_init = \<lparr>analysis_results = [], active_analyses = [], os_environ = [], pending = []\<rparr>"

text \<open>The overrides of \<^verbatim>\<open>DEFAULT_CONFIG.copy()\<close>.\<close>

record app_config =
  c_llm_provider :: pystr
  c_deep_think_llm :: pystr
  c_quick_think_llm :: pystr
  c_backend_url :: pystr
  c_max_debate_rounds :: int
  c_max_risk_discuss_rounds :: int

text \<open>The graph: \<^verbatim>\<open>TradingAgentsGraph(analyst_types, config=config)\<close> and
  \<^verbatim>\<open>graph.propagate(ticker, date)\<close>, each reading the environment, each raising with a
  message and a traceback (\<open>Inl\<close>) or returning; \<^verbatim>\<open>propagate\<close> returns the final
  state (\<open>None\<close> when it is falsy) and the decision. \<open>analyst_values\<close> are the values of
  the \<^verbatim>\<open>AnalystType\<close> enum, in its order.\<close>

record app_graph =
  analyst_values :: "pystr list"
  graph_init :: "pystr list \<Rightarrow> app_config \<Rightarrow> (pystr \<times> pystr) list \<Rightarrow> (pystr \<times> pystr) option"
  graph_propagate :: "pystr list \<Rightarrow> app_config \<Rightarrow> (pystr \<times> pystr) list \<Rightarrow> pystr \<Rightarrow> pystr \<Rightarrow>
                      (pystr \<times> pystr) + ((pystr \<times> pyval) list option \<times> pystr option)"

section \<open>Validators\<close>

text \<open>\<^verbatim>\<open>AnalysisRequest.validate_analysts\<close>. \<^verbatim>\<open>validate_date\<close> is the same code as
  in \<^verbatim>\<open>schemas.py\<close>, \<open>validate_date\<close> of \<open>Web_Auth\<close>, and the handler
  \<^verbatim>\<open>validate_api_key\<close> the same as in \<^verbatim>\<open>routes/config_routes.py\<close>, modelled in
  \<open>Web_Routes\<close>; the template pages \<^verbatim>\<open>index\<close> and \<^verbatim>\<open>results_page\<close> and the
  constant table of \<^verbatim>\<open>get_config\<close> are not modelled.\<close>

definition app_validate_analysts :: "pystr list \<Rightarrow> pystr list \<Rightarrow> pystr + pystr list" where
  "app_validate_analysts vals v =
     (if v = [] then Inl ''At least one analyst must be selected''
      else (case find (\<lambda>a. a \<notin> set vals) v of
              Some a \<Rightarrow> Inl (''Invalid analyst: '' @ a)
            | None \<Rightarrow> Inr v))"

section \<open>Handlers\<close>

text \<open>\<^verbatim>\<open>start_analysis\<close>: the id is \<^verbatim>\<open>analysis_\<close>, the time to the second
  (\<open>stamp\<close>, the text of \<^verbatim>\<open>strftime('%Y%m%d_%H%M%S')\<close>) and the ticker; \<open>now_iso\<close> is
  \<^verbatim>\<open>datetime.now().isoformat()\<close>.\<close>

definition analysis_id_of :: "pystr \<Rightarrow> pystr \<Rightarrow> pystr" where
  "analysis_id_of stamp t = ''analysis_'' @ stamp @ ''_'' @ t"

definition app_start_analysis :: "app_state \<Rightarrow> pystr \<Rightarrow> pystr \<Rightarrow> app_request \<Rightarrow> app_state \<times> pystr \<times> pystr" where
  "app_start_analysis s stamp now_iso r =
     (let aid = analysis_id_of stamp (ticker r) in
      (s\<lparr>active_analyses := AList.update aid
                              \<lparr>a_status = ''queued'', a_step = APP_QUEUED, started_at = now_iso, a_request = r\<rparr>
                              (active_analyses s),
         pending := pending s @ [(aid, r)]\<rparr>,
       aid, ''queued''))"

text \<open>The \<^verbatim>\<open>if/elif\<close> chain that copies the key of the selected provider into
  \<^verbatim>\<open>os.environ\<close>; a key is written only when it is given and not empty.\<close>

definition set_api_keys :: "(pystr \<times> pystr) list \<Rightarrow> app_request \<Rightarrow> (pystr \<times> pystr) list" where
  "set_api_keys env r =
     (let p = py_lower (llm_provider r) in
      if truthy (openai_api_key r) \<and> p = ''openai'' then AList.update ''OPENAI_API_KEY'' (the (openai_api_key r)) env
      else if truthy (anthropic_api_key r) \<and> p = ''anthropic'' then
        AList.update ''ANTHROPIC_API_KEY'' (the (anthropic_api_key r)) env
      else if truthy (google_api_key r) \<and> p = ''google'' then AList.update ''GOOGLE_API_KEY'' (the (google_api_key r)) env
      else if truthy (openrouter_api_key r) \<and> p = ''openrouter'' then
        AList.update ''OPENROUTER_API_KEY'' (the (openrouter_api_key r)) env
      else env)"

definition app_config_of :: "app_request \<Rightarrow> app_config" where
  "app_config_of r =
     \<lparr>c_llm_provider = py_lower (llm_provider r), c_deep_think_llm = deep_thinker r,
      c_quick_think_llm = shallow_thinker r, c_backend_url = backend_url r,
      c_max_debate_rounds = research_depth r, c_max_risk_discuss_rounds = research_depth r\<rparr>"

text \<open>The nested loops over the request's analysts and \<^verbatim>\<open>AnalystType\<close>, which append a
  value on its first match and \<^verbatim>\<open>break\<close>.\<close>

definition analyst_types_of :: "pystr list \<Rightarrow> app_request \<Rightarrow> pystr list" where
  "analyst_types_of vals r = filter (\<lambda>a. a \<in> set vals) (analysts r)"

definition format_final_state :: "(pystr \<times> pyval) list option \<Rightarrow> (pystr \<times> pyval) list" where
  "format_final_state fs =
     (case fs of
        None \<Rightarrow> []
      | Some kvs \<Rightarrow> map (\<lambda>(k, v). (k, case v of PyScalar x \<Rightarrow> PyScalar x | PyObject x \<Rightarrow> PyScalar x)) kvs)"

definition set_entry :: "pystr \<Rightarrow> pystr \<Rightarrow> app_step \<Rightarrow> (pystr \<times> active_entry) list \<Rightarrow> (pystr \<times> active_entry) list" where
  "set_entry aid st stp act =
     (case map_of act aid of
        Some e \<Rightarrow> AList.update aid (e\<lparr>a_status := st, a_step := stp\<rparr>) act
      | None \<Rightarrow> act)"

text \<open>The \<^verbatim>\<open>except\<close> branch: the error record, then the two writes to
  \<^verbatim>\<open>active_analyses\<close>.\<close>

definition run_failed :: "app_state \<Rightarrow> pystr \<Rightarrow> pystr \<Rightarrow> app_request \<Rightarrow> pystr \<times> pystr \<Rightarrow> app_state" where
  "run_failed s aid now_iso r err =
     s\<lparr>analysis_results := AList.update aid
                            \<lparr>r_status = ''error'', r_timestamp = now_iso, r_request = r, r_final_state = None,
                             r_decision = None, r_error = Some err\<rparr> (analysis_results s),
       active_analyses := set_entry aid ''error'' (APP_ERROR (fst err)) (active_analyses s)\<rparr>"

text \<open>\<^verbatim>\<open>run_trading_analysis\<close>, with its writes of status and step in order.
  Its first statement reads \<^verbatim>\<open>active_analyses[analysis_id]\<close>; a missing id raises
  \<^verbatim>\<open>KeyError\<close>, whose handler stores the error record and raises again on the same
  lookup, leaving the entry absent.\<close>

definition run_trading_analysis :: "app_graph \<Rightarrow> app_state \<Rightarrow> pystr \<Rightarrow> pystr \<Rightarrow> app_request \<Rightarrow> app_state" where
  "run_trading_analysis g s aid now_iso r =
     (if map_of (active_analyses s) aid = None then run_failed s aid now_iso r ([CHR 0x27] @ aid @ [CHR 0x27], [])
      else
        (let s0 = s\<lparr>active_analyses := set_entry aid ''initializing'' APP_SETTING_CONFIG (active_analyses s)\<rparr>;
             env = set_api_keys (os_environ s0) r;
             s0' = s0\<lparr>os_environ := env\<rparr>;
             cfg = app_config_of r;
             types = analyst_types_of (analyst_values g) r;
             s1 = s0'\<lparr>active_analyses := set_entry aid ''running'' APP_INIT_GRAPH (active_analyses s0')\<rparr>
         in case graph_init g types cfg env of
              Some err \<Rightarrow> run_failed s1 aid now_iso r err
            | None \<Rightarrow>
                (let s2 = s1\<lparr>active_analyses := set_entry aid ''running'' APP_RUN_PIPELINE (active_analyses s1)\<rparr> in
                 case graph_propagate g types cfg env (ticker r) (analysis_date r) of
                   Inl err \<Rightarrow> run_failed s2 aid now_iso r err
                 | Inr (fs, decision) \<Rightarrow>
                     s2\<lparr>analysis_results := AList.update aid
                          \<lparr>r_status = ''completed'', r_timestamp = now_iso, r_request = r,
                           r_final_state = Some (format_final_state fs),
                           r_decision = Some (case decision of Some d \<Rightarrow> if d \<noteq> [] then d else ''No decision available''
                                                             | None \<Rightarrow> ''No decision available''),
                           r_error = None\<rparr> (analysis_results s2),
                        active_analyses := set_entry aid ''completed'' APP_DONE (active_analyses s2)\<rparr>)))"

text \<open>The event loop runs the \<open>i\<close>-th pending background task.\<close>

definition run_pending :: "app_graph \<Rightarrow> pystr \<Rightarrow> nat \<Rightarrow> app_state \<Rightarrow> app_state" where
  "run_pending g now_iso i s =
     (let (aid, r) = pending s ! i in
      run_trading_analysis g (s\<lparr>pending := take i (pending s) @ drop (Suc i) (pending s)\<rparr>) aid now_iso r)"

datatype app_status_answer = ActiveAnswer active_entry | StatusOnly pystr

definition app_get_analysis_status :: "app_state \<Rightarrow> pystr \<Rightarrow> http_error + app_status_answer" where
  "app_get_analysis_status s aid =
     (case map_of (active_analyses s) aid of
        Some e \<Rightarrow> Inr (ActiveAnswer e)
      | None \<Rightarrow>
          (case map_of (analysis_results s) aid of
             Some res \<Rightarrow> Inr (StatusOnly (r_status res))
           | None \<Rightarrow> Inl (HTTPException 404 ANALYSIS_NOT_FOUND)))"

definition app_get_analysis_results :: "app_state \<Rightarrow> pystr \<Rightarrow> http_error + result_entry" where
  "app_get_analysis_results s aid =
     (case map_of (analysis_results s) aid of
        None \<Rightarrow> Inl (HTTPException 404 ANALYSIS_NOT_FOUND)
      | Some res \<Rightarrow>
          if r_status res \<noteq> ''completed'' then Inl (HTTPException 400 (ANALYSIS_STATUS (r_status res)))
          else Inr res)"

record analysis_summary =
  s_id :: pystr
  s_status :: pystr
  s_timestamp :: pystr
  s_ticker :: pystr
  s_analysis_date :: pystr

definition app_list_analyses :: "app_state \<Rightarrow> analysis_summary list" where
  "app_list_analyses s =
     map (\<lambda>(aid, res). \<lparr>s_id = aid, s_status = r_status res, s_timestamp = r_timestamp res,
                        s_ticker = ticker (r_request res), s_analysis_date = analysis_date (r_request res)\<rparr>)
         (analysis_results s) @
     map (\<lambda>(aid, e). \<lparr>s_id = aid, s_status = a_status e, s_timestamp = started_at e,
                      s_ticker = ticker (a_request e), s_analysis_date = analysis_date (a_request e)\<rparr>)
         (filter (\<lambda>(aid, e). aid \<notin> fst ` set (analysis_results s)) (active_analyses s))"

section \<open>Runs of the application\<close>

text \<open>The states reachable from the empty one: requests that start an analysis, with
  any time stamps, and background tasks run in any order, with any graph.\<close>

inductive app_reach :: "app_state \<Rightarrow> bool" where
  reach_init: "app_reach app_init"
| reach_start: "app_reach s \<Longrightarrow> app_reach (fst (app_start_analysis s stamp now_iso r))"
| reach_run: "app_reach s \<Longrightarrow> i < length (pending s) \<Longrightarrow> app_reach (run_pending g now_iso i s)"

section \<open>Examples\<close>

definition example_request :: app_request where
  "example_request =
     \<lparr>ticker = ''AAPL'', analysis_date = ''2024-01-02'', analysts = [''market''], research_depth = 1,
      llm_provider = ''OpenAI'', backend_url = ''https://api.openai.com/v1'', shallow_thinker = ''gpt-4o-mini'',
      deep_thinker = ''o4-mini'', openai_api_key = Some ''sk-1'', anthropic_api_key = None, google_api_key = None,
      openrouter_api_key = None\<rparr>"

definition example_graph :: app_graph where
  "example_graph =
     \<lparr>analyst_values = [''market'', ''social'', ''news'', ''fundamentals''],
      graph_init = (\<lambda>_ _ _. None), graph_propagate = (\<lambda>_ _ _ _ _. Inr (None, Some ''BUY''))\<rparr>"

section \<open>Invariant\<close>

definition app_inv :: "app_state \<Rightarrow> bool" where
  "app_inv s =
     (distinct (map fst (active_analyses s)) \<and> distinct (map fst (analysis_results s)) \<and>
      set (map fst (pending s)) \<subseteq> set (map fst (active_analyses s)) \<and>
      set (map fst (analysis_results s)) \<subseteq> set (map fst (active_analyses s)) \<and>
      list_all (\<lambda>(_, e). a_status e \<in> {''queued'', ''completed'', ''error''}) (active_analyses s) \<and>
      list_all (\<lambda>(_, res). r_status res \<in> {''completed'', ''error''}) (analysis_results s))"

section \<open>Lemmas\<close>

lemma set_entry_keys [simp]: "map fst (set_entry aid st stp act) = map fst act"
  by (cases "map_of act aid") (auto simp: set_entry_def update_keys dest!: map_of_SomeD intro: rev_image_eqI)

lemma set_entry_twice [simp]:
  "set_entry aid st' stp' (set_entry aid st stp act) = set_entry aid st' stp' act"
  by (simp add: set_entry_def update_conv' split: option.split)

lemma set_entry_status:
  assumes "st \<in> S" "list_all (\<lambda>(_, e). a_status e \<in> S) act"
  shows "list_all (\<lambda>(_, e). a_status e \<in> S) (set_entry aid st stp act)"
  using assms by (auto simp: set_entry_def intro!: list_all_update split: option.split)

lemma start_inv: "app_inv s \<Longrightarrow> app_inv (fst (app_start_analysis s stamp t r))"
  by (auto simp: app_inv_def app_start_analysis_def Let_def distinct_update dom_update intro!: list_all_update)

lemmas run_unfold = run_trading_analysis_def run_failed_def Let_def

lemma run_active_keys [simp]:
  "map fst (active_analyses (run_trading_analysis g s aid t r)) = map fst (active_analyses s)"
  by (simp add: run_unfold split: option.split sum.split)

lemma run_pending_same [simp]: "pending (run_trading_analysis g s aid t r) = pending s"
  by (simp add: run_unfold split: option.split sum.split)

lemma run_result_keys:
  "fst ` set (analysis_results (run_trading_analysis g s aid t r)) = insert aid (fst ` set (analysis_results s))"
  by (simp add: run_unfold dom_update split: option.split sum.split)

lemma run_results_distinct:
  "distinct (map fst (analysis_results s)) \<Longrightarrow> distinct (map fst (analysis_results (run_trading_analysis g s aid t r)))"
  by (simp add: run_unfold distinct_update split: option.split sum.split)

lemma run_results_status:
  "list_all (\<lambda>(_, res). r_status res \<in> {''completed'', ''error''}) (analysis_results s) \<Longrightarrow>
   list_all (\<lambda>(_, res). r_status res \<in> {''completed'', ''error''}) (analysis_results (run_trading_analysis g s aid t r))"
  by (auto simp: run_unfold intro!: list_all_update split: option.split sum.split)

lemma run_active_status:
  assumes "list_all (\<lambda>(_, e). a_status e \<in> {''queued'', ''completed'', ''error''}) (active_analyses s)"
  shows "list_all (\<lambda>(_, e). a_status e \<in> {''queued'', ''completed'', ''error''}) (active_analyses (run_trading_analysis g s aid t r))"
proof -
  have "\<And>st stp. st \<in> {''queued'', ''completed'', ''error''} \<Longrightarrow>
          list_all (\<lambda>(_, e). a_status e \<in> {''queued'', ''completed'', ''error''}) (set_entry aid st stp (active_analyses s))"
    by (rule set_entry_status [OF _ assms])
  then show ?thesis by (simp add: run_unfold split: option.split sum.split)
qed

lemma run_inv:
  assumes "app_inv s" "aid \<in> set (map fst (active_analyses s))"
  shows "app_inv (run_trading_analysis g s aid t r)"
  using assms run_result_keys [of g s aid t r] run_results_distinct [of s g aid t r]
    run_results_status [of s g aid t r] run_active_status [of s g aid t r]
  unfolding app_inv_def by simp

lemma set_remove_nth: "set (take i xs @ drop (Suc i) xs) \<subseteq> set xs"
  by (auto dest: in_set_takeD in_set_dropD)

lemma run_pending_inv:
  assumes "app_inv s" "i < length (pending s)"
  shows "app_inv (run_pending g t i s)"
proof -
  obtain aid r where p: "pending s ! i = (aid, r)" by (cases "pending s ! i")
  let ?s = "s\<lparr>pending := take i (pending s) @ drop (Suc i) (pending s)\<rparr>"
  have "(aid, r) \<in> set (pending s)" using assms(2) p nth_mem by metis
  then have "aid \<in> set (map fst (active_analyses ?s))"
    using assms(1) by (force simp: app_inv_def)
  moreover have "app_inv ?s"
    using assms(1) set_remove_nth [of i "pending s"] unfolding app_inv_def by (simp; blast)
  ultimately show ?thesis by (simp add: run_pending_def p run_inv)
qed

theorem app_reach_inv: "app_reach s \<Longrightarrow> app_inv s"
proof (induction rule: app_reach.induct)
  case reach_init
  show ?case by (simp add: app_inv_def app_init_def)
qed (simp_all add: start_inv run_pending_inv)

lemma run_env:
  "map_of (active_analyses s) aid \<noteq> None \<Longrightarrow>
   os_environ (run_trading_analysis g s aid t r) = set_api_keys (os_environ s) r"
  by (auto simp: run_unfold split: option.split sum.split)

lemma set_api_keys_keeps_openai:
  "openai_api_key r = None \<Longrightarrow> map_of (set_api_keys env r) ''OPENAI_API_KEY'' = map_of env ''OPENAI_API_KEY''"
  by (simp add: set_api_keys_def truthy_def Let_def update_conv')

lemma set_api_keys_openai:
  "openai_api_key r = Some k \<Longrightarrow> k \<noteq> [] \<Longrightarrow> py_lower (llm_provider r) = ''openai'' \<Longrightarrow>
   map_of (set_api_keys env r) ''OPENAI_API_KEY'' = Some k"
  by (simp add: set_api_keys_def truthy_def Let_def update_conv')

lemma map_of_active_run:
  "map_of (active_analyses (run_trading_analysis g s aid t r)) a = None \<longleftrightarrow> map_of (active_analyses s) a = None"
  using run_active_keys [of g s aid t r] by (metis map_of_eq_None_iff set_map)

text \<open>C12: whatever the requests, the time stamps, the order in which background tasks
  run and the graph's answers, a client polling \<^verbatim>\<open>get_analysis_status\<close> sees every
  analysis queued, completed or failed, never \<^verbatim>\<open>initializing\<close> or \<^verbatim>\<open>running\<close> (the task
  runs without yielding to the event loop), and the answer comes from
  \<^verbatim>\<open>active_analyses\<close> alone: its branch reading \<^verbatim>\<open>analysis_results\<close> is dead.\<close>

theorem app_status_observed:
  assumes "app_reach s"
  shows "list_all (\<lambda>(_, e). a_status e \<in> {''queued'', ''completed'', ''error''}) (active_analyses s) \<and>
         app_get_analysis_status s aid =
           (case map_of (active_analyses s) aid of
              Some e \<Rightarrow> Inr (ActiveAnswer e)
            | None \<Rightarrow> Inl (HTTPException 404 ANALYSIS_NOT_FOUND))"
proof -
  have inv: "app_inv s" using assms by (rule app_reach_inv)
  have "map_of (analysis_results s) aid = None" if "map_of (active_analyses s) aid = None"
    using inv that by (auto simp: app_inv_def map_of_eq_None_iff)
  then show ?thesis
    using inv by (auto simp: app_inv_def app_get_analysis_status_def split: option.split)
qed

theorem app_status_observed_witness:
  "app_reach (run_pending example_graph ''t1'' 0 (fst (app_start_analysis app_init ''20240102_093000'' ''t0'' example_request))) \<and>
   list_all (\<lambda>(_, e). a_status e \<in> {''queued'', ''completed'', ''error''})
     (active_analyses (run_pending example_graph ''t1'' 0 (fst (app_start_analysis app_init ''20240102_093000'' ''t0'' example_request)))) \<and>
   app_get_analysis_status (run_pending example_graph ''t1'' 0 (fst (app_start_analysis app_init ''20240102_093000'' ''t0'' example_request))) ''x'' =
     (case map_of (active_analyses (run_pending example_graph ''t1'' 0 (fst (app_start_analysis app_init ''20240102_093000'' ''t0'' example_request)))) ''x'' of
        Some e \<Rightarrow> Inr (ActiveAnswer e)
      | None \<Rightarrow> Inl (HTTPException 404 ANALYSIS_NOT_FOUND))"
proof -
  let ?s0 = "fst (app_start_analysis app_init ''20240102_093000'' ''t0'' example_request)"
  have "0 < length (pending ?s0)" by (simp add: app_start_analysis_def app_init_def Let_def)
  then have h: "app_reach (run_pending example_graph ''t1'' 0 ?s0)"
    by (intro reach_run reach_start reach_init)
  show ?thesis using h app_status_observed [OF h, of "''x''"] by simp
qed

text \<open>C6: two requests for the same ticker started within the same second get the same
  analysis id: the second request's entry replaces the first one's, which disappears from
  \<^verbatim>\<open>active_analyses\<close>, while both background tasks stay scheduled under that id.\<close>

theorem same_second_collision:
  assumes "ticker r2 = ticker r1"
  shows "let aid = analysis_id_of stamp (ticker r1); s1 = fst (app_start_analysis s stamp t1 r1);
             s2 = fst (app_start_analysis s1 stamp t2 r2) in
         snd (app_start_analysis s stamp t1 r1) = (aid, ''queued'') \<and>
         snd (app_start_analysis s1 stamp t2 r2) = (aid, ''queued'') \<and>
         map fst (active_analyses s2) = map fst (active_analyses s1) \<and>
         map_of (active_analyses s2) aid =
           Some \<lparr>a_status = ''queued'', a_step = APP_QUEUED, started_at = t2, a_request = r2\<rparr> \<and>
         pending s2 = pending s @ [(aid, r1), (aid, r2)]"
  using assms by (simp add: app_start_analysis_def Let_def update_conv' update_keys dom_update)

theorem same_second_collision_witness:
  "ticker (example_request\<lparr>analysts := [''news'']\<rparr>) = ticker example_request \<and>
   (let aid = analysis_id_of ''20240102_093000'' (ticker example_request);
        s1 = fst (app_start_analysis app_init ''20240102_093000'' ''t1'' example_request);
        s2 = fst (app_start_analysis s1 ''20240102_093000'' ''t2'' (example_request\<lparr>analysts := [''news'']\<rparr>)) in
    snd (app_start_analysis app_init ''20240102_093000'' ''t1'' example_request) = (aid, ''queued'') \<and>
    snd (app_start_analysis s1 ''20240102_093000'' ''t2'' (example_request\<lparr>analysts := [''news'']\<rparr>)) = (aid, ''queued'') \<and>
    map fst (active_analyses s2) = map fst (active_analyses s1) \<and>
    map_of (active_analyses s2) aid =
      Some \<lparr>a_status = ''queued'', a_step = APP_QUEUED, started_at = ''t2'', a_request = example_request\<lparr>analysts := [''news'']\<rparr>\<rparr> \<and>
    pending s2 = pending app_init @ [(aid, example_request), (aid, example_request\<lparr>analysts := [''news'']\<rparr>)])"
proof -
  have h: "ticker (example_request\<lparr>analysts := [''news'']\<rparr>) = ticker example_request" by simp
  show ?thesis using h same_second_collision [OF h, of "''20240102_093000''" app_init "''t1''" "''t2''"] by simp
qed

text \<open>C40: \<^verbatim>\<open>os.environ\<close> is shared by all analyses: once a run has stored an OpenAI
  key, a later run whose request carries no OpenAI key (of any user, for any provider) is
  given that key, since \<^verbatim>\<open>run_trading_analysis\<close> never clears it.\<close>

theorem api_key_persists:
  assumes "map_of (active_analyses s) aid1 \<noteq> None" "map_of (active_analyses s) aid2 \<noteq> None"
    and "openai_api_key r1 = Some k" "k \<noteq> []" "py_lower (llm_provider r1) = ''openai''"
    and "openai_api_key r2 = None"
  shows "map_of (os_environ (run_trading_analysis g (run_trading_analysis g s aid1 ta r1) aid2 tb r2)) ''OPENAI_API_KEY''
           = Some k"
proof -
  have "map_of (active_analyses (run_trading_analysis g s aid1 ta r1)) aid2 \<noteq> None"
    using assms(2) map_of_active_run [of g s aid1 ta r1 aid2] by simp
  then show ?thesis
    using assms by (simp add: run_env set_api_keys_keeps_openai set_api_keys_openai)
qed

theorem api_key_persists_witness:
  "map_of (active_analyses (fst (app_start_analysis (fst (app_start_analysis app_init ''20240102_093000'' ''t0'' example_request)) ''20240102_093001'' ''t0'' (example_request\<lparr>ticker := ''MSFT'', openai_api_key := None\<rparr>)))) (analysis_id_of ''20240102_093000'' ''AAPL'') \<noteq> None \<and>
   map_of (active_analyses (fst (app_start_analysis (fst (app_start_analysis app_init ''20240102_093000'' ''t0'' example_request)) ''20240102_093001'' ''t0'' (example_request\<lparr>ticker := ''MSFT'', openai_api_key := None\<rparr>)))) (analysis_id_of ''20240102_093001'' ''MSFT'') \<noteq> None \<and>
   openai_api_key example_request = Some ''sk-1'' \<and> py_lower (llm_provider example_request) = ''openai'' \<and>
   openai_api_key (example_request\<lparr>ticker := ''MSFT'', openai_api_key := None\<rparr>) = None \<and>
   map_of (os_environ (run_trading_analysis example_graph (run_trading_analysis example_graph (fst (app_start_analysis (fst (app_start_analysis app_init ''20240102_093000'' ''t0'' example_request)) ''20240102_093001'' ''t0'' (example_request\<lparr>ticker := ''MSFT'', openai_api_key := None\<rparr>))) (analysis_id_of ''20240102_093000'' ''AAPL'') ''t1'' example_request)
                         (analysis_id_of ''20240102_093001'' ''MSFT'') ''t2'' (example_request\<lparr>ticker := ''MSFT'', openai_api_key := None\<rparr>))) ''OPENAI_API_KEY'' = Some ''sk-1''"
proof -
  have h1: "map_of (active_analyses (fst (app_start_analysis (fst (app_start_analysis app_init ''20240102_093000'' ''t0'' example_request)) ''20240102_093001'' ''t0'' (example_request\<lparr>ticker := ''MSFT'', openai_api_key := None\<rparr>)))) (analysis_id_of ''20240102_093000'' ''AAPL'') \<noteq> None"
    by (simp add: app_start_analysis_def app_init_def example_request_def analysis_id_of_def Let_def)
  have h2: "map_of (active_analyses (fst (app_start_analysis (fst (app_start_analysis app_init ''20240102_093000'' ''t0'' example_request)) ''20240102_093001'' ''t0'' (example_request\<lparr>ticker := ''MSFT'', openai_api_key := None\<rparr>)))) (analysis_id_of ''20240102_093001'' ''MSFT'') \<noteq> None"
    by (simp add: app_start_analysis_def app_init_def example_request_def analysis_id_of_def Let_def)
  have h3: "openai_api_key example_request = Some ''sk-1''" by (simp add: example_request_def)
  have h4: "''sk-1'' \<noteq> []" by simp
  have h5: "py_lower (llm_provider example_request) = ''openai''" by (simp add: example_request_def) code_simp
  have h6: "openai_api_key (example_request\<lparr>ticker := ''MSFT'', openai_api_key := None\<rparr>) = None" by simp
  show ?thesis
    using h1 h2 h3 h5 h6 api_key_persists [where g = example_graph and ta = "''t1''" and tb = "''t2''", OF h1 h2 h3 h4 h5 h6]
    by simp
qed

end
