(* ===== verification/Agent_Log.thy ===== *)
theory Agent_Log
  imports Prelude
begin

text \<open>
  The agent log lines: \<^verbatim>\<open>AgentLogger\<close> of \<^verbatim>\<open>tradingagents/agents/utils/logger.py\<close>
  prints them, and \<^verbatim>\<open>parse_agent_log\<close> of \<^verbatim>\<open>web/backend/analysis_task.py\<close> reads
  them back (through \<^verbatim>\<open>LogCapture\<close>, which hands each non-blank write to the callback).
  The Chinese role names and level texts and the emoji prefixes lie outside the Latin-1
  strings of the model: they are the fields of \<open>log_texts\<close>. The parser's two dicts are
  keyed by the same literals as the logger's tables, so they are built from the same fields.
  The regular expressions are translated into matchers that return what \<^verbatim>\<open>re\<close> returns,
  backtracking included.
\<close>

section \<open>The logger\<close>

datatype agent_role = FUNDAMENTALS_ANALYST | MARKET_ANALYST | NEWS_ANALYST | SOCIAL_ANALYST
  | BULL_RESEARCHER | BEAR_RESEARCHER | TRADER | INVEST_JUDGE | RISKY_ANALYST | NEUTRAL_ANALYST
  | SAFE_ANALYST | RISK_MANAGER | SYSTEM

definition role_code :: "agent_role \<Rightarrow> pystr" where
  "role_code r = (case r of
     FUNDAMENTALS_ANALYST \<Rightarrow> ''FUNDAMENTALS_ANALYST'' | MARKET_ANALYST \<Rightarrow> ''MARKET_ANALYST''
   | NEWS_ANALYST \<Rightarrow> ''NEWS_ANALYST'' | SOCIAL_ANALYST \<Rightarrow> ''SOCIAL_ANALYST''
   | BULL_RESEARCHER \<Rightarrow> ''BULL_RESEARCHER'' | BEAR_RESEARCHER \<Rightarrow> ''BEAR_RESEARCHER''
   | TRADER \<Rightarrow> ''TRADER'' | INVEST_JUDGE \<Rightarrow> ''INVEST_JUDGE'' | RISKY_ANALYST \<Rightarrow> ''RISKY_ANALYST''
   | NEUTRAL_ANALYST \<Rightarrow> ''NEUTRAL_ANALYST'' | SAFE_ANALYST \<Rightarrow> ''SAFE_ANALYST''
   | RISK_MANAGER \<Rightarrow> ''RISK_MANAGER'' | SYSTEM \<Rightarrow> ''SYSTEM'')"

text \<open>The keys of \<^verbatim>\<open>AgentLogger.ROLES\<close>, in order.\<close>

definition ALL_ROLES :: "agent_role list" where
  "ALL_ROLES = [FUNDAMENTALS_ANALYST, MARKET_ANALYST, NEWS_ANALYST, SOCIAL_ANALYST, BULL_RESEARCHER,
     BEAR_RESEARCHER, TRADER, INVEST_JUDGE, RISKY_ANALYST, NEUTRAL_ANALYST, SAFE_ANALYST, RISK_MANAGER, SYSTEM]"

definition ESC :: char where
  "ESC = CHR 0x1B"

definition sgr :: "pystr \<Rightarrow> pystr" where
  "sgr n = ESC # CHR ''['' # n @ ''m''"

definition role_color :: "agent_role \<Rightarrow> pystr" where
  "role_color r = sgr (case r of
     FUNDAMENTALS_ANALYST \<Rightarrow> ''94'' | MARKET_ANALYST \<Rightarrow> ''92'' | NEWS_ANALYST \<Rightarrow> ''93''
   | SOCIAL_ANALYST \<Rightarrow> ''95'' | BULL_RESEARCHER \<Rightarrow> ''92'' | BEAR_RESEARCHER \<Rightarrow> ''91'' | TRADER \<Rightarrow> ''96''
   | INVEST_JUDGE \<Rightarrow> ''95'' | RISKY_ANALYST \<Rightarrow> ''91'' | NEUTRAL_ANALYST \<Rightarrow> ''94''
   | SAFE_ANALYST \<Rightarrow> ''92'' | RISK_MANAGER \<Rightarrow> ''93'' | SYSTEM \<Rightarrow> ''90'')"

definition RESET_COLOR :: pystr where
  "RESET_COLOR = sgr ''0''"

datatype log_level = L_START | L_END | L_DECISION | L_ERROR | L_INFO | L_TOOL

definition level_code :: "log_level \<Rightarrow> pystr" where
  "level_code l = (case l of
     L_START \<Rightarrow> ''START'' | L_END \<Rightarrow> ''END'' | L_DECISION \<Rightarrow> ''DECISION'' | L_ERROR \<Rightarrow> ''ERROR''
   | L_INFO \<Rightarrow> ''INFO'' | L_TOOL \<Rightarrow> ''TOOL'')"

text \<open>The keys of the \<^verbatim>\<open>level_prefix\<close> dict of \<^verbatim>\<open>AgentLogger.log\<close>, in order.\<close>

definition LEVELS :: "log_level list" where
  "LEVELS = [L_START, L_END, L_DECISION, L_ERROR, L_INFO, L_TOOL]"

text \<open>The non-Latin-1 literals: each role's name and prefix, the prefix of an unknown
  role, each level's emoji and text (the default prefix of an unknown level is the emoji of
  \<open>INFO\<close>), and the fixed message texts of \<^verbatim>\<open>log_start\<close>, \<^verbatim>\<open>log_end\<close>,
  \<^verbatim>\<open>log_decision\<close>, \<^verbatim>\<open>log_tool_call\<close> and \<^verbatim>\<open>log_error\<close>.\<close>

record log_texts =
  role_name :: "agent_role \<Rightarrow> pystr"
  role_icon :: "agent_role \<Rightarrow> pystr"
  unknown_icon :: pystr
  level_icon :: "log_level \<Rightarrow> pystr"
  level_text :: "log_level \<Rightarrow> pystr"
  start_text :: pystr
  end_text :: pystr
  decision_label :: pystr
  tool_label :: pystr
  error_label :: pystr

definition role_info :: "log_texts \<Rightarrow> pystr \<Rightarrow> pystr \<times> pystr \<times> pystr" where
  "role_info T role =
     (case find (\<lambda>r. role_code r = role) ALL_ROLES of
        Some r \<Rightarrow> (role_name T r, role_icon T r, role_color r)
      | None \<Rightarrow> (role, unknown_icon T, sgr ''97''))"

definition level_prefix :: "log_texts \<Rightarrow> pystr \<Rightarrow> pystr" where
  "level_prefix T level =
     (case find (\<lambda>l. level_code l = level) LEVELS of
        Some l \<Rightarrow> level_icon T l @ '' '' @ level_text T l
      | None \<Rightarrow> level_icon T L_INFO)"

text \<open>\<^verbatim>\<open>datetime.now().strftime("%H:%M:%S")\<close>.\<close>

definition two_digits :: "nat \<Rightarrow> pystr" where
  "two_digits n = [char_of (48 + n div 10), char_of (48 + n mod 10)]"

definition hms :: "nat \<Rightarrow> nat \<Rightarrow> nat \<Rightarrow> pystr" where
  "hms h m s = two_digits h @ '':'' @ two_digits m @ '':'' @ two_digits s"

text \<open>\<^verbatim>\<open>AgentLogger.log\<close>: the line it prints.\<close>

definition agent_log_line :: "log_texts \<Rightarrow> pystr \<Rightarrow> pystr \<Rightarrow> pystr \<Rightarrow> pystr option \<Rightarrow> pystr \<Rightarrow> pystr" where
  "agent_log_line T role message level ticker timestamp =
     (case role_info T role of
        (name, prefix, color) \<Rightarrow>
          color @ ''['' @ timestamp @ ''] '' @ prefix @ '' '' @ name @
          (if truthy ticker then ''['' @ the ticker @ '']'' else []) @
          '' | '' @ level_prefix T level @ '': '' @ message @ RESET_COLOR)"

definition with_extra :: "pystr \<Rightarrow> pystr \<Rightarrow> pystr" where
  "with_extra msg extra = (if extra \<noteq> [] then msg @ '' - '' @ extra else msg)"

definition log_start :: "log_texts \<Rightarrow> pystr \<Rightarrow> pystr option \<Rightarrow> pystr \<Rightarrow> pystr \<Rightarrow> pystr" where
  "log_start T role ticker extra ts = agent_log_line T role (with_extra (start_text T) extra) ''START'' ticker ts"

definition log_end :: "log_texts \<Rightarrow> pystr \<Rightarrow> pystr option \<Rightarrow> pystr \<Rightarrow> pystr \<Rightarrow> pystr" where
  "log_end T role ticker extra ts = agent_log_line T role (with_extra (end_text T) extra) ''END'' ticker ts"

definition log_decision :: "log_texts \<Rightarrow> pystr \<Rightarrow> pystr \<Rightarrow> pystr option \<Rightarrow> pystr \<Rightarrow> pystr" where
  "log_decision T role decision ticker ts =
     agent_log_line T role (decision_label T @ '': '' @ decision) ''DECISION'' ticker ts"

definition log_tool_call :: "log_texts \<Rightarrow> pystr \<Rightarrow> pystr \<Rightarrow> pystr option \<Rightarrow> pystr \<Rightarrow> pystr" where
  "log_tool_call T role tool_name ticker ts =
     agent_log_line T role (tool_label T @ '': '' @ tool_name) ''TOOL'' ticker ts"

definition log_error :: "log_texts \<Rightarrow> pystr \<Rightarrow> pystr \<Rightarrow> pystr option \<Rightarrow> pystr \<Rightarrow> pystr" where
  "log_error T role error ticker ts = agent_log_line T role (error_label T @ '': '' @ error) ''ERROR'' ticker ts"

section \<open>Removing ANSI escapes\<close>

text \<open>\<^verbatim>\<open>\x1B(?:[@-Z\\-_]|\[[0-?]*[ -/]*[@-~])\<close>: the number of characters after an
  escape character that a match takes. The three classes of the second alternative are
  disjoint, so its greedy runs never give back.\<close>

definition char_in :: "nat \<Rightarrow> nat \<Rightarrow> char \<Rightarrow> bool" where
  "char_in a b c = (a \<le> of_char c \<and> (of_char c :: nat) \<le> b)"

definition ansi_seq :: "pystr \<Rightarrow> nat option" where
  "ansi_seq cs =
     (case cs of
        [] \<Rightarrow> None
      | d # ds \<Rightarrow>
          if char_in 0x40 0x5A d \<or> char_in 0x5C 0x5F d then Some 1
          else if d = CHR ''['' then
            (let p = length (takeWhile (char_in 0x30 0x3F) ds);
                 q = length (takeWhile (char_in 0x20 0x2F) (drop p ds)) in
             case drop (p + q) ds of
               [] \<Rightarrow> None
             | f # _ \<Rightarrow> if char_in 0x40 0x7E f then Some (p + q + 2) else None)
          else None)"

text \<open>\<^verbatim>\<open>ansi_escape.sub('', log_line)\<close>: a match is removed, an escape character that
  starts none is kept.\<close>

function ansi_strip :: "pystr \<Rightarrow> pystr" where
  "ansi_strip [] = []"
| "ansi_strip (c # cs) =
     (if c = ESC then (case ansi_seq cs of Some k \<Rightarrow> ansi_strip (drop k cs) | None \<Rightarrow> c # ansi_strip cs)
      else c # ansi_strip cs)"
  by pat_completeness auto
termination
  by (relation "measure length") auto

section \<open>The parser\<close>

text \<open>\<^verbatim>\<open>\[(\d{2}:\d{2}:\d{2})\]\s+[^\s]+\s+([^\[]+)\[([^\]]+)\]\s+\|\s+[^\s]+\s+([^:]+):\s+(.+)\<close>,
  piece by piece. \<open>match_time\<close> is the bracketed time.\<close>

definition match_time :: "pystr \<Rightarrow> (pystr \<times> pystr) option" where
  "match_time s =
     (if 10 \<le> length s \<and> s ! 0 = CHR ''['' \<and> s ! 3 = CHR '':'' \<and> s ! 6 = CHR '':'' \<and> s ! 9 = CHR '']'' \<and>
         list_all py_isdigit [s ! 1, s ! 2, s ! 4, s ! 5, s ! 7, s ! 8]
      then Some (take 8 (drop 1 s), drop 10 s) else None)"

text \<open>\<^verbatim>\<open>\s+[^\s]+\s+\<close>: the second run of white space and the rest after it. The
  token cannot give back, since white space must follow it.\<close>

definition ws_token_ws :: "pystr \<Rightarrow> (pystr \<times> pystr) option" where
  "ws_token_ws s =
     (let w1 = takeWhile py_isspace s; r1 = dropWhile py_isspace s;
          t = takeWhile (\<lambda>c. \<not> py_isspace c) r1; r2 = dropWhile (\<lambda>c. \<not> py_isspace c) r1;
          w2 = takeWhile py_isspace r2; r3 = dropWhile py_isspace r2 in
      if w1 \<noteq> [] \<and> t \<noteq> [] \<and> w2 \<noteq> [] then Some (w2, r3) else None)"

text \<open>\<^verbatim>\<open>([^d]+)d\<close> after the white-space run \<open>w\<close>: the group runs to the first
  \<open>d\<close>; when \<open>d\<close> comes at once, the run gives its last character to the group, if it
  has one to spare.\<close>

definition group_until :: "char \<Rightarrow> pystr \<Rightarrow> pystr \<Rightarrow> (pystr \<times> pystr) option" where
  "group_until d w r =
     (case r of
        [] \<Rightarrow> None
      | c # r' \<Rightarrow>
          if c = d then (if 2 \<le> length w then Some ([last w], r') else None)
          else (case dropWhile (\<lambda>x. x \<noteq> d) r of
                  [] \<Rightarrow> None
                | _ # rest \<Rightarrow> Some (takeWhile (\<lambda>x. x \<noteq> d) r, rest)))"

definition LF :: char where
  "LF = CHR 0x0A"

text \<open>\<^verbatim>\<open>\s+(.+)\<close>: the group is the line that follows the white space; at the end of
  the string the run gives back characters until one that is not a newline can start the
  group.\<close>

definition match_message :: "pystr \<Rightarrow> pystr option" where
  "match_message r =
     (let w = takeWhile py_isspace r; rest = dropWhile py_isspace r in
      if w = [] then None
      else if rest \<noteq> [] then Some (takeWhile (\<lambda>c. c \<noteq> LF) rest)
      else (case filter (\<lambda>k. w ! k \<noteq> LF) [1..<length w] of
              [] \<Rightarrow> None
            | ks \<Rightarrow> Some [w ! last ks]))"

definition match_agent_log :: "pystr \<Rightarrow> (pystr \<times> pystr \<times> pystr \<times> pystr \<times> pystr) option" where
  "match_agent_log s =
     (case match_time s of
        None \<Rightarrow> None
      | Some (ts, r0) \<Rightarrow>
      (case ws_token_ws r0 of
        None \<Rightarrow> None
      | Some (w2, r3) \<Rightarrow>
      (case group_until CHR ''['' w2 r3 of
        None \<Rightarrow> None
      | Some (role, r4) \<Rightarrow>
      (case dropWhile (\<lambda>c. c \<noteq> CHR '']'') r4 of
        [] \<Rightarrow> None
      | _ # r6 \<Rightarrow>
          (let ticker = takeWhile (\<lambda>c. c \<noteq> CHR '']'') r4; w3 = takeWhile py_isspace r6;
               r7 = dropWhile py_isspace r6 in
           if ticker = [] \<or> w3 = [] \<or> r7 = [] \<or> hd r7 \<noteq> CHR ''|'' then None
           else
             (case ws_token_ws (tl r7) of
                None \<Rightarrow> None
              | Some (w5, r11) \<Rightarrow>
              (case group_until CHR '':'' w5 r11 of
                None \<Rightarrow> None
              | Some (lvl, r13) \<Rightarrow>
              (case match_message r13 of
                None \<Rightarrow> None
              | Some msg \<Rightarrow> Some (ts, role, ticker, lvl, msg)))))))))"

text \<open>The keys of \<^verbatim>\<open>role_name_to_code\<close> and \<^verbatim>\<open>level_text_to_code\<close>, in order; a
  Python dict literal keeps the last value of a repeated key.\<close>

definition PARSED_ROLES :: "agent_role list" where
  "PARSED_ROLES = [FUNDAMENTALS_ANALYST, MARKET_ANALYST, NEWS_ANALYST, SOCIAL_ANALYST, BULL_RESEARCHER,
     BEAR_RESEARCHER, TRADER, INVEST_JUDGE, RISKY_ANALYST, NEUTRAL_ANALYST, SAFE_ANALYST, RISK_MANAGER]"

definition PARSED_LEVELS :: "log_level list" where
  "PARSED_LEVELS = [L_START, L_END, L_INFO, L_DECISION, L_TOOL, L_ERROR]"

definition role_name_to_code :: "log_texts \<Rightarrow> pystr \<Rightarrow> pystr option" where
  "role_name_to_code T = map_of (rev (map (\<lambda>r. (role_name T r, role_code r)) PARSED_ROLES))"

definition level_text_to_code :: "log_texts \<Rightarrow> pystr \<Rightarrow> pystr option" where
  "level_text_to_code T = map_of (rev (map (\<lambda>l. (level_text T l, level_code l)) PARSED_LEVELS))"

record agent_log_entry =
  le_timestamp :: pystr
  le_role :: "pystr option"
  le_ticker :: pystr
  le_level :: pystr
  le_message :: pystr

definition parse_agent_log :: "log_texts \<Rightarrow> pystr \<Rightarrow> agent_log_entry option" where
  "parse_agent_log T log_line =
     (case match_agent_log (ansi_strip log_line) of
        None \<Rightarrow> None
      | Some (ts, role, ticker, lvl, msg) \<Rightarrow>
          Some \<lparr>le_timestamp = ts, le_role = role_name_to_code T (py_strip role), le_ticker = py_strip ticker,
                le_level = (case level_text_to_code T (py_strip lvl) of Some c \<Rightarrow> c | None \<Rightarrow> ''INFO''),
                le_message = py_strip msg\<rparr>)"

section \<open>Capturing standard output\<close>

text \<open>\<^verbatim>\<open>LogCapture.write\<close> echoes the text to the original standard output and hands it
  to the callback when it is not blank; \<^verbatim>\<open>print(s, flush=True)\<close> writes \<open>s\<close>, then
  the end \<^verbatim>\<open>"\n"\<close>. The values are the texts the callback receives.\<close>

definition capture_write :: "pystr \<Rightarrow> pystr list" where
  "capture_write text = (if py_strip text \<noteq> [] then [text] else [])"

definition captured_print :: "pystr \<Rightarrow> pystr list" where
  "captured_print s = capture_write s @ capture_write [LF]"

section \<open>Well-formed texts\<close>

text \<open>What the literals of the two files satisfy: names and level texts are non-empty,
  have no surrounding white space and no escape character, names contain no bracket and
  level texts no colon; prefixes and emoji are non-empty runs without white space,
  escape or bracket; the names of the roles and the texts of the levels are distinct.\<close>

definition plain_token :: "pystr \<Rightarrow> bool" where
  "plain_token x = (x \<noteq> [] \<and> list_all (\<lambda>c. \<not> py_isspace c \<and> c \<noteq> ESC \<and> c \<noteq> CHR ''['') x)"

definition plain_text :: "char \<Rightarrow> pystr \<Rightarrow> bool" where
  "plain_text d x = (x \<noteq> [] \<and> py_strip x = x \<and> ESC \<notin> set x \<and> d \<notin> set x \<and> CHR ''['' \<notin> set x)"

definition texts_ok :: "log_texts \<Rightarrow> bool" where
  "texts_ok T =
     (list_all (\<lambda>r. plain_text CHR ''['' (role_name T r) \<and> plain_token (role_icon T r)) ALL_ROLES \<and>
      distinct (map (role_name T) ALL_ROLES) \<and>
      list_all (\<lambda>l. plain_text CHR '':'' (level_text T l) \<and> plain_token (level_icon T l)) LEVELS \<and>
      distinct (map (level_text T) LEVELS))"

section \<open>Example texts\<close>

text \<open>Latin-1 stand-ins for the literals, with the shape of the real ones.\<close>

definition example_texts :: log_texts where
  "example_texts =
     \<lparr>role_name = role_code, role_icon = (\<lambda>_. ''*''), unknown_icon = ''?'', level_icon = (\<lambda>_. ''i''),
      level_text = level_code, start_text = ''start'', end_text = ''done'', decision_label = ''decision'',
      tool_label = ''tool'', error_label = ''error''\<rparr>"

section \<open>Lemmas\<close>

lemma ansi_strip_plain: "ESC \<notin> set xs \<Longrightarrow> ansi_strip (xs @ ys) = xs @ ansi_strip ys"
  by (induction xs) auto

lemma ansi_strip_sgr:
  assumes "list_all (char_in 0x30 0x3F) n"
  shows "ansi_strip (sgr n @ ys) = ansi_strip ys"
proof -
  have "\<not> char_in 0x30 0x3F (CHR ''m'')" "\<not> char_in 0x20 0x2F (CHR ''m'')" "char_in 0x40 0x7E (CHR ''m'')"
    by (simp_all add: char_in_def)
  moreover have "\<not> char_in 0x40 0x5A (CHR ''['')" "\<not> char_in 0x5C 0x5F (CHR ''['')"
    by (simp_all add: char_in_def)
  moreover have "takeWhile (char_in 0x30 0x3F) (n @ CHR ''m'' # ys) = n"
    using assms \<open>\<not> char_in 0x30 0x3F (CHR ''m'')\<close> by (simp add: takeWhile_append2 list_all_iff)
  ultimately show ?thesis
    by (simp add: sgr_def ESC_def ansi_seq_def)
qed

lemma strip_hd:
  assumes "py_strip x = x" "x \<noteq> []"
  shows "\<not> py_isspace (hd x)"
proof
  assume sp: "py_isspace (hd x)"
  have "length (py_strip x) \<le> length (dropWhile py_isspace x)"
    using length_dropWhile_le [of py_isspace "rev (dropWhile py_isspace x)"] by (simp add: py_strip_def)
  also have "\<dots> < length x"
    using sp assms(2) by (cases x) (auto simp: length_dropWhile_le le_imp_less_Suc)
  finally show False using assms(1) by simp
qed

lemma ws_token_ws_sep:
  assumes "t \<noteq> []" "list_all (\<lambda>c. \<not> py_isspace c) t" "\<not> py_isspace c"
  shows "ws_token_ws (CHR '' '' # t @ CHR '' '' # c # r) = Some ('' '', c # r)"
proof -
  obtain a ts where t: "t = a # ts" using assms(1) by (cases t) auto
  have sp: "py_isspace (CHR '' '')" by (simp add: py_isspace_def)
  have a: "\<not> py_isspace a" using assms(2) t by simp
  have "takeWhile (\<lambda>c. \<not> py_isspace c) (ts @ CHR '' '' # c # r) = ts @ takeWhile (\<lambda>c. \<not> py_isspace c) (CHR '' '' # c # r)"
    using assms(2) t by (intro takeWhile_append2) (auto simp: list_all_iff)
  moreover have "dropWhile (\<lambda>c. \<not> py_isspace c) (ts @ CHR '' '' # c # r) = dropWhile (\<lambda>c. \<not> py_isspace c) (CHR '' '' # c # r)"
    using assms(2) t by (intro dropWhile_append2) (auto simp: list_all_iff)
  ultimately show ?thesis
    using sp a assms(3) by (simp add: ws_token_ws_def Let_def t)
qed

lemma split_at_delim:
  "d \<notin> set g \<Longrightarrow> takeWhile (\<lambda>x. x \<noteq> d) (g @ d # r) = g \<and> dropWhile (\<lambda>x. x \<noteq> d) (g @ d # r) = d # r"
  by (induction g) auto

lemma group_until_sep:
  assumes "g \<noteq> []" "d \<notin> set g"
  shows "group_until d w (g @ d # r) = Some (g, r)"
proof -
  have "hd g \<noteq> d" using assms by (cases g) auto
  with split_at_delim [OF assms(2), of r] assms(1) show ?thesis
    by (cases g) (auto simp: group_until_def)
qed

lemma match_message_sep:
  assumes "msg \<noteq> []" "\<not> py_isspace (hd msg)"
  shows "match_message (CHR '' '' # msg) = Some (takeWhile (\<lambda>c. c \<noteq> LF) msg)"
proof -
  have "py_isspace (CHR '' '')" by (simp add: py_isspace_def)
  moreover have "takeWhile py_isspace msg = []" "dropWhile py_isspace msg = msg"
    using assms(1,2) by (cases msg; simp)+
  ultimately show ?thesis using assms(1) by (simp add: match_message_def Let_def)
qed

lemma dropWhile_absent: "d \<notin> set xs \<Longrightarrow> dropWhile (\<lambda>x. x \<noteq> d) xs = []"
  by (induction xs) auto

lemma group_until_absent: "d \<notin> set r \<Longrightarrow> group_until d w r = None"
  by (cases r) (auto simp: group_until_def dropWhile_absent)

lemma digit_char: "(k::nat) < 10 \<Longrightarrow> py_isdigit (char_of (48 + k))"
  by (simp add: py_isdigit_def)

lemma match_time_digits:
  "list_all py_isdigit [c1, c2, c3, c4, c5, c6] \<Longrightarrow>
   match_time (CHR ''['' # c1 # c2 # CHR '':'' # c3 # c4 # CHR '':'' # c5 # c6 # CHR '']'' # r) =
     Some ([c1, c2, CHR '':'', c3, c4, CHR '':'', c5, c6], r)"
  by (simp add: match_time_def)

lemma match_time_hms:
  assumes "h < 24" "m < 60" "s < 60"
  shows "match_time (CHR ''['' # hms h m s @ CHR '']'' # r) = Some (hms h m s, r)"
proof -
  have "list_all py_isdigit [char_of (48 + h div 10), char_of (48 + h mod 10), char_of (48 + m div 10),
                             char_of (48 + m mod 10), char_of (48 + s div 10), char_of (48 + s mod 10)]"
    using assms by (simp add: digit_char)
  from match_time_digits [OF this, of r] show ?thesis
    by (simp add: hms_def two_digits_def)
qed

lemma match_line:
  assumes "h < 24" "m < 60" "s < 60" "plain_token icon" "plain_token licon"
    and "name \<noteq> []" "\<not> py_isspace (hd name)" "CHR ''['' \<notin> set name"
    and "t \<noteq> []" "CHR '']'' \<notin> set t"
    and "ltext \<noteq> []" "\<not> py_isspace (hd ltext)" "CHR '':'' \<notin> set ltext"
    and "msg \<noteq> []" "\<not> py_isspace (hd msg)"
  shows "match_agent_log (CHR ''['' # hms h m s @ CHR '']'' # CHR '' '' # icon @ CHR '' '' # name @ CHR ''['' # t @
           CHR '']'' # CHR '' '' # CHR ''|'' # CHR '' '' # licon @ CHR '' '' # ltext @ CHR '':'' # CHR '' '' # msg) =
         Some (hms h m s, name, t, ltext, takeWhile (\<lambda>c. c \<noteq> LF) msg)"
proof -
  obtain n0 ns where n: "name = n0 # ns" using assms(6) by (cases name) auto
  obtain l0 ls where l: "ltext = l0 # ls" using assms(11) by (cases ltext) auto
  let ?rest = "CHR '' '' # CHR ''|'' # CHR '' '' # licon @ CHR '' '' # ltext @ CHR '':'' # CHR '' '' # msg"
  have tok: "icon \<noteq> []" "list_all (\<lambda>c. \<not> py_isspace c) icon" "licon \<noteq> []" "list_all (\<lambda>c. \<not> py_isspace c) licon"
    using assms(4,5) by (auto simp: plain_token_def list_all_iff)
  have w1: "ws_token_ws (CHR '' '' # icon @ CHR '' '' # n0 # ns @ CHR ''['' # t @ CHR '']'' # ?rest) =
            Some ('' '', n0 # ns @ CHR ''['' # t @ CHR '']'' # ?rest)"
    using ws_token_ws_sep [OF tok(1,2)] assms(7) n by simp
  have g1: "group_until CHR ''['' '' '' (name @ CHR ''['' # t @ CHR '']'' # ?rest) = Some (name, t @ CHR '']'' # ?rest)"
    using group_until_sep assms(6,8) by blast
  have tk: "takeWhile (\<lambda>c. c \<noteq> CHR '']'') (t @ CHR '']'' # ?rest) = t \<and>
            dropWhile (\<lambda>c. c \<noteq> CHR '']'') (t @ CHR '']'' # ?rest) = CHR '']'' # ?rest"
    using assms(10) by (rule split_at_delim)
  have sp: "py_isspace (CHR '' '')" "\<not> py_isspace (CHR ''|'')" by (simp_all add: py_isspace_def)
  have w2: "ws_token_ws (CHR '' '' # licon @ CHR '' '' # l0 # ls @ CHR '':'' # CHR '' '' # msg) =
            Some ('' '', l0 # ls @ CHR '':'' # CHR '' '' # msg)"
    using ws_token_ws_sep [OF tok(3,4)] assms(12) l by simp
  have g2: "group_until CHR '':'' '' '' (ltext @ CHR '':'' # CHR '' '' # msg) = Some (ltext, CHR '' '' # msg)"
    using group_until_sep assms(11,13) by blast
  have mm: "match_message (CHR '' '' # msg) = Some (takeWhile (\<lambda>c. c \<noteq> LF) msg)"
    using match_message_sep assms(14,15) by blast
  show ?thesis
    using assms(9) w1 g1 tk sp w2 g2 mm
    by (simp add: match_agent_log_def match_time_hms [OF assms(1,2,3)] n l)
qed

lemma role_in_ALL_ROLES: "r \<in> set ALL_ROLES"
  by (cases r) (simp_all add: ALL_ROLES_def)

lemma level_in_LEVELS: "l \<in> set LEVELS"
  by (cases l) (simp_all add: LEVELS_def)

lemma role_info_code: "role_info T (role_code r) = (role_name T r, role_icon T r, role_color r)"
  by (cases r) (simp_all add: role_info_def role_code_def ALL_ROLES_def)

lemma level_prefix_code: "level_prefix T (level_code l) = level_icon T l @ '' '' @ level_text T l"
  by (cases l) (simp_all add: level_prefix_def level_code_def LEVELS_def)

lemma ansi_strip_role_color: "ansi_strip (role_color r @ ys) = ansi_strip ys"
  by (cases r) (simp_all add: role_color_def ansi_strip_sgr char_in_def)

lemma ansi_strip_reset [simp]: "ansi_strip RESET_COLOR = []"
  using ansi_strip_sgr [of "''0''" "[]"] by (simp add: RESET_COLOR_def char_in_def)

lemma digit_not_esc:
  assumes "(k::nat) < 10"
  shows "char_of (48 + k) \<noteq> ESC"
proof
  assume "char_of (48 + k) = ESC"
  then have "(of_char (char_of (48 + k)) :: nat) = of_char (CHR 0x1B)" by (simp add: ESC_def)
  with assms show False by simp
qed

lemma hms_no_esc:
  assumes "h < 24" "m < 60" "s < 60"
  shows "ESC \<notin> set (hms h m s)"
proof -
  have "h div 10 < 10" "h mod 10 < 10" "m div 10 < 10" "m mod 10 < 10" "s div 10 < 10" "s mod 10 < 10"
    using assms by simp_all
  then have "ESC \<noteq> char_of (48 + h div 10)" "ESC \<noteq> char_of (48 + h mod 10)" "ESC \<noteq> char_of (48 + m div 10)"
    "ESC \<noteq> char_of (48 + m mod 10)" "ESC \<noteq> char_of (48 + s div 10)" "ESC \<noteq> char_of (48 + s mod 10)"
    by (simp_all add: digit_not_esc [symmetric])
  moreover have "ESC \<noteq> CHR '':''" by (simp add: ESC_def)
  ultimately show ?thesis by (simp add: hms_def two_digits_def)
qed

lemma role_name_to_code_name:
  assumes "distinct (map (role_name T) ALL_ROLES)" "r \<in> set PARSED_ROLES"
  shows "role_name_to_code T (role_name T r) = Some (role_code r)"
proof -
  have "distinct (map (role_name T) PARSED_ROLES)"
    using assms(1) by (simp add: ALL_ROLES_def PARSED_ROLES_def)
  then show ?thesis
    using assms(2) by (auto simp: role_name_to_code_def rev_map [symmetric] comp_def intro!: map_of_is_SomeI)
qed

lemma level_text_to_code_text:
  assumes "distinct (map (level_text T) LEVELS)"
  shows "level_text_to_code T (level_text T l) = Some (level_code l)"
proof -
  have set_eq: "set PARSED_LEVELS = set LEVELS" and "distinct PARSED_LEVELS"
    by (simp_all add: LEVELS_def PARSED_LEVELS_def insert_commute)
  then have "distinct (map (level_text T) PARSED_LEVELS)"
    using assms by (simp add: distinct_map)
  moreover have "l \<in> set PARSED_LEVELS" using set_eq level_in_LEVELS by simp
  ultimately show ?thesis
    by (auto simp: level_text_to_code_def rev_map [symmetric] comp_def intro!: map_of_is_SomeI)
qed

text \<open>The line a well-formed logger call prints, once its colours are removed.\<close>

lemma ansi_strip_log_line:
  assumes "texts_ok T" "ESC \<notin> set t" "ESC \<notin> set msg" "h < 24" "m < 60" "s < 60" "t \<noteq> []"
  shows "ansi_strip (agent_log_line T (role_code r) msg (level_code l) (Some t) (hms h m s)) =
         CHR ''['' # hms h m s @ CHR '']'' # CHR '' '' # role_icon T r @ CHR '' '' # role_name T r @ CHR ''['' # t @
         CHR '']'' # CHR '' '' # CHR ''|'' # CHR '' '' # level_icon T l @ CHR '' '' # level_text T l @ CHR '':'' #
         CHR '' '' # msg"
proof -
  have r: "plain_text CHR ''['' (role_name T r)" "plain_token (role_icon T r)"
    and l: "plain_text CHR '':'' (level_text T l)" "plain_token (level_icon T l)"
    using assms(1) role_in_ALL_ROLES [of r] level_in_LEVELS [of l] by (auto simp: texts_ok_def list_all_iff)
  let ?body = "CHR ''['' # hms h m s @ CHR '']'' # CHR '' '' # role_icon T r @ CHR '' '' # role_name T r @ CHR ''['' # t @
         CHR '']'' # CHR '' '' # CHR ''|'' # CHR '' '' # level_icon T l @ CHR '' '' # level_text T l @ CHR '':'' #
         CHR '' '' # msg"
  have "ESC \<notin> set ?body"
    using r l assms(2,3) hms_no_esc [OF assms(4,5,6)]
    by (auto simp: plain_text_def plain_token_def list_all_iff ESC_def)
  then have "ansi_strip (?body @ RESET_COLOR) = ?body"
    using ansi_strip_plain [of ?body RESET_COLOR] by simp
  then show ?thesis
    using assms(7) ansi_strip_role_color [of r "?body @ RESET_COLOR"]
    by (simp add: agent_log_line_def role_info_code level_prefix_code truthy_def)
qed

lemma parse_log_line:
  assumes "texts_ok T" "t \<noteq> []" "CHR '']'' \<notin> set t" "ESC \<notin> set t"
    and "msg \<noteq> []" "\<not> py_isspace (hd msg)" "ESC \<notin> set msg"
    and "h < 24" "m < 60" "s < 60"
  shows "parse_agent_log T (agent_log_line T (role_code r) msg (level_code l) (Some t) (hms h m s)) =
           Some \<lparr>le_timestamp = hms h m s, le_role = role_name_to_code T (role_name T r), le_ticker = py_strip t,
                 le_level = level_code l, le_message = py_strip (takeWhile (\<lambda>c. c \<noteq> LF) msg)\<rparr>"
proof -
  have r: "plain_text CHR ''['' (role_name T r)" "plain_token (role_icon T r)"
    and l: "plain_text CHR '':'' (level_text T l)" "plain_token (level_icon T l)"
    and dl: "distinct (map (level_text T) LEVELS)"
    using assms(1) role_in_ALL_ROLES [of r] level_in_LEVELS [of l] by (auto simp: texts_ok_def list_all_iff)
  have m: "match_agent_log (ansi_strip (agent_log_line T (role_code r) msg (level_code l) (Some t) (hms h m s))) =
           Some (hms h m s, role_name T r, t, level_text T l, takeWhile (\<lambda>c. c \<noteq> LF) msg)"
    unfolding ansi_strip_log_line [OF assms(1,4,7,8,9,10,2)]
    using r l assms(2,3,5,6,8,9,10) strip_hd [of "role_name T r"] strip_hd [of "level_text T l"]
    by (intro match_line) (auto simp: plain_text_def)
  show ?thesis
    using r l by (simp add: parse_agent_log_def m plain_text_def level_text_to_code_text [OF dl])
qed

text \<open>C29: what the web backend reads back from a line the agent logger prints: for a
  role of the parser's table, any level, a ticker without a closing bracket and a one-line
  message without surrounding white space, \<^verbatim>\<open>parse_agent_log\<close> returns the time
  stamp, the role's code, the ticker, the level's code and the message.\<close>

theorem agent_log_roundtrip:
  assumes "texts_ok T" "r \<in> set PARSED_ROLES"
    and "t \<noteq> []" "CHR '']'' \<notin> set t" "ESC \<notin> set t"
    and "msg \<noteq> []" "py_strip msg = msg" "LF \<notin> set msg" "ESC \<notin> set msg"
    and "h < 24" "m < 60" "s < 60"
  shows "parse_agent_log T (agent_log_line T (role_code r) msg (level_code l) (Some t) (hms h m s)) =
           Some \<lparr>le_timestamp = hms h m s, le_role = Some (role_code r), le_ticker = py_strip t,
                 le_level = level_code l, le_message = msg\<rparr>"
proof -
  have dr: "distinct (map (role_name T) ALL_ROLES)" using assms(1) by (simp add: texts_ok_def)
  have tw: "takeWhile (\<lambda>c. c \<noteq> LF) msg = msg" using assms(8) by (auto simp: takeWhile_eq_all_conv)
  show ?thesis
    using parse_log_line [OF assms(1,3,4,5,6) strip_hd [OF assms(7,6)] assms(9,10,11,12), of r l]
    by (simp add: tw assms(7) role_name_to_code_name [OF dr assms(2)])
qed

text \<open>A line logged without a ticker (every \<^verbatim>\<open>SYSTEM\<close> line and every call that
  passes none) never parses: the pattern requires the bracketed ticker.\<close>

theorem parse_without_ticker:
  assumes "texts_ok T" "CHR ''['' \<notin> set msg" "ESC \<notin> set msg" "h < 24" "m < 60" "s < 60"
  shows "parse_agent_log T (agent_log_line T (role_code r) msg (level_code l) None (hms h m s)) = None"
proof -
  have r: "plain_text CHR ''['' (role_name T r)" "plain_token (role_icon T r)"
    and l: "plain_text CHR '':'' (level_text T l)" "plain_token (level_icon T l)"
    using assms(1) role_in_ALL_ROLES [of r] level_in_LEVELS [of l] by (auto simp: texts_ok_def list_all_iff)
  let ?rest = "CHR '' '' # CHR ''|'' # CHR '' '' # level_icon T l @ CHR '' '' # level_text T l @ CHR '':'' # CHR '' '' # msg"
  let ?body = "CHR ''['' # hms h m s @ CHR '']'' # CHR '' '' # role_icon T r @ CHR '' '' # role_name T r @ ?rest"
  have "ESC \<notin> set ?body"
    using r l assms(3) hms_no_esc [OF assms(4,5,6)] by (auto simp: plain_text_def plain_token_def list_all_iff ESC_def)
  then have strip: "ansi_strip (agent_log_line T (role_code r) msg (level_code l) None (hms h m s)) = ?body"
    using ansi_strip_plain [of ?body RESET_COLOR] ansi_strip_role_color [of r "?body @ RESET_COLOR"]
    by (simp add: agent_log_line_def role_info_code level_prefix_code truthy_def)
  obtain n0 ns where n: "role_name T r = n0 # ns" using r(1) by (cases "role_name T r") (auto simp: plain_text_def)
  have tok: "role_icon T r \<noteq> []" "list_all (\<lambda>c. \<not> py_isspace c) (role_icon T r)"
    using r(2) by (auto simp: plain_token_def list_all_iff)
  have "\<not> py_isspace n0" using strip_hd [of "role_name T r"] r(1) n by (simp add: plain_text_def)
  then have w: "ws_token_ws (CHR '' '' # role_icon T r @ CHR '' '' # role_name T r @ ?rest) = Some ('' '', role_name T r @ ?rest)"
    using ws_token_ws_sep [OF tok] n by simp
  have "CHR ''['' \<notin> set (role_name T r @ ?rest)"
    using r l assms(2) by (auto simp: plain_text_def plain_token_def list_all_iff)
  then have g: "group_until CHR ''['' '' '' (role_name T r @ ?rest) = None" by (rule group_until_absent)
  show ?thesis
    by (simp add: parse_agent_log_def match_agent_log_def strip match_time_hms [OF assms(4,5,6)] w g)
qed

text \<open>A \<^verbatim>\<open>SYSTEM\<close> line parses with no role: its name is not a key of
  \<^verbatim>\<open>role_name_to_code\<close>, so the callback ignores it.\<close>

lemma role_name_to_code_system:
  assumes "distinct (map (role_name T) ALL_ROLES)"
  shows "role_name_to_code T (role_name T SYSTEM) = None"
proof -
  have e: "ALL_ROLES = PARSED_ROLES @ [SYSTEM]" by (simp add: ALL_ROLES_def PARSED_ROLES_def)
  from assms have "distinct (map (role_name T) (PARSED_ROLES @ [SYSTEM]))" by (simp only: e)
  then have "role_name T SYSTEM \<notin> role_name T ` set PARSED_ROLES" by simp
  then show ?thesis
    by (simp add: role_name_to_code_def map_of_eq_None_iff image_image)
qed

text \<open>A message of several lines is cut to its first line.\<close>

lemma parse_multiline:
  assumes "texts_ok T" "t \<noteq> []" "CHR '']'' \<notin> set t" "ESC \<notin> set t"
    and "a \<noteq> []" "py_strip a = a" "LF \<notin> set a" "ESC \<notin> set (a @ LF # b)"
    and "h < 24" "m < 60" "s < 60"
  shows "le_message (the (parse_agent_log T (agent_log_line T (role_code r) (a @ LF # b) (level_code l) (Some t)
           (hms h m s)))) = a"
proof -
  have tw: "takeWhile (\<lambda>c. c \<noteq> LF) (a @ LF # b) = a"
    using split_at_delim [OF assms(7), of b] by simp
  have "a @ LF # b \<noteq> []" "\<not> py_isspace (hd (a @ LF # b))" using assms(5) strip_hd [OF assms(6,5)] by simp_all
  from parse_log_line [OF assms(1,2,3,4) this assms(8,9,10,11), of r l] show ?thesis
    by (simp add: tw assms(6))
qed

theorem agent_log_roundtrip_witness:
  "texts_ok example_texts \<and> TRADER \<in> set PARSED_ROLES \<and> ''AAPL'' \<noteq> [] \<and> CHR '']'' \<notin> set ''AAPL'' \<and>
   ESC \<notin> set ''AAPL'' \<and> ''hold'' \<noteq> [] \<and> py_strip ''hold'' = ''hold'' \<and> LF \<notin> set ''hold'' \<and>
   ESC \<notin> set ''hold'' \<and> (9::nat) < 24 \<and> (30::nat) < 60 \<and> (0::nat) < 60 \<and>
   parse_agent_log example_texts (agent_log_line example_texts (role_code TRADER) ''hold'' (level_code L_DECISION)
     (Some ''AAPL'') (hms 9 30 0)) =
   Some \<lparr>le_timestamp = hms 9 30 0, le_role = Some (role_code TRADER), le_ticker = py_strip ''AAPL'',
         le_level = level_code L_DECISION, le_message = ''hold''\<rparr>"
proof -
  have h1: "texts_ok example_texts" by code_simp
  have h2: "TRADER \<in> set PARSED_ROLES" by (simp add: PARSED_ROLES_def)
  have h3: "''AAPL'' \<noteq> []" "CHR '']'' \<notin> set ''AAPL''" "ESC \<notin> set ''AAPL''" by (simp_all add: ESC_def)
  have h4: "''hold'' \<noteq> []" "LF \<notin> set ''hold''" "ESC \<notin> set ''hold''" by (simp_all add: ESC_def LF_def)
  have h5: "py_strip ''hold'' = ''hold''" by code_simp
  show ?thesis
    using h1 h2 h3 h4 h5
      agent_log_roundtrip [OF h1 h2 h3 h4(1) h5 h4(2,3), of 9 30 0 L_DECISION]
    by simp
qed

text \<open>Each logger line reaches the callback once, whole.\<close>

lemma captured_print_line: "py_strip s \<noteq> [] \<Longrightarrow> captured_print s = [s]"
  by (simp add: captured_print_def capture_write_def py_strip_def LF_def py_isspace_def)

end
