(* ===== verification/Migrations.thy ===== *)
theory Migrations
  imports Web_Auth
begin

text \<open>
  The schema management of the web backend: \<^verbatim>\<open>init_db\<close> and \<^verbatim>\<open>drop_db\<close> of
  \<^verbatim>\<open>database.py\<close>, \<^verbatim>\<open>init_db.py\<close> (the sample user and its command line),
  \<^verbatim>\<open>migrate_db.py\<close> (the version table, the two migrations and the command line) and
  \<^verbatim>\<open>migrate_add_fields.py\<close>.

  The database is SQLite, the default \<^verbatim>\<open>DATABASE_URL\<close> of \<^verbatim>\<open>database.py\<close>. Its
  state \<open>mig_state\<close> holds the tables with their columns in creation order, the rows of
  \<^verbatim>\<open>schema_version\<close>, and the rows of \<^verbatim>\<open>users\<close> and \<^verbatim>\<open>analysis_records\<close>
  as the \<open>db\<close> of \<open>Web_Auth\<close>. Standard output is a list of lines.

  Statements take effect the way pysqlite runs them:
  \<^item> \<^verbatim>\<open>CREATE TABLE\<close>, \<^verbatim>\<open>DROP TABLE\<close> and \<^verbatim>\<open>ALTER TABLE\<close> take effect at once;
  \<^item> every \<^verbatim>\<open>INSERT\<close> of these scripts is followed by a commit, and a failed one
    leaves the database as it was.

  Two oracles stand for the driver, in \<open>sql_env\<close>:
  \<^item> \<open>sql_faults\<close> lists the statements that fail for a reason outside the schema
    (a locked or read-only file, a full disk), each with the driver's message;
  \<^item> \<open>driver_str\<close> renders an exception as \<^verbatim>\<open>str(e)\<close> does.

  Failures that follow from the schema are computed, with SQLite's messages: a missing
  table, a duplicate primary key of \<^verbatim>\<open>schema_version\<close>, a duplicate e-mail of
  \<^verbatim>\<open>users\<close>.
\<close>

section \<open>Data\<close>

datatype sql_stmt =
    CREATE_TABLE pystr
  | DROP_TABLE pystr
  | CREATE_SCHEMA_VERSION
  | INSERT_VERSION int
  | SELECT_MAX_VERSION
  | INSERT_USER
  | ALTER_ADD_COLUMN pystr

datatype db_error = OperationalError pystr | IntegrityError pystr

record sql_env =
  sql_faults :: "(sql_stmt \<times> pystr) list"
  driver_str :: "db_error \<Rightarrow> pystr"

record mig_state =
  sql_tables :: "(pystr \<times> pystr list) list"
  version_rows :: "int list"
  app_db :: db
  stdout :: "pystr list"

text \<open>A result with the state reached, also when an exception is raised.\<close>

type_synonym 'a mres = "(db_error + 'a) \<times> mig_state"

text \<open>The four tables of \<^verbatim>\<open>models.py\<close> (\<^verbatim>\<open>Base.metadata\<close>), with their columns,
  in the order \<^verbatim>\<open>create_all\<close> creates them.\<close>

definition USERS_COLUMNS :: "pystr list" where
  "USERS_COLUMNS = [''id'', ''username'', ''email'', ''hashed_password'', ''is_active'',
                    ''created_at'', ''updated_at'']"

definition ANALYSIS_RECORDS_COLUMNS :: "pystr list" where
  "ANALYSIS_RECORDS_COLUMNS =
     [''id'', ''analysis_id'', ''user_id'', ''ticker'', ''analysis_date'', ''analysts'',
      ''research_depth'', ''llm_provider'', ''shallow_thinker'', ''deep_thinker'', ''backend_url'',
      ''status'', ''current_step'', ''progress_percentage'', ''final_state'', ''trading_decision'',
      ''final_summary'', ''phases'', ''market_analysis'', ''sentiment_analysis'', ''news_analysis'',
      ''fundamentals_analysis'', ''risk_assessment'', ''error_message'', ''error_traceback'',
      ''created_at'', ''updated_at'', ''started_at'', ''completed_at'']"

definition ANALYSIS_LOGS_COLUMNS :: "pystr list" where
  "ANALYSIS_LOGS_COLUMNS = [''id'', ''analysis_record_id'', ''timestamp'', ''level'', ''message'',
                            ''agent'', ''step'', ''progress'', ''log_metadata'']"

definition EXPORT_RECORDS_COLUMNS :: "pystr list" where
  "EXPORT_RECORDS_COLUMNS =
     [''id'', ''user_id'', ''analysis_record_id'', ''export_format'', ''file_path'', ''file_size'',
      ''download_url'', ''export_options'', ''status'', ''expires_at'', ''downloaded_at'',
      ''error_message'', ''created_at'', ''updated_at'']"

definition MODEL_TABLES :: "(pystr \<times> pystr list) list" where
  "MODEL_TABLES = [(''users'', USERS_COLUMNS), (''analysis_records'', ANALYSIS_RECORDS_COLUMNS),
                   (''analysis_logs'', ANALYSIS_LOGS_COLUMNS), (''export_records'', EXPORT_RECORDS_COLUMNS)]"

definition SCHEMA_VERSION_COLUMNS :: "pystr list" where
  "SCHEMA_VERSION_COLUMNS = [''version'', ''applied_at'']"

section \<open>Statements\<close>

definition sql_fault :: "sql_env \<Rightarrow> sql_stmt \<Rightarrow> pystr option" where
  "sql_fault env st = map_of (sql_faults env) st"

definition print_line :: "pystr \<Rightarrow> mig_state \<Rightarrow> mig_state" where
  "print_line l s = s\<lparr>stdout := stdout s @ [l]\<rparr>"

definition check_table_exists :: "mig_state \<Rightarrow> pystr \<Rightarrow> bool" where
  "check_table_exists s t = (t \<in> set (map fst (sql_tables s)))"

text \<open>\<^verbatim>\<open>inspector.get_columns\<close> and \<^verbatim>\<open>PRAGMA table_info\<close>: no row for a missing table.\<close>

definition table_info :: "mig_state \<Rightarrow> pystr \<Rightarrow> pystr list" where
  "table_info s t = (case map_of (sql_tables s) t of Some cs \<Rightarrow> cs | None \<Rightarrow> [])"

definition check_column_exists :: "mig_state \<Rightarrow> pystr \<Rightarrow> pystr \<Rightarrow> bool" where
  "check_column_exists s t c =
     (if \<not> check_table_exists s t then False else list_ex (\<lambda>col. col = c) (table_info s t))"

text \<open>\<^verbatim>\<open>Table.create(engine, checkfirst=True)\<close>.\<close>

definition create_table :: "sql_env \<Rightarrow> pystr \<Rightarrow> pystr list \<Rightarrow> mig_state \<Rightarrow> unit mres" where
  "create_table env t cols s =
     (if check_table_exists s t then (Inr (), s)
      else case sql_fault env (CREATE_TABLE t) of
             Some m \<Rightarrow> (Inl (OperationalError m), s)
           | None \<Rightarrow> (Inr (), s\<lparr>sql_tables := sql_tables s @ [(t, cols)]\<rparr>))"

text \<open>Dropping a table drops its rows.\<close>

definition clear_rows :: "pystr \<Rightarrow> mig_state \<Rightarrow> mig_state" where
  "clear_rows t s =
     (if t = ''users'' then s\<lparr>app_db := (app_db s)\<lparr>users := [], next_user_id := 1\<rparr>\<rparr>
      else if t = ''analysis_records'' then s\<lparr>app_db := (app_db s)\<lparr>analyses := []\<rparr>\<rparr>
      else if t = ''schema_version'' then s\<lparr>version_rows := []\<rparr>
      else s)"

text \<open>\<^verbatim>\<open>Table.drop(engine, checkfirst=True)\<close>.\<close>

definition drop_table :: "sql_env \<Rightarrow> pystr \<Rightarrow> mig_state \<Rightarrow> unit mres" where
  "drop_table env t s =
     (if \<not> check_table_exists s t then (Inr (), s)
      else case sql_fault env (DROP_TABLE t) of
             Some m \<Rightarrow> (Inl (OperationalError m), s)
           | None \<Rightarrow> (Inr (), clear_rows t (s\<lparr>sql_tables := filter (\<lambda>(n, _). n \<noteq> t) (sql_tables s)\<rparr>)))"

text \<open>\<^verbatim>\<open>INSERT INTO schema_version (version) VALUES (v)\<close>, then \<^verbatim>\<open>commit\<close>;
  \<^verbatim>\<open>version\<close> is the primary key.\<close>

definition insert_version :: "sql_env \<Rightarrow> int \<Rightarrow> mig_state \<Rightarrow> unit mres" where
  "insert_version env v s =
     (case sql_fault env (INSERT_VERSION v) of
        Some m \<Rightarrow> (Inl (OperationalError m), s)
      | None \<Rightarrow>
          if \<not> check_table_exists s ''schema_version''
          then (Inl (OperationalError ''no such table: schema_version''), s)
          else if v \<in> set (version_rows s)
          then (Inl (IntegrityError ''UNIQUE constraint failed: schema_version.version''), s)
          else (Inr (), s\<lparr>version_rows := version_rows s @ [v]\<rparr>))"

text \<open>\<^verbatim>\<open>SELECT MAX(version)\<close>: SQL \<open>NULL\<close> (here \<open>None\<close>) on an empty table.\<close>

definition sql_max :: "int list \<Rightarrow> int option" where
  "sql_max vs = (case vs of [] \<Rightarrow> None | v # ws \<Rightarrow> Some (fold max ws v))"

section \<open>database.py\<close>

fun create_all :: "sql_env \<Rightarrow> (pystr \<times> pystr list) list \<Rightarrow> mig_state \<Rightarrow> unit mres" where
  "create_all env [] s = (Inr (), s)"
| "create_all env ((t, cols) # ts) s =
     (case create_table env t cols s of
        (Inl e, s') \<Rightarrow> (Inl e, s')
      | (Inr _, s') \<Rightarrow> create_all env ts s')"

fun drop_all :: "sql_env \<Rightarrow> pystr list \<Rightarrow> mig_state \<Rightarrow> unit mres" where
  "drop_all env [] s = (Inr (), s)"
| "drop_all env (t # ts) s =
     (case drop_table env t s of
        (Inl e, s') \<Rightarrow> (Inl e, s')
      | (Inr _, s') \<Rightarrow> drop_all env ts s')"

definition init_db :: "sql_env \<Rightarrow> mig_state \<Rightarrow> unit mres" where
  "init_db env s =
     (case create_all env MODEL_TABLES s of
        (Inl e, s') \<Rightarrow> (Inl e, s')
      | (Inr _, s') \<Rightarrow> (Inr (), print_line ''Database tables created successfully'' s'))"

text \<open>\<^verbatim>\<open>drop_all\<close> drops in reverse dependency order.\<close>

definition drop_db :: "sql_env \<Rightarrow> mig_state \<Rightarrow> unit mres" where
  "drop_db env s =
     (case drop_all env (rev (map fst MODEL_TABLES)) s of
        (Inl e, s') \<Rightarrow> (Inl e, s')
      | (Inr _, s') \<Rightarrow> (Inr (), print_line ''Database tables dropped successfully'' s'))"

section \<open>migrate_db.py\<close>

text \<open>\<^verbatim>\<open>result[0] if result and result[0] else 1\<close>: \<open>NULL\<close> and \<open>0\<close> are falsy.\<close>

definition version_value :: "int option \<Rightarrow> int" where
  "version_value r = (case r of None \<Rightarrow> 1 | Some v \<Rightarrow> if v \<noteq> 0 then v else 1)"

text \<open>\<^verbatim>\<open>get_current_version\<close> never raises: every exception inside gives 1. When the
  table is missing it is created, and the row 1 inserted in a second statement.\<close>

definition get_current_version :: "sql_env \<Rightarrow> mig_state \<Rightarrow> int \<times> mig_state" where
  "get_current_version env s =
     (if \<not> check_table_exists s ''schema_version'' then
        (case sql_fault env CREATE_SCHEMA_VERSION of
           Some _ \<Rightarrow> (1, s)
         | None \<Rightarrow>
             (let s1 = s\<lparr>sql_tables := sql_tables s @ [(''schema_version'', SCHEMA_VERSION_COLUMNS)]\<rparr>
              in (1, snd (insert_version env 1 s1))))
      else
        (case sql_fault env SELECT_MAX_VERSION of
           Some _ \<Rightarrow> (1, s)
         | None \<Rightarrow> (version_value (sql_max (version_rows s)), s)))"

definition set_version :: "sql_env \<Rightarrow> int \<Rightarrow> mig_state \<Rightarrow> unit mres" where
  "set_version env v s =
     (case insert_version env v s of
        (Inl e, s') \<Rightarrow> (Inl e, print_line (''Error setting version: '' @ driver_str env e) s')
      | r \<Rightarrow> r)"

text \<open>The four \<^verbatim>\<open>if not check_table_exists(...)\<close> blocks of \<^verbatim>\<open>migrate_v1_to_v2\<close>,
  in their order.\<close>

fun create_missing :: "sql_env \<Rightarrow> (pystr \<times> pystr list) list \<Rightarrow> mig_state \<Rightarrow> unit mres" where
  "create_missing env [] s = (Inr (), s)"
| "create_missing env ((t, cols) # ts) s =
     (if check_table_exists s t then create_missing env ts s
      else case create_table env t cols (print_line (''Creating '' @ t @ '' table...'') s) of
             (Inl e, s') \<Rightarrow> (Inl e, s')
           | (Inr _, s') \<Rightarrow> create_missing env ts s')"

definition migrate_v1_to_v2 :: "sql_env \<Rightarrow> mig_state \<Rightarrow> unit mres" where
  "migrate_v1_to_v2 env s =
     (case create_missing env MODEL_TABLES
             (print_line ''Running migration v1 -> v2: Adding user authentication tables'' s) of
        (Inl e, s') \<Rightarrow> (Inl e, print_line (''Error during migration v1 -> v2: '' @ driver_str env e) s')
      | (Inr _, s') \<Rightarrow> (Inr (), print_line ''Migration v1 -> v2 completed successfully'' s'))"

definition migrate_v2_to_v3 :: "mig_state \<Rightarrow> unit mres" where
  "migrate_v2_to_v3 s =
     (Inr (), print_line ''Migration v2 -> v3 completed successfully''
                (print_line ''Running migration v2 -> v3: Future enhancements'' s))"

datatype migration = MIGRATE_V1_TO_V2 | MIGRATE_V2_TO_V3

definition migration_func :: "sql_env \<Rightarrow> migration \<Rightarrow> mig_state \<Rightarrow> unit mres" where
  "migration_func env m s =
     (case m of MIGRATE_V1_TO_V2 \<Rightarrow> migrate_v1_to_v2 env s | MIGRATE_V2_TO_V3 \<Rightarrow> migrate_v2_to_v3 s)"

definition MIGRATIONS :: "(int \<times> migration) list" where
  "MIGRATIONS = [(2, MIGRATE_V1_TO_V2), (3, MIGRATE_V2_TO_V3)]"

text \<open>The \<^verbatim>\<open>for\<close> loop of \<^verbatim>\<open>run_migrations\<close>, returning \<^verbatim>\<open>current_version\<close>.\<close>

fun migration_loop :: "sql_env \<Rightarrow> int \<Rightarrow> (int \<times> migration) list \<Rightarrow> mig_state \<Rightarrow> int mres" where
  "migration_loop env cv [] s = (Inr cv, s)"
| "migration_loop env cv ((tv, f) # ms) s =
     (if cv < tv then
        (case migration_func env f (print_line (''Running migration to version '' @ int_str tv @ ''...'') s) of
           (Inl e, s1) \<Rightarrow> (Inl e, s1)
         | (Inr _, s1) \<Rightarrow>
             (case set_version env tv s1 of
                (Inl e, s2) \<Rightarrow> (Inl e, s2)
              | (Inr _, s2) \<Rightarrow> migration_loop env tv ms s2))
      else migration_loop env cv ms s)"

definition run_migrations :: "sql_env \<Rightarrow> mig_state \<Rightarrow> unit mres" where
  "run_migrations env s =
     (let (cv, s1) = get_current_version env s in
      case migration_loop env cv MIGRATIONS (print_line (''Current database version: '' @ int_str cv) s1) of
        (Inl e, s2) \<Rightarrow> (Inl e, s2)
      | (Inr cv', s2) \<Rightarrow> (Inr (), print_line (''Database is up to date (version '' @ int_str cv' @ '')'') s2))"

text \<open>The parsed command line: \<^verbatim>\<open>--check\<close> and \<^verbatim>\<open>--force-version N\<close>.\<close>

record mig_args =
  arg_check :: bool
  arg_force_version :: "int option"

text \<open>\<^verbatim>\<open>if args.force_version:\<close> is false for \<^verbatim>\<open>None\<close> and for \<^verbatim>\<open>0\<close>.\<close>

definition int_truthy :: "int option \<Rightarrow> bool" where
  "int_truthy x = (case x of None \<Rightarrow> False | Some v \<Rightarrow> v \<noteq> 0)"

text \<open>\<^verbatim>\<open>main\<close>: the exit status (0 when it returns, 1 from \<^verbatim>\<open>sys.exit(1)\<close>) and
  the final state.\<close>

definition migrate_main :: "sql_env \<Rightarrow> mig_args \<Rightarrow> mig_state \<Rightarrow> nat \<times> mig_state" where
  "migrate_main env a s =
     (if arg_check a then
        (let (v, s1) = get_current_version env s in
         (0, print_line (''Current database version: '' @ int_str v) s1))
      else if int_truthy (arg_force_version a) then
        (let v = the (arg_force_version a) in
         case set_version env v (print_line (''Force setting database version to '' @ int_str v) s) of
           (Inl e, s1) \<Rightarrow> (1, print_line (''Error during database migration: '' @ driver_str env e) s1)
         | (Inr _, s1) \<Rightarrow> (0, s1))
      else
        (case run_migrations env (print_line ''Running database migrations...'' s) of
           (Inl e, s1) \<Rightarrow> (1, print_line (''Error during database migration: '' @ driver_str env e) s1)
         | (Inr _, s1) \<Rightarrow> (0, print_line ''Database migrations completed successfully!'' s1)))"

section \<open>init_db.py\<close>

text \<open>\<^verbatim>\<open>db.add(user); db.commit()\<close> on the \<^verbatim>\<open>users\<close> table, whose e-mail column is
  unique. The id is the next free one, as in \<open>Web_Auth.create_user\<close>.\<close>

definition insert_user :: "sql_env \<Rightarrow> user \<Rightarrow> mig_state \<Rightarrow> db_error + mig_state" where
  "insert_user env u s =
     (case sql_fault env INSERT_USER of
        Some m \<Rightarrow> Inl (OperationalError m)
      | None \<Rightarrow>
          if get_user_by_email (app_db s) (email u) \<noteq> None
          then Inl (IntegrityError ''UNIQUE constraint failed: users.email'')
          else Inr (s\<lparr>app_db := (app_db s)\<lparr>users := users (app_db s) @ [u],
                                           next_user_id := Suc (next_user_id (app_db s))\<rparr>\<rparr>))"

definition SAMPLE_EMAIL :: pystr where
  "SAMPLE_EMAIL = ''admin@tradingagents.com''"

text \<open>\<^verbatim>\<open>create_sample_user\<close> catches every exception; the query for \<^verbatim>\<open>admin\<close>
  already fails when the \<^verbatim>\<open>users\<close> table is missing.\<close>

definition create_sample_user :: "sql_env \<Rightarrow> crypto \<Rightarrow> mig_state \<Rightarrow> mig_state" where
  "create_sample_user env c s =
     (let fail = (\<lambda>e. print_line (''Error creating sample user: '' @ driver_str env e) s) in
      if \<not> check_table_exists s ''users'' then fail (OperationalError ''no such table: users'')
      else if get_user_by_username (app_db s) ''admin'' \<noteq> None
      then print_line ''Sample user 'admin' already exists'' s
      else
        (let u = \<lparr>uid = next_user_id (app_db s), username = ''admin'', email = SAMPLE_EMAIL,
                  hashed_password = pw_hash c ''admin123'', is_active = True\<rparr> in
         case insert_user env u s of
           Inl e \<Rightarrow> fail e
         | Inr s' \<Rightarrow>
             fold print_line [''Sample user created:'', ''  Username: admin'', ''  Password: admin123'',
                              ''  Email: admin@tradingagents.com''] s'))"

record init_args =
  arg_drop :: bool
  arg_sample_user :: bool

definition init_main :: "sql_env \<Rightarrow> crypto \<Rightarrow> init_args \<Rightarrow> mig_state \<Rightarrow> nat \<times> mig_state" where
  "init_main env c a s =
     (let fail = (\<lambda>e s'. (1::nat, print_line (''Error during database initialization: '' @ driver_str env e) s'));
          dropped = (if arg_drop a then drop_db env (print_line ''Dropping existing database tables...'' s)
                     else (Inr (), s)) in
      case dropped of
        (Inl e, s1) \<Rightarrow> fail e s1
      | (Inr _, s1) \<Rightarrow>
          (case init_db env (print_line ''Initializing database tables...'' s1) of
             (Inl e, s2) \<Rightarrow> fail e s2
           | (Inr _, s2) \<Rightarrow>
               (let s3 = (if arg_sample_user a
                          then create_sample_user env c (print_line ''Creating sample user...'' s2) else s2)
                in (0, print_line ''Database initialization completed successfully!'' s3))))"

section \<open>migrate_add_fields.py\<close>

text \<open>\<^verbatim>\<open>ALTER TABLE analysis_records ADD COLUMN name type\<close>, then \<^verbatim>\<open>commit\<close>.\<close>

definition alter_add_column :: "sql_env \<Rightarrow> pystr \<Rightarrow> mig_state \<Rightarrow> db_error + mig_state" where
  "alter_add_column env name s =
     (case sql_fault env (ALTER_ADD_COLUMN name) of
        Some m \<Rightarrow> Inl (OperationalError m)
      | None \<Rightarrow>
          if \<not> check_table_exists s ''analysis_records''
          then Inl (OperationalError ''no such table: analysis_records'')
          else if name \<in> set (table_info s ''analysis_records'')
          then Inl (OperationalError (''duplicate column name: '' @ name))
          else Inr (s\<lparr>sql_tables := map (\<lambda>(t, cs). if t = ''analysis_records'' then (t, cs @ [name]) else (t, cs))
                                         (sql_tables s)\<rparr>))"

text \<open>The check marks of the script's messages lie outside the model's alphabet:
  \<open>ok_mark\<close> and \<open>fail_mark\<close> stand for them, \<open>done_text\<close> for the last line.\<close>

record add_fields_texts =
  ok_mark :: pystr
  fail_mark :: pystr
  done_text :: pystr

text \<open>One \<^verbatim>\<open>if name not in columns\<close> block; \<^verbatim>\<open>columns\<close> is read once, before both.\<close>

definition add_field :: "sql_env \<Rightarrow> add_fields_texts \<Rightarrow> pystr list \<Rightarrow> pystr \<Rightarrow> mig_state \<Rightarrow> mig_state" where
  "add_field env tx columns name s =
     (if name \<notin> set columns then
        (let s1 = print_line (''Adding '' @ name @ '' column...'') s in
         case alter_add_column env name s1 of
           Inl e \<Rightarrow> print_line (fail_mark tx @ '' Failed to add '' @ name @ '': '' @ driver_str env e) s1
         | Inr s2 \<Rightarrow> print_line (ok_mark tx @ '' Added '' @ name @ '' column'') s2)
      else print_line (ok_mark tx @ '' '' @ name @ '' column already exists'') s)"

definition migrate :: "sql_env \<Rightarrow> add_fields_texts \<Rightarrow> mig_state \<Rightarrow> mig_state" where
  "migrate env tx s =
     (let columns = table_info s ''analysis_records'' in
      print_line (done_text tx) (add_field env tx columns ''phases'' (add_field env tx columns ''final_summary'' s)))"

section \<open>Reachable schemas\<close>

text \<open>The version \<^verbatim>\<open>get_current_version\<close> reports when no statement fails.\<close>

definition stored_version :: "mig_state \<Rightarrow> int" where
  "stored_version s =
     (if check_table_exists s ''schema_version'' then version_value (sql_max (version_rows s)) else 1)"

text \<open>The invariant of the schema: table names and the columns of each table are
  distinct, the version rows are distinct and live in an existing table, and the users
  table keeps the invariant of \<open>Web_Auth\<close>.\<close>

definition schema_inv :: "mig_state \<Rightarrow> bool" where
  "schema_inv s =
     (distinct (map fst (sql_tables s)) \<and> list_all (\<lambda>(_, cs). distinct cs) (sql_tables s) \<and>
      distinct (version_rows s) \<and> (version_rows s = [] \<or> check_table_exists s ''schema_version'') \<and>
      db_inv (app_db s))"

text \<open>The schemas reachable from an empty database by the three scripts, by the
  \<^verbatim>\<open>init_db\<close> of the server's startup, and by registrations of \<^verbatim>\<open>auth.py\<close>, in any
  order and with any faults of the driver.\<close>

inductive schema_reach :: "mig_state \<Rightarrow> bool" where
  empty: "schema_reach \<lparr>sql_tables = [], version_rows = [], app_db = db_init, stdout = []\<rparr>"
| migrate_db: "schema_reach s \<Longrightarrow> schema_reach (snd (migrate_main env a s))"
| init_db_script: "schema_reach s \<Longrightarrow> schema_reach (snd (init_main env c b s))"
| add_fields: "schema_reach s \<Longrightarrow> schema_reach (migrate env tx s)"
| startup: "schema_reach s \<Longrightarrow> schema_reach (snd (init_db env s))"
| register: "schema_reach s \<Longrightarrow> check_table_exists s ''users'' \<Longrightarrow>
             create_user c (app_db s) name mail password = Inr (u, d') \<Longrightarrow>
             schema_reach (s\<lparr>app_db := d'\<rparr>)"

section \<open>Examples\<close>

definition env_ok :: sql_env where
  "env_ok = \<lparr>sql_faults = [], driver_str = (\<lambda>e. case e of OperationalError m \<Rightarrow> m | IntegrityError m \<Rightarrow> m)\<rparr>"

definition empty_schema :: mig_state where
  "empty_schema = \<lparr>sql_tables = [], version_rows = [], app_db = db_init, stdout = []\<rparr>"

definition no_args :: mig_args where
  "no_args = \<lparr>arg_check = False, arg_force_version = None\<rparr>"

definition schema_at_5 :: mig_state where
  "schema_at_5 = \<lparr>sql_tables = [(''schema_version'', SCHEMA_VERSION_COLUMNS)], version_rows = [5],
                  app_db = db_init, stdout = []\<rparr>"

definition schema_at_3 :: mig_state where
  "schema_at_3 = \<lparr>sql_tables = [(''schema_version'', SCHEMA_VERSION_COLUMNS)], version_rows = [1, 2, 3],
                  app_db = db_init, stdout = []\<rparr>"

text \<open>A driver whose version query fails, as on a locked database file.\<close>

definition env_locked :: sql_env where
  "env_locked = env_ok\<lparr>sql_faults := [(SELECT_MAX_VERSION, ''database is locked'')]\<rparr>"

text \<open>The exception of a second row with the same version.\<close>

definition DUPLICATE_VERSION :: db_error where
  "DUPLICATE_VERSION = IntegrityError ''UNIQUE constraint failed: schema_version.version''"

section \<open>Lemmas\<close>

text \<open>Printing touches only standard output.\<close>

lemma print_line_fields [simp]:
  "sql_tables (print_line l s) = sql_tables s" "version_rows (print_line l s) = version_rows s"
  "app_db (print_line l s) = app_db s"
  "check_table_exists (print_line l s) t = check_table_exists s t"
  "table_info (print_line l s) t = table_info s t"
  "stored_version (print_line l s) = stored_version s"
  "schema_inv (print_line l s) = schema_inv s"
  by (simp_all add: print_line_def check_table_exists_def table_info_def stored_version_def schema_inv_def)

lemma fold_print_line_fields [simp]:
  "sql_tables (fold print_line ls s) = sql_tables s" "version_rows (fold print_line ls s) = version_rows s"
  "app_db (fold print_line ls s) = app_db s"
  by (induction ls arbitrary: s) simp_all

lemma schema_inv_fold_print [simp]: "schema_inv (fold print_line ls s) = schema_inv s"
  by (induction ls arbitrary: s) simp_all

text \<open>Every statement and every function of the scripts keeps the invariant, whatever
  the driver fails; the lemmas are stated on the state reached, also after an exception.\<close>

lemma mres_case_inv:
  assumes "schema_inv (snd p)"
    and "\<And>e s. p = (Inl e, s) \<Longrightarrow> schema_inv s \<Longrightarrow> schema_inv (snd (f e s))"
    and "\<And>x s. p = (Inr x, s) \<Longrightarrow> schema_inv s \<Longrightarrow> schema_inv (snd (g x s))"
  shows "schema_inv (snd (case p of (Inl e, s) \<Rightarrow> f e s | (Inr x, s) \<Rightarrow> g x s))"
  using assms by (cases p; cases "fst p") auto

lemma create_table_inv:
  "schema_inv s \<Longrightarrow> distinct cols \<Longrightarrow> schema_inv (snd (create_table env t cols s))"
  by (auto simp: create_table_def schema_inv_def check_table_exists_def split: option.splits)

lemma clear_rows_inv:
  assumes "schema_inv s"
  shows "schema_inv (clear_rows t (s\<lparr>sql_tables := filter (\<lambda>(n, _). n \<noteq> t) (sql_tables s)\<rparr>))"
  using assms
  by (auto simp: clear_rows_def schema_inv_def check_table_exists_def db_inv_def distinct_map_filter
           list_all_iff)

lemma drop_table_inv: "schema_inv s \<Longrightarrow> schema_inv (snd (drop_table env t s))"
  using clear_rows_inv [of s t] by (simp add: drop_table_def split: option.splits)

lemma insert_version_inv: "schema_inv s \<Longrightarrow> schema_inv (snd (insert_version env v s))"
  by (auto simp: insert_version_def schema_inv_def check_table_exists_def split: option.splits)

lemma model_tables_distinct: "list_all (\<lambda>(_, cs). distinct cs) MODEL_TABLES"
  by (simp add: MODEL_TABLES_def USERS_COLUMNS_def ANALYSIS_RECORDS_COLUMNS_def
                ANALYSIS_LOGS_COLUMNS_def EXPORT_RECORDS_COLUMNS_def)

lemma create_all_inv:
  "schema_inv s \<Longrightarrow> list_all (\<lambda>(_, cs). distinct cs) ts \<Longrightarrow> schema_inv (snd (create_all env ts s))"
proof (induction env ts s rule: create_all.induct)
  case (2 env t cols ts s)
  then show ?case by (auto intro!: mres_case_inv create_table_inv)
qed simp

lemma drop_all_inv: "schema_inv s \<Longrightarrow> schema_inv (snd (drop_all env ts s))"
  by (induction env ts s rule: drop_all.induct) (auto intro!: mres_case_inv drop_table_inv)

lemma init_db_inv: "schema_inv s \<Longrightarrow> schema_inv (snd (init_db env s))"
  unfolding init_db_def by (auto intro!: mres_case_inv create_all_inv model_tables_distinct)

lemma drop_db_inv: "schema_inv s \<Longrightarrow> schema_inv (snd (drop_db env s))"
  unfolding drop_db_def by (auto intro!: mres_case_inv drop_all_inv)

lemma schema_version_columns_distinct: "distinct SCHEMA_VERSION_COLUMNS"
  by (simp add: SCHEMA_VERSION_COLUMNS_def)

lemma get_current_version_inv:
  assumes "schema_inv s"
  shows "schema_inv (snd (get_current_version env s))"
proof (cases "check_table_exists s ''schema_version''")
  case False
  let ?s1 = "s\<lparr>sql_tables := sql_tables s @ [(''schema_version'', SCHEMA_VERSION_COLUMNS)]\<rparr>"
  have "schema_inv ?s1"
    using assms False schema_version_columns_distinct by (auto simp: schema_inv_def check_table_exists_def)
  with assms False show ?thesis
    by (simp add: get_current_version_def insert_version_inv split: option.splits)
qed (use assms in \<open>simp add: get_current_version_def split: option.splits\<close>)

lemma set_version_inv: "schema_inv s \<Longrightarrow> schema_inv (snd (set_version env v s))"
  unfolding set_version_def by (auto intro!: mres_case_inv insert_version_inv)

lemma create_missing_inv:
  "schema_inv s \<Longrightarrow> list_all (\<lambda>(_, cs). distinct cs) ts \<Longrightarrow> schema_inv (snd (create_missing env ts s))"
proof (induction env ts s rule: create_missing.induct)
  case (2 env t cols ts s)
  then show ?case by (auto intro!: mres_case_inv create_table_inv)
qed simp

lemma migrate_v1_to_v2_inv: "schema_inv s \<Longrightarrow> schema_inv (snd (migrate_v1_to_v2 env s))"
  unfolding migrate_v1_to_v2_def by (auto intro!: mres_case_inv create_missing_inv model_tables_distinct)

lemma migration_func_inv: "schema_inv s \<Longrightarrow> schema_inv (snd (migration_func env m s))"
  by (cases m) (simp_all add: migration_func_def migrate_v2_to_v3_def migrate_v1_to_v2_inv)

lemma migration_loop_inv: "schema_inv s \<Longrightarrow> schema_inv (snd (migration_loop env cv ms s))"
  by (induction env cv ms s rule: migration_loop.induct)
     (auto intro!: mres_case_inv migration_func_inv set_version_inv)

lemma run_migrations_inv:
  assumes "schema_inv s"
  shows "schema_inv (snd (run_migrations env s))"
proof -
  obtain cv s1 where g: "get_current_version env s = (cv, s1)" by fastforce
  have "schema_inv s1" using get_current_version_inv [OF assms, of env] g by simp
  then show ?thesis unfolding run_migrations_def g by (auto intro!: mres_case_inv migration_loop_inv)
qed

lemma migrate_main_inv:
  assumes "schema_inv s"
  shows "schema_inv (snd (migrate_main env a s))"
proof -
  obtain cv s1 where g: "get_current_version env s = (cv, s1)" by fastforce
  have "schema_inv s1" using get_current_version_inv [OF assms, of env] g by simp
  moreover have "schema_inv (snd (case set_version env v s' of
                    (Inl e, s1) \<Rightarrow> (1::nat, print_line (''Error during database migration: '' @ driver_str env e) s1)
                  | (Inr _, s1) \<Rightarrow> (0, s1)))" if "schema_inv s'" for v s'
    using set_version_inv [OF that, of env v] by (auto split: prod.split sum.split)
  moreover have "schema_inv (snd (case run_migrations env s' of
                    (Inl e, s1) \<Rightarrow> (1::nat, print_line (''Error during database migration: '' @ driver_str env e) s1)
                  | (Inr _, s1) \<Rightarrow> (0, print_line ''Database migrations completed successfully!'' s1)))"
    if "schema_inv s'" for s'
    using run_migrations_inv [OF that, of env] by (auto split: prod.split sum.split)
  ultimately show ?thesis using assms unfolding migrate_main_def Let_def g by simp
qed



lemma create_sample_user_fields [simp]:
  "sql_tables (create_sample_user env c s) = sql_tables s"
  "version_rows (create_sample_user env c s) = version_rows s"
  by (auto simp: create_sample_user_def insert_user_def Let_def split: option.splits sum.splits)

text \<open>The sample user is created as a registration would create it.\<close>

lemma create_sample_user_db:
  "app_db (create_sample_user env c s) = app_db s \<or>
   (\<exists>u. create_user c (app_db s) ''admin'' SAMPLE_EMAIL ''admin123'' = Inr (u, app_db (create_sample_user env c s)))"
  by (auto simp: create_sample_user_def insert_user_def create_user_def Let_def
           split: option.splits sum.splits if_splits)



lemma create_sample_user_inv:
  assumes "schema_inv s"
  shows "schema_inv (create_sample_user env c s)"
proof -
  have inv: "db_inv (app_db s)" using assms by (simp add: schema_inv_def)
  have "db_inv (app_db (create_sample_user env c s))"
  proof (cases "app_db (create_sample_user env c s) = app_db s")
    case False
    then obtain u where "create_user c (app_db s) ''admin'' SAMPLE_EMAIL ''admin123'' =
                         Inr (u, app_db (create_sample_user env c s))"
      using create_sample_user_db [of env c s] by blast
    with inv show ?thesis by (rule create_user_inv)
  qed (simp add: inv)
  then show ?thesis using assms by (simp add: schema_inv_def check_table_exists_def)
qed


lemma init_main_inv:
  assumes "schema_inv s"
  shows "schema_inv (snd (init_main env c a s))"
proof -
  have "schema_inv (snd (if arg_drop a then drop_db env (print_line ''Dropping existing database tables...'' s)
                         else (Inr (), s)))"
    using assms drop_db_inv by simp
  then show ?thesis
    unfolding init_main_def Let_def
    by (intro mres_case_inv) (auto intro!: mres_case_inv init_db_inv create_sample_user_inv)
qed


lemma table_info_mem:
  "distinct (map fst (sql_tables s)) \<Longrightarrow> (t, cs) \<in> set (sql_tables s) \<Longrightarrow> table_info s t = cs"
  by (simp add: table_info_def)

lemma alter_add_column_inv:
  assumes "schema_inv s" "alter_add_column env name s = Inr s'"
  shows "schema_inv s'"
proof -
  have d: "distinct (map fst (sql_tables s))" and n: "name \<notin> set (table_info s ''analysis_records'')"
    and s': "s' = s\<lparr>sql_tables := map (\<lambda>(t, cs). if t = ''analysis_records'' then (t, cs @ [name]) else (t, cs))
                                      (sql_tables s)\<rparr>"
    using assms by (auto simp: alter_add_column_def schema_inv_def split: option.splits if_splits)
  have fst_eq: "map fst (sql_tables s') = map fst (sql_tables s)"
    unfolding s' by (induction "sql_tables s") auto
  have cols: "list_all (\<lambda>(_, cs). distinct cs) (sql_tables s')"
  proof -
    have "distinct (snd (if t = ''analysis_records'' then (t, cs @ [name]) else (t, cs)))"
      if m: "(t, cs) \<in> set (sql_tables s)" for t cs
    proof -
      have "distinct cs" using assms(1) m by (auto simp: schema_inv_def list_all_iff)
      moreover have "t = ''analysis_records'' \<Longrightarrow> name \<notin> set cs" using n table_info_mem [OF d m] by simp
      ultimately show ?thesis by simp
    qed
    then show ?thesis by (force simp: s' list_all_iff)
  qed
  show ?thesis
    using assms(1) cols unfolding schema_inv_def check_table_exists_def fst_eq by (simp add: s')
qed

lemma add_field_inv:
  assumes "schema_inv s"
  shows "schema_inv (add_field env tx columns name s)"
proof -
  let ?s1 = "print_line (''Adding '' @ name @ '' column...'') s"
  have "schema_inv s'" if "alter_add_column env name ?s1 = Inr s'" for s'
    using alter_add_column_inv [OF _ that] assms by simp
  then show ?thesis using assms by (auto simp: add_field_def Let_def split: sum.split)
qed

lemma migrate_inv: "schema_inv s \<Longrightarrow> schema_inv (migrate env tx s)"
  by (simp add: migrate_def Let_def add_field_inv)

lemma register_inv:
  "schema_inv s \<Longrightarrow> create_user c (app_db s) name mail password = Inr (u, d') \<Longrightarrow> schema_inv (s\<lparr>app_db := d'\<rparr>)"
  by (auto simp: schema_inv_def check_table_exists_def dest: create_user_inv)

lemma empty_schema_inv: "schema_inv \<lparr>sql_tables = [], version_rows = [], app_db = db_init, stdout = []\<rparr>"
  by (simp add: schema_inv_def db_inv_def db_init_def)

text \<open>Every schema reachable from an empty database by the migration script, the
  initialisation script, the column migration, the server's \<^verbatim>\<open>init_db\<close> and
  registrations, in any order and whatever statements the driver fails, keeps distinct
  table names, distinct columns per table, distinct version rows inside an existing version
  table, and the invariant of the users table.\<close>

theorem schema_reach_inv: "schema_reach s \<Longrightarrow> schema_inv s"
proof (induction rule: schema_reach.induct)
  case empty
  show ?case by (rule empty_schema_inv)
next
  case (migrate_db s env a)
  show ?case by (rule migrate_main_inv [OF migrate_db.IH])
next
  case (init_db_script s env c b)
  show ?case by (rule init_main_inv [OF init_db_script.IH])
next
  case (add_fields s env tx)
  show ?case by (rule migrate_inv [OF add_fields.IH])
next
  case (startup s env)
  show ?case by (rule init_db_inv [OF startup.IH])
next
  case (register s c name mail password u d')
  show ?case by (rule register_inv [OF register.IH register.hyps(3)])
qed


text \<open>\<^verbatim>\<open>--force-version 0\<close> is taken as absent: the migrations run instead.\<close>

lemma force_version_zero_runs_migrations:
  "migrate_main env (a\<lparr>arg_force_version := Some 0\<rparr>) s = migrate_main env (a\<lparr>arg_force_version := None\<rparr>) s"
  by (simp add: migrate_main_def int_truthy_def)

text \<open>Behaviour when the driver fails no statement.\<close>

lemma check_table_exists_upd [simp]:
  "check_table_exists (s\<lparr>version_rows := vs\<rparr>) t = check_table_exists s t"
  "check_table_exists (s\<lparr>app_db := d\<rparr>) t = check_table_exists s t"
  by (simp_all add: check_table_exists_def)

lemma sql_fault_ok [simp]: "sql_faults env = [] \<Longrightarrow> sql_fault env st = None"
  by (simp add: sql_fault_def)

lemma sql_max_Max: "sql_max vs = (if vs = [] then None else Some (Max (set vs)))"
proof (cases vs)
  case (Cons v ws)
  have "fold max ws v = Max (set (v # ws))" by (rule Max.set_eq_fold [symmetric])
  with Cons show ?thesis by (simp add: sql_max_def)
qed (simp add: sql_max_def)

lemma rows_le_stored_version:
  assumes "check_table_exists s ''schema_version''" "v \<in> set (version_rows s)"
  shows "v \<le> stored_version s"
proof -
  have m: "v \<le> Max (set (version_rows s))" using assms(2) by simp
  have sv: "stored_version s = (if Max (set (version_rows s)) \<noteq> 0 then Max (set (version_rows s)) else 1)"
    using assms by (auto simp: stored_version_def version_value_def sql_max_Max)
  show ?thesis using m sv by (auto simp del: Max_ge_iff)
qed

lemma get_current_version_ok:
  assumes "sql_faults env = []" "schema_inv s"
  shows "fst (get_current_version env s) = stored_version s"
    and "check_table_exists (snd (get_current_version env s)) ''schema_version''"
    and "stored_version (snd (get_current_version env s)) = stored_version s"
    and "check_table_exists (snd (get_current_version env s)) t =
           (check_table_exists s t \<or> t = ''schema_version'')"
    and "app_db (snd (get_current_version env s)) = app_db s"
    and "check_table_exists s ''schema_version'' \<Longrightarrow> snd (get_current_version env s) = s"
proof -
  have "\<not> check_table_exists s ''schema_version'' \<Longrightarrow> version_rows s = []"
    using assms(2) by (simp add: schema_inv_def)
  then show "fst (get_current_version env s) = stored_version s"
    and "check_table_exists (snd (get_current_version env s)) ''schema_version''"
    and "stored_version (snd (get_current_version env s)) = stored_version s"
    and "check_table_exists (snd (get_current_version env s)) t =
           (check_table_exists s t \<or> t = ''schema_version'')"
    and "app_db (snd (get_current_version env s)) = app_db s"
    and "check_table_exists s ''schema_version'' \<Longrightarrow> snd (get_current_version env s) = s"
    using assms(1)
    by (auto simp: get_current_version_def insert_version_def stored_version_def check_table_exists_def
                   version_value_def sql_max_def)
qed


lemma create_missing_ok:
  assumes "\<And>t. sql_fault env (CREATE_TABLE t) = None"
  shows "fst (create_missing env ts s) = Inr ()
       \<and> check_table_exists (snd (create_missing env ts s)) t = (check_table_exists s t \<or> t \<in> fst ` set ts)
       \<and> version_rows (snd (create_missing env ts s)) = version_rows s
       \<and> app_db (snd (create_missing env ts s)) = app_db s"
  using assms
  by (induction env ts s rule: create_missing.induct)
     (auto simp: create_table_def check_table_exists_def print_line_def)

lemma migrate_v1_to_v2_ok:
  assumes "\<And>t. sql_fault env (CREATE_TABLE t) = None"
  shows "fst (migrate_v1_to_v2 env s) = Inr ()
       \<and> check_table_exists (snd (migrate_v1_to_v2 env s)) t = (check_table_exists s t \<or> t \<in> fst ` set MODEL_TABLES)
       \<and> version_rows (snd (migrate_v1_to_v2 env s)) = version_rows s
       \<and> app_db (snd (migrate_v1_to_v2 env s)) = app_db s"
  using create_missing_ok [OF assms, of MODEL_TABLES
                           "print_line ''Running migration v1 -> v2: Adding user authentication tables'' s" t]
  by (auto simp: migrate_v1_to_v2_def split: prod.split sum.split)

lemma set_version_ok:
  assumes "sql_faults env = []" "check_table_exists s ''schema_version''" "v \<notin> set (version_rows s)"
  shows "set_version env v s = (Inr (), s\<lparr>version_rows := version_rows s @ [v]\<rparr>)"
  using assms by (simp add: set_version_def insert_version_def)

lemma migration_func_ok:
  assumes "sql_faults env = []"
  shows "migration_func env f s = (Inr (), snd (migration_func env f s))
       \<and> check_table_exists (snd (migration_func env f s)) t =
           (check_table_exists s t \<or> (f = MIGRATE_V1_TO_V2 \<and> t \<in> fst ` set MODEL_TABLES))
       \<and> version_rows (snd (migration_func env f s)) = version_rows s
       \<and> app_db (snd (migration_func env f s)) = app_db s"
proof (cases f)
  case MIGRATE_V1_TO_V2
  then show ?thesis
    using migrate_v1_to_v2_ok [OF sql_fault_ok [OF assms], of s t] by (simp add: migration_func_def prod_eq_iff)
qed (simp add: migration_func_def migrate_v2_to_v3_def)

lemma migration_loop_step:
  assumes "sql_faults env = []" "cv < tv" "check_table_exists s ''schema_version''"
    and "\<forall>v\<in>set (version_rows s). v \<le> cv"
  obtains s2 where
    "migration_loop env cv ((tv, f) # ms) s = migration_loop env tv ms (s2\<lparr>version_rows := version_rows s @ [tv]\<rparr>)"
    "\<And>t. check_table_exists s2 t = (check_table_exists s t \<or> (f = MIGRATE_V1_TO_V2 \<and> t \<in> fst ` set MODEL_TABLES))"
    "version_rows s2 = version_rows s" "app_db s2 = app_db s"
proof -
  let ?s1 = "print_line (''Running migration to version '' @ int_str tv @ ''...'') s"
  define s2 where "s2 = snd (migration_func env f ?s1)"
  have m: "migration_func env f ?s1 = (Inr (), s2)"
    and t: "\<And>t. check_table_exists s2 t = (check_table_exists s t \<or> (f = MIGRATE_V1_TO_V2 \<and> t \<in> fst ` set MODEL_TABLES))"
    and r: "version_rows s2 = version_rows s" and d: "app_db s2 = app_db s"
    using migration_func_ok [OF assms(1), of f ?s1] unfolding s2_def [symmetric] by simp_all
  have "tv \<notin> set (version_rows s2)" using assms(2,4) r by auto
  then have v: "set_version env tv s2 = (Inr (), s2\<lparr>version_rows := version_rows s @ [tv]\<rparr>)"
    using set_version_ok [OF assms(1)] t assms(3) r by simp
  show ?thesis
  proof (rule that [of s2])
    show "migration_loop env cv ((tv, f) # ms) s = migration_loop env tv ms (s2\<lparr>version_rows := version_rows s @ [tv]\<rparr>)"
      apply (subst migration_loop.simps(2))
      apply (simp only: if_P [OF assms(2)] m v prod.case sum.case)
      done
  qed (simp_all only: t r d)
qed

lemma migration_loop_ok:
  assumes "sql_faults env = []" "check_table_exists s ''schema_version''"
    and "\<forall>v\<in>set (version_rows s). v \<le> cv"
  shows "fst (migration_loop env cv MIGRATIONS s) = Inr (max cv 3)
       \<and> version_rows (snd (migration_loop env cv MIGRATIONS s)) = version_rows s @ filter (\<lambda>v. cv < v) [2, 3]
       \<and> check_table_exists (snd (migration_loop env cv MIGRATIONS s)) t =
           (check_table_exists s t \<or> (cv < 2 \<and> t \<in> fst ` set MODEL_TABLES))
       \<and> app_db (snd (migration_loop env cv MIGRATIONS s)) = app_db s"
proof (cases "cv < 2")
  case True
  obtain s2 where l2: "migration_loop env cv ((2, MIGRATE_V1_TO_V2) # [(3, MIGRATE_V2_TO_V3)]) s =
                       migration_loop env 2 [(3, MIGRATE_V2_TO_V3)] (s2\<lparr>version_rows := version_rows s @ [2]\<rparr>)"
    and t2': "\<And>t. check_table_exists s2 t =
                (check_table_exists s t \<or> (MIGRATE_V1_TO_V2 = MIGRATE_V1_TO_V2 \<and> t \<in> fst ` set MODEL_TABLES))"
    and r2: "version_rows s2 = version_rows s" and d2: "app_db s2 = app_db s"
    using migration_loop_step [OF assms(1) True assms(2,3), of MIGRATE_V1_TO_V2 "[(3, MIGRATE_V2_TO_V3)]"]
    by blast
  have t2: "check_table_exists s2 t = (check_table_exists s t \<or> t \<in> fst ` set MODEL_TABLES)" for t
    using t2' by simp
  let ?s2 = "s2\<lparr>version_rows := version_rows s @ [2]\<rparr>"
  have c1: "check_table_exists ?s2 ''schema_version''" using t2 assms(2) by simp
  have c2: "\<forall>v\<in>set (version_rows ?s2). v \<le> 2" using assms(3) True by auto
  have lt: "(2::int) < 3" by simp
  obtain s3 where l3: "migration_loop env 2 [(3, MIGRATE_V2_TO_V3)] ?s2 =
                                  migration_loop env 3 [] (s3\<lparr>version_rows := version_rows ?s2 @ [3]\<rparr>)"
    and t3': "\<And>t. check_table_exists s3 t =
                (check_table_exists ?s2 t \<or> (MIGRATE_V2_TO_V3 = MIGRATE_V1_TO_V2 \<and> t \<in> fst ` set MODEL_TABLES))"
    and r3: "version_rows s3 = version_rows ?s2" and d3: "app_db s3 = app_db ?s2"
    using migration_loop_step [OF assms(1) lt c1 c2, of MIGRATE_V2_TO_V3 "[]"] by blast
  have t3: "check_table_exists s3 t = check_table_exists ?s2 t" for t using t3' by simp
  show ?thesis unfolding MIGRATIONS_def l2 l3 migration_loop.simps(1) using True t3 t2 d3 d2 by simp
next
  case False
  show ?thesis
  proof (cases "cv < 3")
    case True
    have e: "migration_loop env cv MIGRATIONS s = migration_loop env cv [(3, MIGRATE_V2_TO_V3)] s"
      unfolding MIGRATIONS_def by (subst migration_loop.simps(2)) (simp only: if_not_P [OF False])
    obtain s3 where l3: "migration_loop env cv [(3, MIGRATE_V2_TO_V3)] s =
                         migration_loop env 3 [] (s3\<lparr>version_rows := version_rows s @ [3]\<rparr>)"
      and t3': "\<And>t. check_table_exists s3 t =
                  (check_table_exists s t \<or> (MIGRATE_V2_TO_V3 = MIGRATE_V1_TO_V2 \<and> t \<in> fst ` set MODEL_TABLES))"
      and r3: "version_rows s3 = version_rows s" and d3: "app_db s3 = app_db s"
      using migration_loop_step [OF assms(1) True assms(2,3), of MIGRATE_V2_TO_V3 "[]"] by blast
    have t3: "check_table_exists s3 t = check_table_exists s t" for t using t3' by simp
    show ?thesis unfolding e l3 migration_loop.simps(1) using False True t3 d3 by simp
  next
    case False
    then have "migration_loop env cv MIGRATIONS s = (Inr cv, s)"
      unfolding MIGRATIONS_def using \<open>\<not> cv < 2\<close>
      by (simp only: migration_loop.simps if_not_P [OF \<open>\<not> cv < 2\<close>] if_not_P [OF False] if_False)
    then show ?thesis using False \<open>\<not> cv < 2\<close> by simp
  qed
qed


lemma version_value_3:
  assumes "\<forall>v\<in>set vs. v \<le> 3" "3 \<in> set vs"
  shows "version_value (sql_max vs) = 3"
proof -
  have "Max (set vs) = 3" using assms by (intro Max_eqI) auto
  then show ?thesis using assms(2) by (auto simp: version_value_def sql_max_Max)
qed

lemma migration_loop_done: "3 \<le> cv \<Longrightarrow> migration_loop env cv MIGRATIONS s = (Inr cv, s)"
  unfolding MIGRATIONS_def by (simp only: migration_loop.simps) simp

lemma run_migrations_ok:
  assumes "sql_faults env = []" "schema_inv s"
  shows "fst (run_migrations env s) = Inr ()
       \<and> stored_version (snd (run_migrations env s)) = max 3 (stored_version s)
       \<and> check_table_exists (snd (run_migrations env s)) t =
           (check_table_exists s t \<or> t = ''schema_version'' \<or> (stored_version s < 2 \<and> t \<in> fst ` set MODEL_TABLES))
       \<and> app_db (snd (run_migrations env s)) = app_db s"
proof -
  let ?cv = "stored_version s"
  define s1 where "s1 = snd (get_current_version env s)"
  have g: "get_current_version env s = (?cv, s1)"
    using get_current_version_ok(1) [OF assms] unfolding s1_def by (simp add: prod_eq_iff)
  have sv1: "check_table_exists s1 ''schema_version''" and st1: "stored_version s1 = ?cv"
    and t1: "check_table_exists s1 t = (check_table_exists s t \<or> t = ''schema_version'')"
    and d1: "app_db s1 = app_db s"
    using get_current_version_ok(2,3,5) [OF assms] get_current_version_ok(4) [OF assms, of t]
    unfolding s1_def by simp_all
  let ?p1 = "print_line (''Current database version: '' @ int_str ?cv) s1"
  have le: "\<forall>v\<in>set (version_rows ?p1). v \<le> ?cv"
    using rows_le_stored_version [OF sv1] st1 by simp
  define s2 where "s2 = snd (migration_loop env ?cv MIGRATIONS ?p1)"
  have lo: "fst (migration_loop env ?cv MIGRATIONS ?p1) = Inr (max ?cv 3)
       \<and> version_rows s2 = version_rows s1 @ filter (\<lambda>v. ?cv < v) [2, 3]
       \<and> check_table_exists s2 t' = (check_table_exists s1 t' \<or> (?cv < 2 \<and> t' \<in> fst ` set MODEL_TABLES))
       \<and> app_db s2 = app_db s1" for t'
    using migration_loop_ok [OF assms(1), of ?p1 ?cv t'] sv1 le unfolding s2_def by simp
  have m: "migration_loop env ?cv MIGRATIONS ?p1 = (Inr (max ?cv 3), s2)"
    using lo unfolding s2_def by (simp add: prod_eq_iff)
  have r2: "version_rows s2 = version_rows s1 @ filter (\<lambda>v. ?cv < v) [2, 3]"
    and sv2: "check_table_exists s2 ''schema_version''"
    and t2: "check_table_exists s2 t = (check_table_exists s1 t \<or> (?cv < 2 \<and> t \<in> fst ` set MODEL_TABLES))"
    and d2: "app_db s2 = app_db s1"
    using lo [of "''schema_version''"] lo [of t] sv1 by simp_all
  have "stored_version s2 = max 3 ?cv"
  proof (cases "?cv < 3")
    case True
    have "\<forall>v\<in>set (version_rows s2). v \<le> 3" "3 \<in> set (version_rows s2)"
      using r2 le True by auto
    then show ?thesis using True sv2 by (simp add: stored_version_def version_value_3)
  next
    case False
    then show ?thesis using r2 st1 sv1 sv2 by (simp add: stored_version_def)
  qed
  then show ?thesis
    using t1 t2 d1 d2 unfolding run_migrations_def g Let_def prod.case m by simp
qed


lemma migrate_main_ok:
  assumes "sql_faults env = []" "\<not> arg_check a" "\<not> int_truthy (arg_force_version a)" "schema_inv s"
  shows "fst (migrate_main env a s) = 0
       \<and> stored_version (snd (migrate_main env a s)) = max 3 (stored_version s)
       \<and> check_table_exists (snd (migrate_main env a s)) ''schema_version''
       \<and> (stored_version s < 2 \<longrightarrow> (\<forall>(t, _) \<in> set MODEL_TABLES. check_table_exists (snd (migrate_main env a s)) t))"
proof -
  let ?s0 = "print_line ''Running database migrations...'' s"
  have i0: "schema_inv ?s0" using assms(4) by simp
  define s1 where "s1 = snd (run_migrations env ?s0)"
  have r: "run_migrations env ?s0 = (Inr (), s1)"
    using run_migrations_ok [OF assms(1) i0] unfolding s1_def by (simp add: prod_eq_iff)
  have "stored_version s1 = max 3 (stored_version s)"
    "check_table_exists s1 t = (check_table_exists s t \<or> t = ''schema_version'' \<or> (stored_version s < 2 \<and> t \<in> fst ` set MODEL_TABLES))" for t
    using run_migrations_ok [OF assms(1) i0, of t] unfolding s1_def by simp_all
  then show ?thesis
    using assms(2,3) unfolding migrate_main_def r by (force simp: image_iff)
qed

text \<open>C15: when no statement fails, \<^verbatim>\<open>python migrate_db.py\<close> without options exits
  with status 0, leaves the version table present with the version \<open>max 3 v\<close> for the
  version \<open>v\<close> it found, and, when \<open>v < 2\<close>, leaves the four tables of \<^verbatim>\<open>models.py\<close>
  present.\<close>

theorem migrate_main_up_to_date:
  assumes "sql_faults env = []" "\<not> arg_check a" "\<not> int_truthy (arg_force_version a)" "schema_inv s"
  shows "fst (migrate_main env a s) = 0
       \<and> stored_version (snd (migrate_main env a s)) = max 3 (stored_version s)
       \<and> check_table_exists (snd (migrate_main env a s)) ''schema_version''
       \<and> (stored_version s < 2 \<longrightarrow> (\<forall>(t, _) \<in> set MODEL_TABLES. check_table_exists (snd (migrate_main env a s)) t))"
  using assms by (rule migrate_main_ok)

theorem migrate_main_up_to_date_witness:
  "fst (migrate_main env_ok no_args empty_schema) = 0 \<and>
   stored_version (snd (migrate_main env_ok no_args empty_schema)) = 3"
proof -
  have "stored_version empty_schema = 1" "schema_inv empty_schema"
    by (simp_all add: empty_schema_def stored_version_def check_table_exists_def empty_schema_inv)
  then show ?thesis
    using migrate_main_up_to_date [of env_ok no_args empty_schema] by (simp add: env_ok_def no_args_def int_truthy_def)
qed


lemma run_migrations_done:
  assumes "sql_faults env = []" "schema_inv s" "check_table_exists s ''schema_version''" "3 \<le> stored_version s"
  shows "run_migrations env s =
           (Inr (), print_line (''Database is up to date (version '' @ int_str (stored_version s) @ '')'')
                      (print_line (''Current database version: '' @ int_str (stored_version s)) s))"
proof -
  have g: "get_current_version env s = (stored_version s, s)"
    using get_current_version_ok(1,6) [OF assms(1,2)] assms(3) by (simp add: prod_eq_iff)
  show ?thesis unfolding run_migrations_def g Let_def prod.case migration_loop_done [OF assms(4)] by simp
qed

lemma stdout_reset [simp]: "(print_line l s)\<lparr>stdout := x\<rparr> = s\<lparr>stdout := x\<rparr>"
  by (simp add: print_line_def)

text \<open>C21: when no statement fails, running \<^verbatim>\<open>migrate_db.py\<close> a second time exits with
  status 0 and changes nothing but standard output.\<close>

theorem migrate_main_idempotent:
  assumes "sql_faults env = []" "\<not> arg_check a" "\<not> int_truthy (arg_force_version a)" "schema_inv s"
  shows "fst (migrate_main env a (snd (migrate_main env a s))) = 0
       \<and> (snd (migrate_main env a (snd (migrate_main env a s))))\<lparr>stdout := stdout (snd (migrate_main env a s))\<rparr>
           = snd (migrate_main env a s)"
proof -
  define s1 where "s1 = snd (migrate_main env a s)"
  have i1: "schema_inv s1" unfolding s1_def by (rule migrate_main_inv [OF assms(4)])
  have v1: "3 \<le> stored_version s1" and t1: "check_table_exists s1 ''schema_version''"
    using migrate_main_ok [OF assms] unfolding s1_def by simp_all
  let ?s0 = "print_line ''Running database migrations...'' s1"
  have rm: "run_migrations env ?s0 =
          (Inr (), print_line (''Database is up to date (version '' @ int_str (stored_version s1) @ '')'')
                     (print_line (''Current database version: '' @ int_str (stored_version s1)) ?s0))"
    using run_migrations_done [of env ?s0] assms(1) i1 t1 v1 by simp
  show ?thesis
    unfolding s1_def [symmetric] unfolding migrate_main_def
    by (simp only: if_not_P [OF assms(2)] if_not_P [OF assms(3)] rm prod.case sum.case) simp
qed

theorem migrate_main_idempotent_witness:
  "fst (migrate_main env_ok no_args (snd (migrate_main env_ok no_args empty_schema))) = 0"
proof -
  have "schema_inv empty_schema" by (simp add: empty_schema_def empty_schema_inv)
  then show ?thesis
    using migrate_main_idempotent [of env_ok no_args empty_schema] by (simp add: env_ok_def no_args_def int_truthy_def)
qed


text \<open>C26: \<^verbatim>\<open>--force-version v\<close> with a version below the current one inserts the row
  and exits with status 0, but the version the script reports afterwards, the maximum of
  the table, is unchanged: the option cannot set the version back.\<close>

theorem force_version_below_ignored:
  assumes "sql_faults env = []" "\<not> arg_check a" "arg_force_version a = Some v" "0 < v"
    and "schema_inv s" "check_table_exists s ''schema_version''" "v \<notin> set (version_rows s)"
    and "v < stored_version s"
  shows "fst (migrate_main env a s) = 0
       \<and> v \<in> set (version_rows (snd (migrate_main env a s)))
       \<and> stored_version (snd (migrate_main env a s)) = stored_version s"
proof -
  have ne: "version_rows s \<noteq> []" and m0: "Max (set (version_rows s)) \<noteq> 0"
    and sv: "stored_version s = Max (set (version_rows s))"
    using assms(4,6,8) by (auto simp: stored_version_def version_value_def sql_max_Max split: if_splits)
  let ?s1 = "print_line (''Force setting database version to '' @ int_str v) s"
  have sv1: "set_version env v ?s1 = (Inr (), ?s1\<lparr>version_rows := version_rows s @ [v]\<rparr>)"
    using set_version_ok [OF assms(1), of ?s1 v] assms(6,7) by simp
  have "Max (set (version_rows s @ [v])) = Max (set (version_rows s))"
    using ne assms(8) sv by (simp add: max_def)
  then have "stored_version (?s1\<lparr>version_rows := version_rows s @ [v]\<rparr>) = stored_version s"
    using assms(6) sv m0 by (simp add: stored_version_def version_value_def sql_max_Max)
  moreover have "int_truthy (arg_force_version a)" using assms(3,4) by (simp add: int_truthy_def)
  ultimately show ?thesis
    unfolding migrate_main_def Let_def
    by (simp only: if_not_P [OF assms(2)] if_P [OF \<open>int_truthy _\<close>] assms(3) option.sel sv1 prod.case sum.case) simp
qed


theorem force_version_below_ignored_witness:
  "fst (migrate_main env_ok \<lparr>arg_check = False, arg_force_version = Some 2\<rparr> schema_at_5) = 0
   \<and> stored_version (snd (migrate_main env_ok \<lparr>arg_check = False, arg_force_version = Some 2\<rparr> schema_at_5)) = 5"
proof -
  have "schema_inv schema_at_5" "check_table_exists schema_at_5 ''schema_version''"
       "stored_version schema_at_5 = 5" "2 \<notin> set (version_rows schema_at_5)"
    by (simp_all add: schema_at_5_def schema_inv_def db_inv_def db_init_def check_table_exists_def
                      SCHEMA_VERSION_COLUMNS_def stored_version_def version_value_def sql_max_def)
  then show ?thesis
    using force_version_below_ignored [of env_ok "\<lparr>arg_check = False, arg_force_version = Some 2\<rparr>" 2 schema_at_5]
    by (simp add: env_ok_def)
qed

text \<open>C31: when the query of the current version fails (a locked database file), the
  script takes the version to be 1, reruns the first migration and fails with a duplicate
  key on inserting version 2, exiting with status 1.\<close>

theorem version_read_failure_fails_migration:
  assumes "sql_fault env SELECT_MAX_VERSION \<noteq> None" "\<And>t. sql_fault env (CREATE_TABLE t) = None"
    and "sql_fault env (INSERT_VERSION 2) = None"
    and "\<not> arg_check a" "\<not> int_truthy (arg_force_version a)"
    and "check_table_exists s ''schema_version''" "2 \<in> set (version_rows s)"
  shows "fst (migrate_main env a s) = 1
       \<and> last (stdout (snd (migrate_main env a s))) = ''Error during database migration: '' @ driver_str env DUPLICATE_VERSION"
proof -
  let ?s0 = "print_line ''Running database migrations...'' s"
  have g: "get_current_version env ?s0 = (1, ?s0)"
    using assms(1,6) by (auto simp: get_current_version_def)
  let ?s1 = "print_line (''Current database version: '' @ int_str 1) ?s0"
  let ?s2 = "print_line (''Running migration to version '' @ int_str 2 @ ''...'') ?s1"
  define s3 where "s3 = snd (migrate_v1_to_v2 env ?s2)"
  have m: "migration_func env MIGRATE_V1_TO_V2 ?s2 = (Inr (), s3)"
    and t3: "check_table_exists s3 ''schema_version''" and r3: "version_rows s3 = version_rows s"
    using migrate_v1_to_v2_ok [OF assms(2), of ?s2] migrate_v1_to_v2_ok [OF assms(2), of ?s2 "''schema_version''"]
      assms(6) unfolding s3_def by (simp_all add: migration_func_def prod_eq_iff)
  have v: "set_version env 2 s3 =
             (Inl DUPLICATE_VERSION, print_line (''Error setting version: '' @ driver_str env DUPLICATE_VERSION) s3)"
    using assms(3,7) t3 r3 by (simp add: set_version_def insert_version_def DUPLICATE_VERSION_def)
  have lt: "(1::int) < 2" by simp
  have l: "migration_loop env 1 MIGRATIONS ?s1 =
             (Inl DUPLICATE_VERSION, print_line (''Error setting version: '' @ driver_str env DUPLICATE_VERSION) s3)"
    unfolding MIGRATIONS_def
    by (subst migration_loop.simps(2)) (simp only: if_P [OF lt] m v prod.case sum.case)
  show ?thesis
    unfolding migrate_main_def
    by (simp only: if_not_P [OF assms(4)] if_not_P [OF assms(5)] run_migrations_def g Let_def prod.case l sum.case)
       (simp add: print_line_def)
qed


theorem version_read_failure_fails_migration_witness:
  "fst (migrate_main env_locked no_args schema_at_3) = 1"
  using version_read_failure_fails_migration [of env_locked no_args schema_at_3]
  by (simp add: env_locked_def env_ok_def no_args_def int_truthy_def sql_fault_def schema_at_3_def
                check_table_exists_def)

theorem schema_reach_inv_witness:
  "schema_inv (snd (migrate_main env_ok no_args (snd (init_main env_ok crypto_example
                \<lparr>arg_drop = False, arg_sample_user = True\<rparr> empty_schema))))"
  by (rule schema_reach_inv)
     (unfold empty_schema_def, intro schema_reach.migrate_db schema_reach.init_db_script schema_reach.empty)

end
