(* ===== verification/App_V2.thy ===== *)
theory App_V2
  imports Analysis_Routes Migrations
begin

text \<open>
  The process-level parts of \<^verbatim>\<open>web/backend/app_v2.py\<close>: the \<^verbatim>\<open>lifespan\<close> handler
  that each server worker runs at start-up and shut-down, with its leader election through
  a local TCP port, the \<^verbatim>\<open>task_monitor\<close> coroutine of the leader, and the two report
  builders \<^verbatim>\<open>generate_final_summary\<close> and \<^verbatim>\<open>generate_phases_data\<close>.

  A deployment is a \<open>cluster\<close>: the worker processes alive (each with its own
  \<^verbatim>\<open>app.state\<close> and its own module-level \<^verbatim>\<open>task_manager\<close>), the worker whose
  socket is bound to the leader port, and the shared database (its schema as in
  \<open>Migrations\<close>, its analysis records as in \<open>Analysis_Routes\<close>). Binding a bound port
  raises \<^verbatim>\<open>OSError\<close>; a process that exits releases its sockets.
\<close>

section \<open>Workers and the leader election\<close>

record 'j worker =
  w_is_leader :: "bool option"
  w_holds_sock :: bool
  w_monitor :: bool
  w_tm :: "'j task_manager"

record 'j cluster =
  port_holder :: "nat option"
  live :: "(nat \<times> 'j worker) list"
  c_schema :: mig_state
  c_rows :: "analysis_row list"

text \<open>A freshly imported worker: \<^verbatim>\<open>app.state\<close> without \<^verbatim>\<open>is_leader\<close>, and the
  module's \<^verbatim>\<open>task_manager = TaskManager(max_workers=50)\<close>.\<close>

definition new_worker :: "'j worker" where
  "new_worker = \<lparr>w_is_leader = None, w_holds_sock = False, w_monitor = False, w_tm = TaskManager 50\<rparr>"

definition set_worker :: "nat \<Rightarrow> 'j worker \<Rightarrow> 'j cluster \<Rightarrow> 'j cluster" where
  "set_worker w wk c = c\<lparr>live := AList.update w wk (live c)\<rparr>"

text \<open>The start-up half of \<^verbatim>\<open>lifespan\<close> for worker \<open>w\<close>. \<open>port\<close> is
  \<^verbatim>\<open>int(os.getenv("TASK_MONITOR_LEADER_PORT", "8001"))\<close>, \<open>None\<close> when \<^verbatim>\<open>int\<close>
  raises \<^verbatim>\<open>ValueError\<close>, which the outer \<^verbatim>\<open>except Exception\<close> catches. The
  \<^verbatim>\<open>init_db\<close> of the leader may raise a database error, which is not an
  \<^verbatim>\<open>OSError\<close>: the outer handler catches it after \<^verbatim>\<open>is_leader\<close> and the socket are
  set, and before the clean-up and the monitor. \<^verbatim>\<open>cleanup_running_tasks\<close> catches its
  own exceptions. Binding follows POSIX: a second bind of a listening port raises
  \<^verbatim>\<open>OSError\<close>, so at most one worker holds the port.\<close>

definition lifespan_startup :: "sql_env \<Rightarrow> int option \<Rightarrow> nat \<Rightarrow> 'j cluster \<Rightarrow> 'j cluster" where
  "lifespan_startup env port w c =
     (let c0 = set_worker w new_worker c in
      case port of
        None \<Rightarrow> c0
      | Some _ \<Rightarrow>
          if port_holder c \<noteq> None then set_worker w (new_worker\<lparr>w_is_leader := Some False\<rparr>) c0
          else
            (let lw = new_worker\<lparr>w_is_leader := Some True, w_holds_sock := True\<rparr>;
                 c1 = set_worker w lw (c0\<lparr>port_holder := Some w\<rparr>) in
             case init_db env (c_schema c1) of
               (Inl _, sch) \<Rightarrow> c1\<lparr>c_schema := sch\<rparr>
             | (Inr _, sch) \<Rightarrow>
                 set_worker w (lw\<lparr>w_monitor := True\<rparr>)
                   (c1\<lparr>c_schema := sch, c_rows := cleanup_running_tasks (c_rows c1)\<rparr>)))"

text \<open>The shut-down half: a leader cancels its monitor and closes its socket; the
  process then exits, which closes every socket it still holds.\<close>

definition lifespan_shutdown :: "nat \<Rightarrow> 'j cluster \<Rightarrow> 'j cluster" where
  "lifespan_shutdown w c =
     c\<lparr>port_holder := (if port_holder c = Some w then None else port_holder c),
       live := AList.delete w (live c)\<rparr>"

text \<open>One iteration of \<^verbatim>\<open>task_monitor\<close> in worker \<open>w\<close>, \<open>None\<close> when
  \<^verbatim>\<open>check_stalled_tasks\<close> blocks on the task manager's lock (and with it the event
  loop of the worker).\<close>

definition monitor_tick :: "int \<Rightarrow> nat \<Rightarrow> 'j cluster \<Rightarrow> 'j cluster option" where
  "monitor_tick now w c =
     (case map_of (live c) w of
        None \<Rightarrow> Some c
      | Some wk \<Rightarrow>
          if \<not> w_monitor wk then Some c
          else (case check_stalled_tasks (w_tm wk) now of
                  None \<Rightarrow> None
                | Some tm \<Rightarrow> Some (set_worker w (wk\<lparr>w_tm := tm\<rparr>) c)))"

text \<open>Deployments reachable from an empty one: workers start under fresh process ids
  and stop in any order, monitors tick, and each worker's task manager takes the steps
  of \<open>Task_Manager\<close>.\<close>

inductive cluster_reach :: "'j cluster \<Rightarrow> bool" where
  init: "cluster_reach \<lparr>port_holder = None, live = [], c_schema = sch, c_rows = rows\<rparr>"
| startup: "cluster_reach c \<Longrightarrow> w \<notin> fst ` set (live c) \<Longrightarrow> cluster_reach (lifespan_startup env port w c)"
| shutdown: "cluster_reach c \<Longrightarrow> cluster_reach (lifespan_shutdown w c)"
| tick: "cluster_reach c \<Longrightarrow> monitor_tick now w c = Some c' \<Longrightarrow> cluster_reach c'"
| tm_step: "cluster_reach c \<Longrightarrow> map_of (live c) w = Some wk \<Longrightarrow>
            cluster_reach (set_worker w (wk\<lparr>w_tm := tm\<rparr>) c)"

text \<open>The election's invariant: a worker holds the port exactly when it is leader and
  keeps the socket, and only that worker can run the monitor; process ids are distinct and
  the port is held by a live worker.\<close>

definition worker_ok :: "nat option \<Rightarrow> nat \<times> 'j worker \<Rightarrow> bool" where
  "worker_ok p e =
     (case e of (w, wk) \<Rightarrow>
        (w_is_leader wk = Some True \<longleftrightarrow> p = Some w) \<and> (w_holds_sock wk \<longleftrightarrow> p = Some w) \<and>
        (w_monitor wk \<longrightarrow> p = Some w))"

definition election_inv :: "'j cluster \<Rightarrow> bool" where
  "election_inv c =
     (distinct (map fst (live c)) \<and> list_all (worker_ok (port_holder c)) (live c) \<and>
      set_option (port_holder c) \<subseteq> fst ` set (live c))"

definition leaders :: "'j cluster \<Rightarrow> nat list" where
  "leaders c = map fst (filter (\<lambda>(_, wk). w_is_leader wk = Some True) (live c))"

definition monitors :: "'j cluster \<Rightarrow> nat list" where
  "monitors c = map fst (filter (\<lambda>(_, wk). w_monitor wk) (live c))"

section \<open>Report builders\<close>

definition LINE_END :: pystr where
  "LINE_END = [CHR 0x0A]"

text \<open>The Chinese headings and sentences of \<^verbatim>\<open>generate_final_summary\<close>: the title
  prefix ("# stock analysis report - "), the decision prefix ("## final trading decision: **"),
  the heading of each report section, the advice heading, the two halves of the advice
  sentence around the decision, and the risk warning, each with its newlines.\<close>

record summary_texts =
  st_title :: pystr
  st_decision :: pystr
  st_heading :: "pystr \<Rightarrow> pystr"
  st_advice_heading :: pystr
  st_advice_prefix :: pystr
  st_advice_suffix :: pystr
  st_risk_warning :: pystr

definition SUMMARY_SECTIONS :: "pystr list" where
  "SUMMARY_SECTIONS = [''market_analysis'', ''fundamentals_analysis'', ''sentiment_analysis'',
                       ''news_analysis'', ''risk_assessment'']"

text \<open>\<^verbatim>\<open>final_state.get(k)\<close> is truthy: a non-empty string.\<close>

definition generate_final_summary :: "summary_texts \<Rightarrow> pystr \<Rightarrow> pystr \<Rightarrow> (pystr \<Rightarrow> pystr option) \<Rightarrow> pystr" where
  "generate_final_summary tx tkr dec fstate =
     py_join LINE_END
       ([st_title tx @ tkr @ LINE_END, st_decision tx @ dec @ ''**'' @ LINE_END] @
        concat (map (\<lambda>k. if truthy (fstate k) then [st_heading tx k, the (fstate k) @ LINE_END] else [])
                    SUMMARY_SECTIONS) @
        [st_advice_heading tx, st_advice_prefix tx @ dec @ st_advice_suffix tx,
         LINE_END @ ''---'' @ LINE_END, st_risk_warning tx])"

text \<open>The display names of \<^verbatim>\<open>generate_phases_data\<close>.\<close>

datatype v2_agent = V2_MARKET | V2_SOCIAL | V2_NEWS | V2_FUNDAMENTALS | V2_RESEARCH | V2_TRADING | V2_RISK

record v2_phase =
  ph_id :: nat
  ph_name :: phase_title
  ph_icon :: pystr
  ph_color :: pystr
  ph_agents :: "(v2_agent \<times> pystr) list"

text \<open>\<^verbatim>\<open>agent_result[:500] + "..." if len(agent_result) > 500 else agent_result\<close>.\<close>

definition truncate_result :: "pystr \<Rightarrow> pystr" where
  "truncate_result r = (if 500 < length r then take 500 r @ ''...'' else r)"

text \<open>One iteration of the loop over \<^verbatim>\<open>analyst_types\<close>; \<open>no_result\<close> is the
  Chinese "no analysis result yet", the default of \<^verbatim>\<open>final_state.get\<close>.\<close>

definition analyst_agent :: "pystr \<Rightarrow> (pystr \<Rightarrow> pystr option) \<Rightarrow> pystr \<Rightarrow> (v2_agent \<times> pystr) list" where
  "analyst_agent no_result fstate t =
     (let pick = (\<lambda>a k. [(a, truncate_result (case fstate k of Some r \<Rightarrow> r | None \<Rightarrow> no_result))]) in
      if t = ''market'' then pick V2_MARKET ''market_analysis''
      else if t = ''social'' then pick V2_SOCIAL ''sentiment_analysis''
      else if t = ''news'' then pick V2_NEWS ''news_analysis''
      else if t = ''fundamentals'' then pick V2_FUNDAMENTALS ''fundamentals_analysis''
      else [])"

definition single_phase :: "nat \<Rightarrow> phase_title \<Rightarrow> pystr \<Rightarrow> pystr \<Rightarrow> v2_agent \<Rightarrow> pystr option \<Rightarrow> v2_phase list" where
  "single_phase i n icon color a x =
     (if truthy x then [\<lparr>ph_id = i, ph_name = n, ph_icon = icon, ph_color = color, ph_agents = [(a, the x)]\<rparr>]
      else [])"

definition generate_phases_data :: "pystr \<Rightarrow> (pystr \<Rightarrow> pystr option) \<Rightarrow> pystr list \<Rightarrow> v2_phase list" where
  "generate_phases_data no_result fstate analyst_types =
     (let agents = concat (map (analyst_agent no_result fstate) analyst_types) in
      (if agents \<noteq> [] then [\<lparr>ph_id = 1, ph_name = ANALYST_TEAM, ph_icon = ''fa-users'', ph_color = ''blue'',
                              ph_agents = agents\<rparr>] else []) @
      single_phase 2 RESEARCH_TEAM ''fa-search'' ''green'' V2_RESEARCH (fstate ''research_analysis'') @
      single_phase 3 TRADING_TEAM ''fa-chart-line'' ''purple'' V2_TRADING (fstate ''trading_strategy'') @
      single_phase 4 RISK_MANAGEMENT ''fa-shield-alt'' ''red'' V2_RISK (fstate ''risk_assessment''))"

section \<open>The election invariant\<close>

lemma set_worker_simps [simp]:
  "port_holder (set_worker w wk c) = port_holder c" "c_schema (set_worker w wk c) = c_schema c"
  "c_rows (set_worker w wk c) = c_rows c" "live (set_worker w wk c) = AList.update w wk (live c)"
  by (simp_all add: set_worker_def)

lemma worker_ok_tm [simp]: "worker_ok p (w, wk\<lparr>w_tm := tm\<rparr>) = worker_ok p (w, wk)"
  by (simp add: worker_ok_def)

lemma worker_ok_other:
  "worker_ok p (w', wk) \<Longrightarrow> p \<noteq> Some w' \<Longrightarrow> q \<noteq> Some w' \<Longrightarrow> worker_ok q (w', wk)"
  by (simp add: worker_ok_def)

lemma startup_inv:
  assumes "election_inv c" "w \<notin> fst ` set (live c)"
  shows "election_inv (lifespan_startup env port w c)"
proof -
  have d: "distinct (map fst (live c))" and a: "list_all (worker_ok (port_holder c)) (live c)"
    and ph: "set_option (port_holder c) \<subseteq> fst ` set (live c)"
    using assms(1) by (simp_all add: election_inv_def)
  have pw: "port_holder c \<noteq> Some w" using ph assms(2) by auto
  have nb: "(w, b) \<notin> set (live c)" for b using assms(2) by force
  have fresh: "live (set_worker w wk c) = live c @ [(w, wk)]" for wk
    using assms(2) by (simp add: set_worker_def update_fresh)
  show ?thesis
  proof (cases port)
    case None
    then show ?thesis using d a ph pw assms(2)
      by (auto simp: lifespan_startup_def election_inv_def update_fresh worker_ok_def new_worker_def)
  next
    case (Some pt)
    show ?thesis
    proof (cases "port_holder c")
      case (Some x)
      then have "x \<noteq> w" using pw by auto
      then show ?thesis using \<open>port = Some pt\<close> Some d a ph assms(2)
        by (auto simp: lifespan_startup_def election_inv_def set_worker_def update_fresh update_append_fresh [OF assms(2)]
                       worker_ok_def new_worker_def)
    next
      case None
      define lw :: "'a worker" where "lw = new_worker\<lparr>w_is_leader := Some True, w_holds_sock := True\<rparr>"
      have la: "list_all (worker_ok (Some w)) (live c)"
        using a None nb by (auto simp: list_all_iff worker_ok_def)
      have ok: "worker_ok (Some w) (w, lw)" "worker_ok (Some w) (w, lw\<lparr>w_monitor := True\<rparr>)"
        by (simp_all add: worker_ok_def lw_def new_worker_def)
      have l2: "AList.update w wk (AList.update w new_worker (live c)) = live c @ [(w, wk)]" for wk
        using assms(2) by (simp add: update_fresh update_append_fresh)
      have dd: "distinct (map fst (live c @ [(w, wk)]))" for wk using d assms(2) by simp
      have uf: "AList.update w wk (live c) = live c @ [(w, wk)]" for wk
        using assms(2) by (rule update_fresh)
      show ?thesis using \<open>port = Some pt\<close> None ok la dd
        by (auto simp: lifespan_startup_def set_worker_def uf update_append_fresh [OF assms(2)] election_inv_def Let_def lw_def [symmetric]
                 split: prod.splits sum.splits)
    qed
  qed
qed

lemma shutdown_inv:
  assumes "election_inv c"
  shows "election_inv (lifespan_shutdown w c)"
proof -
  have d: "distinct (map fst (live c))" and a: "list_all (worker_ok (port_holder c)) (live c)"
    and ph: "set_option (port_holder c) \<subseteq> fst ` set (live c)"
    using assms by (simp_all add: election_inv_def)
  have "list_all (worker_ok (if port_holder c = Some w then None else port_holder c)) (AList.delete w (live c))"
    using a by (auto simp: list_all_iff worker_ok_def AList.delete_eq)
  moreover have "distinct (map fst (AList.delete w (live c)))" using d by (simp add: AList.distinct_delete)
  moreover have "set_option (if port_holder c = Some w then None else port_holder c) \<subseteq> fst ` set (AList.delete w (live c))"
    using ph by (auto simp: fst_set_delete)
  ultimately show ?thesis by (simp add: election_inv_def lifespan_shutdown_def)
qed

lemma set_worker_tm_inv:
  assumes "election_inv c" "map_of (live c) w = Some wk"
  shows "election_inv (set_worker w (wk\<lparr>w_tm := tm\<rparr>) c)"
proof -
  have d: "distinct (map fst (live c))" and a: "list_all (worker_ok (port_holder c)) (live c)"
    and ph: "set_option (port_holder c) \<subseteq> fst ` set (live c)"
    using assms(1) by (simp_all add: election_inv_def)
  have "(w, wk) \<in> set (live c)" using assms(2) by (rule map_of_SomeD)
  then have "worker_ok (port_holder c) (w, wk)" using a by (simp add: list_all_iff)
  then have "list_all (worker_ok (port_holder c)) (AList.update w (wk\<lparr>w_tm := tm\<rparr>) (live c))"
    using a by (intro list_all_update) simp_all
  moreover have "w \<in> fst ` set (live c)" using \<open>(w, wk) \<in> set (live c)\<close> by force
  ultimately show ?thesis
    using d ph by (simp add: election_inv_def set_worker_def AList.distinct_update fst_set_update insert_absorb)
qed

lemma monitor_tick_inv:
  assumes "election_inv c" "monitor_tick now w c = Some c'"
  shows "election_inv c'"
  using assms set_worker_tm_inv [OF assms(1)]
  by (auto simp: monitor_tick_def split: option.splits if_splits)

lemma init_inv: "election_inv \<lparr>port_holder = None, live = [], c_schema = sch, c_rows = rows\<rparr>"
  by (simp add: election_inv_def)

text \<open>The election invariant holds in every reachable deployment.\<close>

theorem cluster_reach_inv: "cluster_reach c \<Longrightarrow> election_inv c"
  by (induction rule: cluster_reach.induct)
     (auto intro: init_inv startup_inv shutdown_inv monitor_tick_inv set_worker_tm_inv)

lemma filter_key_le1:
  "distinct (map fst xs) \<Longrightarrow> length (filter (\<lambda>(w, _). p = Some w) xs) \<le> 1"
proof (induction xs)
  case (Cons x xs)
  show ?case
  proof (cases "p = Some (fst x)")
    case True
    have "fst x \<notin> fst ` set xs" using Cons.prems by simp
    then have "filter (\<lambda>(w, _). p = Some w) xs = []"
      using True by (force simp: filter_empty_conv image_iff)
    then show ?thesis using True by (cases x) simp
  qed (use Cons in \<open>cases x; simp\<close>)
qed simp

lemma single_leader:
  assumes "election_inv c"
  shows "length (leaders c) \<le> 1 \<and> set (monitors c) \<subseteq> set (leaders c)"
proof -
  have d: "distinct (map fst (live c))" and a: "list_all (worker_ok (port_holder c)) (live c)"
    using assms by (simp_all add: election_inv_def)
  have "filter (\<lambda>(_, wk). w_is_leader wk = Some True) (live c) = filter (\<lambda>(w, _). port_holder c = Some w) (live c)"
    using a by (auto simp: list_all_iff worker_ok_def intro: filter_cong)
  then have "length (leaders c) \<le> 1" using filter_key_le1 [OF d] by (simp add: leaders_def)
  moreover have "set (monitors c) \<subseteq> set (leaders c)"
    using a by (force simp: list_all_iff worker_ok_def monitors_def leaders_def)
  ultimately show ?thesis ..
qed

lemma no_port_no_leaders:
  assumes "election_inv c" "port_holder c = None"
  shows "filter (\<lambda>(_, wk). w_is_leader wk = Some True) (live c) = []"
    and "filter (\<lambda>(_, wk). w_monitor wk) (live c) = []"
  using assms by (auto simp: election_inv_def list_all_iff worker_ok_def filter_empty_conv)

text \<open>A worker that wins the port becomes the only leader; it runs the monitor only
  when its \<^verbatim>\<open>init_db\<close> succeeded. A failing \<^verbatim>\<open>init_db\<close> leaves a leader that
  never monitors, and no other worker takes over while it lives.\<close>

lemma startup_leader_views:
  assumes "election_inv c" "port_holder c = None" "w \<notin> fst ` set (live c)"
  shows "leaders (lifespan_startup env (Some p) w c) = [w]"
    and "monitors (lifespan_startup env (Some p) w c) =
           (case fst (init_db env (c_schema c)) of Inl _ \<Rightarrow> [] | Inr _ \<Rightarrow> [w])"
proof -
  have ups: "AList.update w wk (live c) = live c @ [(w, wk)]" for wk :: "'a worker"
    using assms(3) by (rule update_fresh)
  note nl = no_port_no_leaders [OF assms(1,2)]
  show "leaders (lifespan_startup env (Some p) w c) = [w]"
    using nl by (auto simp: lifespan_startup_def leaders_def set_worker_def ups update_append_fresh [OF assms(3)] assms(2) new_worker_def Let_def
                      split: prod.splits sum.splits)
  show "monitors (lifespan_startup env (Some p) w c) =
           (case fst (init_db env (c_schema c)) of Inl _ \<Rightarrow> [] | Inr _ \<Rightarrow> [w])"
    using nl by (auto simp: lifespan_startup_def monitors_def set_worker_def ups update_append_fresh [OF assms(3)] assms(2) new_worker_def Let_def
                      split: prod.splits sum.splits)
qed

text \<open>C38: in every deployment reachable by starting and stopping workers under the
  leader election of \<^verbatim>\<open>lifespan\<close>, at most one worker believes it is the leader, and
  every worker running \<^verbatim>\<open>task_monitor\<close> is that leader.\<close>

theorem single_leader_reachable:
  "cluster_reach c \<Longrightarrow> length (leaders c) \<le> 1 \<and> set (monitors c) \<subseteq> set (leaders c)"
  by (rule single_leader [OF cluster_reach_inv])

theorem single_leader_reachable_witness:
  "let c = lifespan_startup env_ok (Some 8001) 2
             (lifespan_startup env_ok (Some 8001) 1
               \<lparr>port_holder = None, live = [], c_schema = empty_schema, c_rows = []\<rparr>) :: unit cluster
   in cluster_reach c \<and> length (leaders c) \<le> 1 \<and> set (monitors c) \<subseteq> set (leaders c)"
proof -
  have r: "cluster_reach (lifespan_startup env_ok (Some 8001) 2
             (lifespan_startup env_ok (Some 8001) 1
               \<lparr>port_holder = None, live = [], c_schema = empty_schema, c_rows = []\<rparr>) :: unit cluster)"
    by (intro cluster_reach.startup cluster_reach.init)
       (simp_all add: lifespan_startup_def set_worker_def Let_def split: prod.splits sum.splits)
  show ?thesis unfolding Let_def using r single_leader_reachable [OF r] by blast
qed

section \<open>Report builders: properties\<close>

text \<open>The analyst phase of \<^verbatim>\<open>generate_phases_data\<close> shows at most 503 characters
  per analyst; the phases come in ascending id order.\<close>

lemma truncate_result_length: "length (truncate_result r) \<le> 503"
  by (simp add: truncate_result_def)

lemma truncate_result_short: "length r \<le> 500 \<Longrightarrow> truncate_result r = r"
  by (simp add: truncate_result_def)

lemma analyst_agent_bounded: "(a, r) \<in> set (analyst_agent nr f t) \<Longrightarrow> length r \<le> 503"
  by (auto simp: analyst_agent_def Let_def truncate_result_length split: if_splits)

lemma single_phase_ids: "ph \<in> set (single_phase i n ic co a x) \<Longrightarrow> ph_id ph = i"
  by (simp add: single_phase_def split: if_splits)

lemma phases_ids_ascending: "sorted_wrt (<) (map ph_id (generate_phases_data nr f ts))"
  by (simp add: generate_phases_data_def single_phase_def Let_def)

lemma analyst_phase_bounded:
  assumes "ph \<in> set (generate_phases_data nr f ts)" "ph_id ph = 1" "(a, r) \<in> set (ph_agents ph)"
  shows "length r \<le> 503"
  using assms by (auto simp: generate_phases_data_def single_phase_def Let_def analyst_agent_bounded
                       split: if_splits)

end
