(* ===== verification/Decorators.thy ===== *)
theory Decorators
  imports Web_Auth
begin

text \<open>
  The function decorators and the permission checker of
  \<^verbatim>\<open>web/backend/decorators.py\<close>: \<^verbatim>\<open>require_authentication\<close>,
  \<^verbatim>\<open>require_analysis_ownership\<close> and \<^verbatim>\<open>PermissionChecker.__call__\<close>
  (\<^verbatim>\<open>AnalysisOwnershipChecker\<close> and the two helpers are in \<open>Web_Auth\<close>).

  A wrapper receives the positional arguments \<^verbatim>\<open>args\<close>, each a request (with the user
  that \<^verbatim>\<open>AuthMiddleware\<close> stored in \<^verbatim>\<open>request.state\<close>), a database session (by its
  number) or another object (by its class name), and the keyword arguments \<^verbatim>\<open>kwargs\<close>
  as an association list. The decorated function is an oracle of the arguments it is
  called with. Sessions are numbered; \<^verbatim>\<open>next(get_db())\<close> opens the next one, and the
  state records the sessions closed.
\<close>

section \<open>Arguments and sessions\<close>

datatype py_arg = ArgRequest "user option" | ArgSession nat | ArgOther pystr

datatype kwval = KwStr pystr | KwUser user | KwRecord analysis_record | KwNone

type_synonym kwargs = "(pystr \<times> kwval) list"

text \<open>\<^verbatim>\<open>arg.__class__.__name__\<close>.\<close>

fun class_name :: "py_arg \<Rightarrow> pystr" where
  "class_name (ArgRequest _) = ''Request''"
| "class_name (ArgSession _) = ''Session''"
| "class_name (ArgOther c) = c"

text \<open>Truthiness of a keyword value: a string is true when non-empty, \<^verbatim>\<open>None\<close> is
  false, model objects are true.\<close>

fun kw_truthy :: "kwval \<Rightarrow> bool" where
  "kw_truthy (KwStr s) = (s \<noteq> [])"
| "kw_truthy KwNone = False"
| "kw_truthy _ = True"

text \<open>\<^verbatim>\<open>kwargs.get(k)\<close>.\<close>

definition kw_get :: "kwargs \<Rightarrow> pystr \<Rightarrow> kwval" where
  "kw_get kw k = (case map_of kw k of Some v \<Rightarrow> v | None \<Rightarrow> KwNone)"

record sess_state =
  next_session :: nat
  closed_sessions :: "nat list"

text \<open>The errors a wrapper raises: an \<^verbatim>\<open>HTTPException\<close>; \<^verbatim>\<open>current_user.id\<close> on a
  value that is not a user (\<^verbatim>\<open>AttributeError\<close>); and the driver's error on binding
  an analysis id that is not a string.\<close>

datatype deco_error = Http http_error | AttributeError | BindError

type_synonym 'r endpoint = "py_arg list \<Rightarrow> kwargs \<Rightarrow> deco_error + 'r"

section \<open>The decorators\<close>

text \<open>The first request among the positional arguments (\<^verbatim>\<open>isinstance(arg, Request)\<close>).\<close>

fun first_request :: "py_arg list \<Rightarrow> user option option" where
  "first_request [] = None"
| "first_request (ArgRequest su # _) = Some su"
| "first_request (_ # as) = first_request as"

fun first_session :: "py_arg list \<Rightarrow> nat option" where
  "first_session [] = None"
| "first_session (ArgSession n # _) = Some n"
| "first_session (_ # as) = first_session as"

definition require_authentication :: "'r endpoint \<Rightarrow> 'r endpoint" where
  "require_authentication func args kw =
     (case first_request args of
        None \<Rightarrow> Inl (Http (HTTPException 500 (Detail ''Request object not found'')))
      | Some su \<Rightarrow>
          (case require_active_user su of
             Inl e \<Rightarrow> Inl (Http e)
           | Inr u \<Rightarrow> func args (AList.update ''current_user'' (KwUser u) kw)))"

text \<open>The query of the ownership wrapper, \<^verbatim>\<open>.first()\<close> of the analyses with that id and
  that user's id.\<close>

definition owned_query :: "db \<Rightarrow> kwval \<Rightarrow> kwval \<Rightarrow> deco_error + analysis_record option" where
  "owned_query d aid cu =
     (case cu of
        KwUser u \<Rightarrow>
          (case aid of
             KwStr a \<Rightarrow> Inr (find (\<lambda>r. analysis_id r = a \<and> user_id r = uid u) (analyses d))
           | _ \<Rightarrow> Inl BindError)
      | _ \<Rightarrow> Inl AttributeError)"

text \<open>The body of \<^verbatim>\<open>require_analysis_ownership\<close>'s wrapper: the two keyword checks,
  the session taken from the arguments or opened by \<^verbatim>\<open>get_db\<close>, the query, the call,
  and the \<^verbatim>\<open>finally\<close> clause, which closes the session unless an argument's class is
  named \<^verbatim>\<open>db\<close>.\<close>

definition require_analysis_ownership ::
  "'r endpoint \<Rightarrow> db \<Rightarrow> py_arg list \<Rightarrow> kwargs \<Rightarrow> sess_state \<Rightarrow> (deco_error + 'r) \<times> sess_state" where
  "require_analysis_ownership func d args kw st =
     (let aid = kw_get kw ''analysis_id''; cu = kw_get kw ''current_user'' in
      if \<not> kw_truthy aid then (Inl (Http (HTTPException 400 (Detail ''Analysis ID is required''))), st)
      else if \<not> kw_truthy cu then (Inl (Http (HTTPException 401 (Detail ''Authentication required''))), st)
      else
        (let (sess, st1) = (case first_session args of
                              Some n \<Rightarrow> (n, st)
                            | None \<Rightarrow> (next_session st, st\<lparr>next_session := Suc (next_session st)\<rparr>));
             res = (case owned_query d aid cu of
                      Inl e \<Rightarrow> Inl e
                    | Inr None \<Rightarrow> Inl (Http (HTTPException 404 (Detail ''Analysis not found or access denied'')))
                    | Inr (Some r) \<Rightarrow> func args (AList.update ''analysis_record'' (KwRecord r) kw));
             st2 = (if ''db'' \<notin> set (map class_name args)
                    then st1\<lparr>closed_sessions := closed_sessions st1 @ [sess]\<rparr> else st1) in
         (res, st2)))"

text \<open>\<^verbatim>\<open>PermissionChecker.__call__\<close>. With \<^verbatim>\<open>require_active\<close> false it returns
  \<^verbatim>\<open>require_authentication(request)\<close>: the decorator applied to the request, a
  coroutine function (\<open>PermWrapper\<close>), not a user.\<close>

datatype perm_value = PermUser user | PermWrapper

definition permission_checker :: "bool \<Rightarrow> user option \<Rightarrow> http_error + perm_value" where
  "permission_checker require_active su =
     (if require_active
      then (case require_active_user su of Inl e \<Rightarrow> Inl e | Inr u \<Rightarrow> Inr (PermUser u))
      else Inr PermWrapper)"

text \<open>\<^verbatim>\<open>check_permissions = PermissionChecker()\<close>.\<close>

definition check_permissions :: "user option \<Rightarrow> http_error + perm_value" where
  "check_permissions = permission_checker True"

text \<open>What the ownership wrapper promises, on its result: for a string id and a user,
  the function is called with the first analysis of that id owned by the user, and the
  answer is 404 when there is none.\<close>

definition ownership_spec :: "'r endpoint \<Rightarrow> db \<Rightarrow> py_arg list \<Rightarrow> kwargs \<Rightarrow> user \<Rightarrow> pystr \<Rightarrow> deco_error + 'r" where
  "ownership_spec func d args kw u a =
     (if \<exists>r\<in>set (analyses d). analysis_id r = a \<and> user_id r = uid u
      then func args (AList.update ''analysis_record''
                        (KwRecord (hd (filter (\<lambda>r. analysis_id r = a \<and> user_id r = uid u) (analyses d)))) kw)
      else Inl (Http (HTTPException 404 (Detail ''Analysis not found or access denied''))))"

text \<open>A function decorated with \<^verbatim>\<open>@require_authentication\<close> over
  \<^verbatim>\<open>@require_analysis_ownership\<close>, called with the analysis id as keyword argument.\<close>

definition stacked :: "'r endpoint \<Rightarrow> db \<Rightarrow> sess_state \<Rightarrow> pystr \<Rightarrow> py_arg list \<Rightarrow> kwargs \<Rightarrow> deco_error + 'r" where
  "stacked func d st a args kw =
     require_authentication (\<lambda>args' kw'. fst (require_analysis_ownership func d args' kw' st))
       args (AList.update ''analysis_id'' (KwStr a) kw)"

section \<open>Properties\<close>

text \<open>FastAPI calls an endpoint with keyword arguments only, so a function decorated
  with \<^verbatim>\<open>require_authentication\<close> answers every request with status 500.\<close>

lemma require_authentication_kwargs_only:
  "require_authentication func [] kw = Inl (Http (HTTPException 500 (Detail ''Request object not found'')))"
  by (simp add: require_authentication_def)

text \<open>With a request, the decorator calls the function exactly when the middleware
  stored an active user, and then passes that user as \<^verbatim>\<open>current_user\<close>.\<close>

lemma require_authentication_request:
  assumes "first_request args = Some su"
  shows "require_authentication func args kw =
           (case require_active_user su of
              Inl e \<Rightarrow> Inl (Http e)
            | Inr u \<Rightarrow> func args (AList.update ''current_user'' (KwUser u) kw))"
  using assms by (simp add: require_authentication_def)

lemma find_hd_filter:
  "find P xs = (if \<exists>x\<in>set xs. P x then Some (hd (filter P xs)) else None)"
  by (induction xs) auto

lemma require_analysis_ownership_spec:
  assumes "kw_get kw ''analysis_id'' = KwStr a" "a \<noteq> []" "kw_get kw ''current_user'' = KwUser u"
  shows "fst (require_analysis_ownership func d args kw st) = ownership_spec func d args kw u a"
  using assms
  by (auto simp: require_analysis_ownership_def owned_query_def ownership_spec_def find_hd_filter
                 Let_def split: prod.splits option.splits)

text \<open>Once the keyword checks pass, the \<^verbatim>\<open>finally\<close> clause closes the session whatever
  the outcome, also a session the caller passed in: the class name test compares with
  \<^verbatim>\<open>'db'\<close>, the parameter's name, which no class has.\<close>

lemma require_analysis_ownership_closes:
  assumes "kw_truthy (kw_get kw ''analysis_id'')" "kw_truthy (kw_get kw ''current_user'')"
    and "first_session args = Some n" "\<forall>c. ArgOther c \<in> set args \<longrightarrow> c \<noteq> ''db''"
  shows "closed_sessions (snd (require_analysis_ownership func d args kw st)) = closed_sessions st @ [n]"
proof -
  have "class_name x \<noteq> ''db''" if "x \<in> set args" for x
    using assms(4) that by (cases x) auto
  then have "''db'' \<notin> set (map class_name args)"
    by (metis imageE set_map)
  then show ?thesis
    using assms(1-3) by (simp add: require_analysis_ownership_def Let_def)
qed

text \<open>Without a session among the arguments the wrapper opens the next one and closes
  it.\<close>

lemma require_analysis_ownership_fresh:
  assumes "kw_truthy (kw_get kw ''analysis_id'')" "kw_truthy (kw_get kw ''current_user'')"
    and "first_session args = None" "''db'' \<notin> set (map class_name args)"
  shows "snd (require_analysis_ownership func d args kw st) =
           \<lparr>next_session = Suc (next_session st), closed_sessions = closed_sessions st @ [next_session st]\<rparr>"
  using assms by (simp add: require_analysis_ownership_def Let_def)

lemma kw_get_update: "kw_get (AList.update k v kw) k' = (if k' = k then v else kw_get kw k')"
  by (simp add: kw_get_def update_conv')

text \<open>The stacked decorators agree with \<^verbatim>\<open>AnalysisOwnershipChecker\<close>: under
  \<^verbatim>\<open>require_authentication\<close>, the ownership wrapper calls the function exactly
  when the checker accepts, with the same analysis, and fails with the checker's error
  otherwise.\<close>

lemma stacked_checker:
  assumes "first_request args = Some su" "a \<noteq> []"
  shows "stacked func d st a args kw =
           (case analysis_ownership_checker su a d of
              Inl e \<Rightarrow> Inl (Http e)
            | Inr (u, r) \<Rightarrow>
                func args (AList.update ''analysis_record'' (KwRecord r)
                             (AList.update ''current_user'' (KwUser u) (AList.update ''analysis_id'' (KwStr a) kw))))"
proof (cases "require_active_user su")
  case (Inl e)
  then show ?thesis
    using assms(1) by (simp add: stacked_def require_authentication_def analysis_ownership_checker_def)
next
  case (Inr u)
  define kw' where "kw' = AList.update ''current_user'' (KwUser u) (AList.update ''analysis_id'' (KwStr a) kw)"
  have g1: "kw_get kw' ''analysis_id'' = KwStr a" and g2: "kw_get kw' ''current_user'' = KwUser u"
    by (simp_all add: kw'_def kw_get_update)
  have l: "stacked func d st a args kw = ownership_spec func d args kw' u a"
    using assms(1) Inr require_analysis_ownership_spec [OF g1 assms(2) g2]
    by (simp add: stacked_def require_authentication_def kw'_def)
  have r: "analysis_ownership_checker su a d =
             (case find (\<lambda>r. analysis_id r = a \<and> user_id r = uid u) (analyses d) of
                None \<Rightarrow> Inl (HTTPException 404 (Detail ''Analysis not found or access denied''))
              | Some r \<Rightarrow> Inr (u, r))"
    using Inr by (simp add: analysis_ownership_checker_def check_user_owns_analysis_def split: option.split)
  show ?thesis
    unfolding l r ownership_spec_def find_hd_filter
    by (cases "\<exists>r\<in>set (analyses d). analysis_id r = a \<and> user_id r = uid u") (auto simp: kw'_def)
qed

text \<open>\<^verbatim>\<open>PermissionChecker(require_active=False)\<close> accepts every request, also one
  without a user, and returns no user.\<close>

lemma permission_checker_inactive: "permission_checker False su = Inr PermWrapper"
  by (simp add: permission_checker_def)

end
