(* ===== verification/Spec2Isabelle.thy ===== *)
theory Spec2Isabelle
  imports News Stock_Info Indicators Stockstats Web_Routes Web_App Agent_Log Migrations App_V2 Decorators
begin

text \<open>
  \<^bold>\<open>The routing engine and the web backend of TradingAgentsWeb.\<close>

  The program is the data-routing layer under \<^verbatim>\<open>src/tradingagents/dataflows/\<close>. A
  caller asks \<^verbatim>\<open>route_to_vendor(method, *args, **kwargs)\<close> (\<^verbatim>\<open>interface.py\<close>)
  for a capability such as \<^verbatim>\<open>get_stock_data\<close>. The router looks up the method's
  category in the capability catalog. It classifies the symbol's market
  (\<^verbatim>\<open>market_utils.py\<close>) and resolves an ordered vendor list from the three layers
  of the configuration (\<^verbatim>\<open>get_vendor\<close>, \<^verbatim>\<open>default_config.py\<close>). It extends that
  list with a safety net unless the configuration was market-scoped. It then tries the
  vendors in order, classifying the adapters' exceptions and rejecting low-quality
  indicator data (\<^verbatim>\<open>_is_indicator_result_invalid\<close>), and returns the single
  accepted value or the newline-joined accepted values, or raises \<^verbatim>\<open>RuntimeError\<close>.

  The web backend (\<^verbatim>\<open>src/web/backend/\<close>) authenticates users and runs analyses
  for them. \<^verbatim>\<open>start_analysis\<close> (\<^verbatim>\<open>routes/analysis_routes.py\<close>) stores an
  \<^verbatim>\<open>AnalysisRecord\<close> and submits \<^verbatim>\<open>run_analysis_task\<close>
  (\<^verbatim>\<open>analysis_task.py\<close>) to the \<^verbatim>\<open>TaskManager\<close> of \<^verbatim>\<open>app_v2.py\<close>. The
  manager runs at most one task per user and \<^verbatim>\<open>max_workers\<close> in all, and queues
  the others. The task writes its progress and final status to the record and streams
  logs over the \<^verbatim>\<open>ConnectionManager\<close>'s WebSockets; the other routes read, list,
  stop and delete analyses.

  \<^bold>\<open>Theories.\<close>
  \<^item> \<open>Prelude\<close>: the Python string methods the code calls (\<^verbatim>\<open>upper\<close>,
    \<^verbatim>\<open>lower\<close>, \<^verbatim>\<open>strip\<close>, \<^verbatim>\<open>startswith\<close>, \<^verbatim>\<open>endswith\<close>, \<^verbatim>\<open>in\<close>,
    \<^verbatim>\<open>replace\<close>, \<^verbatim>\<open>split\<close>, \<^verbatim>\<open>join\<close>, \<^verbatim>\<open>zfill\<close>) on \<open>pystr = string\<close>, each
    character read as a Latin-1 code point, with the lemmas the components share
    (idempotence of \<open>py_upper\<close> and \<open>py_strip\<close>, \<open>join (split s) = s\<close>).
  \<^item> \<open>Market_Utils\<close>: \<^verbatim>\<open>MarketIdentifier\<close> and \<^verbatim>\<open>get_market_info\<close>. Each
    regular expression is a predicate on the normalised symbol, and \<open>re_match\<close> adds the
    trailing-newline acceptance of Python's \<^verbatim>\<open>$\<close>. The lemmas \<open>format_akshare_a_stock\<close> and \<open>format_baostock_unprefixed\<close> show two behaviours of
    \<^verbatim>\<open>format_symbol_for_vendor\<close> that the specification does not expect.
  \<^item> \<open>Catalog\<close>: \<^verbatim>\<open>TOOLS_CATEGORIES\<close>, \<^verbatim>\<open>VENDOR_LIST\<close> and \<^verbatim>\<open>VENDOR_METHODS\<close> as
    association lists in source order; an adapter is named by the function it calls.
    \<^verbatim>\<open>get_category_for_method\<close> returns \<open>Inl (ValueError ...)\<close> for its
    \<^verbatim>\<open>raise\<close>.
  \<^item> \<open>Vendor_Config\<close>: the configuration as a read-only record of three maps,
    \<^verbatim>\<open>get_vendor\<close> with its market, tool and category layers, the vendor keys of
    \<^verbatim>\<open>DEFAULT_CONFIG\<close>, and the comma split of the router.
  \<^item> \<open>Indicator_Quality\<close>: \<^verbatim>\<open>_is_indicator_result_invalid\<close> as a fold
    (\<open>gate_counts\<close>) of the loop body (\<open>gate_line\<close>) over the lines.
    \<^verbatim>\<open>datetime.strptime(.., '%Y-%m-%d')\<close> is modelled after CPython's
    \<^verbatim>\<open>_strptime\<close>: a backtracking regular-expression match, the full-consumption check,
    and calendar validation. \<open>is_date_line\<close> and \<open>has_value\<close> classify a line
    directly. Claim C11: the gate rejects exactly when fewer than 30 percent of the date
    lines carry a non-empty value without a no-data keyword, whatever \<^verbatim>\<open>float()\<close>
    accepts.
  \<^item> \<open>Router\<close>: \<^verbatim>\<open>route_to_vendor\<close>. Its loop state (\<^verbatim>\<open>results\<close>,
    \<^verbatim>\<open>vendor_attempt_count\<close>, \<^verbatim>\<open>successful_vendor\<close>) is the record \<open>rstate\<close>,
    extended with an invocation counter and a trace of events that stand for the
    \<^verbatim>\<open>print\<close> lines. The inner loop over a vendor's adapters is \<open>run_impls\<close>, one
    iteration of the vendor loop is \<open>vendor_step\<close> (its boolean is the
    \<^verbatim>\<open>break\<close>), and the loop is \<open>exec_vendors\<close>. The plan is \<open>fallback_plan\<close>, the
    final aggregation \<open>aggregate\<close>. \<open>route_exec\<close> runs everything up to the end of
    the loop. Claims C1-C5, C7 and C8 are there: errors, exhaustion, aggregation,
    stopping, the loop invariant \<open>route_inv\<close> (the results are the values returned in
    the accepted attempts, read back from the trace by \<open>trace_values\<close>, and the attempt
    count counts registered vendors only), the safety net and market scoping; the lemma
    \<open>single_result_not_joined\<close> shows that single-result methods return one result.
  \<^item> \<open>Adapters\<close>: what the router sees of the AKShare and BaoStock adapters: the
    exception handlers of \<^verbatim>\<open>akshare_common.py\<close> and \<^verbatim>\<open>baostock_common.py\<close>,
    the \<^verbatim>\<open>get_stock_data\<close> adapters of \<^verbatim>\<open>akshare_stock.py\<close> and
    \<^verbatim>\<open>baostock_stock.py\<close>, and \<^verbatim>\<open>BaoStockSession\<close> as a log of
    \<^verbatim>\<open>bs\<close> calls. The libraries and the CSV rendering are oracle fields of the
    records \<open>ak_lib\<close> and \<open>bs_lib\<close>. Claims C23 and C25:
    \<^item> the AKShare adapter raises only for US symbols or network errors;
    \<^item> no BaoStock session is left open.
    The lemma \<open>baostock_reraise_classification\<close> shows that the keyword lists of the
    BaoStock handler and the router disagree.
  \<^item> \<open>Web_Auth\<close>: authentication and authorisation of the web backend:
    \<^verbatim>\<open>auth.py\<close>, the dependencies and handlers of \<^verbatim>\<open>auth_routes.py\<close>,
    \<^verbatim>\<open>AuthMiddleware\<close>, the ownership checks of \<^verbatim>\<open>decorators.py\<close>, and the
    validators of \<^verbatim>\<open>schemas.py\<close>. The database is an explicit record of table
    rows; bcrypt and JWT are oracles. The inductive \<open>db_reachable\<close> gives the states
    reachable by registrations, and \<open>users_map\<close> is the abstract view of the users
    table. Claims C27, C28, C30 and C33:
    \<^item> uniqueness of users, by rule induction;
    \<^item> the login token round trip;
    \<^item> the middleware exempting every path;
    \<^item> refinement of registration on the abstract map.
    The lemma \<open>active_check_redundant\<close> shows a redundant active check.
  \<^item> \<open>Task_Manager\<close>: \<^verbatim>\<open>TaskManager\<close> and \<^verbatim>\<open>ConnectionManager\<close> of
    \<^verbatim>\<open>app_v2.py\<close>. Dicts are insertion-ordered association lists and queues are
    lists. The \<^verbatim>\<open>threading.Lock\<close> is a state bit, and re-acquiring it inside a
    method is the value \<open>None\<close> (the thread never returns). The executor is the list
    of pending work items. \<open>tm_step\<close> gives the runs: method calls that return, and
    done callbacks of finished work items. Claims C34-C36:
    \<^item> the scheduler invariant, by rule induction;
    \<^item> the deadlock of the done callback;
    \<^item> the global queue never being drained.
    The lemma \<open>completion_starts_user_queue_head\<close> shows the hand-off of a user's
    queued task.
  \<^item> \<open>Analysis_Task\<close>: the columns of \<^verbatim>\<open>AnalysisRecord\<close> as an extension of
    \<open>Web_Auth\<close>'s record, \<^verbatim>\<open>truncate_message\<close>, the error classification, and
    \<^verbatim>\<open>run_analysis_task\<close>. The body of \<^verbatim>\<open>run_analysis_task\<close> is a list of stop
    checks, commits, raising calls and a guarded stream block, run by the interpreter
    \<open>run_acts\<close> with Python's exception semantics. The graph, the LLMs and the
    WebSocket are the oracle \<open>task_env\<close>. Claim C39: the record always ends in a
    final status.
  \<^item> \<open>Analysis_Routes\<close>: the handlers of \<^verbatim>\<open>analysis_routes.py\<close> on the rows of
    \<^verbatim>\<open>analysis_records\<close>, calling the task manager, and
    \<^verbatim>\<open>cleanup_running_tasks\<close>. Claim C18: a queued analysis cannot be stopped; the lemma \<open>list_pages_partition\<close> shows that pagination lists each analysis
    once.
  \<^item> \<open>Indicators\<close>: all of \<^verbatim>\<open>akshare_indicators.py\<close>. The eight
    calculators are functions on the columns of an \<open>ohlcv_frame\<close>, computing on exact
    reals extended with IEEE infinities and NaN (\<open>fval\<close>), with pandas' rolling
    windows (NaN until the window is full), \<^verbatim>\<open>ewm(adjust=False)\<close>,
    \<^verbatim>\<open>diff\<close>, \<^verbatim>\<open>shift\<close> and \<^verbatim>\<open>where\<close>. \<^verbatim>\<open>get_akshare_indicators\<close> is
    \<open>get_akshare_indicators\<close>, its \<^verbatim>\<open>try\<close> block \<open>ind_body\<close> (\<open>Inl\<close> of
    the exception its \<^verbatim>\<open>except\<close> turns into a message), its
    \<^verbatim>\<open>while\<close> loop over days \<open>report_loop\<close>, which terminates by the measure
    \<open>cur - before_d + 1\<close>, and its inner search \<open>closest_date\<close>. Dates are
    CPython's proleptic Gregorian ordinals (\<open>ymd2ord\<close>, \<open>ord2ymd\<close>). The stock
    data adapter, \<^verbatim>\<open>pd.read_csv\<close> and \<^verbatim>\<open>pd.to_datetime\<close> are the oracle
    \<open>ind_lib\<close>. The lemma \<open>report_loop_lines\<close> shows that the loop is the
    sequence of per-day lines. Claims C14, C16, C17, C19 and C32:
    \<^item> the search finds the latest trading day on or before the day;
    \<^item> with distinct dates the report has one line per day;
    \<^item> a duplicated date makes the whole report fail;
    \<^item> Bollinger bands are ordered;
    \<^item> RSI lies between 0 and 100.
  \<^item> \<open>Web_Routes\<close>: \<^verbatim>\<open>validate_api_key\<close> (\<^verbatim>\<open>routes/config_routes.py\<close>),
    \<^verbatim>\<open>export_analysis_pdf\<close> (\<^verbatim>\<open>routes/export_routes.py\<close>),
    \<^verbatim>\<open>get_tasks_status\<close> (\<^verbatim>\<open>routes/task_routes.py\<close>) and
    \<^verbatim>\<open>websocket_endpoint\<close> (\<^verbatim>\<open>routes/websocket_routes.py\<close>). The WebSocket is
    the list of events \<^verbatim>\<open>receive_text\<close> yields, read by \<open>ws_loop\<close>, and the
    registry is the \<open>connections\<close> of \<open>Task_Manager\<close>; \<open>reg_run\<close> runs any
    interleaving of its calls. Claim C9: a registered socket keeps receiving every message
    of its analysis until its own disconnect, the analysis' close or a failed send to it.
    The lemma \<open>conns_wf_preserved\<close> shows that the registry stays well formed, and
    \<open>ws_error_keeps_socket\<close> that an exit other
    than \<^verbatim>\<open>WebSocketDisconnect\<close> leaves the socket registered; the lemma
    \<open>ws_connect_disconnect_roundtrip\<close> shows that a client disconnect restores the
    registry.
  \<^item> \<open>Web_App\<close>: the first web application \<^verbatim>\<open>app.py\<close>. Its state
    (\<open>app_state\<close>) is the dicts \<^verbatim>\<open>active_analyses\<close> and \<^verbatim>\<open>analysis_results\<close>,
    \<^verbatim>\<open>os.environ\<close> and the scheduled background tasks; the handlers
    \<open>app_start_analysis\<close>, \<open>app_get_analysis_status\<close>, \<open>app_get_analysis_results\<close>
    and \<open>app_list_analyses\<close> (the handlers of the same names) act on it, and \<open>run_trading_analysis\<close>, which never awaits, is
    one atomic step, with the trading graph as the oracle \<open>app_graph\<close>. The inductive
    \<open>app_reach\<close> gives the states reachable by requests and task runs in any order;
    \<open>app_reach_inv\<close> proves the invariant \<open>app_inv\<close> by rule induction. Claims C6,
    C12 and C40: same-second requests collide, the statuses a client can observe, and
    an API key outliving its request.
  \<^item> \<open>Fundamentals\<close>: \<^verbatim>\<open>akshare_fundamentals.py\<close> and
    \<^verbatim>\<open>baostock_fundamentals.py\<close>. The library calls and \<^verbatim>\<open>to_csv\<close> are oracle
    fields of \<open>ak_fin_lib\<close> and \<open>bs_fin_lib\<close>, which extend the records of
    \<open>Adapters\<close>, and the BaoStock functions run their queries inside \<open>bs_session\<close>.
    The shared structure is one definition per shape (\<open>ak_statement_body\<close>,
    \<open>bs_statement_body\<close>, \<open>bs_multi_body\<close>), which each source function instantiates.
    The Chinese \<^verbatim>\<open>market_name\<close> is the parameter \<open>mn\<close>. Claims C10 and C13:
    \<^item> the financial report is the no-data message exactly when every query fails;
    \<^item> no BaoStock fundamentals adapter leaves a session open.
    The lemma \<open>info_dict_python_dict\<close> shows that the AKShare item table behaves as a
    Python dict, and \<open>bs_header_no_newline\<close> that the BaoStock headers contain no line
    break.
  \<^item> \<open>Migrations\<close>: the schema scripts of the web backend on an explicit SQLite
    state \<open>mig_state\<close> (tables with their columns, rows of \<^verbatim>\<open>schema_version\<close>, the
    users rows as the \<open>db\<close> of \<open>Web_Auth\<close>, standard output): \<^verbatim>\<open>migrate_db.py\<close>
    (\<open>get_current_version\<close>, \<open>set_version\<close>, the two migrations, \<open>migration_loop\<close>,
    \<open>run_migrations\<close>, \<open>migrate_main\<close>), \<open>init_db\<close> and \<open>drop_db\<close> of
    \<^verbatim>\<open>database.py\<close>, \<^verbatim>\<open>init_db.py\<close> (\<open>create_sample_user\<close>, \<open>init_main\<close>)
    and \<^verbatim>\<open>migrate_add_fields.py\<close> (\<open>migrate\<close>). Driver failures outside the schema
    are the oracle \<open>sql_faults\<close>; \<open>schema_reach\<close> is the step relation of the
    scripts, the server's \<open>init_db\<close> and registrations, and the lemma
    \<open>schema_reach_inv\<close> gives the schema invariant of every reachable state. Claims: C15, a run without
    failures brings the version to \<open>max 3 v\<close> and creates the tables; C21, a second
    run changes nothing; C26 and C31, the forced version and the failed version query.
    The lemma \<open>create_sample_user_db\<close> shows the sample user is added as a
    registration would add it.
  \<^item> \<open>Decorators\<close>: the wrappers of \<^verbatim>\<open>decorators.py\<close>
    (\<open>require_authentication\<close>, \<open>require_analysis_ownership\<close>) and
    \<^verbatim>\<open>PermissionChecker.__call__\<close> (\<open>permission_checker\<close>). Positional arguments are
    requests, numbered sessions or other objects by class name, keyword arguments an
    association list, and the decorated function an oracle; \<open>sess_state\<close> records the
    sessions opened by \<^verbatim>\<open>get_db\<close> and those closed. The lemma
    \<open>require_analysis_ownership_spec\<close> shows that the ownership wrapper refines
    \<open>ownership_spec\<close>, and \<open>stacked_checker\<close> that the two decorators stacked agree
    with \<^verbatim>\<open>AnalysisOwnershipChecker\<close>. No endpoint of the repository uses them.
  \<^item> \<open>Stockstats\<close>: \<^verbatim>\<open>StockstatsUtils.get_stock_stats\<close> of
    \<^verbatim>\<open>stockstats_utils.py\<close> (\<open>get_stock_stats\<close>, with \<open>ss_load_local\<close>,
    \<open>ss_cache_file\<close>, \<open>ss_load_online\<close> and the row selection \<open>ss_select\<close>);
    pandas, stockstats and yfinance are the oracle \<open>ss_lib\<close>. Claim C37: the exact
    match followed by the scan of the seven preceding days returns the first row of the
    latest trading day on or before the requested day, when that day lies within seven
    days (\<open>ss_reference\<close>). The lemmas \<open>get_stock_stats_local\<close> and
    \<open>ss_reference_after_end\<close> show the bundled-data branch and its end date.
  \<^item> \<open>App_V2\<close>: the \<^verbatim>\<open>lifespan\<close> handler of \<^verbatim>\<open>app_v2.py\<close> run by each
    server worker (\<open>lifespan_startup\<close>, \<open>lifespan_shutdown\<close>), the leader election
    by binding the port \<^verbatim>\<open>TASK_MONITOR_LEADER_PORT\<close>, one iteration of
    \<^verbatim>\<open>task_monitor\<close> (\<open>monitor_tick\<close>), and the report builders
    \<open>generate_final_summary\<close> and \<open>generate_phases_data\<close>. A deployment is a
    \<open>cluster\<close> of live workers, the port's holder and the shared database;
    \<open>cluster_reach\<close> starts and stops workers in any order and lets their task
    managers step. Claim C38: in every reachable deployment at most one worker is leader
    and only the leader monitors (through the invariant \<open>election_inv\<close>, lemma
    \<open>cluster_reach_inv\<close>). The lemma \<open>startup_leader_views\<close> shows that a leader
    whose \<^verbatim>\<open>init_db\<close> fails never monitors; \<open>phases_ids_ascending\<close> and
    \<open>analyst_phase_bounded\<close> describe the phases data.
  \<^item> \<open>Agent_Log\<close>: the agent log lines. \<open>agent_log_line\<close> is \<^verbatim>\<open>AgentLogger.log\<close>
    of \<^verbatim>\<open>agents/utils/logger.py\<close> (its Chinese names, level texts and emoji are the
    fields of \<open>log_texts\<close>, and \<open>texts_ok\<close> states the shape the literals have);
    \<open>captured_print\<close> is \<^verbatim>\<open>LogCapture\<close>; \<open>parse_agent_log\<close> is the parser of
    \<^verbatim>\<open>analysis_task.py\<close>, its ANSI pattern \<open>ansi_strip\<close> (a \<open>function\<close>
    terminating by length) and its line pattern \<open>match_agent_log\<close>, translated with
    Python's backtracking. Claim C29: the parser reads back what the logger prints.
  \<^item> \<open>Stock_Info\<close>: the rest of the stock adapters. \<open>ak_process_output\<close> and
    \<open>bs_process_output\<close> are \<^verbatim>\<open>process_dataframe_for_output\<close> of
    \<^verbatim>\<open>akshare_common.py\<close> and \<^verbatim>\<open>baostock_common.py\<close>; the lemma
    \<open>header_info_order\<close> shows that their loop of \<^verbatim>\<open>insert(-2, ...)\<close> places the
    additional items, in order, between the record count and the data source.
    \<open>ak_get_realtime_data\<close> and \<open>ak_get_stock_info\<close> model \<^verbatim>\<open>akshare_stock.py\<close>,
    with the spot tables and the clock read through \<^verbatim>\<open>ak.datetime\<close> as oracle fields of
    \<open>ak_info_lib\<close>; their branch for a market other than A, HK and US, which would read
    an unassigned variable, is unreachable (lemma \<open>ak_market_supported\<close>).
    \<open>bs_get_stock_info\<close> and \<open>bs_get_dividend_data\<close> model
    \<^verbatim>\<open>baostock_stock.py\<close> and leave no session open (lemma
    \<open>stock_info_sessions_balanced\<close>).
  \<^item> \<open>News\<close>: \<^verbatim>\<open>akshare_news.py\<close>. A data frame is its columns and rows
    (\<open>news_df\<close>); the AKShare news and sentiment calls, \<^verbatim>\<open>to_csv\<close> and
    \<^verbatim>\<open>pd.concat\<close> are oracle fields of \<open>ak_news_lib\<close>, an extension of
    \<open>ak_lib\<close>; the sources are the constructors of \<open>news_src\<close> and
    \<open>senti_src\<close>, their Chinese display names the parameter \<open>lbl\<close>. The fallback
    loop (\<open>fallback_loop\<close>) stops at the first usable source; the aggregation and the
    sentiment loops (\<open>aggregate_loop\<close>, \<open>sentiment_loop\<close>) keep every source
    that answers. \<open>stock_news_em\<close> is indexed by the number of the call, so a repeated
    call may answer differently. Claim C24: for an A-share the retry of
    \<^verbatim>\<open>_get_stock_specific_news\<close> repeats the failed call with the same symbol, and its
    own outcome decides between its news and the fallback. The lemmas \<open>fallback_news_bounded\<close>
    (at most \<open>limit\<close> rows), \<open>aggregate_loop_sources\<close> (the sources used are the
    answering ones, in order) and \<open>aggregate_loop_tagged\<close> (every aggregated frame
    carries the \<^verbatim>\<open>news_source\<close> column) describe the other functions.
  \<^item> This theory: facts about the shipped tables, and end-to-end claims. C20 and C22 are
    the fallback scenario of the specification and aggregation with the safety net. The
    lemmas \<open>empty_market_entry_no_safety_net\<close> (a market entry with empty vendor lists)
    and \<open>akshare_error_string_returned\<close> (an AKShare error string returned to the
    caller as data) complete them.

  \<^bold>\<open>Modelling choices.\<close>
  \<^item> The router does not call the adapter models: an adapter call is answered by a world oracle
    \<open>world ad n f cl\<close>: the outcome (\<open>Returned v\<close> or \<open>Raised e\<close>) of the
    \<open>n\<close>-th adapter invocation of the call, to function \<open>f\<close>, with arguments
    \<open>cl\<close>. The invocation number makes the theorems hold for every adapter
    behaviour, stateful or flaky ones included.
  \<^item> \<^verbatim>\<open>str(result)\<close> is the parameter \<open>str_of\<close>, and \<^verbatim>\<open>float(s)\<close>
    succeeding is the parameter \<open>float_ok\<close>.
  \<^item> \<^verbatim>\<open>valid_ratio < 0.3\<close> is compared exactly, over \<open>rat\<close>.
  \<^item> Python exceptions of the router are values: results are \<open>py_exc + _\<close>,
    with \<open>Inl\<close> the raise.
  \<^item> Every loop of the engine runs over a finite list, so every function is total by
    structural recursion; \<open>py_replace\<close>, the token-count search of the error
    classification and the day loop of \<^verbatim>\<open>get_akshare_indicators\<close> terminate by a
    measure. No fuel is used. The only non-returning
    behaviour of the program that is modelled is the deadlock of the task manager. It
    is the value \<open>None\<close> of an option-valued method, not a diverging function.
  \<^item> The web backend's database is explicit state: lists of rows in table order,
    with SQLite semantics for \<^verbatim>\<open>LIKE\<close>, \<^verbatim>\<open>OFFSET\<close> and \<^verbatim>\<open>LIMIT\<close>, and
    commits that succeed. Clock readings are parameters in whole seconds.
  \<^item> Concurrency is modelled at the granularity of the event loop: a coroutine that
    does not await between its reads and writes (\<open>run_trading_analysis\<close>) is one step,
    and \<open>send_message\<close>, which awaits once per socket, is one step as well, so another
    coroutine's registry call inside a send is not modelled. A done callback is a step
    of its own; \<^verbatim>\<open>add_done_callback\<close> on a future that has already finished, which
    runs the callback at once while the lock is held, is not modelled.
  \<^item> The leader election assumes POSIX \<^verbatim>\<open>bind\<close> semantics: a second bind of a
    listening port fails. On Windows, \<^verbatim>\<open>SO_REUSEADDR\<close> lets another socket bind
    the same port, so several workers could become leader there; claim C38 does not cover
    that platform.
  \<^item> Chinese texts that the web backend stores or returns are named constants of
    datatypes (\<open>detail\<close>, \<open>msg_note\<close>, \<open>step\<close>, \<open>agent_name\<close>, ...).
  \<^item> Prices are exact reals: pandas' doubles and their rounding are not modelled, and
    \<^verbatim>\<open>{value:.4f}\<close> rounds the exact value half to even. The square root of the
    Bollinger bands makes those two entries of \<open>indicator_params\<close> evaluable by
    \<open>simp\<close> but not by generated code. \<^verbatim>\<open>strftime('%Y')\<close> is modelled for
    years from 1000 on, and a frame column is read as one value per row.
  \<^item> The three Chinese no-data keywords of the gate and the Chinese
    \<^verbatim>\<open>market_name\<close> of \<^verbatim>\<open>get_market_info\<close> lie outside the Latin-1 alphabet and
    are left out. Upper-casing of U+00B5 and U+00FF, which leave Latin-1, is not
    modelled.

  \<^bold>\<open>Not modelled.\<close> These parts perform network I/O, DataFrame formatting, LLM
  prompting or presentation:
  \<^item> the Chinese descriptions of \<^verbatim>\<open>indicator_params\<close>, named by their keys;
  \<^item> the agents under \<^verbatim>\<open>src/tradingagents/agents/\<close>, apart from the logger;
  \<^item> \<^verbatim>\<open>standardize_column_names\<close> of the two common modules, which renames and rounds
    DataFrame columns inside the rendering oracles;
  \<^item> within \<^verbatim>\<open>analysis_task.py\<close>: the agent detection of the stream loop, which only yield log messages and progress
    values (supplied by the oracle), and \<^verbatim>\<open>serialize_state\<close>;
  \<^item> \<^verbatim>\<open>get_analysis_markdown\<close>, a Markdown rendering of the fields
    \<^verbatim>\<open>get_analysis_results\<close> returns;
  \<^item> the FastAPI set-up of \<^verbatim>\<open>app_v2.py\<close> (middleware, static files, router
    registration), the constant table of \<^verbatim>\<open>get_config\<close>, the template pages and health
    checks;
  \<^item> \<^verbatim>\<open>get_db\<close> of \<^verbatim>\<open>database.py\<close>, a session generator, and the argument parsing of the
    scripts' malformed command lines.

  \<^bold>\<open>What the development shows about the code.\<close>
  \<^item> The \<^verbatim>\<open>sz\<close>/\<^verbatim>\<open>sh\<close> prefix removal for AKShare is dead code (lemma \<open>format_akshare_a_stock\<close>).
  \<^item> Unsupported combinations return the upper-cased, stripped symbol, not the input
    (lemma \<open>format_unsupported\<close>).
  \<^item> yfinance formatting turns Shanghai and Shenzhen A-shares into symbols classified
    as US stocks (lemma \<open>format_yfinance_a_stock\<close>).
  \<^item> BaoStock formatting leaves Beijing and NEEQ codes unprefixed (lemma \<open>format_baostock_unprefixed\<close>).
  \<^item> The terminal error names the method but not the attempt count (C2).
  \<^item> A market entry with empty vendor lists disables the safety net while routing by
    the tool or category layer (lemma \<open>empty_market_entry_no_safety_net\<close>).
  \<^item> Aggregation includes the results of safety-net vendors (C22).
  \<^item> A non-network AKShare failure reaches the caller as an error string, without
    fallback (lemma \<open>akshare_error_string_returned\<close>).
  \<^item> BaoStock re-raises on keywords the router does not treat as network errors
    (lemma \<open>baostock_reraise_classification\<close>).
  \<^item> The A-share retry of \<^verbatim>\<open>_get_stock_specific_news\<close> uses the symbol that
    just failed (C24); \<^verbatim>\<open>get_global_news\<close> prints its date range but does not
    filter by it.
  \<^item> \<^verbatim>\<open>AuthMiddleware\<close> exempts every path (C30); the active-user test of
    \<^verbatim>\<open>get_current_active_user\<close> is unreachable (lemma \<open>active_check_redundant\<close>).
  \<^item> The log parser drops every agent line logged without a ticker, ignores the
    \<^verbatim>\<open>SYSTEM\<close> role and keeps only the first line of a message (lemmas
    \<open>parse_without_ticker\<close>, \<open>role_name_to_code_system\<close>, \<open>parse_multiline\<close>).
  \<^item> The task manager deadlocks when a task finishes while the global queue is not
    empty, so analyses queued because all workers were busy never run (C35, C36).
  \<^item> In the first app, two analyses of one ticker started within a second share an id
    and the first is lost (C6); an API key written to \<^verbatim>\<open>os.environ\<close> by one
    request serves every later request without a key (C40); a client never sees an
    analysis running, and the status branch reading the results is dead (C12).
  \<^item> A queued analysis cannot be stopped (C18), and a restart leaves queued
    records queued for ever.
  \<^item> Two branches of the fallback summary of \<^verbatim>\<open>get_analysis_results\<close> are dead,
    and network errors that mention an invalid response are reported as API key
    failures.
  \<^item> A date that occurs twice in the stock data makes
    \<^verbatim>\<open>get_akshare_indicators\<close> fail with pandas' ambiguity error (C17), and its
    \<^verbatim>\<open>Calculation error\<close> branch is dead.
  \<^item> A WebSocket frame holding JSON that is not an object ends the endpoint without
    unregistering the socket (lemma \<open>ws_error_keeps_socket\<close>); the PDF export returns a download URL that no route
    serves.
  \<^item> \<^verbatim>\<open>--force-version\<close> cannot set the version back, and \<^verbatim>\<open>--force-version 0\<close>
    runs the migrations (C26, lemma \<open>force_version_zero_runs_migrations\<close>); a failed version query is read as version 1, so the
    script reruns the first migration and fails on a duplicate key (C31).
  \<^item> The BaoStock financial reports use a literal backslash-n instead of line breaks in
    their headers, and a failed query is skipped silently, so a partial report passes as
    a success (C10). A failed send leaves an empty entry in the WebSocket registry.
  \<^item> \<^verbatim>\<open>require_authentication\<close> looks for the request among the positional
    arguments, but FastAPI passes endpoint parameters by keyword, so a decorated endpoint
    always answers 500 (lemma \<open>require_authentication_kwargs_only\<close>). The ownership
    wrapper closes the session even when the caller passed it in, since its test compares
    class names with \<^verbatim>\<open>'db'\<close> (lemma \<open>require_analysis_ownership_closes\<close>), and
    \<^verbatim>\<open>PermissionChecker(require_active=False)\<close> returns a wrapper function instead of a
    user, without checking anything (lemma \<open>permission_checker_inactive\<close>).
  \<^item> With the bundled stock data, every day more than a week after 2025-03-25 is reported
    as not a trading day (lemma \<open>ss_reference_after_end\<close>).
  \<^item> A leader worker whose \<^verbatim>\<open>init_db\<close> fails keeps the port but never starts
    \<^verbatim>\<open>task_monitor\<close>, so no worker checks for stalled tasks while it lives
    (lemma \<open>startup_leader_views\<close>).
\<close>

section \<open>Facts about the shipped catalog and configuration\<close>

lemma identify_market_Nil: "identify_market [] = UNKNOWN"
  by code_simp

lemma split_default_a: "split_vendors ''akshare,baostock,yfinance'' = [''akshare'', ''baostock'', ''yfinance'']"
  by code_simp

lemma get_vendor_default_a_stock:
  assumes "identify_market s = A_STOCK"
  shows "get_vendor DEFAULT_CONFIG c m (Some s) = ''akshare,baostock,yfinance''"
proof -
  have "s \<noteq> []" using assms identify_market_Nil by auto
  with assms show ?thesis
    by (simp add: get_vendor_def market_layer_def get_market_info_def DEFAULT_CONFIG_def dict_get_def)
qed

lemma stock_impls:
  "map_of (the (vendor_methods_of ''get_stock_data'')) ''akshare'' = Some (Single ''get_akshare_stock_data'')"
  "map_of (the (vendor_methods_of ''get_stock_data'')) ''baostock'' = Some (Single ''get_baostock_stock_data'')"
  by code_simp+

lemma stock_registered:
  "vendor_methods_of ''get_stock_data'' = Some (the (vendor_methods_of ''get_stock_data''))"
  by code_simp

lemma stock_category: "get_category_for_method ''get_stock_data'' = Inr ''core_stock_apis''"
  by code_simp

lemma news_impls:
  "vendor_methods_of ''get_news'' = Some (the (vendor_methods_of ''get_news''))"
  by code_simp

lemma news_category: "get_category_for_method ''get_news'' = Inr ''news_data''"
  by code_simp

lemma split_news3: "split_vendors ''akshare,openai,google'' = [''akshare'', ''openai'', ''google'']"
  by code_simp

lemma news_plan:
  "add_missing [''akshare'', ''openai'', ''google''] (map fst (the (vendor_methods_of ''get_news''))) =
     [''akshare'', ''openai'', ''google'', ''alpha_vantage'', ''local'']"
  by code_simp

lemma news_plan_impls:
  "plan_impls (the (vendor_methods_of ''get_news'')) [''akshare'', ''openai'', ''google'', ''alpha_vantage'', ''local''] =
     [''get_akshare_stock_news'', ''get_stock_news_openai'', ''get_google_news'', ''get_alpha_vantage_news'',
      ''get_finnhub_news'', ''get_reddit_company_news'', ''get_google_news'']"
  by code_simp

section \<open>End-to-end properties of the routing engine\<close>

text \<open>C20: the fallback scenario of the specification, for every adapter behaviour and every
  A-share symbol under \<^verbatim>\<open>DEFAULT_CONFIG\<close>: when the AKShare adapter raises a network
  error and the BaoStock adapter returns \<open>v\<close>, \<^verbatim>\<open>get_stock_data\<close> returns \<open>v\<close>
  itself, BaoStock is the successful vendor after two attempts, and yfinance, the third
  vendor of the plan, is never attempted.\<close>

theorem a_share_fallback_scenario:
  assumes "extract_symbol cl = Some s" and "identify_market s = A_STOCK"
    and "world ad 0 ''get_akshare_stock_data'' cl = Raised e" and "classify_exc e = NETWORK_ERROR"
    and "world ad 1 ''get_baostock_stock_data'' cl = Returned v"
  shows "route_to_vendor DEFAULT_CONFIG ad ''get_stock_data'' cl = Inr (Native v) \<and>
         (\<exists>st. route_exec DEFAULT_CONFIG ad ''get_stock_data'' cl = Inr st \<and>
               successful_vendor st = Some ''baostock'' \<and> vendor_attempt_count st = 2 \<and>
               trace st = [Invoked ''akshare'' ''get_akshare_stock_data'' (Some NETWORK_ERROR),
                           NoResults ''akshare'',
                           Invoked ''baostock'' ''get_baostock_stock_data'' None,
                           Accepted ''baostock''])"
proof -
  have pv: "route_primary DEFAULT_CONFIG ''core_stock_apis'' ''get_stock_data'' cl =
              [''akshare'', ''baostock'', ''yfinance'']"
    using assms(1,2) by (simp add: route_primary_def get_vendor_default_a_stock split_default_a)
  have ms: "market_scoped DEFAULT_CONFIG (Some s)"
    using assms(2) identify_market_Nil
    by (auto simp: market_scoped_def get_market_info_def DEFAULT_CONFIG_def)
  have ex: "exec_vendors ad cl ''get_stock_data'' [''akshare'', ''baostock'', ''yfinance'']
              (the (vendor_methods_of ''get_stock_data'')) [''akshare'', ''baostock'', ''yfinance''] init_rstate =
            (init_rstate\<lparr>results := [v], vendor_attempt_count := 2, successful_vendor := Some ''baostock'',
               invocations := 2,
               trace := [Invoked ''akshare'' ''get_akshare_stock_data'' (Some NETWORK_ERROR),
                         NoResults ''akshare'',
                         Invoked ''baostock'' ''get_baostock_stock_data'' None,
                         Accepted ''baostock'']\<rparr>, True)"
    using assms(3-5) by (simp add: vendor_step_closed stock_impls init_rstate_def Let_def
                               stop_after_first_success_def SINGLE_RESULT_METHODS_def)
  show ?thesis
    using ex assms(1) ms pv
    by (simp add: route_to_vendor_def route_exec_Inr [OF stock_category stock_registered]
                  fallback_plan_def aggregate_def)
qed

theorem a_share_fallback_scenario_witness: "route_to_vendor DEFAULT_CONFIG adapters_flaky ''get_stock_data'' call_600000 =
     Inr (Native ''data from get_baostock_stock_data'')"
proof -
  have h1: "extract_symbol call_600000 = Some ''600000''" by code_simp
  have h2: "identify_market ''600000'' = A_STOCK" by code_simp
  have h3: "world adapters_flaky 0 ''get_akshare_stock_data'' call_600000 = Raised (ConnectionError ''connection reset'')"
    by (simp add: adapters_flaky_def)
  have h4: "classify_exc (ConnectionError ''connection reset'') = NETWORK_ERROR" by simp
  have h5: "world adapters_flaky 1 ''get_baostock_stock_data'' call_600000 = Returned ''data from get_baostock_stock_data''"
    by (simp add: adapters_flaky_def)
  show ?thesis using a_share_fallback_scenario [OF h1 h2 h3 h4 h5] by blast
qed

text \<open>A market entry of \<^verbatim>\<open>market_vendors\<close> whose \<^verbatim>\<open>primary\<close> and
  \<^verbatim>\<open>fallback\<close> are both empty makes \<^verbatim>\<open>get_vendor\<close> fall through to the tool and
  category layers, yet \<^verbatim>\<open>route_to_vendor\<close> still treats the call as market-scoped: the
  vendors are those of the tool or category layer, and no safety-net vendor is added.\<close>

theorem empty_market_entry_no_safety_net:
  assumes "extract_symbol cl = Some s" and "s \<noteq> []"
    and "market_vendors cfg (market_str (identify_market s)) = Some mc"
    and "dict_get mc ''primary'' [] = []" and "dict_get mc ''fallback'' [] = []"
  shows "route_primary cfg c m cl = split_vendors (get_vendor cfg c (Some m) None) \<and>
         fallback_plan cfg (extract_symbol cl) (route_primary cfg c m cl) impls = route_primary cfg c m cl"
proof -
  have "market_layer cfg (Some s) = None"
    using assms(2-5) by (simp add: market_layer_def get_market_info_def Let_def)
  then have "get_vendor cfg c (Some m) (Some s) = get_vendor cfg c (Some m) None"
    by (simp add: get_vendor_def)
  moreover have "market_scoped cfg (Some s)"
    using assms(2,3) by (auto simp: market_scoped_def get_market_info_def Let_def)
  ultimately show ?thesis
    using assms(1) by (simp add: route_primary_def fallback_plan_def)
qed

theorem empty_market_entry_no_safety_net_witness: "route_primary (DEFAULT_CONFIG\<lparr>market_vendors := [''A_STOCK'' \<mapsto> Map.empty]\<rparr>)
       ''core_stock_apis'' ''get_stock_data'' call_600000 = [''akshare'']
   \<and> fallback_plan (DEFAULT_CONFIG\<lparr>market_vendors := [''A_STOCK'' \<mapsto> Map.empty]\<rparr>) (extract_symbol call_600000)
       [''akshare''] (the (vendor_methods_of ''get_stock_data'')) = [''akshare'']"
proof -
  have h1: "extract_symbol call_600000 = Some ''600000''" by code_simp
  have h2: "''600000'' \<noteq> []" by simp
  have h3: "market_vendors (DEFAULT_CONFIG\<lparr>market_vendors := [''A_STOCK'' \<mapsto> Map.empty]\<rparr>)
              (market_str (identify_market ''600000'')) = Some Map.empty"
  proof -
    have "identify_market ''600000'' = A_STOCK" by code_simp
    then show ?thesis by simp
  qed
  have h4: "dict_get Map.empty ''primary'' [] = []" and h5: "dict_get Map.empty ''fallback'' [] = []"
    by (simp_all add: dict_get_def)
  have e: "split_vendors (get_vendor (DEFAULT_CONFIG\<lparr>market_vendors := [''A_STOCK'' \<mapsto> Map.empty]\<rparr>)
             ''core_stock_apis'' (Some ''get_stock_data'') None) = [''akshare'']" by code_simp
  have t: "route_primary (DEFAULT_CONFIG\<lparr>market_vendors := [''A_STOCK'' \<mapsto> Map.empty]\<rparr>)
       ''core_stock_apis'' ''get_stock_data'' call_600000 =
       split_vendors (get_vendor (DEFAULT_CONFIG\<lparr>market_vendors := [''A_STOCK'' \<mapsto> Map.empty]\<rparr>)
             ''core_stock_apis'' (Some ''get_stock_data'') None) \<and>
     fallback_plan (DEFAULT_CONFIG\<lparr>market_vendors := [''A_STOCK'' \<mapsto> Map.empty]\<rparr>) (extract_symbol call_600000)
       (route_primary (DEFAULT_CONFIG\<lparr>market_vendors := [''A_STOCK'' \<mapsto> Map.empty]\<rparr>)
          ''core_stock_apis'' ''get_stock_data'' call_600000) (the (vendor_methods_of ''get_stock_data'')) =
     route_primary (DEFAULT_CONFIG\<lparr>market_vendors := [''A_STOCK'' \<mapsto> Map.empty]\<rparr>)
       ''core_stock_apis'' ''get_stock_data'' call_600000"
    by (rule empty_market_entry_no_safety_net [OF h1 h2 h3 h4 h5])
  then have rp: "route_primary (DEFAULT_CONFIG\<lparr>market_vendors := [''A_STOCK'' \<mapsto> Map.empty]\<rparr>)
       ''core_stock_apis'' ''get_stock_data'' call_600000 = [''akshare'']"
    using e by simp
  from t have f: "fallback_plan (DEFAULT_CONFIG\<lparr>market_vendors := [''A_STOCK'' \<mapsto> Map.empty]\<rparr>)
       (extract_symbol call_600000)
       (route_primary (DEFAULT_CONFIG\<lparr>market_vendors := [''A_STOCK'' \<mapsto> Map.empty]\<rparr>)
          ''core_stock_apis'' ''get_stock_data'' call_600000) (the (vendor_methods_of ''get_stock_data'')) =
     route_primary (DEFAULT_CONFIG\<lparr>market_vendors := [''A_STOCK'' \<mapsto> Map.empty]\<rparr>)
       ''core_stock_apis'' ''get_stock_data'' call_600000"
    by (rule conjunct2)
  show ?thesis by (rule conjI [OF rp f [unfolded rp]])
qed

text \<open>C22: an aggregation method configured with three providers at the tool level,
  every adapter succeeding: the returned string joins, in attempt order, the results of the
  three providers and of every safety-net vendor of the catalog (Alpha Vantage and the three
  local sources), not only those of the three configured providers.\<close>

theorem news_aggregation_includes_safety_net:
  assumes "market_vendors cfg = Map.empty" and "tool_vendors cfg ''get_news'' = Some ''akshare,openai,google''"
    and "\<forall>n f. world ad n f cl = Returned (val f)"
  shows "route_to_vendor cfg ad ''get_news'' cl =
           Inr (Joined (py_join [CHR 0x0A] (map (str_of ad \<circ> val)
             [''get_akshare_stock_news'', ''get_stock_news_openai'', ''get_google_news'', ''get_alpha_vantage_news'',
              ''get_finnhub_news'', ''get_reddit_company_news'', ''get_google_news''])))"
proof -
  have pv: "route_primary cfg ''news_data'' ''get_news'' cl = [''akshare'', ''openai'', ''google'']"
    using assms(1,2) by (simp add: route_primary_def get_vendor_def market_layer_def split_news3
                              get_market_info_def Let_def split: option.split)
  have ns: "\<not> market_scoped cfg (extract_symbol cl)"
    using assms(1) by (simp add: market_scoped_def)
  have nstop: "\<not> stop_after_first_success ''get_news'' [''akshare'', ''openai'', ''google'']"
    by (simp add: stop_after_first_success_def SINGLE_RESULT_METHODS_def)
  have ret: "returned (world ad) cl n fs = map val fs" for n fs
    using assms(3) by (induction fs arbitrary: n) simp_all
  have "results (fst (exec_vendors ad cl ''get_news'' [''akshare'', ''openai'', ''google'']
            (the (vendor_methods_of ''get_news'')) [''akshare'', ''openai'', ''google'', ''alpha_vantage'', ''local'']
            init_rstate)) =
          map val [''get_akshare_stock_news'', ''get_stock_news_openai'', ''get_google_news'', ''get_alpha_vantage_news'',
              ''get_finnhub_news'', ''get_reddit_company_news'', ''get_google_news'']"
    using exec_vendors_aggregate [OF nstop, where ad = ad and cl = cl and st = init_rstate and
        impls = "the (vendor_methods_of ''get_news'')" and plan = "[''akshare'', ''openai'', ''google'', ''alpha_vantage'', ''local'']"]
    by (simp add: news_plan_impls ret del: returned.simps)
  then show ?thesis
    using pv ns
    by (simp add: route_to_vendor_def route_exec_Inr [OF news_category news_impls] fallback_plan_def
                  news_plan aggregate_def)
qed

theorem news_aggregation_includes_safety_net_witness: "route_to_vendor (DEFAULT_CONFIG\<lparr>market_vendors := Map.empty,
                                tool_vendors := [''get_news'' \<mapsto> ''akshare,openai,google'']\<rparr>)
     \<lparr>world = (\<lambda>n f cl. Returned f), str_of = id, float_ok = (\<lambda>_. False)\<rparr> ''get_news'' call_600000 =
   Inr (Joined (py_join [CHR 0x0A]
     [''get_akshare_stock_news'', ''get_stock_news_openai'', ''get_google_news'', ''get_alpha_vantage_news'',
      ''get_finnhub_news'', ''get_reddit_company_news'', ''get_google_news'']))"
proof -
  have h1: "market_vendors (DEFAULT_CONFIG\<lparr>market_vendors := Map.empty,
                                tool_vendors := [''get_news'' \<mapsto> ''akshare,openai,google'']\<rparr>) = Map.empty" by simp
  have h2: "tool_vendors (DEFAULT_CONFIG\<lparr>market_vendors := Map.empty,
                                tool_vendors := [''get_news'' \<mapsto> ''akshare,openai,google'']\<rparr>) ''get_news''
              = Some ''akshare,openai,google''" by simp
  have h3: "\<forall>n f. world \<lparr>world = (\<lambda>n f cl. Returned f), str_of = id, float_ok = (\<lambda>_. False)\<rparr> n f call_600000
                  = Returned (id f)" by simp
  show ?thesis using news_aggregation_includes_safety_net [OF h1 h2 h3] by simp
qed

text \<open>When the AKShare library fails on an A-share query with an error that is
  not network-related (a rate limit, say), the adapter returns its error string, the router
  accepts that string as the result of \<^verbatim>\<open>get_stock_data\<close> and stops: the caller
  receives \<^verbatim>\<open>Error retrieving stock data ...\<close> as data, and BaoStock is never
  tried.\<close>

theorem akshare_error_string_returned:
  assumes "extract_symbol cl = Some s" and "identify_market s = A_STOCK"
    and "world ad 0 ''get_akshare_stock_data'' cl = akshare_get_stock_data lib s sd ed"
    and "ak_available lib" and "strptime_ymd sd \<noteq> None" and "strptime_ymd ed \<noteq> None"
    and "stock_zh_a_hist lib (format_symbol_for_vendor s ''akshare'' (Some A_STOCK))
           (format_date_for_akshare sd A_STOCK) (format_date_for_akshare ed A_STOCK) = Raised e"
    and "\<not> list_ex (\<lambda>k. py_contains k (py_lower (exc_str e))) AK_NETWORK_KEYWORDS"
  shows "route_to_vendor DEFAULT_CONFIG ad ''get_stock_data'' cl =
           Inr (Native (''Error retrieving stock data for '' @ s @ '': '' @ exc_str e))"
proof -
  have ne: "s \<noteq> []" using assms(2) identify_market_Nil by auto
  have w: "world ad 0 ''get_akshare_stock_data'' cl =
             Returned (''Error retrieving stock data for '' @ s @ '': '' @ exc_str e)"
    using assms(3) ak_stock_a_share_raise [OF assms(2,4-7)] assms(8) ne
    by (simp add: handle_akshare_exception_def symbol_info_def)
  have pv: "route_primary DEFAULT_CONFIG ''core_stock_apis'' ''get_stock_data'' cl =
              [''akshare'', ''baostock'', ''yfinance'']"
    using assms(1,2) by (simp add: route_primary_def get_vendor_default_a_stock split_default_a)
  have ms: "market_scoped DEFAULT_CONFIG (Some s)"
    using assms(2) ne by (auto simp: market_scoped_def get_market_info_def DEFAULT_CONFIG_def)
  have ex: "exec_vendors ad cl ''get_stock_data'' [''akshare'', ''baostock'', ''yfinance'']
              (the (vendor_methods_of ''get_stock_data'')) [''akshare'', ''baostock'', ''yfinance''] init_rstate =
            (init_rstate\<lparr>results := [''Error retrieving stock data for '' @ s @ '': '' @ exc_str e],
               vendor_attempt_count := 1, successful_vendor := Some ''akshare'', invocations := 1,
               trace := [Invoked ''akshare'' ''get_akshare_stock_data'' None, Accepted ''akshare'']\<rparr>, True)"
    using w by (simp add: vendor_step_closed stock_impls init_rstate_def Let_def
                          stop_after_first_success_def SINGLE_RESULT_METHODS_def)
  show ?thesis
    using ex assms(1) ms pv
    by (simp add: route_to_vendor_def route_exec_Inr [OF stock_category stock_registered]
                  fallback_plan_def aggregate_def)
qed

theorem akshare_error_string_returned_witness: "route_to_vendor DEFAULT_CONFIG
     \<lparr>world = (\<lambda>n f cl. if f = ''get_akshare_stock_data''
                        then akshare_get_stock_data ak_lib_example ''600000'' ''2024-01-01'' ''2024-02-01''
                        else Returned (''data from '' @ f)),
      str_of = id, float_ok = (\<lambda>_. False)\<rparr> ''get_stock_data'' call_600000 =
   Inr (Native ''Error retrieving stock data for 600000: Too many requests'')"
proof -
  have h1: "extract_symbol call_600000 = Some ''600000''" by code_simp
  have h2: "identify_market ''600000'' = A_STOCK" by code_simp
  have h3: "world \<lparr>world = (\<lambda>n f cl. if f = ''get_akshare_stock_data''
                        then akshare_get_stock_data ak_lib_example ''600000'' ''2024-01-01'' ''2024-02-01''
                        else Returned (''data from '' @ f)),
      str_of = id, float_ok = (\<lambda>_. False)\<rparr> 0 ''get_akshare_stock_data'' call_600000 =
      akshare_get_stock_data ak_lib_example ''600000'' ''2024-01-01'' ''2024-02-01''" by simp
  have h4: "ak_available ak_lib_example" by (simp add: ak_lib_example_def)
  have h5: "strptime_ymd ''2024-01-01'' \<noteq> None" and h6: "strptime_ymd ''2024-02-01'' \<noteq> None" by code_simp+
  have h7: "stock_zh_a_hist ak_lib_example (format_symbol_for_vendor ''600000'' ''akshare'' (Some A_STOCK))
           (format_date_for_akshare ''2024-01-01'' A_STOCK) (format_date_for_akshare ''2024-02-01'' A_STOCK) =
           Raised (OtherException ''Too many requests'')" by code_simp
  have h8: "\<not> list_ex (\<lambda>k. py_contains k (py_lower (exc_str (OtherException ''Too many requests'')))) AK_NETWORK_KEYWORDS"
    by code_simp
  show ?thesis using akshare_error_string_returned [OF h1 h2 h3 h4 h5 h6 h7 h8] by simp
qed

end
